(* ===== verification/Go_Prelude.thy ===== *)
theory Go_Prelude
  imports Main "HOL-Library.Word" "HOL-Library.Code_Target_Nat"
begin

text \<open>
  The prelude of the development: how a Go function with effects is represented, the
  generic lemmas on such computations, and the collections of facts the component
  theories add to.

  A Go function that can stop early is a function from a state to a pair: on the left of
  the sum is the reason it stopped (an \<open>error\<close> value it returned, or a \<open>failure\<close> that
  unwinds the whole spec), on the right its result; the state is returned in both cases,
  because what the function did before it stopped is not undone.
\<close>

section \<open>Collections of facts\<close>

named_theorems go_defs \<open>definitions that unfold when a run is computed\<close>
named_theorems run_simps \<open>equations for one step of a run\<close>
named_theorems keeps_intros \<open>rules that a computation keeps a state predicate\<close>

section \<open>Errors and failures\<close>

text \<open>
  System errors are the values the source inspects with \<open>os.IsExist\<close> and
  \<open>os.IsNotExist\<close>; every other Go error is represented by its message.
\<close>

datatype errno = EEXIST | ENOENT | ENOTDIR | EISDIR | EIO string

datatype go_error =
    Msg string
  | PathError string string errno

fun errno_text :: "errno \<Rightarrow> string" where
  "errno_text EEXIST = ''file exists''"
| "errno_text ENOENT = ''no such file or directory''"
| "errno_text ENOTDIR = ''not a directory''"
| "errno_text EISDIR = ''is a directory''"
| "errno_text (EIO m) = m"

text \<open>The \<open>Error()\<close> method of an error value.\<close>

fun error_text :: "go_error \<Rightarrow> string" where
  "error_text (Msg m) = m"
| "error_text (PathError op p e) = op @ '' '' @ p @ '': '' @ errno_text e"

fun is_exist :: "go_error \<Rightarrow> bool" where
  "is_exist (PathError _ _ EEXIST) = True"
| "is_exist _ = False"

fun is_not_exist :: "go_error \<Rightarrow> bool" where
  "is_not_exist (PathError _ _ ENOENT) = True"
| "is_not_exist _ = False"

text \<open>
  What unwinds a spec: a Gomega assertion that does not hold (its fail handler panics), a
  run-time panic, \<open>os.Exit\<close>, or a lock that is never granted.
\<close>

datatype failure =
    Expectation string
  | Panic string
  | OsExit nat
  | Deadlock string

section \<open>Computations\<close>

type_synonym ('e, 's, 'a) comp = "'s \<Rightarrow> ('e + 'a) \<times> 's"

definition ret :: "'a \<Rightarrow> ('e, 's, 'a) comp" where
  "ret a = (\<lambda>s. (Inr a, s))"

definition fail :: "'e \<Rightarrow> ('e, 's, 'a) comp" where
  "fail e = (\<lambda>s. (Inl e, s))"

definition andThen :: "('e, 's, 'a) comp \<Rightarrow> ('a \<Rightarrow> ('e, 's, 'b) comp) \<Rightarrow> ('e, 's, 'b) comp" where
  "andThen m k = (\<lambda>s. case m s of (Inl e, s') \<Rightarrow> (Inl e, s') | (Inr a, s') \<Rightarrow> k a s')"

definition gets :: "('s \<Rightarrow> 'a) \<Rightarrow> ('e, 's, 'a) comp" where
  "gets f = (\<lambda>s. (Inr (f s), s))"

definition modify :: "('s \<Rightarrow> 's) \<Rightarrow> ('e, 's, unit) comp" where
  "modify f = (\<lambda>s. (Inr (), f s))"

text \<open>\<open>Expect(err).NotTo(HaveOccurred())\<close> on the error a call returned.\<close>

definition expect_ok :: "(go_error, 's, 'a) comp \<Rightarrow> (failure, 's, 'a) comp" where
  "expect_ok m = (\<lambda>s. case m s of
     (Inl e, s') \<Rightarrow> (Inl (Expectation (error_text e)), s')
   | (Inr a, s') \<Rightarrow> (Inr a, s'))"

text \<open>\<open>Expect(b).To(BeTrue(), msg)\<close> and its kin, for a condition already computed.\<close>

definition expect_that :: "bool \<Rightarrow> string \<Rightarrow> (failure, 's, unit) comp" where
  "expect_that b m = (if b then ret () else fail (Expectation m))"

text \<open>A value whose error was checked with \<open>Expect\<close>, for a call without effects.\<close>

definition expect_val :: "go_error + 'a \<Rightarrow> (failure, 's, 'a) comp" where
  "expect_val r = (case r of Inl e \<Rightarrow> fail (Expectation (error_text e)) | Inr a \<Rightarrow> ret a)"

primrec for_each :: "'a list \<Rightarrow> ('a \<Rightarrow> ('e, 's, unit) comp) \<Rightarrow> ('e, 's, unit) comp" where
  "for_each [] f = ret ()"
| "for_each (x # xs) f = andThen (f x) (\<lambda>_. for_each xs f)"

lemma ret_run [simp, run_simps]: "ret a s = (Inr a, s)"
  by (simp add: ret_def)

lemma fail_run [simp, run_simps]: "fail e s = (Inl e, s)"
  by (simp add: fail_def)

lemma gets_run [simp, run_simps]: "gets f s = (Inr (f s), s)"
  by (simp add: gets_def)

lemma modify_run [simp, run_simps]: "modify f s = (Inr (), f s)"
  by (simp add: modify_def)

lemma andThen_ret [simp]: "andThen (ret a) k = k a"
  by (simp add: andThen_def fun_eq_iff)

lemma andThen_fail [simp]: "andThen (fail e) k = fail e"
  by (simp add: andThen_def fun_eq_iff)

lemma andThen_assoc: "andThen (andThen m k) l = andThen m (\<lambda>a. andThen (k a) l)"
  by (auto simp: andThen_def fun_eq_iff split: sum.splits prod.splits)

lemma andThen_run_Inr [run_simps]: "m s = (Inr a, s') \<Longrightarrow> andThen m k s = k a s'"
  by (simp add: andThen_def)

lemma andThen_run_Inl [run_simps]: "m s = (Inl e, s') \<Longrightarrow> andThen m k s = (Inl e, s')"
  by (simp add: andThen_def)

lemma andThen_Inr_iff:
  "andThen m k s = (Inr b, t) \<longleftrightarrow> (\<exists>a s'. m s = (Inr a, s') \<and> k a s' = (Inr b, t))"
  by (auto simp: andThen_def split: sum.splits prod.splits)

lemma andThen_Inl_iff:
  "andThen m k s = (Inl e, t) \<longleftrightarrow>
     m s = (Inl e, t) \<or> (\<exists>a s'. m s = (Inr a, s') \<and> k a s' = (Inl e, t))"
  by (auto simp: andThen_def split: sum.splits prod.splits)

lemma andThen_InrE:
  assumes "andThen m k s = (Inr b, t)"
  obtains a s' where "m s = (Inr a, s')" and "k a s' = (Inr b, t)"
  using assms by (auto simp: andThen_Inr_iff)

lemma expect_ok_Inr_iff: "expect_ok m s = (Inr a, t) \<longleftrightarrow> m s = (Inr a, t)"
  by (auto simp: expect_ok_def split: sum.splits prod.splits)

lemma expect_ok_Inl_iff:
  "expect_ok m s = (Inl f, t) \<longleftrightarrow> (\<exists>e. m s = (Inl e, t) \<and> f = Expectation (error_text e))"
  by (auto simp: expect_ok_def split: sum.splits prod.splits)

lemma expect_ok_run [run_simps]:
  "m s = (Inr a, t) \<Longrightarrow> expect_ok m s = (Inr a, t)"
  "m s = (Inl e, t) \<Longrightarrow> expect_ok m s = (Inl (Expectation (error_text e)), t)"
  by (simp_all add: expect_ok_def)

lemma expect_val_run [simp]:
  "expect_val (Inr a) = ret a"
  "expect_val (Inl e) = fail (Expectation (error_text e))"
  by (simp_all add: expect_val_def)

lemma expect_that_run [simp]:
  "expect_that True m = ret ()"
  "expect_that False m = fail (Expectation m)"
  by (simp_all add: expect_that_def)

lemma expect_val_Inr_iff: "expect_val r s = (Inr a, t) \<longleftrightarrow> r = Inr a \<and> t = s"
  by (cases r) auto

lemma expect_that_Inr_iff: "expect_that b m s = (Inr a, t) \<longleftrightarrow> b \<and> t = s"
  by (auto simp: expect_that_def)

lemmas comp_iffs = andThen_Inr_iff andThen_Inl_iff expect_ok_Inr_iff expect_ok_Inl_iff

text \<open>Sequencing of calls without effects on the state, with the early return on an error.\<close>

fun bindE :: "'e + 'a \<Rightarrow> ('a \<Rightarrow> 'e + 'b) \<Rightarrow> 'e + 'b" where
  "bindE (Inl e) f = Inl e"
| "bindE (Inr a) f = f a"

section \<open>State predicates that a computation keeps\<close>

text \<open>
  \<open>keeps I m\<close>: a run of \<open>m\<close> from a state with \<open>I\<close> ends in a state with \<open>I\<close>, whether it
  succeeds or stops early. The rules below give it for a composed computation from its
  parts.
\<close>

definition keeps :: "('s \<Rightarrow> bool) \<Rightarrow> ('e, 's, 'a) comp \<Rightarrow> bool" where
  "keeps I m \<longleftrightarrow> (\<forall>s. I s \<longrightarrow> I (snd (m s)))"

lemma keepsI: "(\<And>s. I s \<Longrightarrow> I (snd (m s))) \<Longrightarrow> keeps I m"
  by (simp add: keeps_def)

lemma keepsD: "keeps I m \<Longrightarrow> I s \<Longrightarrow> I (snd (m s))"
  by (simp add: keeps_def)

lemma keeps_run: "keeps I m \<Longrightarrow> m s = (r, t) \<Longrightarrow> I s \<Longrightarrow> I t"
  by (force simp: keeps_def)

lemma keeps_ret [keeps_intros]: "keeps I (ret a)"
  by (simp add: keeps_def)

lemma keeps_fail [keeps_intros]: "keeps I (fail e)"
  by (simp add: keeps_def)

lemma keeps_gets [keeps_intros]: "keeps I (gets f)"
  by (simp add: keeps_def)

lemma keeps_andThen [keeps_intros]:
  "keeps I m \<Longrightarrow> (\<And>a. keeps I (k a)) \<Longrightarrow> keeps I (andThen m k)"
  by (force simp: keeps_def andThen_def split: sum.splits prod.splits)

lemma keeps_andThen_post:
  assumes "keeps I m" and "\<And>s a t. I s \<Longrightarrow> m s = (Inr a, t) \<Longrightarrow> keeps I (k a)"
  shows "keeps I (andThen m k)"
proof (rule keepsI)
  fix s assume I: "I s"
  obtain r t where run: "m s = (r, t)" by fastforce
  with assms(1) I have t: "I t" by (blast intro: keeps_run)
  show "I (snd (andThen m k s))"
  proof (cases r)
    case (Inl e)
    with run t show ?thesis by (simp add: andThen_run_Inl)
  next
    case (Inr a)
    with run assms(2) [OF I, of a t] t show ?thesis by (simp add: andThen_run_Inr keepsD)
  qed
qed

lemma keeps_expect_ok [keeps_intros]: "keeps I m \<Longrightarrow> keeps I (expect_ok m)"
  by (force simp: keeps_def expect_ok_def split: sum.splits prod.splits)

lemma keeps_expect_val [keeps_intros]: "keeps I (expect_val r)"
  by (cases r) (simp_all add: keeps_ret keeps_fail)

lemma keeps_expect_that [keeps_intros]: "keeps I (expect_that b m)"
  by (cases b) (simp_all add: keeps_ret keeps_fail)

lemma keeps_for_each [keeps_intros]:
  "(\<And>x. x \<in> set xs \<Longrightarrow> keeps I (f x)) \<Longrightarrow> keeps I (for_each xs f)"
  by (induction xs) (auto intro!: keeps_ret keeps_andThen)

lemma keeps_if [keeps_intros]:
  "(b \<Longrightarrow> keeps I m) \<Longrightarrow> (\<not> b \<Longrightarrow> keeps I n) \<Longrightarrow> keeps I (if b then m else n)"
  by simp

lemma keeps_prod [keeps_intros]: "(\<And>a b. keeps I (f a b)) \<Longrightarrow> keeps I (case p of (a, b) \<Rightarrow> f a b)"
  by (cases p) simp

section \<open>Machine integers\<close>

text \<open>
  Go's \<open>int\<close> has 64 bits here: a value of it is an \<open>int\<close>, and arithmetic on it is wrapped
  to two's complement where the source computes.
\<close>

definition wrap64 :: "int \<Rightarrow> int" where
  "wrap64 x = signed_take_bit 63 x"

definition int64_ok :: "int \<Rightarrow> bool" where
  "int64_ok x \<longleftrightarrow> - (2 ^ 63) \<le> x \<and> x < 2 ^ 63"

lemma wrap64_id: "int64_ok x \<Longrightarrow> wrap64 x = x"
  by (simp add: wrap64_def int64_ok_def signed_take_bit_int_eq_self)

definition wrap32 :: "int \<Rightarrow> int" where
  "wrap32 x = signed_take_bit 31 x"

lemma wrap32_id: "- (2 ^ 31) \<le> x \<Longrightarrow> x < 2 ^ 31 \<Longrightarrow> wrap32 x = x"
  by (simp add: wrap32_def signed_take_bit_int_eq_self)

lemma wrap32_periodic: "wrap32 (x + 2 ^ 32 * k) = wrap32 x"
  unfolding wrap32_def by (simp add: signed_take_bit_eq_iff_take_bit_eq take_bit_eq_mod)

end
