(* ===== verification/Port_Authority.thy ===== *)
theory Port_Authority
  imports Go_Prelude
begin

text \<open>
  The port allocator of \<open>helpers/portauthority/portauthority.go\<close>: its struct as a record of
  two \<open>uint16\<close> fields, \<open>New\<close> and \<open>ClaimPorts\<close> with the conversions of the source
  (\<open>uint16(i)\<close> keeps the low 16 bits of an \<open>int\<close>), an abstract allocator that hands out
  consecutive intervals of natural numbers, the simulation between the two where the
  16-bit sum does not wrap, and what the code does where it does.

  The interface \<open>PortAllocator\<close> of the source is the locale \<open>port_source\<close>; a client's facts
  (every claim of a run gets its own ports, all within the range) are proved in it and
  reach the model through its interpretation at the end.
\<close>

section \<open>The allocator\<close>

record portAllocator =
  nextPort :: "16 word"
  endingPort :: "16 word"

definition range_error :: string where
  "range_error = ''Invalid port range requested. Ports can only be numbers between 0-65535''"

definition New :: "int \<Rightarrow> int \<Rightarrow> string + portAllocator" where
  "New startingPort endPort =
     (if endPort > 65535 then Inl range_error
      else Inr \<lparr>nextPort = word_of_int startingPort, endingPort = word_of_int endPort\<rparr>)"

definition ClaimPorts :: "int \<Rightarrow> portAllocator \<Rightarrow> (string + 16 word) \<times> portAllocator" where
  "ClaimPorts numPorts p =
     (let port = nextPort p
      in if endingPort p < port + word_of_int (numPorts - 1)
         then (Inl ''insufficient ports available'', p)
         else (Inr port, p\<lparr>nextPort := nextPort p + word_of_int numPorts\<rparr>))"

text \<open>
  \<open>numPorts - 1\<close> is an \<open>int\<close> of 64 bits in the source; as only its low 16 bits are kept,
  computing it without a bound gives the same word.
\<close>

lemma numPorts_64: "(word_of_int (wrap64 (numPorts - 1)) :: 16 word) = word_of_int (numPorts - 1)"
proof -
  have "take_bit 16 (wrap64 (numPorts - 1)) = take_bit 16 (numPorts - 1)"
    by (simp add: wrap64_def take_bit_signed_take_bit)
  then show ?thesis
    by (simp add: word_of_int_eq_iff del: of_int_diff)
qed

section \<open>Reading the fields as numbers\<close>

definition next_no :: "portAllocator \<Rightarrow> nat" where
  "next_no p = unat (nextPort p)"

definition last_no :: "portAllocator \<Rightarrow> nat" where
  "last_no p = unat (endingPort p)"

text \<open>
  The state invariant of an allocator whose range ends below 65535: the next port is in the
  range or just past it, so that an exhausted allocator is told from one that wrapped.
\<close>

definition port_inv :: "portAllocator \<Rightarrow> bool" where
  "port_inv p \<longleftrightarrow> last_no p < 65535 \<and> next_no p \<le> last_no p + 1"

lemma unat_of_int_small: "0 \<le> i \<Longrightarrow> i < 65536 \<Longrightarrow> unat (word_of_int i :: 16 word) = nat i"
  by (simp add: unat_eq_nat_uint uint_word_of_int take_bit_eq_mod)

lemma unat_of_int_mod: "0 \<le> i \<Longrightarrow> unat (word_of_int i :: 16 word) = nat i mod 65536"
  by (simp add: unat_eq_nat_uint uint_word_of_int take_bit_eq_mod nat_mod_distrib)

lemma unat_add16: "unat (a + b :: 16 word) = (unat a + unat b) mod 65536"
  by (simp add: unat_word_ariths)

lemma unat_lt16: "unat (a :: 16 word) < 65536"
  using unsigned_less [of a, where ?'a = nat] by simp

lemma sum_no:
  assumes "1 \<le> n"
  shows "unat (nextPort p + word_of_int (n - 1)) = (next_no p + nat (n - 1)) mod 65536"
  using assms by (simp add: unat_add16 unat_of_int_mod next_no_def mod_add_right_eq del: of_int_diff)

text \<open>Exactly when a claim succeeds: the sum is taken modulo \<open>2 ^ 16\<close>.\<close>

lemma ClaimPorts_Inr_iff:
  assumes "1 \<le> n"
  shows "(\<exists>w. fst (ClaimPorts n p) = Inr w) \<longleftrightarrow> (next_no p + nat (n - 1)) mod 65536 \<le> last_no p"
  using assms
  by (auto simp: ClaimPorts_def Let_def word_less_nat_alt sum_no last_no_def simp del: of_int_diff)

lemma ClaimPorts_result:
  "fst (ClaimPorts n p) = Inr w \<Longrightarrow> w = nextPort p"
  by (auto simp: ClaimPorts_def Let_def split: if_splits)

lemma ClaimPorts_Inl_state:
  "fst (ClaimPorts n p) = Inl e \<Longrightarrow> snd (ClaimPorts n p) = p"
  by (auto simp: ClaimPorts_def Let_def split: if_splits)

lemma ClaimPorts_ending: "endingPort (snd (ClaimPorts n p)) = endingPort p"
  by (simp add: ClaimPorts_def Let_def)

lemma ClaimPorts_granted:
  assumes "1 \<le> n" and "next_no p + nat n \<le> last_no p + 1" and "last_no p < 65535"
  shows "ClaimPorts n p = (Inr (nextPort p), p\<lparr>nextPort := nextPort p + word_of_int n\<rparr>)"
    and "next_no (snd (ClaimPorts n p)) = next_no p + nat n"
proof -
  from assms have small: "(next_no p + nat (n - 1)) mod 65536 = next_no p + nat (n - 1)"
    by (simp add: nat_diff_distrib)
  with assms have "\<not> endingPort p < nextPort p + word_of_int (n - 1)"
    by (simp add: word_less_nat_alt sum_no last_no_def nat_diff_distrib del: of_int_diff)
  then show eq: "ClaimPorts n p = (Inr (nextPort p), p\<lparr>nextPort := nextPort p + word_of_int n\<rparr>)"
    by (simp add: ClaimPorts_def Let_def)
  from assms have "unat (word_of_int n :: 16 word) = nat n"
    by (intro unat_of_int_small) simp_all
  with assms show "next_no (snd (ClaimPorts n p)) = next_no p + nat n"
    by (simp add: eq next_no_def unat_add16)
qed

lemma ClaimPorts_refused:
  assumes "1 \<le> n" and "last_no p + 1 < next_no p + nat n" and "next_no p + nat n \<le> 65536"
  shows "ClaimPorts n p = (Inl ''insufficient ports available'', p)"
proof -
  from assms have "(next_no p + nat (n - 1)) mod 65536 = next_no p + nat (n - 1)"
    by (simp add: nat_diff_distrib)
  with assms have "endingPort p < nextPort p + word_of_int (n - 1)"
    by (simp add: word_less_nat_alt sum_no last_no_def nat_diff_distrib del: of_int_diff)
  then show ?thesis by (simp add: ClaimPorts_def Let_def)
qed

section \<open>The abstract allocator and the simulation\<close>

text \<open>
  What the comment on \<open>ClaimPorts\<close> promises: an interval of natural numbers from the next
  port to the last one, from which a claim cuts its first \<open>n\<close> numbers if it has so many.
\<close>

fun interval_claim :: "nat \<Rightarrow> nat \<times> nat \<Rightarrow> nat option \<times> (nat \<times> nat)" where
  "interval_claim n (lo, hi) =
     (if lo + n \<le> hi + 1 then (Some lo, (lo + n, hi)) else (None, (lo, hi)))"

definition interval_of :: "portAllocator \<Rightarrow> nat \<times> nat" where
  "interval_of p = (next_no p, last_no p)"

fun port_no :: "string + 16 word \<Rightarrow> nat option" where
  "port_no (Inl _) = None"
| "port_no (Inr w) = Some (unat w)"

lemma ClaimPorts_simulates:
  assumes "port_inv p" and "1 \<le> n" and "nat n + last_no p \<le> 65535"
  shows "map_prod port_no interval_of (ClaimPorts n p) = interval_claim (nat n) (interval_of p)"
proof (cases "next_no p + nat n \<le> last_no p + 1")
  case True
  with assms have last: "last_no p < 65535" by (simp add: port_inv_def)
  note granted = ClaimPorts_granted [OF assms(2) True last]
  have "last_no (p\<lparr>nextPort := nextPort p + word_of_int n\<rparr>) = last_no p"
    by (simp add: last_no_def)
  with True granted show ?thesis
    by (simp add: interval_of_def next_no_def)
next
  case False
  with assms have "ClaimPorts n p = (Inl ''insufficient ports available'', p)"
    by (intro ClaimPorts_refused) (simp_all add: port_inv_def)
  with False show ?thesis by (simp add: interval_of_def)
qed

lemma ClaimPorts_port_inv:
  assumes "port_inv p" and "1 \<le> n" and "nat n + last_no p \<le> 65535"
  shows "port_inv (snd (ClaimPorts n p))"
proof -
  have "interval_of (snd (ClaimPorts n p)) = snd (interval_claim (nat n) (interval_of p))"
    using arg_cong [where f = snd, OF ClaimPorts_simulates [OF assms]] by simp
  with assms(1) show ?thesis
    by (auto simp: interval_of_def port_inv_def split: if_splits)
qed

text \<open>An allocator whose range ends at 65535 grants every claim, whatever it has handed out.\<close>

lemma ClaimPorts_full_range:
  assumes "last_no p = 65535"
  shows "fst (ClaimPorts n p) = Inr (nextPort p)"
proof -
  have "unat (nextPort p + word_of_int (n - 1)) \<le> last_no p"
    using unat_lt16 [of "nextPort p + word_of_int (n - 1)"] assms by simp
  then show ?thesis
    by (simp add: ClaimPorts_def Let_def word_less_nat_alt last_no_def del: of_int_diff)
qed

text \<open>A claim larger than the 16-bit space above the next port wraps and is granted.\<close>

lemma ClaimPorts_wraps:
  assumes "65536 \<le> next_no p + nat (n - 1)" and "next_no p + nat (n - 1) \<le> 65536 + last_no p"
    and "1 \<le> n"
  shows "fst (ClaimPorts n p) = Inr (nextPort p)"
proof -
  have "next_no p < 65536" and "last_no p < 65536"
    by (simp_all add: next_no_def last_no_def unat_lt16)
  with assms have "(next_no p + nat (n - 1)) mod 65536 \<le> last_no p"
    by (metis add_le_imp_le_left le_add_diff_inverse mod_add_self1 mod_less_eq_dividend order_trans)
  with assms(3) show ?thesis
    using ClaimPorts_Inr_iff ClaimPorts_result by metis
qed

section \<open>Runs of claims\<close>

fun claim_run :: "(int \<Rightarrow> 'p \<Rightarrow> (string + 16 word) \<times> 'p) \<Rightarrow> int list \<Rightarrow> 'p
    \<Rightarrow> (int \<times> (string + 16 word)) list \<times> 'p" where
  "claim_run claim [] p = ([], p)"
| "claim_run claim (n # ns) p =
     (let (r, p1) = claim n p; (rs, p2) = claim_run claim ns p1 in ((n, r) # rs, p2))"

text \<open>The ports that the claims of a run hand to their callers, in the order of the run.\<close>

fun claimed :: "int \<times> (string + 16 word) \<Rightarrow> nat list" where
  "claimed (n, Inl _) = []"
| "claimed (n, Inr w) = [unat w ..< unat w + nat n]"

definition ports_of :: "(int \<times> (string + 16 word)) list \<Rightarrow> nat list" where
  "ports_of rs = concat (map claimed rs)"

lemma ports_of_Cons [simp]: "ports_of (r # rs) = claimed r @ ports_of rs"
  by (simp add: ports_of_def)

lemma ports_of_Nil [simp]: "ports_of [] = []"
  by (simp add: ports_of_def)

section \<open>The interface\<close>

locale port_source =
  fixes claim :: "int \<Rightarrow> 'p \<Rightarrow> (string + 16 word) \<times> 'p"
    and first_free :: "'p \<Rightarrow> nat"
    and last_port :: "'p \<Rightarrow> nat"
    and inv :: "'p \<Rightarrow> bool"
  assumes inv_bound: "inv p \<Longrightarrow> first_free p \<le> last_port p + 1"
    and claim_inv: "inv p \<Longrightarrow> 1 \<le> n \<Longrightarrow> nat n + last_port p \<le> 65535 \<Longrightarrow> inv (snd (claim n p))"
    and claim_last: "last_port (snd (claim n p)) = last_port p"
    and claim_granted: "inv p \<Longrightarrow> 1 \<le> n \<Longrightarrow> nat n + last_port p \<le> 65535 \<Longrightarrow>
      fst (claim n p) = Inr w \<Longrightarrow>
      unat w = first_free p \<and> first_free (snd (claim n p)) = first_free p + nat n"
    and claim_refused: "fst (claim n p) = Inl e \<Longrightarrow> snd (claim n p) = p"
begin

abbreviation fits :: "'p \<Rightarrow> int \<Rightarrow> bool" where
  "fits p n \<equiv> 1 \<le> n \<and> nat n + last_port p \<le> 65535"

text \<open>
  The ports of a run are the consecutive numbers from the first free port of the start to
  the first free port of the end: no port is handed out twice and none is skipped.
\<close>

lemma run_consecutive:
  assumes "inv p" and "\<forall>n \<in> set ns. fits p n"
  shows "ports_of (fst (claim_run claim ns p)) =
      [first_free p ..< first_free (snd (claim_run claim ns p))]
    \<and> first_free p \<le> first_free (snd (claim_run claim ns p))
    \<and> last_port (snd (claim_run claim ns p)) = last_port p
    \<and> inv (snd (claim_run claim ns p))"
  using assms
proof (induction ns arbitrary: p)
  case Nil
  then show ?case by simp
next
  case (Cons n ns)
  obtain r p1 where rp: "claim n p = (r, p1)" by fastforce
  obtain rs p2 where run: "claim_run claim ns p1 = (rs, p2)" by fastforce
  from Cons.prems have n: "1 \<le> n" "nat n + last_port p \<le> 65535" by simp_all
  have last: "last_port p1 = last_port p" using claim_last [of n p] rp by simp
  have "inv p1" using claim_inv [OF Cons.prems(1) n] rp by simp
  moreover have "\<forall>n \<in> set ns. fits p1 n" using Cons.prems(2) last by simp
  ultimately have IH: "ports_of rs = [first_free p1 ..< first_free p2]"
      "first_free p1 \<le> first_free p2" "last_port p2 = last_port p1" "inv p2"
    using Cons.IH [of p1] run by simp_all
  have whole: "claim_run claim (n # ns) p = ((n, r) # rs, p2)" by (simp add: rp run)
  show ?case
  proof (cases r)
    case (Inl e)
    then have "p1 = p" using claim_refused [of n p e] rp by simp
    with IH Inl show ?thesis by (simp add: whole del: claim_run.simps)
  next
    case (Inr w)
    then have w: "unat w = first_free p" "first_free p1 = first_free p + nat n"
      using claim_granted [OF Cons.prems(1) n] rp by simp_all
    from w IH(2) have "[unat w ..< unat w + nat n] @ [first_free p1 ..< first_free p2] =
        [first_free p ..< first_free p2]"
      by (metis upt_add_eq_append le_add1 le_add_diff_inverse)
    with w IH Inr last show ?thesis by (simp add: whole del: claim_run.simps)
  qed
qed

lemma run_disjoint:
  assumes "inv p" and "\<forall>n \<in> set ns. fits p n"
  shows "distinct (ports_of (fst (claim_run claim ns p)))"
    and "set (ports_of (fst (claim_run claim ns p))) \<subseteq> {first_free p .. last_port p}"
  using run_consecutive [OF assms] inv_bound [of "snd (claim_run claim ns p)"] by auto

end

interpretation alloc: port_source ClaimPorts next_no last_no port_inv
proof unfold_locales
  fix p :: portAllocator and n :: int and w e
  show "port_inv p \<Longrightarrow> next_no p \<le> last_no p + 1"
    by (simp add: port_inv_def)
  show "port_inv p \<Longrightarrow> 1 \<le> n \<Longrightarrow> nat n + last_no p \<le> 65535 \<Longrightarrow> port_inv (snd (ClaimPorts n p))"
    by (rule ClaimPorts_port_inv)
  show "last_no (snd (ClaimPorts n p)) = last_no p"
    by (simp add: last_no_def ClaimPorts_ending)
  show "fst (ClaimPorts n p) = Inl e \<Longrightarrow> snd (ClaimPorts n p) = p"
    by (rule ClaimPorts_Inl_state)
  assume "port_inv p" "1 \<le> n" "nat n + last_no p \<le> 65535" "fst (ClaimPorts n p) = Inr w"
  then show "unat w = next_no p \<and> next_no (snd (ClaimPorts n p)) = next_no p + nat n"
    using ClaimPorts_simulates [of p n]
    by (cases "ClaimPorts n p") (auto simp: interval_of_def split: if_splits)
qed

section \<open>Properties\<close>

lemma New_fields:
  assumes "New a b = Inr p" and "0 \<le> a" and "a \<le> b + 1" and "0 \<le> b" and "b < 65535"
  shows "next_no p = nat a" and "last_no p = nat b" and "port_inv p"
  using assms
  by (auto simp: New_def next_no_def last_no_def port_inv_def unat_of_int_small)

definition demo_allocator :: portAllocator where
  "demo_allocator = \<lparr>nextPort = 30, endingPort = 40\<rparr>"

lemma demo_allocator_inv: "port_inv demo_allocator" "New 30 40 = Inr demo_allocator"
  by (simp_all add: demo_allocator_def port_inv_def next_no_def last_no_def New_def)

text \<open>
  Property C1. From a fresh allocator for the range \<open>a\<close> to \<open>b\<close>, any sequence of claims whose
  sizes do not reach past port 65535 hands out the consecutive ports from \<open>a\<close> on, in the
  order of the calls and without gaps: no port is given to two callers and none lies
  outside the range.
\<close>

theorem claims_disjoint_in_range:
  assumes "New a b = Inr p" and "0 \<le> a" and "a \<le> b + 1" and "0 \<le> b" and "b < 65535"
    and "\<forall>n \<in> set ns. 1 \<le> n \<and> n + b \<le> 65535"
  shows "ports_of (fst (claim_run ClaimPorts ns p)) =
      [nat a ..< next_no (snd (claim_run ClaimPorts ns p))]
    \<and> distinct (ports_of (fst (claim_run ClaimPorts ns p)))
    \<and> set (ports_of (fst (claim_run ClaimPorts ns p))) \<subseteq> {nat a .. nat b}"
proof -
  note f = New_fields [OF assms(1-5)]
  have "\<forall>n \<in> set ns. 1 \<le> n \<and> nat n + last_no p \<le> 65535"
    using assms(4,6) by (auto simp: f(2))
  from alloc.run_consecutive [OF f(3) this] alloc.run_disjoint [OF f(3) this]
  show ?thesis by (simp add: f)
qed

theorem claims_disjoint_in_range_witness:
  "ports_of (fst (claim_run ClaimPorts [4, 5, 3, 2] demo_allocator)) = [30 ..< 41]"
proof -
  have "\<forall>n \<in> set [4, 5, 3, 2 :: int]. 1 \<le> n \<and> n + 40 \<le> 65535" by simp
  from claims_disjoint_in_range [OF demo_allocator_inv(2) _ _ _ _ this]
  have "ports_of (fst (claim_run ClaimPorts [4, 5, 3, 2] demo_allocator)) =
      [30 ..< next_no (snd (claim_run ClaimPorts [4, 5, 3, 2] demo_allocator))]" by simp
  moreover have "next_no (snd (claim_run ClaimPorts [4, 5, 3, 2] demo_allocator)) = 41" by code_simp
  ultimately show ?thesis by simp
qed

text \<open>
  Property C19. \<open>ClaimPorts\<close> implements the interval allocator its comment describes: on a
  well-formed state and a request that does not reach past port 65535 the two agree on
  success, on the first port returned and on the ports left, a refused request changes
  nothing, and the state stays well-formed.
\<close>

theorem claim_refines_interval:
  assumes "port_inv p" and "1 \<le> n" and "nat n + last_no p \<le> 65535"
  shows "map_prod port_no interval_of (ClaimPorts n p) = interval_claim (nat n) (interval_of p)
    \<and> port_inv (snd (ClaimPorts n p))"
  by (intro conjI ClaimPorts_simulates [OF assms] ClaimPorts_port_inv [OF assms])

theorem claim_refines_interval_witness:
  "map_prod port_no interval_of (ClaimPorts 11 demo_allocator) = (Some 30, (41, 40))
     \<and> map_prod port_no interval_of (ClaimPorts 12 demo_allocator) = (None, (30, 40))"
proof -
  have last: "last_no demo_allocator = 40" "next_no demo_allocator = 30"
    by (simp_all add: demo_allocator_def last_no_def next_no_def)
  show ?thesis
    using claim_refines_interval [OF demo_allocator_inv(1), of 11]
      claim_refines_interval [OF demo_allocator_inv(1), of 12]
    by (simp add: last interval_of_def)
qed

text \<open>
  Property C29. An allocator whose range ends at the largest port, 65535, never reports that
  its ports are used up: the 16-bit sum wraps, so every claim of any size succeeds, and
  after the last port the next claim starts again at port 0.
\<close>

theorem full_range_never_refuses:
  assumes "New a 65535 = Inr p"
  shows "fst (ClaimPorts n p) = Inr (nextPort p)
    \<and> (nextPort p = 65535 \<longrightarrow> nextPort (snd (ClaimPorts 1 p)) = 0)"
proof -
  from assms have last: "last_no p = 65535" by (auto simp: New_def last_no_def)
  from ClaimPorts_full_range [OF last, of 1] have "nextPort (snd (ClaimPorts 1 p)) = nextPort p + 1"
    by (auto simp: ClaimPorts_def Let_def split: if_splits)
  with ClaimPorts_full_range [OF last] show ?thesis by simp
qed

theorem full_range_never_refuses_witness:
  "fst (ClaimPorts 1 (snd (ClaimPorts 1 \<lparr>nextPort = 65535, endingPort = 65535\<rparr>))) = Inr 0"
proof -
  have n: "New 65535 65535 = Inr \<lparr>nextPort = 65535, endingPort = 65535\<rparr>"
    "New 0 65535 = Inr \<lparr>nextPort = 0, endingPort = 65535\<rparr>" by (simp_all add: New_def)
  have "nextPort (snd (ClaimPorts 1 \<lparr>nextPort = 65535, endingPort = 65535\<rparr>)) = 0"
    using full_range_never_refuses [OF n(1), of 1] by simp
  then have "snd (ClaimPorts 1 \<lparr>nextPort = 65535, endingPort = 65535\<rparr>) = \<lparr>nextPort = 0, endingPort = 65535\<rparr>"
    using ClaimPorts_ending [of 1 "\<lparr>nextPort = 65535, endingPort = 65535\<rparr>"] by simp
  with full_range_never_refuses [OF n(2), of 1] show ?thesis by simp
qed

text \<open>
  A request too large for the 16-bit numbers is granted although the range
  does not hold so many ports, whenever the wrapped sum falls at or below the last port.
\<close>

theorem oversized_claim_granted:
  assumes "1 \<le> n" and "65536 \<le> next_no p + nat (n - 1)"
    and "next_no p + nat (n - 1) \<le> 65536 + last_no p" and "last_no p < 65535"
  shows "fst (ClaimPorts n p) = Inr (nextPort p) \<and> fst (interval_claim (nat n) (interval_of p)) = None"
proof -
  have "next_no p + nat n = next_no p + nat (n - 1) + 1" using assms(1) by simp
  with assms have "\<not> next_no p + nat n \<le> last_no p + 1" by simp
  with ClaimPorts_wraps [OF assms(2,3,1)] show ?thesis by (simp add: interval_of_def)
qed

theorem oversized_claim_granted_witness:
  "fst (ClaimPorts 65530 demo_allocator) = Inr 30
     \<and> fst (interval_claim 65530 (interval_of demo_allocator)) = None"
  using oversized_claim_granted [of 65530 demo_allocator]
  by (simp add: demo_allocator_def next_no_def last_no_def)

end
