(* ===== verification/Go_Strings.thy ===== *)
theory Go_Strings
  imports Go_Prelude "HOL-Library.Sublist"
begin

text \<open>
  The string functions of Go's standard library that the source calls: \<open>strconv.Itoa\<close> and
  \<open>strconv.Atoi\<close>, \<open>strings.Join\<close>, \<open>strings.Split\<close> on a one-character separator,
  \<open>strings.Contains\<close>, \<open>net.SplitHostPort\<close> and \<open>path.Join\<close>, with the round trips and the
  separator lemmas the component theories use. A Go string is a list of bytes.
\<close>

definition newline :: string where
  "newline = [CHR 0x0A]"

section \<open>Decimal numbers\<close>

definition digit_char :: "nat \<Rightarrow> char" where
  "digit_char d = ''0123456789'' ! d"

definition is_digit :: "char \<Rightarrow> bool" where
  "is_digit c \<longleftrightarrow> c \<in> set ''0123456789''"

definition digit_val :: "char \<Rightarrow> nat" where
  "digit_val c = (of_char c :: nat) - 48"

fun nat_text :: "nat \<Rightarrow> string" where
  "nat_text n = (if n < 10 then [digit_char n] else nat_text (n div 10) @ [digit_char (n mod 10)])"

declare nat_text.simps [simp del]

definition Itoa :: "int \<Rightarrow> string" where
  "Itoa i = (if i < 0 then CHR ''-'' # nat_text (nat (- i)) else nat_text (nat i))"

lemma less_10_cases:
  "(d::nat) < 10 \<Longrightarrow> d \<in> {0, 1, 2, 3, 4, 5, 6, 7, 8, 9}"
  by auto

lemma digit_char_is_digit [simp]: "d < 10 \<Longrightarrow> is_digit (digit_char d)"
  using less_10_cases [of d] by (auto simp: digit_char_def is_digit_def)

lemma digit_val_char [simp]: "d < 10 \<Longrightarrow> digit_val (digit_char d) = d"
  using less_10_cases [of d] by (auto simp: digit_char_def digit_val_def)

lemma digit_char_inj: "d < 10 \<Longrightarrow> e < 10 \<Longrightarrow> digit_char d = digit_char e \<Longrightarrow> d = e"
  by (metis digit_val_char)

lemma not_digit [simp]:
  "\<not> is_digit CHR '':''" "\<not> is_digit CHR ''-''" "\<not> is_digit CHR ''+''"
  "\<not> is_digit CHR ''[''" "\<not> is_digit CHR '']''" "\<not> is_digit CHR ''/''"
  "\<not> is_digit CHR '' ''"
  by (simp_all add: is_digit_def)

lemma nat_text_digits: "\<forall>c \<in> set (nat_text n). is_digit c"
proof (induction n rule: nat_text.induct)
  case (1 n)
  then show ?case by (cases "n < 10") (simp_all add: nat_text.simps [of n])
qed

lemma nat_text_nonempty: "nat_text n \<noteq> []"
  by (subst nat_text.simps) simp

section \<open>Reading a decimal number\<close>

text \<open>
  \<open>strconv.Atoi\<close>: an optional sign and one or more digits, with the value in the range of
  \<open>int\<close>. The digits are read left to right; a value that does not fit in \<open>uint64\<close> is a
  range error as soon as it is reached.
\<close>

fun read_digits :: "string \<Rightarrow> nat \<Rightarrow> string + nat" where
  "read_digits [] n = Inr n"
| "read_digits (c # cs) n =
     (if \<not> is_digit c then Inl ''invalid syntax''
      else if int (n * 10 + digit_val c) \<ge> 2 ^ 64 then Inl ''value out of range''
      else read_digits cs (n * 10 + digit_val c))"

definition unsigned_part :: "string \<Rightarrow> string" where
  "unsigned_part s = (case s of [] \<Rightarrow> [] | c # cs \<Rightarrow> if c = CHR ''-'' \<or> c = CHR ''+'' then cs else s)"

definition negative :: "string \<Rightarrow> bool" where
  "negative s = (case s of [] \<Rightarrow> False | c # _ \<Rightarrow> c = CHR ''-'')"

definition Atoi :: "string \<Rightarrow> go_error + int" where
  "Atoi s =
     (let err = (\<lambda>m. Inl (Msg (''strconv.Atoi: parsing '' @ [CHR 0x22] @ s @ [CHR 0x22] @ '': '' @ m)));
          u = unsigned_part s
      in if u = [] then err ''invalid syntax''
         else case read_digits u 0 of
           Inl m \<Rightarrow> err m
         | Inr n \<Rightarrow>
             (let v = (if negative s then - int n else int n)
              in if int64_ok v then Inr v else err ''value out of range''))"

lemma read_digits_append:
  "read_digits (xs @ ys) n = (case read_digits xs n of Inl m \<Rightarrow> Inl m | Inr k \<Rightarrow> read_digits ys k)"
  by (induction xs arbitrary: n) auto

lemma read_digits_nat_text: "n < 2 ^ 64 \<Longrightarrow> read_digits (nat_text n) 0 = Inr n"
proof (induction n rule: nat_text.induct)
  case (1 n)
  show ?case
  proof (cases "n < 10")
    case True
    then show ?thesis by (simp add: nat_text.simps [of n])
  next
    case False
    with 1 have "read_digits (nat_text (n div 10)) 0 = Inr (n div 10)" by simp
    moreover have "n div 10 * 10 + n mod 10 = n" by simp
    ultimately show ?thesis
      using False 1(2) by (simp add: nat_text.simps [of n] read_digits_append)
  qed
qed

lemma nat_text_hd_digit: "is_digit (hd (nat_text n))"
  by (metis hd_in_set nat_text_digits nat_text_nonempty)

lemma nat_text_sign:
  "unsigned_part (nat_text n) = nat_text n" "\<not> negative (nat_text n)"
  using nat_text_hd_digit [of n] nat_text_nonempty [of n]
  by (auto simp: unsigned_part_def negative_def is_digit_def split: list.splits)

lemma Atoi_Itoa: "int64_ok i \<Longrightarrow> Atoi (Itoa i) = Inr i"
proof (cases "i < 0")
  case True
  assume ok: "int64_ok i"
  with True have "nat (- i) < 2 ^ 64" by (simp add: int64_ok_def)
  then have "read_digits (nat_text (nat (- i))) 0 = Inr (nat (- i))" by (rule read_digits_nat_text)
  with True ok show ?thesis
    by (simp add: Atoi_def Itoa_def unsigned_part_def negative_def nat_text_nonempty)
next
  case False
  assume ok: "int64_ok i"
  with False have "nat i < 2 ^ 64" by (simp add: int64_ok_def)
  then have "read_digits (nat_text (nat i)) 0 = Inr (nat i)" by (rule read_digits_nat_text)
  with False ok show ?thesis
    by (simp add: Atoi_def Itoa_def nat_text_sign nat_text_nonempty)
qed

lemma nat_text_inj: "nat_text m = nat_text n \<Longrightarrow> m = n"
proof (induction m arbitrary: n rule: nat_text.induct)
  case (1 m)
  show ?case
  proof (cases "m < 10")
    case True
    then have "length (nat_text n) = 1" using "1.prems" by (simp add: nat_text.simps [of m] flip: "1.prems")
    then have "n < 10"
      using nat_text_nonempty [of "n div 10"] by (auto simp: nat_text.simps [of n] split: if_splits)
    with True "1.prems" show ?thesis
      by (simp add: nat_text.simps [of m] nat_text.simps [of n] digit_char_inj)
  next
    case False
    have n: "\<not> n < 10"
    proof
      assume "n < 10"
      then have "nat_text m = [digit_char n]" using "1.prems" by (simp add: nat_text.simps [of n])
      with False nat_text_nonempty [of "m div 10"] show False by (simp add: nat_text.simps [of m])
    qed
    from False n "1.prems" have "nat_text (m div 10) = nat_text (n div 10)"
      "digit_char (m mod 10) = digit_char (n mod 10)"
      by (simp_all add: nat_text.simps [of m] nat_text.simps [of n])
    then have "m div 10 = n div 10" "m mod 10 = n mod 10"
      using "1.IH" [OF False] by (simp_all add: digit_char_inj)
    then show ?thesis by (metis div_mod_decomp)
  qed
qed

lemma nat_text_not_minus: "CHR ''-'' # xs \<noteq> nat_text n"
  using nat_text_hd_digit [of n] not_digit(2) by (metis list.sel(1))

lemma Itoa_inj: "Itoa i = Itoa j \<longleftrightarrow> i = j"
proof
  assume eq: "Itoa i = Itoa j"
  show "i = j"
  proof (cases "i < 0 \<longleftrightarrow> j < 0")
    case True
    with eq show ?thesis by (auto simp: Itoa_def split: if_splits dest!: nat_text_inj)
  next
    case False
    with eq nat_text_not_minus show ?thesis by (auto simp: Itoa_def split: if_splits) metis+
  qed
qed simp

section \<open>Joining, splitting and searching\<close>

fun join :: "string list \<Rightarrow> string \<Rightarrow> string" where
  "join [] sep = []"
| "join [x] sep = x"
| "join (x # y # xs) sep = x @ sep @ join (y # xs) sep"

text \<open>\<open>strings.Split(s, sep)\<close> for a separator of one character.\<close>

fun split_on :: "char \<Rightarrow> string \<Rightarrow> string list" where
  "split_on sep [] = [[]]"
| "split_on sep (c # cs) =
     (if c = sep then [] # split_on sep cs
      else case split_on sep cs of [] \<Rightarrow> [[c]] | f # fs \<Rightarrow> (c # f) # fs)"

lemma split_on_nonempty: "split_on sep s \<noteq> []"
  by (cases s) (auto split: list.splits)

lemma join_Cons: "xs \<noteq> [] \<Longrightarrow> join (x # xs) sep = x @ sep @ join xs sep"
  by (cases xs) simp_all

lemma join_split_on: "join (split_on sep s) [sep] = s"
proof (induction s)
  case Nil
  then show ?case by simp
next
  case (Cons c cs)
  obtain f fs where f: "split_on sep cs = f # fs"
    using split_on_nonempty [of sep cs] by (cases "split_on sep cs") auto
  with Cons show ?case by (cases fs) auto
qed

lemma split_on_append: "sep \<notin> set x \<Longrightarrow> split_on sep (x @ sep # s) = x # split_on sep s"
  by (induction x) auto

lemma split_on_none: "sep \<notin> set x \<Longrightarrow> split_on sep x = [x]"
  by (induction x) auto

lemma split_on_join:
  assumes "xs \<noteq> []" and "\<forall>x \<in> set xs. sep \<notin> set x"
  shows "split_on sep (join xs [sep]) = xs"
  using assms
proof (induction xs)
  case Nil
  then show ?case by simp
next
  case (Cons x xs)
  then show ?case
    by (cases xs) (simp_all add: split_on_none split_on_append)
qed

lemma split_on_append_sep: "split_on sep (a @ sep # b) = split_on sep a @ split_on sep b"
proof (induction a)
  case Nil
  then show ?case by simp
next
  case (Cons c a)
  then show ?case
    using split_on_nonempty [of sep a] by (cases "split_on sep a") auto
qed

lemma join_snoc: "xs \<noteq> [] \<Longrightarrow> join (xs @ [x]) sep = join xs sep @ sep @ x"
  by (induction xs rule: list_nonempty_induct) (auto simp: join_Cons)

text \<open>\<open>strings.Contains(s, sub)\<close>.\<close>

fun contains :: "string \<Rightarrow> string \<Rightarrow> bool" where
  "contains s sub = (prefix sub s \<or> (case s of [] \<Rightarrow> False | _ # t \<Rightarrow> contains t sub))"

declare contains.simps [simp del]

lemma contains_iff: "contains s sub \<longleftrightarrow> (\<exists>a b. s = a @ sub @ b)"
proof (induction s)
  case Nil
  then show ?case by (simp add: contains.simps)
next
  case (Cons c s)
  have "contains (c # s) sub \<longleftrightarrow> prefix sub (c # s) \<or> contains s sub"
    by (subst contains.simps) simp
  also have "\<dots> \<longleftrightarrow> (\<exists>b. c # s = sub @ b) \<or> (\<exists>a b. s = a @ sub @ b)"
    using Cons by (simp add: prefix_def)
  also have "\<dots> \<longleftrightarrow> (\<exists>a b. c # s = a @ sub @ b)"
    by (metis append_Cons append_Nil list.inject neq_Nil_conv)
  finally show ?case .
qed

lemma contains_self [simp]: "contains s s"
  by (auto simp: contains_iff intro: exI [of _ "[]"])

lemma containsI: "contains (a @ sub @ b) sub"
  by (auto simp: contains_iff)

section \<open>Host and port\<close>

text \<open>
  \<open>net.SplitHostPort\<close>: the port starts after the last colon; a host in brackets may hold
  colons, another may not; no further bracket is allowed. The index computations of the
  library function are kept: \<open>i\<close> is the position of the last colon, \<open>end\<close> that of the
  first closing bracket.
\<close>

fun index_of :: "char \<Rightarrow> string \<Rightarrow> nat option" where
  "index_of c [] = None"
| "index_of c (d # ds) = (if d = c then Some 0 else map_option Suc (index_of c ds))"

definition last_index_of :: "char \<Rightarrow> string \<Rightarrow> nat option" where
  "last_index_of c s = map_option (\<lambda>k. length s - Suc k) (index_of c (rev s))"

definition SplitHostPort :: "string \<Rightarrow> go_error + string \<times> string" where
  "SplitHostPort hostport =
     (let addrErr = (\<lambda>why. Inl (Msg (''address '' @ hostport @ '': '' @ why)));
          brackets = (\<lambda>j k host i.
            if CHR ''['' \<in> set (drop j hostport) then addrErr ''unexpected '[' in address''
            else if CHR '']'' \<in> set (drop k hostport) then addrErr ''unexpected ']' in address''
            else Inr (host, drop (Suc i) hostport))
      in case last_index_of (CHR '':'') hostport of
           None \<Rightarrow> addrErr ''missing port in address''
         | Some i \<Rightarrow>
             if take 1 hostport = ''[''
             then (case index_of (CHR '']'') hostport of
                     None \<Rightarrow> addrErr ''missing ']' in address''
                   | Some e \<Rightarrow>
                       if Suc e = length hostport then addrErr ''missing port in address''
                       else if Suc e = i then brackets 1 (Suc e) (drop 1 (take e hostport)) i
                       else if hostport ! Suc e = CHR '':'' then addrErr ''too many colons in address''
                       else addrErr ''missing port in address'')
             else if CHR '':'' \<in> set (take i hostport) then addrErr ''too many colons in address''
             else brackets 0 0 (take i hostport) i)"

definition plain_host :: "string \<Rightarrow> bool" where
  "plain_host h \<longleftrightarrow> CHR '':'' \<notin> set h \<and> CHR ''['' \<notin> set h \<and> CHR '']'' \<notin> set h"

lemma index_of_append: "c \<notin> set a \<Longrightarrow> index_of c (a @ c # b) = Some (length a)"
  by (induction a) auto

lemma last_index_of_append: "c \<notin> set b \<Longrightarrow> last_index_of c (a @ c # b) = Some (length a)"
  by (simp add: last_index_of_def index_of_append)

lemma SplitHostPort_plain:
  assumes "plain_host h" and "plain_host p"
  shows "SplitHostPort (h @ '':'' @ p) = Inr (h, p)"
proof -
  have "take 1 (h @ '':'' @ p) \<noteq> ''[''"
    using assms by (cases h) (auto simp: plain_host_def)
  then show ?thesis
    using assms by (simp add: SplitHostPort_def Let_def last_index_of_append plain_host_def)
qed

lemma digits_plain: "\<forall>c \<in> set s. is_digit c \<Longrightarrow> plain_host s"
  by (metis not_digit(1,4,5) plain_host_def)

lemma Itoa_plain: "plain_host (Itoa i)"
proof (cases "i < 0")
  case True
  with digits_plain [OF nat_text_digits [of "nat (- i)"]] show ?thesis
    by (simp add: Itoa_def plain_host_def)
next
  case False
  with digits_plain [OF nat_text_digits [of "nat i"]] show ?thesis
    by (simp add: Itoa_def)
qed

lemma SplitHostPort_Itoa: "plain_host h \<Longrightarrow> SplitHostPort (h @ '':'' @ Itoa i) = Inr (h, Itoa i)"
  by (rule SplitHostPort_plain [OF _ Itoa_plain])

section \<open>Paths\<close>

text \<open>\<open>path.Clean\<close> and \<open>path.Join\<close> (also \<open>filepath.Join\<close> where the separator is a slash).\<close>

fun clean_step :: "bool \<Rightarrow> string list \<Rightarrow> string \<Rightarrow> string list" where
  "clean_step rooted st e =
     (if e = [] \<or> e = ''.'' then st
      else if e = ''..'' then
        (case st of
           [] \<Rightarrow> if rooted then [] else [e]
         | t # ts \<Rightarrow> if t = ''..'' then e # st else ts)
      else e # st)"

definition Clean :: "string \<Rightarrow> string" where
  "Clean p =
     (if p = [] then ''.''
      else let rooted = (hd p = CHR ''/'');
               out = join (rev (foldl (clean_step rooted) [] (split_on (CHR ''/'') p))) ''/''
           in if rooted then CHR ''/'' # out else if out = [] then ''.'' else out)"

definition path_Join :: "string list \<Rightarrow> string" where
  "path_Join elems =
     (case filter (\<lambda>e. e \<noteq> []) elems of [] \<Rightarrow> [] | es \<Rightarrow> Clean (join es ''/''))"

text \<open>A clean directory other than the root and the current one, and a plain name in it.\<close>

definition clean_dir :: "string \<Rightarrow> bool" where
  "clean_dir d \<longleftrightarrow> Clean d = d \<and> d \<noteq> ''.'' \<and> d \<noteq> ''/'' \<and> d \<noteq> []"

definition plain_name :: "string \<Rightarrow> bool" where
  "plain_name x \<longleftrightarrow> x \<noteq> [] \<and> x \<noteq> ''.'' \<and> x \<noteq> ''..'' \<and> CHR ''/'' \<notin> set x"

lemma clean_step_keeps:
  "\<forall>x \<in> set st. x \<noteq> [] \<Longrightarrow> \<forall>x \<in> set (clean_step r st e). x \<noteq> []"
  by (auto split: list.splits)

lemma clean_step_nonempty:
  "\<forall>x \<in> set st. x \<noteq> [] \<Longrightarrow> \<forall>x \<in> set (foldl (clean_step r) st es). x \<noteq> []"
proof (induction es arbitrary: st)
  case Nil
  then show ?case by simp
next
  case (Cons e es)
  show ?case
    using Cons.IH [OF clean_step_keeps [OF Cons.prems]] by (simp del: clean_step.simps)
qed

lemma join_Nil_iff: "\<forall>e \<in> set xs. e \<noteq> [] \<Longrightarrow> join xs sep = [] \<longleftrightarrow> xs = []"
proof (cases xs)
  case (Cons x ys)
  assume "\<forall>e \<in> set xs. e \<noteq> []"
  with Cons show ?thesis by (cases ys) simp_all
qed simp

lemma path_Join_name:
  assumes "clean_dir d" and "plain_name x"
  shows "path_Join [d, x] = d @ ''/'' @ x"
proof -
  let ?r = "hd d = CHR ''/''"
  let ?st = "foldl (clean_step ?r) [] (split_on (CHR ''/'') d)"
  from assms have d: "d \<noteq> []" "Clean d = d" and x: "x \<noteq> []" "split_on (CHR ''/'') x = [x]"
    by (simp_all add: clean_dir_def plain_name_def split_on_none)
  have nonempty: "?st \<noteq> []"
  proof
    assume "?st = []"
    then have "Clean d = (if ?r then ''/'' else ''.'')" using d(1) by (simp add: Clean_def)
    with assms(1) show False by (auto simp: clean_dir_def split: if_splits)
  qed
  have step: "foldl (clean_step ?r) [] (split_on (CHR ''/'') (d @ CHR ''/'' # x)) = x # ?st"
    using x assms(2) by (simp add: split_on_append_sep plain_name_def)
  have out: "join (rev ?st) ''/'' \<noteq> []"
    using nonempty clean_step_nonempty [of "[]" ?r "split_on (CHR ''/'') d"]
    by (subst join_Nil_iff) simp_all
  have "Clean (d @ CHR ''/'' # x) = Clean d @ CHR ''/'' # x"
    using d(1) x(1) nonempty step out
    by (cases ?r) (simp_all add: Clean_def Let_def join_snoc)
  with d x show ?thesis by (simp add: path_Join_def)
qed

end
