(* ===== verification/Go_OS.thy ===== *)
theory Go_OS
  imports Go_Strings
begin

text \<open>
  The part of the operating system the source uses through Go's \<open>os\<close>, \<open>os/exec\<close> and
  \<open>path/filepath\<close> packages, and the two helpers of \<open>world/tmpdir.go\<close> built on it.

  The state holds the environment variables, the files by path, the number of system calls
  made so far and the commands that were run. What the source cannot see is in the
  \<open>platform\<close>, an argument of every function: the value of \<open>runtime.GOOS\<close>, the random part of
  the \<open>n\<close>-th temporary name, whether the \<open>n\<close>-th system call fails for a reason outside the
  model (a full disk, a permission), the Ginkgo process number, and what an external
  program does to the files. A system call that fails so has no effect. Paths are compared
  as strings; there are no symbolic links.
\<close>

section \<open>State and platform\<close>

datatype node = Dir nat | File nat string

record platform =
  GOOS :: string
  rand :: "nat \<Rightarrow> string"
  fault :: "nat \<Rightarrow> errno option"
  GinkgoParallelProcess :: int
  exec :: "string \<Rightarrow> string list \<Rightarrow> string \<Rightarrow> (string \<rightharpoonup> node) \<Rightarrow> go_error option \<times> (string \<rightharpoonup> node)"
  win_TempDir :: "string"
  win_Join :: "string list \<Rightarrow> string"

record os =
  env :: "string \<rightharpoonup> string"
  fs :: "string \<rightharpoonup> node"
  calls :: nat
  ran :: "(string \<times> string list) list"

definition windows :: "platform \<Rightarrow> bool" where
  "windows P \<longleftrightarrow> GOOS P = ''windows''"

definition sep :: "platform \<Rightarrow> char" where
  "sep P = (if windows P then CHR 0x5C else CHR ''/'')"

definition filepath_Join :: "platform \<Rightarrow> string list \<Rightarrow> string" where
  "filepath_Join P elems = (if windows P then win_Join P elems else path_Join elems)"

definition parent_dir :: "char \<Rightarrow> string \<Rightarrow> string" where
  "parent_dir c p =
     (let r = dropWhile (\<lambda>x. x \<noteq> c) (rev p)
      in if r = [] then ''.'' else if tl r = [] then [c] else rev (tl r))"

lemma parent_dir_append: "c \<notin> set x \<Longrightarrow> d \<noteq> [] \<Longrightarrow> parent_dir c (d @ c # x) = d"
  by (simp add: parent_dir_def Let_def dropWhile_append)

section \<open>Environment variables\<close>

definition LookupEnv :: "string \<Rightarrow> ('e, 's os_scheme, string option) comp" where
  "LookupEnv k = gets (\<lambda>s. env s k)"

definition Getenv :: "string \<Rightarrow> ('e, 's os_scheme, string) comp" where
  "Getenv k = gets (\<lambda>s. case env s k of None \<Rightarrow> [] | Some v \<Rightarrow> v)"

text \<open>The value \<open>os.Getenv\<close> gives in a state.\<close>

definition getenv :: "'s os_scheme \<Rightarrow> string \<Rightarrow> string" where
  "getenv s k = (case env s k of None \<Rightarrow> [] | Some v \<Rightarrow> v)"

lemma Getenv_run: "Getenv k s = (Inr (getenv s k), s)"
  by (simp add: Getenv_def getenv_def)

lemma Getenv_Inr_iff: "Getenv k s = (Inr v, t) \<longleftrightarrow> v = getenv s k \<and> t = s"
  by (auto simp: Getenv_run)

lemma LookupEnv_Inr_iff: "LookupEnv k s = (Inr v, t) \<longleftrightarrow> v = env s k \<and> t = s"
  by (auto simp: LookupEnv_def)

section \<open>System calls\<close>

text \<open>
  Every system call takes the next number; it either fails with the fault of that number,
  or does its work, whose own error is wrapped with the operation and the path.
\<close>

definition sys :: "platform \<Rightarrow> string \<Rightarrow> string \<Rightarrow> ('s os_scheme \<Rightarrow> (errno + 'a) \<times> 's os_scheme)
    \<Rightarrow> (go_error, 's os_scheme, 'a) comp" where
  "sys P op path body = (\<lambda>s.
     let s1 = s\<lparr>calls := Suc (calls s)\<rparr>
     in case fault P (calls s) of
          Some e \<Rightarrow> (Inl (PathError op path e), s1)
        | None \<Rightarrow> (case body s1 of
                     (Inl e, s2) \<Rightarrow> (Inl (PathError op path e), s2)
                   | (Inr a, s2) \<Rightarrow> (Inr a, s2)))"

text \<open>Creation of a path that must not exist yet, in a directory that must.\<close>

definition create_new :: "platform \<Rightarrow> string \<Rightarrow> node \<Rightarrow> 's os_scheme \<Rightarrow> (errno + unit) \<times> 's os_scheme" where
  "create_new P name n s =
     (if fs s name \<noteq> None then (Inl EEXIST, s)
      else case fs s (parent_dir (sep P) name) of
             Some (Dir _) \<Rightarrow> (Inr (), s\<lparr>fs := (fs s)(name \<mapsto> n)\<rparr>)
           | Some (File _ _) \<Rightarrow> (Inl ENOTDIR, s)
           | None \<Rightarrow> (Inl ENOENT, s))"

definition Mkdir :: "platform \<Rightarrow> string \<Rightarrow> nat \<Rightarrow> (go_error, 's os_scheme, unit) comp" where
  "Mkdir P name perm = sys P ''mkdir'' name (create_new P name (Dir perm))"

definition OpenExcl :: "platform \<Rightarrow> string \<Rightarrow> nat \<Rightarrow> (go_error, 's os_scheme, unit) comp" where
  "OpenExcl P name perm = sys P ''open'' name (create_new P name (File perm []))"

definition Stat :: "platform \<Rightarrow> string \<Rightarrow> (go_error, 's os_scheme, node) comp" where
  "Stat P name = sys P ''stat'' name (\<lambda>s. case fs s name of None \<Rightarrow> (Inl ENOENT, s) | Some n \<Rightarrow> (Inr n, s))"

definition ReadFile :: "platform \<Rightarrow> string \<Rightarrow> (go_error, 's os_scheme, string) comp" where
  "ReadFile P name = sys P ''open'' name (\<lambda>s. case fs s name of
     None \<Rightarrow> (Inl ENOENT, s)
   | Some (Dir _) \<Rightarrow> (Inl EISDIR, s)
   | Some (File _ d) \<Rightarrow> (Inr d, s))"

definition WriteFile :: "platform \<Rightarrow> string \<Rightarrow> string \<Rightarrow> nat \<Rightarrow> (go_error, 's os_scheme, unit) comp" where
  "WriteFile P name data perm = sys P ''open'' name (\<lambda>s. case fs s name of
     Some (Dir _) \<Rightarrow> (Inl EISDIR, s)
   | Some (File m _) \<Rightarrow> (Inr (), s\<lparr>fs := (fs s)(name \<mapsto> File m data)\<rparr>)
   | None \<Rightarrow> create_new P name (File perm data) s)"

definition Chmod :: "platform \<Rightarrow> string \<Rightarrow> nat \<Rightarrow> (go_error, 's os_scheme, unit) comp" where
  "Chmod P name perm = sys P ''chmod'' name (\<lambda>s. case fs s name of
     None \<Rightarrow> (Inl ENOENT, s)
   | Some (Dir _) \<Rightarrow> (Inr (), s\<lparr>fs := (fs s)(name \<mapsto> Dir perm)\<rparr>)
   | Some (File _ d) \<Rightarrow> (Inr (), s\<lparr>fs := (fs s)(name \<mapsto> File perm d)\<rparr>))"

definition Rename :: "platform \<Rightarrow> string \<Rightarrow> string \<Rightarrow> (go_error, 's os_scheme, unit) comp" where
  "Rename P old new = sys P ''rename'' old (\<lambda>s. case fs s old of
     None \<Rightarrow> (Inl ENOENT, s)
   | Some n \<Rightarrow>
       (case fs s (parent_dir (sep P) new) of
          Some (Dir _) \<Rightarrow>
            (case fs s new of
               Some (Dir _) \<Rightarrow> (Inl EEXIST, s)
             | _ \<Rightarrow> (Inr (), s\<lparr>fs := ((fs s)(old := None))(new \<mapsto> n)\<rparr>))
        | _ \<Rightarrow> (Inl ENOENT, s)))"

definition inside :: "platform \<Rightarrow> string \<Rightarrow> string \<Rightarrow> bool" where
  "inside P d p \<longleftrightarrow> p = d \<or> prefix (d @ [sep P]) p"

text \<open>An empty path removes nothing, silently.\<close>

definition RemoveAll :: "platform \<Rightarrow> string \<Rightarrow> (go_error, 's os_scheme, unit) comp" where
  "RemoveAll P name =
     (if name = [] then ret ()
      else sys P ''unlinkat'' name
        (\<lambda>s. (Inr (), s\<lparr>fs := (\<lambda>p. if inside P name p then None else fs s p)\<rparr>)))"

definition Setenv :: "platform \<Rightarrow> string \<Rightarrow> string \<Rightarrow> (go_error, 's os_scheme, unit) comp" where
  "Setenv P k v = sys P ''setenv'' k (\<lambda>s. (Inr (), s\<lparr>env := (env s)(k \<mapsto> v)\<rparr>))"

definition Unsetenv :: "platform \<Rightarrow> string \<Rightarrow> (go_error, 's os_scheme, unit) comp" where
  "Unsetenv P k = sys P ''unsetenv'' k (\<lambda>s. (Inr (), s\<lparr>env := (env s)(k := None)\<rparr>))"

text \<open>\<open>exec.Command(prog, args...).Run()\<close> with the working directory \<open>dir\<close>.\<close>

definition Run :: "platform \<Rightarrow> string \<Rightarrow> string list \<Rightarrow> string \<Rightarrow> (go_error, 's os_scheme, unit) comp" where
  "Run P prog args dir = (\<lambda>s. case exec P prog args dir (fs s) of (r, fs') \<Rightarrow>
     ((case r of None \<Rightarrow> Inr () | Some e \<Rightarrow> Inl e), s\<lparr>fs := fs', ran := ran s @ [(prog, args)]\<rparr>))"

section \<open>Temporary names\<close>

text \<open>\<open>os.TempDir()\<close>.\<close>

definition os_TempDir :: "platform \<Rightarrow> 's os_scheme \<Rightarrow> string" where
  "os_TempDir P s =
     (if windows P then win_TempDir P
      else case env s ''TMPDIR'' of None \<Rightarrow> ''/tmp'' | Some d \<Rightarrow> if d = [] then ''/tmp'' else d)"

text \<open>The part of a pattern before its last star, and the part after it.\<close>

definition prefixAndSuffix :: "platform \<Rightarrow> string \<Rightarrow> string + string \<times> string" where
  "prefixAndSuffix P pattern =
     (if sep P \<in> set pattern then Inl ''pattern contains path separator''
      else case last_index_of (CHR ''*'') pattern of
             None \<Rightarrow> Inr (pattern, [])
           | Some i \<Rightarrow> Inr (take i pattern, drop (Suc i) pattern))"

definition joinPath :: "platform \<Rightarrow> string \<Rightarrow> string \<Rightarrow> string" where
  "joinPath P dir name = (if dir \<noteq> [] \<and> last dir = sep P then dir @ name else dir @ sep P # name)"

text \<open>
  The loop of \<open>os.MkdirTemp\<close> and \<open>os.CreateTemp\<close>: a name that exists already is tried again
  with another random part, at most 10000 times.
\<close>

function temp_loop :: "platform \<Rightarrow> (string \<Rightarrow> (go_error, 's os_scheme, unit) comp) \<Rightarrow> go_error
    \<Rightarrow> string \<Rightarrow> string \<Rightarrow> nat \<Rightarrow> (go_error, 's os_scheme, string) comp" where
  "temp_loop P mk exhausted pre suf attempt s =
     (let name = pre @ rand P (calls s) @ suf
      in case mk name s of
           (Inr _, s') \<Rightarrow> (Inr name, s')
         | (Inl e, s') \<Rightarrow>
             if is_exist e
             then (if Suc attempt < 10000 then temp_loop P mk exhausted pre suf (Suc attempt) s'
                   else (Inl exhausted, s'))
             else (Inl e, s'))"
  by pat_completeness auto
termination
  by (relation "measure (\<lambda>(P, mk, x, pre, suf, attempt, s). 10000 - attempt)") auto

declare temp_loop.simps [simp del]

definition MkdirTemp :: "platform \<Rightarrow> string \<Rightarrow> string \<Rightarrow> (go_error, 's os_scheme, string) comp" where
  "MkdirTemp P dir0 pattern = (\<lambda>s.
     let dir = (if dir0 = [] then os_TempDir P s else dir0)
     in case prefixAndSuffix P pattern of
          Inl m \<Rightarrow> (Inl (PathError ''mkdirtemp'' pattern (EIO m)), s)
        | Inr (pre, suf) \<Rightarrow>
            (case temp_loop P (\<lambda>n. Mkdir P n 448)
                    (PathError ''mkdirtemp'' (dir @ sep P # joinPath P dir pre @ ''*'' @ suf) EEXIST)
                    (joinPath P dir pre) suf 0 s of
               (Inl e, s') \<Rightarrow>
                 if is_not_exist e
                 then (case Stat P dir s' of
                         (Inl e', s'') \<Rightarrow> (Inl (if is_not_exist e' then e' else e), s'')
                       | (Inr _, s'') \<Rightarrow> (Inl e, s''))
                 else (Inl e, s')
             | (Inr name, s') \<Rightarrow> (Inr name, s')))"

definition CreateTemp :: "platform \<Rightarrow> string \<Rightarrow> string \<Rightarrow> (go_error, 's os_scheme, string) comp" where
  "CreateTemp P dir0 pattern = (\<lambda>s.
     let dir = (if dir0 = [] then os_TempDir P s else dir0)
     in case prefixAndSuffix P pattern of
          Inl m \<Rightarrow> (Inl (PathError ''createtemp'' pattern (EIO m)), s)
        | Inr (pre, suf) \<Rightarrow>
            temp_loop P (\<lambda>n. OpenExcl P n 384)
              (PathError ''createtemp'' (joinPath P dir pre @ ''*'' @ suf) EEXIST)
              (joinPath P dir pre) suf 0 s)"

section \<open>The helpers of \<open>world/tmpdir.go\<close>\<close>

definition TempDir :: "platform \<Rightarrow> string \<Rightarrow> (failure, 's os_scheme, string) comp" where
  "TempDir P pre =
     andThen (gets (os_TempDir P)) (\<lambda>d.
     andThen (expect_ok (MkdirTemp P d pre)) (\<lambda>tmpDir.
     andThen (expect_ok (Chmod P tmpDir 493)) (\<lambda>_.
     ret tmpDir)))"

definition TempDirWithParent :: "platform \<Rightarrow> string \<Rightarrow> string \<Rightarrow> (failure, 's os_scheme, string) comp" where
  "TempDirWithParent P parentDir pre =
     andThen (expect_ok (MkdirTemp P parentDir pre)) (\<lambda>tmpDir.
     andThen (expect_ok (Chmod P tmpDir 493)) (\<lambda>_.
     ret tmpDir))"

section \<open>What the calls keep\<close>

text \<open>
  A predicate that does not look at the files, the call counter or the commands run is kept
  by every call but those on the environment; one that does not look at the environment
  either is kept by all.
\<close>

definition files_blind :: "('s os_scheme \<Rightarrow> bool) \<Rightarrow> bool" where
  "files_blind I \<longleftrightarrow> (\<forall>s f g h. I (s\<lparr>fs := f, calls := g, ran := h\<rparr>) = I s)"

definition os_blind :: "('s os_scheme \<Rightarrow> bool) \<Rightarrow> bool" where
  "os_blind I \<longleftrightarrow> (\<forall>s e f g h. I (s\<lparr>env := e, fs := f, calls := g, ran := h\<rparr>) = I s)"

lemma files_blindD:
  assumes "files_blind I"
  shows "I (s\<lparr>fs := f\<rparr>) = I s" "I (s\<lparr>calls := g\<rparr>) = I s" "I (s\<lparr>ran := h\<rparr>) = I s"
    "I (s\<lparr>fs := f, calls := g\<rparr>) = I s" "I (s\<lparr>fs := f, ran := h\<rparr>) = I s"
proof -
  note b = assms [unfolded files_blind_def, rule_format]
  show "I (s\<lparr>fs := f\<rparr>) = I s"
    using b [where s = s and f = f and g = "calls s" and h = "ran s"] by simp
  show "I (s\<lparr>calls := g\<rparr>) = I s"
    using b [where s = s and f = "fs s" and g = g and h = "ran s"] by simp
  show "I (s\<lparr>ran := h\<rparr>) = I s"
    using b [where s = s and f = "fs s" and g = "calls s" and h = h] by simp
  show "I (s\<lparr>fs := f, calls := g\<rparr>) = I s"
    using b [where s = s and f = f and g = g and h = "ran s"] by simp
  show "I (s\<lparr>fs := f, ran := h\<rparr>) = I s"
    using b [where s = s and f = f and g = "calls s" and h = h] by simp
qed

lemma os_blind_files: "os_blind I \<Longrightarrow> files_blind I"
proof -
  assume b: "os_blind I"
  show "files_blind I"
    unfolding files_blind_def
  proof (intro allI)
    fix s :: "'a os_scheme" and f g h
    show "I (s\<lparr>fs := f, calls := g, ran := h\<rparr>) = I s"
      using b [unfolded os_blind_def, rule_format, where s = s and e = "env s" and f = f and g = g and h = h] by simp
  qed
qed

lemma os_blindD: "os_blind I \<Longrightarrow> I (s\<lparr>env := e\<rparr>) = I s"
proof -
  assume "os_blind I"
  from this [unfolded os_blind_def, rule_format, where s = s and e = e and f = "fs s" and g = "calls s" and h = "ran s"] show ?thesis by simp
qed

lemma keeps_sys:
  assumes "files_blind I" and "\<And>s. I s \<Longrightarrow> I (snd (body s))"
  shows "keeps I (sys P op path body)"
proof (rule keepsI)
  fix s assume "I s"
  with assms(1) have "I (s\<lparr>calls := Suc (calls s)\<rparr>)" by (simp add: files_blindD)
  with assms(2) show "I (snd (sys P op path body s))"
    by (force simp: sys_def Let_def split: option.split sum.split prod.split)
qed

lemma create_new_keeps: "files_blind I \<Longrightarrow> I s \<Longrightarrow> I (snd (create_new P name n s))"
  by (auto simp: create_new_def files_blindD split: option.split node.split)

lemma keeps_Mkdir: "files_blind I \<Longrightarrow> keeps I (Mkdir P name perm)"
  unfolding Mkdir_def by (rule keeps_sys [OF _ create_new_keeps])

lemma keeps_OpenExcl: "files_blind I \<Longrightarrow> keeps I (OpenExcl P name perm)"
  unfolding OpenExcl_def by (rule keeps_sys [OF _ create_new_keeps])

lemma keeps_Stat: "files_blind I \<Longrightarrow> keeps I (Stat P name)"
  unfolding Stat_def by (rule keeps_sys) (auto split: option.split)

lemma keeps_ReadFile: "files_blind I \<Longrightarrow> keeps I (ReadFile P name)"
  unfolding ReadFile_def by (rule keeps_sys) (auto split: option.split node.split)

lemma keeps_WriteFile: "files_blind I \<Longrightarrow> keeps I (WriteFile P name data perm)"
  unfolding WriteFile_def
  by (rule keeps_sys) (auto simp: files_blindD create_new_keeps split: option.split node.split)

lemma keeps_Chmod: "files_blind I \<Longrightarrow> keeps I (Chmod P name perm)"
  unfolding Chmod_def by (rule keeps_sys) (auto simp: files_blindD split: option.split node.split)

lemma keeps_Rename: "files_blind I \<Longrightarrow> keeps I (Rename P old new)"
  unfolding Rename_def by (rule keeps_sys) (auto simp: files_blindD split: option.split node.split)

lemma keeps_RemoveAll: "files_blind I \<Longrightarrow> keeps I (RemoveAll P name)"
  unfolding RemoveAll_def by (intro keeps_if keeps_ret keeps_sys) (auto simp: files_blindD)

lemma keeps_Run: "files_blind I \<Longrightarrow> keeps I (Run P prog args dir)"
  by (rule keepsI) (auto simp: Run_def files_blindD split: prod.split)

lemma keeps_Setenv: "os_blind I \<Longrightarrow> keeps I (Setenv P k v)"
  unfolding Setenv_def by (rule keeps_sys) (auto simp: os_blind_files os_blindD)

lemma keeps_Unsetenv: "os_blind I \<Longrightarrow> keeps I (Unsetenv P k)"
  unfolding Unsetenv_def by (rule keeps_sys) (auto simp: os_blind_files os_blindD)

lemma keeps_env [keeps_intros]: "keeps I (LookupEnv k)" "keeps I (Getenv k)"
  by (simp_all add: LookupEnv_def Getenv_def keeps_gets)

lemma temp_loop_keeps:
  "(\<And>n. keeps I (mk n)) \<Longrightarrow> I s \<Longrightarrow> I (snd (temp_loop P mk x pre suf attempt s))"
proof (induction P mk x pre suf attempt s rule: temp_loop.induct)
  case (1 P mk x pre suf attempt s)
  obtain r s' where mk: "mk (pre @ rand P (calls s) @ suf) s = (r, s')" by fastforce
  with 1(2,3) have s': "I s'" by (blast intro: keeps_run)
  show ?case
  proof (cases r)
    case (Inr u)
    with mk s' show ?thesis by (simp add: temp_loop.simps [of P mk])
  next
    case (Inl e)
    with mk s' show ?thesis
      using 1(1) [OF refl mk [symmetric] Inl] 1(2)
      by (simp add: temp_loop.simps [of P mk x pre suf attempt])
  qed
qed

lemma MkdirTemp_keeps: "files_blind I \<Longrightarrow> keeps I (MkdirTemp P d pattern)"
proof (rule keepsI)
  fix s assume I: "files_blind I" "I s"
  have *: "I (snd (temp_loop P (\<lambda>n. Mkdir P n 448) x pre suf 0 s))" for x pre suf
    by (rule temp_loop_keeps) (simp_all add: keeps_Mkdir I)
  have **: "I t \<Longrightarrow> I (snd (Stat P d t))" for d t
    using keepsD [OF keeps_Stat [OF I(1)]] .
  show "I (snd (MkdirTemp P d pattern s))"
    using * ** I(2)
    by (auto simp: MkdirTemp_def Let_def split: sum.split prod.split) (metis snd_conv)+
qed

lemma CreateTemp_keeps: "files_blind I \<Longrightarrow> keeps I (CreateTemp P d pattern)"
proof (rule keepsI)
  fix s assume I: "files_blind I" "I s"
  have *: "I (snd (temp_loop P (\<lambda>n. OpenExcl P n 384) x pre suf 0 s))" for x pre suf
    by (rule temp_loop_keeps) (simp_all add: keeps_OpenExcl I)
  with I(2) show "I (snd (CreateTemp P d pattern s))"
    by (auto simp: CreateTemp_def Let_def split: sum.split prod.split)
qed

lemma TempDirWithParent_keeps: "files_blind I \<Longrightarrow> keeps I (TempDirWithParent P d pre)"
  unfolding TempDirWithParent_def
  by (intro keeps_andThen keeps_expect_ok MkdirTemp_keeps keeps_Chmod keeps_ret)

lemma TempDir_keeps: "files_blind I \<Longrightarrow> keeps I (TempDir P pre)"
  unfolding TempDir_def
  by (intro keeps_andThen keeps_expect_ok MkdirTemp_keeps keeps_Chmod keeps_ret keeps_gets)

lemmas os_keeps = keeps_Mkdir keeps_OpenExcl keeps_Stat keeps_ReadFile keeps_WriteFile keeps_Chmod
  keeps_Rename keeps_RemoveAll keeps_Run MkdirTemp_keeps CreateTemp_keeps TempDirWithParent_keeps
  TempDir_keeps

section \<open>Exclusive creation\<close>

text \<open>
  What \<open>Mkdir\<close> and an exclusive \<open>OpenFile\<close> promise to the loop over temporary names: on
  success the path was free and now holds the node, on an error the files are as before.
\<close>

locale exclusive_create =
  fixes mk :: "string \<Rightarrow> (go_error, 's os_scheme, unit) comp"
    and node :: node
  assumes created: "mk name s = (Inr u, t) \<Longrightarrow> fs s name = None \<and> fs t = (fs s)(name \<mapsto> node)"
    and refused: "mk name s = (Inl e, t) \<Longrightarrow> fs t = fs s"
begin

lemma temp_loop_cases:
  assumes "mk' = mk"
  shows "case temp_loop P mk' x pre suf attempt s of
     (Inr name, t) \<Rightarrow> fs s name = None \<and> fs t = (fs s)(name \<mapsto> node) \<and> (\<exists>r. name = pre @ r @ suf)
   | (Inl e, t) \<Rightarrow> fs t = fs s"
  using assms
proof (induction P mk' x pre suf attempt s rule: temp_loop.induct)
  case (1 P mk' x pre suf attempt s)
  let ?name = "pre @ rand P (calls s) @ suf"
  obtain r s' where mk: "mk' ?name s = (r, s')" by fastforce
  show ?case
  proof (cases r)
    case (Inr u)
    with mk have "temp_loop P mk' x pre suf attempt s = (Inr ?name, s')"
      by (simp add: temp_loop.simps [of P mk'])
    with mk Inr 1(2) created [of ?name s u s'] show ?thesis by auto
  next
    case (Inl e)
    from Inl mk 1(2) have same: "fs s' = fs s" by (auto dest: refused)
    have eq: "temp_loop P mk x pre suf attempt s =
        (if is_exist e
         then (if Suc attempt < 10000 then temp_loop P mk x pre suf (Suc attempt) s' else (Inl x, s'))
         else (Inl e, s'))"
      using Inl mk 1(2) by (simp add: temp_loop.simps [of P mk x pre suf attempt])
    show ?thesis
      using 1(1) [OF refl mk [symmetric] Inl] 1(2) same
      by (cases "is_exist e"; cases "Suc attempt < 10000")
        (auto simp: eq split: sum.splits prod.splits)
  qed
qed

lemma temp_loop_Inr:
  assumes "temp_loop P mk x pre suf attempt s = (Inr name, t)"
  shows "fs s name = None" and "fs t = (fs s)(name \<mapsto> node)" and "\<exists>r. name = pre @ r @ suf"
  using temp_loop_cases [OF refl, where P = P and x = x and pre = pre and suf = suf and attempt = attempt and s = s] assms by simp_all

lemma temp_loop_Inl: "temp_loop P mk x pre suf attempt s = (Inl e, t) \<Longrightarrow> fs t = fs s"
  using temp_loop_cases [OF refl, where P = P and x = x and pre = pre and suf = suf and attempt = attempt and s = s] by simp

end

interpretation new_dir: exclusive_create "\<lambda>n. Mkdir P n perm" "Dir perm" for P perm
  by unfold_locales
    (auto simp: Mkdir_def sys_def create_new_def Let_def
      split: option.splits sum.splits prod.splits if_splits node.splits)

interpretation new_file: exclusive_create "\<lambda>n. OpenExcl P n perm" "File perm []" for P perm
  by unfold_locales
    (auto simp: OpenExcl_def sys_def create_new_def Let_def
      split: option.splits sum.splits prod.splits if_splits node.splits)

lemma MkdirTemp_Inr:
  assumes "MkdirTemp P d pattern s = (Inr name, t)"
  shows "fs s name = None" and "fs t = (fs s)(name \<mapsto> Dir 448)"
  using assms
  by (auto simp: MkdirTemp_def Let_def split: sum.splits prod.splits if_splits
      dest: new_dir.temp_loop_Inr)

lemma CreateTemp_Inr:
  assumes "CreateTemp P d pattern s = (Inr name, t)"
  shows "fs s name = None" and "fs t = (fs s)(name \<mapsto> File 384 [])"
  using assms
  by (auto simp: CreateTemp_def Let_def split: sum.splits prod.splits if_splits
      dest: new_file.temp_loop_Inr)

lemma Stat_fs: "Stat P name s = (r, t) \<Longrightarrow> fs t = fs s"
  by (auto simp: Stat_def sys_def Let_def split: option.splits)

lemma MkdirTemp_Inl: "MkdirTemp P d pattern s = (Inl e, t) \<Longrightarrow> fs t = fs s"
  by (auto simp: MkdirTemp_def Let_def split: sum.splits prod.splits if_splits
      dest!: new_dir.temp_loop_Inl Stat_fs)

lemma CreateTemp_Inl: "CreateTemp P d pattern s = (Inl e, t) \<Longrightarrow> fs t = fs s"
  by (auto simp: CreateTemp_def Let_def split: sum.splits prod.splits if_splits
      dest!: new_file.temp_loop_Inl)

lemma Chmod_Dir:
  "Chmod P name perm s = (Inr u, t) \<Longrightarrow> fs s name = Some (Dir m) \<Longrightarrow> fs t = (fs s)(name \<mapsto> Dir perm)"
  by (auto simp: Chmod_def sys_def Let_def split: option.splits)

lemma WriteFile_File:
  "WriteFile P name data perm s = (Inr u, t) \<Longrightarrow> fs s name = Some (File m d) \<Longrightarrow>
     fs t = (fs s)(name \<mapsto> File m data)"
  by (auto simp: WriteFile_def sys_def Let_def split: option.splits)

lemma WriteFile_new:
  "WriteFile P name data perm s = (Inr u, t) \<Longrightarrow> fs s name = None \<Longrightarrow>
     fs t = (fs s)(name \<mapsto> File perm data)"
  by (auto simp: WriteFile_def sys_def create_new_def Let_def
      split: option.splits sum.splits prod.splits node.splits)

lemma TempDirWithParent_Inr:
  assumes "TempDirWithParent P d pre s = (Inr name, t)"
  shows "fs s name = None" and "fs t = (fs s)(name \<mapsto> Dir 493)"
proof -
  from assms obtain s' where mk: "MkdirTemp P d pre s = (Inr name, s')"
    and ch: "Chmod P name 493 s' = (Inr (), t)"
    by (auto simp: TempDirWithParent_def comp_iffs)
  note made = MkdirTemp_Inr [OF mk]
  show "fs s name = None" by (rule made)
  from made(2) have "fs s' name = Some (Dir 448)" by simp
  with Chmod_Dir [OF ch] made(2) show "fs t = (fs s)(name \<mapsto> Dir 493)" by simp
qed

text \<open>With an empty parent the two helpers coincide, as \<open>os.MkdirTemp\<close> then takes \<open>os.TempDir()\<close>.\<close>

lemma TempDir_as_parent:
  "os_TempDir P s \<noteq> [] \<Longrightarrow> TempDir P pre s = TempDirWithParent P [] pre s"
  by (simp add: TempDir_def TempDirWithParent_def andThen_def MkdirTemp_def expect_ok_def)

section \<open>Files that were there before\<close>

text \<open>\<open>extends f s\<close>: every path of \<open>f\<close> holds in \<open>s\<close> what it held in \<open>f\<close>.\<close>

definition extends :: "(string \<rightharpoonup> node) \<Rightarrow> 's os_scheme \<Rightarrow> bool" where
  "extends f s \<longleftrightarrow> f \<subseteq>\<^sub>m fs s"

lemma extends_refl: "extends (fs s) s"
  by (simp add: extends_def)

lemma extends_same: "extends f s \<Longrightarrow> fs t = fs s \<Longrightarrow> extends f t"
  by (simp add: extends_def)

lemma extends_fresh: "extends f s \<Longrightarrow> fs s n = None \<Longrightarrow> f n = None"
  by (cases "f n") (force simp: extends_def map_le_def)+

lemma extends_upd: "extends f s \<Longrightarrow> f n = None \<Longrightarrow> fs t = (fs s)(n \<mapsto> x) \<Longrightarrow> extends f t"
  by (auto simp: extends_def map_le_def)

lemma ReadFile_fs: "ReadFile P name s = (r, t) \<Longrightarrow> fs t = fs s"
  by (auto simp: ReadFile_def sys_def Let_def split: option.splits node.splits)

lemma ReadFile_Inr: "ReadFile P name s = (Inr d, t) \<Longrightarrow> \<exists>m. fs s name = Some (File m d)"
  by (auto simp: ReadFile_def sys_def Let_def split: option.splits node.splits)

lemma WriteFile_fs:
  "WriteFile P name data perm s = (r, t) \<Longrightarrow> fs t = fs s \<or> (\<exists>m. fs t = (fs s)(name \<mapsto> File m data))"
  by (auto simp: WriteFile_def sys_def create_new_def Let_def
      split: option.splits sum.splits prod.splits node.splits if_splits)

lemma extends_ReadFile: "keeps (extends f) (ReadFile P name)"
proof (rule keepsI)
  fix s :: "'a os_scheme" assume f: "extends f s"
  obtain r t where run: "ReadFile P name s = (r, t)" by fastforce
  with extends_same [OF f ReadFile_fs [OF run]] show "extends f (snd (ReadFile P name s))" by simp
qed

lemma extends_WriteFile:
  assumes "f name = None"
  shows "keeps (extends f) (WriteFile P name data perm)"
proof (rule keepsI)
  fix s :: "'a os_scheme" assume "extends f s"
  note f = this assms
  obtain r t where run: "WriteFile P name data perm s = (r, t)" by fastforce
  from WriteFile_fs [OF run] have "extends f t"
    using extends_same [OF f(1)] extends_upd [OF f] by blast
  with run show "extends f (snd (WriteFile P name data perm s))" by simp
qed

lemma extends_CreateTemp: "keeps (extends f) (CreateTemp P d pattern)"
proof (rule keepsI)
  fix s :: "'a os_scheme" assume f: "extends f s"
  obtain r t where run: "CreateTemp P d pattern s = (r, t)" by fastforce
  show "extends f (snd (CreateTemp P d pattern s))"
  proof (cases r)
    case (Inl e)
    with run f show ?thesis by (metis CreateTemp_Inl extends_same snd_conv)
  next
    case (Inr n)
    with run CreateTemp_Inr have "fs s n = None" "fs t = (fs s)(n \<mapsto> File 384 [])" by metis+
    with f run show ?thesis by (metis extends_fresh extends_upd snd_conv)
  qed
qed

lemma extends_TempDirWithParent: "keeps (extends f) (TempDirWithParent P d pre)"
proof (rule keepsI)
  fix s :: "'a os_scheme" assume f: "extends f s"
  have mk: "extends f t \<and> (\<forall>n. r = Inr n \<longrightarrow> f n = None)"
    if "MkdirTemp P d pre s = (r, t)" for r t
  proof (cases r)
    case (Inl e)
    with that f show ?thesis by (metis MkdirTemp_Inl extends_same sum.distinct(1))
  next
    case (Inr n)
    with that MkdirTemp_Inr have "fs s n = None" "fs t = (fs s)(n \<mapsto> Dir 448)" by metis+
    with f Inr show ?thesis by (metis extends_fresh extends_upd sum.inject(2))
  qed
  have ch: "extends f u" if "Chmod P n m t = (r, u)" "extends f t" "f n = None" for n m t r u
    using that by (auto simp: Chmod_def sys_def Let_def extends_def map_le_def
        split: option.splits node.splits)
  show "extends f (snd (TempDirWithParent P d pre s))"
    using mk ch by (auto simp: TempDirWithParent_def andThen_def expect_ok_def
        split: sum.splits prod.splits)
qed

section \<open>A concrete platform\<close>

text \<open>
  A Linux host on which no system call fails, the random parts of the temporary names count
  up and the external programs leave the files alone.
\<close>

definition demo_platform :: platform where
  "demo_platform = \<lparr>GOOS = ''linux'', rand = nat_text, fault = (\<lambda>_. None), GinkgoParallelProcess = 1,
     exec = (\<lambda>prog args dir f. (None, f)), win_TempDir = [], win_Join = concat\<rparr>"

end
