(* ===== verification/Cert_Authority.thy ===== *)
theory Cert_Authority
  imports Go_OS
begin

text \<open>
  The certificate authority of \<open>helpers/certauthority/certauthority.go\<close>: the package
  variables \<open>caLock\<close> and \<open>csrLock\<close>, \<open>generateCAAndKey\<close>, \<open>NewCertAuthority\<close>, \<open>CAAndKey\<close> and
  \<open>GenerateSelfSignedCertAndKey\<close> with every early return and the unlocking before it.

  The certstrap package \<open>pkix\<close> is the parameter \<open>X\<close>: one function per operation the source
  calls, each with the number of the call, so that it may fail or draw randomness. The
  state adds to the operating system the two mutexes, the number of \<open>pkix\<close> calls and a
  history of the lock and library events, which the code does not read; \<open>Cert_Locks\<close>
  interleaves those histories.
\<close>

section \<open>The library, the locks and the state\<close>

record ('key, 'csr, 'crt) pkix =
  CreateRSAKey :: "nat \<Rightarrow> nat \<Rightarrow> go_error + 'key"
  ExportPrivate :: "'key \<Rightarrow> go_error + string"
  CreateCertificateSigningRequest :: "nat \<Rightarrow> 'key \<Rightarrow> string \<Rightarrow> string list \<Rightarrow> string list
    \<Rightarrow> string \<Rightarrow> go_error + 'csr"
  NewCertificateFromPEM :: "string \<Rightarrow> go_error + 'crt"
  NewKeyFromPrivateKeyPEM :: "string \<Rightarrow> go_error + 'key"
  CreateIntermediateCertificateAuthorityWithOptions :: "nat \<Rightarrow> 'crt \<Rightarrow> 'key \<Rightarrow> 'csr \<Rightarrow> int
    \<Rightarrow> nat \<times> bool \<Rightarrow> go_error + 'crt"
  CreateCertificateHost :: "nat \<Rightarrow> 'crt \<Rightarrow> 'key \<Rightarrow> 'csr \<Rightarrow> int \<Rightarrow> go_error + 'crt"
  CreateCertificateAuthority :: "nat \<Rightarrow> 'key \<Rightarrow> string \<Rightarrow> int \<Rightarrow> string \<Rightarrow> go_error + 'crt"
  Export :: "'crt \<Rightarrow> go_error + string"
  in_one_year :: "nat \<Rightarrow> int"

datatype lock = CaLock | CsrLock

datatype pkop = RSAKeyOp | CSROp | SignOp | CreateCAOp | CodecOp | FileOp

datatype event = Lock lock | Unlock lock | Op pkop

record cert_os = os +
  locked :: "lock \<Rightarrow> bool"
  pk_calls :: nat
  history :: "event list"

text \<open>Why a call stopped: it returned an error, waits for a held mutex, or unlocked a free one.\<close>

datatype stop = Returned go_error | Blocked lock | UnlockOfUnlocked lock

definition acquire :: "lock \<Rightarrow> (stop, 's cert_os_scheme, unit) comp" where
  "acquire l = (\<lambda>s. if locked s l then (Inl (Blocked l), s)
     else (Inr (), s\<lparr>locked := (locked s)(l := True), history := history s @ [Lock l]\<rparr>))"

definition release :: "lock \<Rightarrow> (stop, 's cert_os_scheme, unit) comp" where
  "release l = (\<lambda>s. if locked s l
     then (Inr (), s\<lparr>locked := (locked s)(l := False), history := history s @ [Unlock l]\<rparr>)
     else (Inl (UnlockOfUnlocked l), s))"

text \<open>A call of the library, whose error is returned by \<open>handleError\<close>.\<close>

definition pk_call :: "pkop \<Rightarrow> (nat \<Rightarrow> go_error + 'a) \<Rightarrow> (stop, 's cert_os_scheme, 'a) comp" where
  "pk_call q f = (\<lambda>s.
     let s' = s\<lparr>pk_calls := Suc (pk_calls s), history := history s @ [Op q]\<rparr>
     in case f (pk_calls s) of Inl e \<Rightarrow> (Inl (Returned e), s') | Inr a \<Rightarrow> (Inr a, s'))"

text \<open>A call of package \<open>os\<close>, whose error is returned by \<open>handleError\<close>.\<close>

definition os_call :: "(go_error, 's cert_os_scheme, 'a) comp \<Rightarrow> (stop, 's cert_os_scheme, 'a) comp" where
  "os_call m = (\<lambda>s. case m (s\<lparr>history := history s @ [Op FileOp]\<rparr>) of
     (Inl e, t) \<Rightarrow> (Inl (Returned e), t) | (Inr a, t) \<Rightarrow> (Inr a, t))"

text \<open>\<open>if err != nil { lock.Unlock(); return handleError(err) }\<close> after a call.\<close>

definition or_unlock :: "lock \<Rightarrow> (stop, 's cert_os_scheme, 'a) comp \<Rightarrow> (stop, 's cert_os_scheme, 'a) comp" where
  "or_unlock l m = (\<lambda>s. case m s of
     (Inr a, t) \<Rightarrow> (Inr a, t)
   | (Inl e, t) \<Rightarrow> (case release l t of (Inl e', u) \<Rightarrow> (Inl e', u) | (Inr _, u) \<Rightarrow> (Inl e, u)))"

section \<open>The authority\<close>

record certAuthority =
  depotDir :: string
  caCert :: string
  caKey :: string

text \<open>The three results of a function that returned: the two file names, or two empty ones.\<close>

definition handleError :: "go_error \<Rightarrow> string \<times> string \<times> go_error option" where
  "handleError e = ([], [], Some e)"

fun results :: "go_error + string \<times> string \<Rightarrow> string \<times> string \<times> go_error option" where
  "results (Inl e) = handleError e"
| "results (Inr (k, c)) = (k, c, None)"

definition CAAndKey :: "certAuthority \<Rightarrow> string \<times> string" where
  "CAAndKey c = (caKey c, caCert c)"

definition GenerateSelfSignedCertAndKey :: "platform \<Rightarrow> ('key, 'csr, 'crt) pkix \<Rightarrow> certAuthority
    \<Rightarrow> string \<Rightarrow> string list \<Rightarrow> bool \<Rightarrow> (stop, 's cert_os_scheme, string \<times> string) comp" where
  "GenerateSelfSignedCertAndKey P X c commonName sans intermediateCA =
     andThen (pk_call RSAKeyOp (\<lambda>n. CreateRSAKey X n 4096)) (\<lambda>key.
     andThen (pk_call CodecOp (\<lambda>n. ExportPrivate X key)) (\<lambda>keyBytes.
     andThen (acquire CsrLock) (\<lambda>_.
     andThen (or_unlock CsrLock (pk_call CSROp (\<lambda>n.
       CreateCertificateSigningRequest X n key [] [''127.0.0.1''] sans commonName))) (\<lambda>csr.
     andThen (release CsrLock) (\<lambda>_.
     andThen (os_call (ReadFile P (caCert c))) (\<lambda>caBytes.
     andThen (pk_call CodecOp (\<lambda>n. NewCertificateFromPEM X caBytes)) (\<lambda>ca.
     andThen (os_call (ReadFile P (caKey c))) (\<lambda>caKeyBytes.
     andThen (pk_call CodecOp (\<lambda>n. NewKeyFromPrivateKeyPEM X caKeyBytes)) (\<lambda>cakey.
     andThen (acquire CaLock) (\<lambda>_.
     andThen (or_unlock CaLock (pk_call SignOp (\<lambda>n.
       if intermediateCA
       then CreateIntermediateCertificateAuthorityWithOptions X n ca cakey csr (in_one_year X n) (1, False)
       else CreateCertificateHost X n ca cakey csr (in_one_year X n)))) (\<lambda>crt.
     andThen (release CaLock) (\<lambda>_.
     andThen (pk_call CodecOp (\<lambda>n. Export X crt)) (\<lambda>crtBytes.
     andThen (os_call (CreateTemp P (depotDir c) commonName)) (\<lambda>keyFile.
     andThen (os_call (WriteFile P keyFile keyBytes 429)) (\<lambda>_.
     andThen (os_call (CreateTemp P (depotDir c) commonName)) (\<lambda>crtFile.
     andThen (os_call (WriteFile P crtFile crtBytes 429)) (\<lambda>_.
     ret (keyFile, crtFile))))))))))))))))))"

definition generateCAAndKey :: "platform \<Rightarrow> ('key, 'csr, 'crt) pkix \<Rightarrow> string \<Rightarrow> string
    \<Rightarrow> (stop, 's cert_os_scheme, string \<times> string) comp" where
  "generateCAAndKey P X depot commonName =
     andThen (pk_call RSAKeyOp (\<lambda>n. CreateRSAKey X n 4096)) (\<lambda>cakey.
     andThen (acquire CaLock) (\<lambda>_.
     andThen (or_unlock CaLock (pk_call CreateCAOp (\<lambda>n.
       CreateCertificateAuthority X n cakey [] (in_one_year X n) commonName))) (\<lambda>ca.
     andThen (or_unlock CaLock (pk_call RSAKeyOp (\<lambda>n. CreateRSAKey X n 4096))) (\<lambda>crtKey.
     andThen (or_unlock CaLock (pk_call CSROp (\<lambda>n.
       CreateCertificateSigningRequest X n crtKey [] [] [] commonName))) (\<lambda>csr.
     andThen (or_unlock CaLock (pk_call SignOp (\<lambda>n.
       CreateIntermediateCertificateAuthorityWithOptions X n ca cakey csr (in_one_year X n) (1, False)))) (\<lambda>crt.
     andThen (release CaLock) (\<lambda>_.
     andThen (pk_call CodecOp (\<lambda>n. Export X crt)) (\<lambda>crtBytes.
     andThen (pk_call CodecOp (\<lambda>n. ExportPrivate X crtKey)) (\<lambda>keyBytes.
     let keyFile = filepath_Join P [depot, commonName @ ''.key'']
     in andThen (os_call (WriteFile P keyFile keyBytes 429)) (\<lambda>_.
     let crtFile = filepath_Join P [depot, commonName @ ''.crt'']
     in andThen (os_call (WriteFile P crtFile crtBytes 429)) (\<lambda>_.
     ret (keyFile, crtFile))))))))))))"

definition NewCertAuthority :: "platform \<Rightarrow> ('key, 'csr, 'crt) pkix \<Rightarrow> string \<Rightarrow> string
    \<Rightarrow> (stop, 's cert_os_scheme, certAuthority) comp" where
  "NewCertAuthority P X depot commonName =
     andThen (generateCAAndKey P X depot commonName) (\<lambda>(key, cert).
     ret \<lparr>depotDir = depot, caCert = cert, caKey = key\<rparr>)"

section \<open>Histories\<close>

text \<open>
  The events of a successful run of each function, in order. An operation that fails ends
  the run; what follows it is then the unlocking of the mutex held at that point, if any.
\<close>

definition gen_script :: "event list" where
  "gen_script = [Op RSAKeyOp, Op CodecOp, Lock CsrLock, Op CSROp, Unlock CsrLock, Op FileOp,
     Op CodecOp, Op FileOp, Op CodecOp, Lock CaLock, Op SignOp, Unlock CaLock, Op CodecOp,
     Op FileOp, Op FileOp, Op FileOp, Op FileOp]"

definition ca_script :: "event list" where
  "ca_script = [Op RSAKeyOp, Lock CaLock, Op CreateCAOp, Op RSAKeyOp, Op CSROp, Op SignOp,
     Unlock CaLock, Op CodecOp, Op CodecOp, Op FileOp, Op FileOp]"

fun cleanup :: "event list \<Rightarrow> event list" where
  "cleanup [] = []"
| "cleanup (Unlock l # r) = [Unlock l]"
| "cleanup (Lock l # r) = []"
| "cleanup (Op q # r) = cleanup r"

definition none_held :: "'s cert_os_scheme \<Rightarrow> bool" where
  "none_held s \<longleftrightarrow> (\<forall>l. \<not> locked s l)"

definition only_held :: "lock \<Rightarrow> 's cert_os_scheme \<Rightarrow> bool" where
  "only_held l s \<longleftrightarrow> (\<forall>l'. locked s l' \<longleftrightarrow> l' = l)"

text \<open>
  \<open>aborts sc rest ev\<close>: the events \<open>ev\<close> of a run that follows \<open>sc\<close> (with \<open>rest\<close> still to
  come) up to one of its operations, which fails, and then cleans up.
\<close>

fun is_op :: "event \<Rightarrow> bool" where
  "is_op (Op q) = True"
| "is_op _ = False"

fun aborts :: "event list \<Rightarrow> event list \<Rightarrow> event list \<Rightarrow> bool" where
  "aborts [] rest ev = False"
| "aborts (e # sc) rest [] = False"
| "aborts (e # sc) rest (e' # ev) =
     (e' = e \<and> (is_op e \<and> ev = cleanup (sc @ rest) \<or> aborts sc rest ev))"

text \<open>
  \<open>performs A sc rest m B\<close>: from a state with \<open>A\<close>, the computation \<open>m\<close> either succeeds with
  exactly the events \<open>sc\<close> and ends with \<open>B\<close>, or returns an error of one operation of \<open>sc\<close>
  with no mutex held, having unlocked what the script \<open>sc @ rest\<close> held at that operation. It
  never waits for a mutex and never unlocks a free one.
\<close>

fun outcome :: "('s cert_os_scheme \<Rightarrow> bool) \<Rightarrow> event list \<Rightarrow> event list \<Rightarrow> event list
    \<Rightarrow> (stop + 'a) \<times> 's cert_os_scheme \<Rightarrow> bool" where
  "outcome B sc rest h (Inr a, t) = (B t \<and> history t = h @ sc)"
| "outcome B sc rest h (Inl (Returned e), t) =
     (none_held t \<and> (\<exists>ev. history t = h @ ev \<and> aborts sc rest ev))"
| "outcome B sc rest h (Inl _, t) = False"

definition performs :: "('s cert_os_scheme \<Rightarrow> bool) \<Rightarrow> event list \<Rightarrow> event list
    \<Rightarrow> (stop, 's cert_os_scheme, 'a) comp \<Rightarrow> ('s cert_os_scheme \<Rightarrow> bool) \<Rightarrow> bool" where
  "performs A sc rest m B \<longleftrightarrow> (\<forall>s. A s \<longrightarrow> outcome B sc rest (history s) (m s))"

lemma outcome_Inl_iff:
  "outcome B sc rest h (Inl x, t) \<longleftrightarrow> none_held t \<and> (\<exists>e. x = Returned e) \<and>
     (\<exists>ev. history t = h @ ev \<and> aborts sc rest ev)"
  by (cases x) auto

lemma performsD: "performs A sc rest m B \<Longrightarrow> A s \<Longrightarrow> outcome B sc rest (history s) (m s)"
  by (simp add: performs_def)

lemma performs_ret: "performs A [] rest (ret a) A"
  by (simp add: performs_def)

lemma performs_step:
  assumes m: "performs A [e] (sc @ rest) m B" and k: "\<And>a. performs B sc rest (k a) C"
  shows "performs A (e # sc) rest (andThen m k) C"
  unfolding performs_def
proof (intro allI impI)
  fix s assume A: "A s"
  obtain r u where run: "m s = (r, u)" by fastforce
  have first: "outcome B [e] (sc @ rest) (history s) (r, u)"
    using performsD [OF m A] run by simp
  show "outcome C (e # sc) rest (history s) (andThen m k s)"
  proof (cases r)
    case (Inl x)
    have "aborts [e] (sc @ rest) ev \<Longrightarrow> aborts (e # sc) rest ev" for ev
      by (cases ev) auto
    with first Inl run show ?thesis
      by (auto simp: andThen_run_Inl outcome_Inl_iff)
  next
    case (Inr a)
    with first have u: "B u" "history u = history s @ [e]" by simp_all
    have later: "outcome C sc rest (history u) (k a u)" by (rule performsD [OF k u(1)])
    have "outcome C (e # sc) rest (history s) (k a u)"
    proof (cases "k a u")
      case (Pair r' t)
      show ?thesis
      proof (cases r')
        case (Inr b)
        with later Pair u(2) show ?thesis by simp
      next
        case (Inl x)
        with later Pair obtain ev where "none_held t" "\<exists>e. x = Returned e"
          "history t = history u @ ev" "aborts sc rest ev" by (auto simp: outcome_Inl_iff)
        with Inl Pair u(2) show ?thesis by (auto simp: outcome_Inl_iff)
      qed
    qed
    with run Inr show ?thesis by (simp add: andThen_run_Inr)
  qed
qed

lemma performs_pk_call: "cleanup rest = [] \<Longrightarrow> performs none_held [Op q] rest (pk_call q f) none_held"
  by (auto simp: performs_def pk_call_def Let_def none_held_def split: sum.split
      intro!: exI [of _ "[Op q]"])

lemma files_blind_locks: "files_blind none_held" "files_blind (\<lambda>s. history s = h)"
  "files_blind (\<lambda>s. locked s = f)"
  by (simp_all add: files_blind_def none_held_def)

lemma performs_os_call:
  fixes m :: "(go_error, 's cert_os_scheme, 'a) comp"
  assumes blind: "\<And>I :: 's cert_os_scheme \<Rightarrow> bool. files_blind I \<Longrightarrow> keeps I m" and "cleanup rest = []"
  shows "performs none_held [Op FileOp] rest (os_call m) none_held"
  unfolding performs_def
proof (intro allI impI)
  fix s :: "'s cert_os_scheme" assume free: "none_held s"
  let ?s = "s\<lparr>history := history s @ [Op FileOp]\<rparr>"
  obtain r t where run: "m ?s = (r, t)" by fastforce
  have "none_held ?s" using free by (simp add: none_held_def)
  with keeps_run [OF blind [OF files_blind_locks(1)] run] have "none_held t" .
  moreover have "history t = history s @ [Op FileOp]"
    by (rule keeps_run [OF blind [OF files_blind_locks(2)] run]) simp
  ultimately show "outcome none_held [Op FileOp] rest (history s) (os_call m s)"
    using run assms(2) by (cases r) (auto simp: os_call_def intro!: exI [of _ "[Op FileOp]"])
qed

lemma performs_acquire: "performs none_held [Lock l] rest (acquire l) (only_held l)"
  by (auto simp: performs_def acquire_def none_held_def only_held_def)

lemma performs_release: "performs (only_held l) [Unlock l] rest (release l) none_held"
  by (auto simp: performs_def release_def none_held_def only_held_def)

lemma performs_or_unlock:
  assumes "cleanup rest = [Unlock l]"
  shows "performs (only_held l) [Op q] rest (or_unlock l (pk_call q f)) (only_held l)"
  using assms
  by (auto simp: performs_def or_unlock_def pk_call_def release_def Let_def none_held_def
      only_held_def split: sum.split intro!: exI [of _ "[Op q, Unlock l]"])

lemmas performs_atoms = performs_pk_call performs_os_call performs_acquire performs_release
  performs_or_unlock

lemma GenerateSelfSigned_performs:
  "performs none_held gen_script [] (GenerateSelfSignedCertAndKey P X c cn sans ica) none_held"
  unfolding GenerateSelfSignedCertAndKey_def gen_script_def
  by (rule performs_step performs_atoms performs_ret os_keeps | assumption | simp)+

lemma generateCAAndKey_performs:
  "performs none_held ca_script [] (generateCAAndKey P X depot cn) none_held"
  unfolding generateCAAndKey_def ca_script_def Let_def
  by (rule performs_step performs_atoms performs_ret os_keeps | assumption | simp)+

section \<open>What a successful call wrote\<close>

text \<open>
  The content of the key file and of the certificate file as a function of the authority's
  files and the number of library calls made before.
\<close>

definition issue :: "('key, 'csr, 'crt) pkix \<Rightarrow> nat \<Rightarrow> string \<Rightarrow> string \<Rightarrow> string \<Rightarrow> string list
    \<Rightarrow> bool \<Rightarrow> go_error + string \<times> string" where
  "issue X n caBytes caKeyBytes commonName sans intermediateCA =
     bindE (CreateRSAKey X n 4096) (\<lambda>key.
     bindE (ExportPrivate X key) (\<lambda>keyBytes.
     bindE (CreateCertificateSigningRequest X (n + 2) key [] [''127.0.0.1''] sans commonName) (\<lambda>csr.
     bindE (NewCertificateFromPEM X caBytes) (\<lambda>ca.
     bindE (NewKeyFromPrivateKeyPEM X caKeyBytes) (\<lambda>cakey.
     bindE (if intermediateCA
       then CreateIntermediateCertificateAuthorityWithOptions X (n + 5) ca cakey csr
              (in_one_year X (n + 5)) (1, False)
       else CreateCertificateHost X (n + 5) ca cakey csr (in_one_year X (n + 5))) (\<lambda>crt.
     bindE (Export X crt) (\<lambda>crtBytes.
     Inr (keyBytes, crtBytes))))))))"

lemma pk_call_Inr:
  "pk_call q f s = (Inr a, t) \<longleftrightarrow> f (pk_calls s) = Inr a \<and>
     t = s\<lparr>pk_calls := Suc (pk_calls s), history := history s @ [Op q]\<rparr>"
  by (auto simp: pk_call_def Let_def split: sum.splits)

lemma or_unlock_Inr: "or_unlock l m s = (Inr a, t) \<longleftrightarrow> m s = (Inr a, t)"
  by (auto simp: or_unlock_def split: sum.splits prod.splits)

lemma acquire_Inr:
  "acquire l s = (Inr u, t) \<longleftrightarrow> \<not> locked s l \<and>
     t = s\<lparr>locked := (locked s)(l := True), history := history s @ [Lock l]\<rparr>"
  by (auto simp: acquire_def)

lemma release_Inr:
  "release l s = (Inr u, t) \<longleftrightarrow> locked s l \<and>
     t = s\<lparr>locked := (locked s)(l := False), history := history s @ [Unlock l]\<rparr>"
  by (auto simp: release_def)

lemma os_call_Inr: "os_call m s = (Inr a, t) \<longleftrightarrow> m (s\<lparr>history := history s @ [Op FileOp]\<rparr>) = (Inr a, t)"
  by (auto simp: os_call_def split: sum.splits prod.splits)

lemmas cert_Inr = pk_call_Inr or_unlock_Inr acquire_Inr release_Inr os_call_Inr

lemma files_blind_pk: "files_blind (\<lambda>s. pk_calls s = n)"
  by (simp add: files_blind_def)

lemma ReadFile_pk: "ReadFile P name s = (r, t) \<Longrightarrow> pk_calls t = pk_calls s"
  using keeps_run [OF keeps_ReadFile [OF files_blind_pk]] by blast

text \<open>The two files at the end of the function.\<close>

definition write_pair :: "platform \<Rightarrow> string \<Rightarrow> string \<Rightarrow> string \<Rightarrow> string
    \<Rightarrow> (stop, 's cert_os_scheme, string \<times> string) comp" where
  "write_pair P dir cn keyBytes crtBytes =
     andThen (os_call (CreateTemp P dir cn)) (\<lambda>keyFile.
     andThen (os_call (WriteFile P keyFile keyBytes 429)) (\<lambda>_.
     andThen (os_call (CreateTemp P dir cn)) (\<lambda>crtFile.
     andThen (os_call (WriteFile P crtFile crtBytes 429)) (\<lambda>_.
     ret (keyFile, crtFile)))))"

lemma temp_written:
  assumes "CreateTemp P d cn s = (Inr n, u)" and "fs v = fs u" and "WriteFile P n b m v = (Inr w, t)"
  shows "fs s n = None" and "fs t = (fs s)(n \<mapsto> File 384 b)"
proof -
  note new = CreateTemp_Inr [OF assms(1)]
  show "fs s n = None" by (rule new)
  have "fs v n = Some (File 384 [])" using new(2) assms(2) by simp
  from WriteFile_File [OF assms(3) this] new(2) assms(2)
  show "fs t = (fs s)(n \<mapsto> File 384 b)" by simp
qed

lemma write_pair_Inr:
  assumes "write_pair P dir cn kb cb s = (Inr (k, c), t)"
  shows "fs s k = None" and "fs s c = None" and "k \<noteq> c"
    and "fs t = (fs s)(k \<mapsto> File 384 kb, c \<mapsto> File 384 cb)"
proof -
  from assms obtain u1 u2 u3 where
    key: "CreateTemp P dir cn (s\<lparr>history := history s @ [Op FileOp]\<rparr>) = (Inr k, u1)"
      "WriteFile P k kb 429 (u1\<lparr>history := history u1 @ [Op FileOp]\<rparr>) = (Inr (), u2)"
    and crt: "CreateTemp P dir cn (u2\<lparr>history := history u2 @ [Op FileOp]\<rparr>) = (Inr c, u3)"
      "WriteFile P c cb 429 (u3\<lparr>history := history u3 @ [Op FileOp]\<rparr>) = (Inr (), t)"
    by (auto simp: write_pair_def andThen_Inr_iff os_call_Inr)
  from temp_written [OF key(1) _ key(2)]
  have k: "fs s k = None" "fs u2 = (fs s)(k \<mapsto> File 384 kb)" by simp_all
  from temp_written [OF crt(1) _ crt(2)]
  have c: "fs u2 c = None" "fs t = (fs u2)(c \<mapsto> File 384 cb)" by simp_all
  from k c show "fs s k = None" "fs s c = None" "k \<noteq> c"
    "fs t = (fs s)(k \<mapsto> File 384 kb, c \<mapsto> File 384 cb)"
    by (auto split: if_splits)
qed

lemma add_Suc_numerals: "n + 2 = Suc (Suc n)" "n + 5 = Suc (Suc (Suc (Suc (Suc n))))"
  by simp_all

lemma GenerateSelfSigned_Inr:
  assumes "GenerateSelfSignedCertAndKey P X c cn sans ica s = (Inr (kf, cf), t)"
  shows "\<exists>kb cb u ma cab mk cakb. write_pair P (depotDir c) cn kb cb u = (Inr (kf, cf), t) \<and> fs u = fs s
    \<and> fs s (caCert c) = Some (File ma cab) \<and> fs s (caKey c) = Some (File mk cakb)
    \<and> issue X (pk_calls s) cab cakb cn sans ica = Inr (kb, cb)"
  using assms
  apply (simp only: GenerateSelfSignedCertAndKey_def flip: write_pair_def)
  apply (cases ica; clarsimp simp: andThen_Inr_iff cert_Inr)
   apply (frule ReadFile_fs, frule ReadFile_pk, drule ReadFile_Inr)+
   apply clarsimp
   apply (intro exI conjI, assumption, simp, simp add: issue_def add_Suc_numerals)
  apply (frule ReadFile_fs, frule ReadFile_pk, drule ReadFile_Inr)+
  apply clarsimp
  apply (intro exI conjI, assumption, simp, simp add: issue_def add_Suc_numerals)
  done

text \<open>Whatever the outcome, no file that was there before is changed or removed.\<close>

lemma extends_pk_call: "keeps (extends f) (pk_call q g)"
  by (rule keepsI) (auto simp: pk_call_def Let_def extends_def split: sum.split)

lemma extends_acquire: "keeps (extends f) (acquire l)"
  by (rule keepsI) (auto simp: acquire_def extends_def)

lemma extends_release: "keeps (extends f) (release l)"
  by (rule keepsI) (auto simp: release_def extends_def)

lemma extends_or_unlock:
  assumes "keeps (extends f) m"
  shows "keeps (extends f) (or_unlock l m)"
proof (rule keepsI)
  fix s :: "'a cert_os_scheme" assume "extends f s"
  then have m: "extends f (snd (m s))" using assms by (rule keepsD [rotated])
  then have "extends f (snd (release l (snd (m s))))" by (rule keepsD [OF extends_release])
  with m show "extends f (snd (or_unlock l m s))"
    by (auto simp: or_unlock_def split: sum.split prod.split)
qed

lemma extends_os_call:
  assumes "keeps (extends f) m"
  shows "keeps (extends f) (os_call m)"
proof (rule keepsI)
  fix s :: "'a cert_os_scheme" assume "extends f s"
  then have "extends f (s\<lparr>history := history s @ [Op FileOp]\<rparr>)" by (simp add: extends_def)
  with assms have "extends f (snd (m (s\<lparr>history := history s @ [Op FileOp]\<rparr>)))" by (rule keepsD)
  then show "extends f (snd (os_call m s))"
    by (auto simp: os_call_def split: sum.split prod.split)
qed

lemma extends_write_pair: "keeps (extends f) (write_pair P dir cn kb cb)"
proof -
  have temp: "keeps (extends f) (andThen (os_call (CreateTemp P dir cn)) k)"
    if "\<And>n. f n = None \<Longrightarrow> keeps (extends f) (k n)" for k :: "string \<Rightarrow> (stop, 's cert_os_scheme, 'b) comp"
  proof (rule keeps_andThen_post)
    show "keeps (extends f) (os_call (CreateTemp P dir cn))"
      by (rule extends_os_call [OF extends_CreateTemp])
    fix s :: "'s cert_os_scheme" and n t
    assume s: "extends f s" and "os_call (CreateTemp P dir cn) s = (Inr n, t)"
    then have "fs s n = None" using CreateTemp_Inr(1) by (fastforce simp: os_call_Inr)
    from that [OF extends_fresh [OF s this]] show "keeps (extends f) (k n)" .
  qed
  show ?thesis
    unfolding write_pair_def
    by (intro temp keeps_andThen extends_os_call extends_WriteFile keeps_ret)
qed

lemma GenerateSelfSigned_extends:
  "keeps (extends f) (GenerateSelfSignedCertAndKey P X c cn sans ica)"
  unfolding GenerateSelfSignedCertAndKey_def write_pair_def [symmetric]
  by (intro keeps_andThen extends_pk_call extends_acquire extends_release extends_or_unlock
      extends_os_call extends_ReadFile extends_write_pair)

section \<open>What the authority's own files hold\<close>

definition issue_ca :: "('key, 'csr, 'crt) pkix \<Rightarrow> nat \<Rightarrow> string \<Rightarrow> go_error + string \<times> string" where
  "issue_ca X n commonName =
     bindE (CreateRSAKey X n 4096) (\<lambda>cakey.
     bindE (CreateCertificateAuthority X (Suc n) cakey [] (in_one_year X (Suc n)) commonName) (\<lambda>ca.
     bindE (CreateRSAKey X (n + 2) 4096) (\<lambda>crtKey.
     bindE (CreateCertificateSigningRequest X (n + 3) crtKey [] [] [] commonName) (\<lambda>csr.
     bindE (CreateIntermediateCertificateAuthorityWithOptions X (n + 4) ca cakey csr
              (in_one_year X (n + 4)) (1, False)) (\<lambda>crt.
     bindE (Export X crt) (\<lambda>crtBytes.
     bindE (ExportPrivate X crtKey) (\<lambda>keyBytes.
     Inr (keyBytes, crtBytes))))))))"

lemma WriteFile_Inr:
  "WriteFile P name data perm s = (Inr u, t) \<Longrightarrow> \<exists>m. fs t = (fs s)(name \<mapsto> File m data)"
  by (auto simp: WriteFile_def sys_def create_new_def Let_def
      split: option.splits sum.splits prod.splits node.splits if_splits)

lemma add_Suc_numerals_ca: "n + 3 = Suc (Suc (Suc n))" "n + 4 = Suc (Suc (Suc (Suc n)))"
  by simp_all

lemma generateCAAndKey_Inr:
  assumes "generateCAAndKey P X depot cn s = (Inr (kf, cf), t)"
  shows "\<exists>kb cb mk mc. issue_ca X (pk_calls s) cn = Inr (kb, cb)
    \<and> kf = filepath_Join P [depot, cn @ ''.key''] \<and> cf = filepath_Join P [depot, cn @ ''.crt'']
    \<and> fs t = (fs s)(kf \<mapsto> File mk kb, cf \<mapsto> File mc cb)"
  using assms
  apply (clarsimp simp: generateCAAndKey_def Let_def andThen_Inr_iff cert_Inr)
  apply (drule WriteFile_Inr)+
  apply (clarsimp simp: issue_ca_def add_Suc_numerals add_Suc_numerals_ca)
  apply blast
  done

lemma NewCertAuthority_Inr:
  assumes "NewCertAuthority P X depot cn s = (Inr c, t)"
  shows "\<exists>kb cb mk mc. issue_ca X (pk_calls s) cn = Inr (kb, cb) \<and> depotDir c = depot
    \<and> caKey c = filepath_Join P [depot, cn @ ''.key''] \<and> caCert c = filepath_Join P [depot, cn @ ''.crt'']
    \<and> fs t = (fs s)(caKey c \<mapsto> File mk kb, caCert c \<mapsto> File mc cb)"
  using assms generateCAAndKey_Inr [of P X depot cn s]
  by (fastforce simp: NewCertAuthority_def andThen_Inr_iff)

lemma ca_paths_distinct:
  assumes "\<not> windows P" and "clean_dir depot" and "plain_name (cn @ ''.key'')" and "plain_name (cn @ ''.crt'')"
  shows "filepath_Join P [depot, cn @ ''.key''] = depot @ ''/'' @ cn @ ''.key''"
    and "filepath_Join P [depot, cn @ ''.crt''] = depot @ ''/'' @ cn @ ''.crt''"
  using assms by (simp_all add: filepath_Join_def path_Join_name)

section \<open>A concrete instance\<close>

text \<open>A library whose operations all succeed and record their arguments, and an empty depot.\<close>

definition demo_pkix :: "(string, string, string) pkix" where
  "demo_pkix = \<lparr>
     CreateRSAKey = (\<lambda>n bits. Inr (''key'' @ nat_text n)),
     ExportPrivate = (\<lambda>k. Inr (''PEM '' @ k)),
     CreateCertificateSigningRequest = (\<lambda>n k org ips sans cn. Inr (''csr '' @ cn @ '' '' @ k)),
     NewCertificateFromPEM = (\<lambda>b. Inr (drop 4 b)),
     NewKeyFromPrivateKeyPEM = (\<lambda>b. Inr (drop 4 b)),
     CreateIntermediateCertificateAuthorityWithOptions =
       (\<lambda>n ca k csr exp opt. Inr (''intermediate '' @ csr @ '' by '' @ ca)),
     CreateCertificateHost = (\<lambda>n ca k csr exp. Inr (''host '' @ csr @ '' by '' @ ca)),
     CreateCertificateAuthority = (\<lambda>n k ou exp cn. Inr (''ca '' @ cn)),
     Export = (\<lambda>c. Inr (''PEM '' @ c)),
     in_one_year = (\<lambda>n. 31536000)\<rparr>"

definition demo_depot :: cert_os where
  "demo_depot = \<lparr>env = Map.empty, fs = [''/depot'' \<mapsto> Dir 493], calls = 0, ran = [],
     locked = (\<lambda>_. False), pk_calls = 0, history = []\<rparr>"

definition demo_authority :: certAuthority where
  "demo_authority = \<lparr>depotDir = ''/depot'', caCert = ''/depot/ca.crt'', caKey = ''/depot/ca.key''\<rparr>"

definition demo_ready :: cert_os where
  "demo_ready = snd (NewCertAuthority demo_platform demo_pkix ''/depot'' ''ca'' demo_depot)"

definition demo_done :: cert_os where
  "demo_done = snd (GenerateSelfSignedCertAndKey demo_platform demo_pkix demo_authority ''client''
     [''client''] False demo_ready)"

lemma demo_new: "NewCertAuthority demo_platform demo_pkix ''/depot'' ''ca'' demo_depot =
    (Inr demo_authority, demo_ready)"
proof -
  have "fst (NewCertAuthority demo_platform demo_pkix ''/depot'' ''ca'' demo_depot) = Inr demo_authority"
    by code_simp
  then show ?thesis unfolding demo_ready_def by (metis prod.collapse)
qed

lemma demo_generate: "GenerateSelfSignedCertAndKey demo_platform demo_pkix demo_authority ''client''
    [''client''] False demo_ready = (Inr (''/depot/client4'', ''/depot/client6''), demo_done)"
proof -
  have "fst (GenerateSelfSignedCertAndKey demo_platform demo_pkix demo_authority ''client''
    [''client''] False demo_ready) = Inr (''/depot/client4'', ''/depot/client6'')"
    by code_simp
  then show ?thesis unfolding demo_done_def by (metis prod.collapse)
qed

lemma demo_free: "none_held demo_depot" "none_held demo_ready"
proof -
  show "none_held demo_depot" by (simp add: none_held_def demo_depot_def)
  then show "none_held demo_ready"
    using performsD [OF generateCAAndKey_performs, of demo_depot demo_platform demo_pkix "''/depot''" "''ca''"]
      demo_new by (auto simp: NewCertAuthority_def andThen_Inr_iff)
qed

section \<open>Properties\<close>

text \<open>
  Property C14. A call of \<open>GenerateSelfSignedCertAndKey\<close> that starts with both mutexes free
  never waits for a mutex and never unlocks a free one, on any path, error returns
  included; when it returns both mutexes are free again. Its lock and library events are
  those of \<open>gen_script\<close>, cut after the operation that failed, if any, and completed by the
  unlocking of the mutex held there.
\<close>

theorem generate_lock_discipline:
  assumes "none_held s"
  shows "case GenerateSelfSignedCertAndKey P X c cn sans ica s of
      (Inr (kf, cf), t) \<Rightarrow> none_held t \<and> history t = history s @ gen_script
    | (Inl (Returned e), t) \<Rightarrow> none_held t \<and>
        (\<exists>ev. history t = history s @ ev \<and> aborts gen_script [] ev)
    | (Inl (Blocked l), t) \<Rightarrow> False
    | (Inl (UnlockOfUnlocked l), t) \<Rightarrow> False"
  using performsD [OF GenerateSelfSigned_performs assms, of P X c cn sans ica]
  by (auto split: sum.split prod.split stop.split)

theorem generate_lock_discipline_witness:
  "none_held demo_ready \<and> none_held demo_done \<and> history demo_done = history demo_ready @ gen_script"
  using generate_lock_discipline [OF demo_free(2), of demo_platform demo_pkix demo_authority
      "''client''" "[''client'']" False] demo_free(2)
  by (simp add: demo_generate)

text \<open>
  The same discipline for \<open>generateCAAndKey\<close>, which makes the root certificate,
  the second key, the request and the intermediate certificate under \<open>caLock\<close>.
\<close>

theorem generate_ca_lock_discipline:
  assumes "none_held s"
  shows "case generateCAAndKey P X depot cn s of
      (Inr (kf, cf), t) \<Rightarrow> none_held t \<and> history t = history s @ ca_script
    | (Inl (Returned e), t) \<Rightarrow> none_held t \<and>
        (\<exists>ev. history t = history s @ ev \<and> aborts ca_script [] ev)
    | (Inl (Blocked l), t) \<Rightarrow> False
    | (Inl (UnlockOfUnlocked l), t) \<Rightarrow> False"
  using performsD [OF generateCAAndKey_performs assms, of P X depot cn]
  by (auto split: sum.split prod.split stop.split)

theorem generate_ca_lock_discipline_witness:
  "none_held demo_depot \<and> (case generateCAAndKey demo_platform demo_pkix ''/depot'' ''ca'' demo_depot of
      (Inr (kf, cf), t) \<Rightarrow> none_held t \<and> history t = history demo_depot @ ca_script
    | (Inl (Returned e), t) \<Rightarrow> none_held t \<and>
        (\<exists>ev. history t = history demo_depot @ ev \<and> aborts ca_script [] ev)
    | (Inl (Blocked l), t) \<Rightarrow> False
    | (Inl (UnlockOfUnlocked l), t) \<Rightarrow> False)"
  by (intro conjI demo_free(1) generate_ca_lock_discipline)

text \<open>
  Whether \<open>GenerateSelfSignedCertAndKey\<close> succeeds or returns an error, every file
  and directory that existed before the call is as it was: the key and the certificate go
  to fresh temporary files only.
\<close>

theorem generate_keeps_files:
  "fs s \<subseteq>\<^sub>m fs (snd (GenerateSelfSignedCertAndKey P X c cn sans ica s))"
  using keepsD [OF GenerateSelfSigned_extends extends_refl] by (simp add: extends_def)

text \<open>
  Property C23. After \<open>NewCertAuthority\<close> succeeded in a depot, a successful
  \<open>GenerateSelfSignedCertAndKey\<close> on its result signs with the very certificate and key that
  were exported for the authority, and leaves two new files, distinct from each other: one
  with the exported private key, one with the certificate signed for that key's request,
  both with the mode 0600 of the temporary files.
\<close>

theorem authority_issues:
  assumes new: "NewCertAuthority P X depot ca s0 = (Inr c, s)"
    and gen: "GenerateSelfSignedCertAndKey P X c cn sans ica s = (Inr (kf, cf), t)"
    and names: "\<not> windows P" "clean_dir depot" "plain_name (ca @ ''.key'')" "plain_name (ca @ ''.crt'')"
  shows "\<exists>caKeyBytes caBytes keyBytes crtBytes.
      issue_ca X (pk_calls s0) ca = Inr (caKeyBytes, caBytes)
    \<and> issue X (pk_calls s) caBytes caKeyBytes cn sans ica = Inr (keyBytes, crtBytes)
    \<and> fs s kf = None \<and> fs s cf = None \<and> kf \<noteq> cf
    \<and> fs t = (fs s)(kf \<mapsto> File 384 keyBytes, cf \<mapsto> File 384 crtBytes)"
proof -
  from NewCertAuthority_Inr [OF new] obtain kb cb mk mc where
    ca: "issue_ca X (pk_calls s0) ca = Inr (kb, cb)"
      "caKey c = filepath_Join P [depot, ca @ ''.key'']" "caCert c = filepath_Join P [depot, ca @ ''.crt'']"
      "fs s = (fs s0)(caKey c \<mapsto> File mk kb, caCert c \<mapsto> File mc cb)"
    by blast
  then have read: "fs s (caKey c) = Some (File mk kb)" "fs s (caCert c) = Some (File mc cb)"
    by (simp_all add: ca_paths_distinct names)
  from GenerateSelfSigned_Inr [OF gen] read obtain keyBytes crtBytes u where
    issued: "issue X (pk_calls s) cb kb cn sans ica = Inr (keyBytes, crtBytes)"
    and written: "write_pair P (depotDir c) cn keyBytes crtBytes u = (Inr (kf, cf), t)" "fs u = fs s"
    by auto
  show ?thesis
    using ca(1) issued write_pair_Inr [OF written(1)] written(2) by auto
qed

theorem authority_issues_witness:
  "\<exists>caKeyBytes caBytes keyBytes crtBytes.
      issue_ca demo_pkix (pk_calls demo_depot) ''ca'' = Inr (caKeyBytes, caBytes)
    \<and> issue demo_pkix (pk_calls demo_ready) caBytes caKeyBytes ''client'' [''client''] False =
        Inr (keyBytes, crtBytes)
    \<and> fs demo_ready ''/depot/client4'' = None \<and> fs demo_ready ''/depot/client6'' = None
    \<and> ''/depot/client4'' \<noteq> ''/depot/client6''
    \<and> fs demo_done = (fs demo_ready)(''/depot/client4'' \<mapsto> File 384 keyBytes,
        ''/depot/client6'' \<mapsto> File 384 crtBytes)"
proof -
  have "\<not> windows demo_platform" "clean_dir ''/depot''" "plain_name (''ca'' @ ''.key'')"
    "plain_name (''ca'' @ ''.crt'')" by code_simp+
  then show ?thesis by (rule authority_issues [OF demo_new demo_generate])
qed

end
