(* ===== verification/Cert_Locks.thy ===== *)
theory Cert_Locks
  imports Cert_Authority
begin

text \<open>
  Concurrent callers of \<open>helpers/certauthority/certauthority.go\<close>. Each thread runs the events
  of one call (the scripts of \<open>Cert_Authority\<close>, which the sequential functions are shown to
  follow), one event at a time; acquiring a mutex waits until it is free, a library call
  has a beginning and an end between which other threads run, and a call that fails
  continues with the clean-up of its script.

  The mutexes are to keep the operations of \<open>pkix\<close> that are not thread-safe apart. Shown
  here: the signing operations under \<open>caLock\<close> never overlap, a mutex is held exactly by the
  thread that is between its lock and unlock, no reachable state is stuck, and the
  creation of certificate requests can overlap, because \<open>generateCAAndKey\<close> makes its
  request without \<open>csrLock\<close>.
\<close>

section \<open>The system of threads\<close>

record threads =
  todo :: "nat \<Rightarrow> event list"
  running :: "nat \<Rightarrow> pkop option"
  owner :: "lock \<Rightarrow> nat option"

inductive cstep :: "threads \<Rightarrow> threads \<Rightarrow> bool" where
  acquire: "running s i = None \<Longrightarrow> todo s i = Lock l # r \<Longrightarrow> owner s l = None \<Longrightarrow>
    cstep s (s\<lparr>todo := (todo s)(i := r), owner := (owner s)(l := Some i)\<rparr>)"
| release: "running s i = None \<Longrightarrow> todo s i = Unlock l # r \<Longrightarrow>
    cstep s (s\<lparr>todo := (todo s)(i := r), owner := (owner s)(l := None)\<rparr>)"
| start: "running s i = None \<Longrightarrow> todo s i = Op q # r \<Longrightarrow>
    cstep s (s\<lparr>running := (running s)(i := Some q)\<rparr>)"
| finish: "running s i = Some q \<Longrightarrow> todo s i = Op q # r \<Longrightarrow>
    cstep s (s\<lparr>todo := (todo s)(i := r), running := (running s)(i := None)\<rparr>)"
| failed: "running s i = Some q \<Longrightarrow> todo s i = Op q # r \<Longrightarrow>
    cstep s (s\<lparr>todo := (todo s)(i := cleanup r), running := (running s)(i := None)\<rparr>)"

inductive_cases cstepE: "cstep s t"

text \<open>Any number of threads, each idle or about to make one call.\<close>

definition initial :: "(nat \<Rightarrow> event list) \<Rightarrow> threads" where
  "initial scripts = \<lparr>todo = scripts, running = (\<lambda>_. None), owner = (\<lambda>_. None)\<rparr>"

definition calls_of :: "(nat \<Rightarrow> event list) \<Rightarrow> bool" where
  "calls_of scripts \<longleftrightarrow> (\<forall>i. scripts i \<in> {[], gen_script, ca_script})"

inductive reachable :: "threads \<Rightarrow> bool" where
  init: "calls_of scripts \<Longrightarrow> reachable (initial scripts)"
| step: "reachable s \<Longrightarrow> cstep s t \<Longrightarrow> reachable t"

section \<open>The invariant\<close>

text \<open>The mutex a thread holds, read from what it still has to do.\<close>

fun held :: "event list \<Rightarrow> lock option" where
  "held [] = None"
| "held (Unlock l # r) = Some l"
| "held (Lock l # r) = None"
| "held (Op q # r) = held r"

text \<open>
  Locks and unlocks alternate on the same mutex, and the signing operations stand between
  the lock and the unlock of \<open>caLock\<close>.
\<close>

fun signing :: "pkop \<Rightarrow> bool" where
  "signing SignOp = True"
| "signing CreateCAOp = True"
| "signing _ = False"

fun well_locked :: "event list \<Rightarrow> bool" where
  "well_locked [] = True"
| "well_locked (Lock l # r) = (held r = Some l \<and> well_locked r)"
| "well_locked (Unlock l # r) = (held r = None \<and> well_locked r)"
| "well_locked (Op q # r) = ((signing q \<longrightarrow> held r = Some CaLock) \<and> well_locked r)"

definition sys_inv :: "threads \<Rightarrow> bool" where
  "sys_inv s \<longleftrightarrow> (\<forall>i. well_locked (todo s i))
     \<and> (\<forall>i l. owner s l = Some i \<longleftrightarrow> held (todo s i) = Some l)
     \<and> (\<forall>i q. running s i = Some q \<longrightarrow> (\<exists>r. todo s i = Op q # r))"

lemma held_cleanup: "held (cleanup r) = held r"
  by (induction r rule: cleanup.induct) auto

lemma well_locked_cleanup: "well_locked (cleanup r)"
  by (induction r rule: cleanup.induct) auto

lemma scripts_well_locked: "well_locked gen_script" "well_locked ca_script" "held gen_script = None" "held ca_script = None"
  by (simp_all add: gen_script_def ca_script_def)

lemma sys_inv_init: "calls_of scripts \<Longrightarrow> sys_inv (initial scripts)"
  unfolding sys_inv_def initial_def calls_of_def
  using scripts_well_locked by (auto simp: all_conj_distrib) (metis held.simps(1) option.distinct(1) well_locked.simps(1))+

lemma sys_inv_step:
  assumes "cstep s t" and "sys_inv s"
  shows "sys_inv t"
  using assms
proof (induction rule: cstep.induct)
  case (acquire s i l r)
  then have "well_locked (Lock l # r)" by (metis sys_inv_def)
  with acquire show ?case by (auto simp: sys_inv_def) (metis option.distinct(1))
next
  case (release s i l r)
  then have wl: "well_locked (Unlock l # r)" and own: "owner s l = Some i"
    by (metis held.simps(2) sys_inv_def)+
  have "owner s l = Some j \<longleftrightarrow> held (todo s j) = Some l" for j
    using release.prems unfolding sys_inv_def by blast
  with own have only: "held (todo s j) = Some l \<Longrightarrow> j = i" for j
    by (metis option.inject)
  from wl release own show ?case
    by (auto simp: sys_inv_def dest: only)
next
  case (start s i q r)
  then show ?case by (auto simp: sys_inv_def)
next
  case (finish s i q r)
  then have "well_locked (Op q # r)" by (metis sys_inv_def)
  with finish show ?case by (auto simp: sys_inv_def)
next
  case (failed s i q r)
  then show ?case by (auto simp: sys_inv_def held_cleanup well_locked_cleanup)
qed

lemma reachable_inv: "reachable s \<Longrightarrow> sys_inv s"
  by (induction rule: reachable.induct) (auto intro: sys_inv_init sys_inv_step)

lemma running_held:
  assumes "sys_inv s" and "running s i = Some q" and "signing q"
  shows "owner s CaLock = Some i"
proof -
  from assms obtain r where r: "todo s i = Op q # r" "well_locked (todo s i)"
    unfolding sys_inv_def by metis
  with assms(3) have "held (todo s i) = Some CaLock" by simp
  with assms(1) show ?thesis by (simp add: sys_inv_def)
qed

section \<open>No reachable state is stuck\<close>

text \<open>A thread that holds a mutex can always move: its next lock event is the unlock.\<close>

lemma can_move:
  assumes "sys_inv s" and "todo s i \<noteq> []" and "\<And>l r. todo s i = Lock l # r \<Longrightarrow> owner s l = None"
  shows "\<exists>t. cstep s t"
proof (cases "running s i")
  case (Some q)
  with assms(1) obtain r where "todo s i = Op q # r" unfolding sys_inv_def by blast
  with Some show ?thesis by (blast intro: cstep.finish)
next
  case None
  show ?thesis
  proof (cases "todo s i")
    case Nil
    with assms(2) show ?thesis by simp
  next
    case (Cons e r)
    with None assms(3) show ?thesis
      by (cases e) (blast intro: cstep.acquire cstep.release cstep.start)+
  qed
qed

lemma not_stuck:
  assumes "sys_inv s" and "todo s i \<noteq> []"
  shows "\<exists>t. cstep s t"
proof (cases "\<exists>l r j. todo s i = Lock l # r \<and> owner s l = Some j")
  case False
  with assms show ?thesis by (intro can_move [of s i]) auto
next
  case True
  then obtain l j where "owner s l = Some j" by blast
  with assms(1) have j: "held (todo s j) = Some l" by (simp add: sys_inv_def)
  with assms(1) show ?thesis
    by (intro can_move [of s j]) auto
qed

section \<open>Schedules\<close>

text \<open>The steps as a function of the choice of the scheduler, to run concrete schedules.\<close>

datatype choice = Move nat | Return nat | Fail nat

fun obey :: "choice \<Rightarrow> threads \<Rightarrow> threads option" where
  "obey (Move i) s =
     (if running s i \<noteq> None then None
      else case todo s i of
             [] \<Rightarrow> None
           | Lock l # r \<Rightarrow>
               (if owner s l = None
                then Some (s\<lparr>todo := (todo s)(i := r), owner := (owner s)(l := Some i)\<rparr>) else None)
           | Unlock l # r \<Rightarrow> Some (s\<lparr>todo := (todo s)(i := r), owner := (owner s)(l := None)\<rparr>)
           | Op q # r \<Rightarrow> Some (s\<lparr>running := (running s)(i := Some q)\<rparr>))"
| "obey (Return i) s =
     (case (running s i, todo s i) of
        (Some q, Op q' # r) \<Rightarrow>
          (if q' = q then Some (s\<lparr>todo := (todo s)(i := r), running := (running s)(i := None)\<rparr>) else None)
      | _ \<Rightarrow> None)"
| "obey (Fail i) s =
     (case (running s i, todo s i) of
        (Some q, Op q' # r) \<Rightarrow>
          (if q' = q then Some (s\<lparr>todo := (todo s)(i := cleanup r), running := (running s)(i := None)\<rparr>)
           else None)
      | _ \<Rightarrow> None)"

fun run_schedule :: "choice list \<Rightarrow> threads \<Rightarrow> threads option" where
  "run_schedule [] s = Some s"
| "run_schedule (c # cs) s = (case obey c s of None \<Rightarrow> None | Some t \<Rightarrow> run_schedule cs t)"

lemma obey_sound: "obey c s = Some t \<Longrightarrow> cstep s t"
proof (cases c)
  case (Move i)
  assume "obey c s = Some t"
  with Move show ?thesis
    by (auto split: if_splits list.splits event.splits intro: cstep.intros)
next
  case (Return i)
  assume "obey c s = Some t"
  with Return show ?thesis
    by (auto split: if_splits list.splits event.splits option.splits intro: cstep.intros)
next
  case (Fail i)
  assume "obey c s = Some t"
  with Fail show ?thesis
    by (auto split: if_splits list.splits event.splits option.splits intro: cstep.intros)
qed

lemma obey_complete: "cstep s t \<Longrightarrow> \<exists>c. obey c s = Some t"
proof (induction rule: cstep.induct)
  case (acquire s i l r)
  then show ?case by (intro exI [of _ "Move i"]) simp
next
  case (release s i l r)
  then show ?case by (intro exI [of _ "Move i"]) simp
next
  case (start s i q r)
  then show ?case by (intro exI [of _ "Move i"]) simp
next
  case (finish s i q r)
  then show ?case by (intro exI [of _ "Return i"]) simp
next
  case (failed s i q r)
  then show ?case by (intro exI [of _ "Fail i"]) simp
qed

lemma run_schedule_reachable: "run_schedule cs s = Some t \<Longrightarrow> reachable s \<Longrightarrow> reachable t"
proof (induction cs arbitrary: s)
  case Nil
  then show ?case by simp
next
  case (Cons c cs)
  then obtain u where u: "obey c s = Some u" "run_schedule cs u = Some t"
    by (auto simp del: obey.simps split: option.splits)
  with Cons show ?case by (blast intro: reachable.step obey_sound)
qed

text \<open>Thread 0 issues a certificate while thread 1 makes an authority.\<close>

definition two_calls :: threads where
  "two_calls = initial ((\<lambda>_. [])(0 := gen_script, 1 := ca_script))"

lemma two_calls_reachable: "reachable two_calls"
  unfolding two_calls_def by (rule reachable.init) (simp add: calls_of_def)

definition overlap_schedule :: "choice list" where
  "overlap_schedule = [Move 0, Return 0, Move 0, Return 0, Move 0, Move 0,
     Move 1, Return 1, Move 1, Move 1, Return 1, Move 1, Return 1, Move 1]"

definition overlap_state :: threads where
  "overlap_state = the (run_schedule overlap_schedule two_calls)"

lemma overlap_run: "run_schedule overlap_schedule two_calls = Some overlap_state"
proof -
  have "run_schedule overlap_schedule two_calls \<noteq> None" by code_simp
  then show ?thesis by (auto simp: overlap_state_def)
qed

lemma overlap_reachable: "reachable overlap_state"
  by (rule run_schedule_reachable [OF overlap_run two_calls_reachable])

section \<open>Every schedule ends\<close>

text \<open>What a thread has left to do: an operation counts two, one when it has begun.\<close>

definition work :: "threads \<Rightarrow> nat \<Rightarrow> nat" where
  "work s i = 2 * length (todo s i) - (if running s i = None then 0 else 1)"

lemma length_cleanup: "length (cleanup r) \<le> length r"
  by (induction r rule: cleanup.induct) auto

lemma cstep_works:
  assumes "cstep s t"
  shows "\<exists>i. todo s i \<noteq> [] \<and> work t i < work s i \<and> (\<forall>j. j \<noteq> i \<longrightarrow> work t j = work s j \<and> todo t j = todo s j)"
  using assms
proof (induction rule: cstep.induct)
  case (failed s i q r)
  with length_cleanup [of r] show ?case by (intro exI [of _ i]) (simp add: work_def)
next
  case (acquire s i l r)
  then show ?case by (intro exI [of _ i]) (simp add: work_def)
next
  case (release s i l r)
  then show ?case by (intro exI [of _ i]) (simp add: work_def)
next
  case (start s i q r)
  then show ?case by (intro exI [of _ i]) (simp add: work_def)
next
  case (finish s i q r)
  then show ?case by (intro exI [of _ i]) (simp add: work_def)
qed

lemma cstep_less_work:
  assumes "cstep s t" and "\<forall>i \<ge> n. todo s i = []"
  shows "sum (work t) {..<n} < sum (work s) {..<n}" and "\<forall>i \<ge> n. todo t i = []"
proof -
  from cstep_works [OF assms(1)] obtain i where i: "todo s i \<noteq> []" "work t i < work s i"
    "\<And>j. j \<noteq> i \<Longrightarrow> work t j = work s j" "\<And>j. j \<noteq> i \<Longrightarrow> todo t j = todo s j" by blast
  from i(1) assms(2) have n: "i < n" by (meson not_le)
  have "work t j \<le> work s j" for j using i(2) i(3) [of j] by (cases "j = i") auto
  then show "sum (work t) {..<n} < sum (work s) {..<n}"
    using n i(2) by (intro sum_strict_mono_ex1) auto
  show "\<forall>i \<ge> n. todo t i = []" using i(4) n assms(2) by (metis not_le)
qed

lemma csteps_bounded:
  assumes "(cstep ^^ k) s t" and "\<forall>i \<ge> n. todo s i = []"
  shows "k + sum (work t) {..<n} \<le> sum (work s) {..<n} \<and> (\<forall>i \<ge> n. todo t i = [])"
  using assms
proof (induction k arbitrary: t)
  case 0
  then show ?case by simp
next
  case (Suc k)
  from Suc.prems(1) obtain u where u: "(cstep ^^ k) s u" "cstep u t" by auto
  note IH = Suc.IH [OF u(1) Suc.prems(2)]
  from cstep_less_work [OF u(2) conjunct2 [OF IH]] IH show ?case by simp
qed

lemma csteps_reachable: "(cstep ^^ k) s t \<Longrightarrow> reachable s \<Longrightarrow> reachable t"
  by (induction k arbitrary: t) (auto intro: reachable.step)

lemma script_work: "calls_of scripts \<Longrightarrow> work (initial scripts) i \<le> 34"
  by (auto simp: calls_of_def work_def initial_def gen_script_def ca_script_def dest: spec [of _ i])

lemma run_schedule_steps: "run_schedule cs s = Some t \<Longrightarrow> (cstep ^^ length cs) s t"
proof (induction cs arbitrary: s)
  case Nil
  then show ?case by simp
next
  case (Cons c cs)
  then obtain u where "obey c s = Some u" "run_schedule cs u = Some t"
    by (auto simp del: obey.simps split: option.splits)
  with Cons.IH have "cstep s u" "(cstep ^^ length cs) u t" by (blast intro: obey_sound)+
  then show ?case unfolding length_Cons by (rule relpowp_Suc_I2)
qed

text \<open>Both calls fail at once: the first operation of each is not followed by a clean-up.\<close>

definition failing_schedule :: "choice list" where
  "failing_schedule = [Move 0, Move 1, Fail 1, Fail 0]"

section \<open>Properties\<close>

text \<open>
  Property C16. In every reachable state of any number of concurrent calls, at most one
  thread is inside an operation that creates a certificate (\<open>CreateCertificateAuthority\<close>,
  \<open>CreateIntermediateCertificateAuthorityWithOptions\<close>, \<open>CreateCertificateHost\<close>), and that
  thread owns \<open>caLock\<close>.
\<close>

theorem signing_exclusive:
  assumes "reachable s" and "running s i = Some p" and "signing p"
    and "running s j = Some q" and "signing q"
  shows "i = j \<and> owner s CaLock = Some i"
proof -
  note inv = reachable_inv [OF assms(1)]
  from running_held [OF inv assms(2,3)] running_held [OF inv assms(4,5)] show ?thesis by simp
qed

definition signing_schedule :: "choice list" where
  "signing_schedule = [Move 1, Return 1, Move 1, Move 1]"

theorem signing_exclusive_witness:
  "\<exists>s. reachable s \<and> running s 1 = Some CreateCAOp \<and> owner s CaLock = Some 1"
proof -
  let ?s = "the (run_schedule signing_schedule two_calls)"
  have "run_schedule signing_schedule two_calls \<noteq> None" by code_simp
  then have r: "reachable ?s" using run_schedule_reachable two_calls_reachable by fastforce
  have c: "running ?s 1 = Some CreateCAOp" by code_simp
  have "1 = (1::nat) \<and> owner ?s CaLock = Some 1"
    by (rule signing_exclusive [OF r c _ c]) simp_all
  with r c show ?thesis by blast
qed

text \<open>
  Concurrent calls never deadlock: in every reachable state in which some
  thread has not finished its call, some thread can take a step.
\<close>

theorem callers_not_stuck:
  assumes "reachable s" and "todo s i \<noteq> []"
  shows "\<exists>t. cstep s t"
  by (rule not_stuck [OF reachable_inv [OF assms(1)] assms(2)])

theorem callers_not_stuck_witness: "\<exists>t. cstep two_calls t"
proof -
  have "todo two_calls 0 \<noteq> []" by code_simp
  then show ?thesis by (rule callers_not_stuck [OF two_calls_reachable])
qed

text \<open>
  Property C15. Whatever the scheduler does and whichever library calls fail, \<open>n\<close> concurrent
  calls are over after at most \<open>34 * n\<close> steps: a run can only stop when every call has
  returned, and then both mutexes are free.
\<close>

theorem callers_finish:
  assumes "calls_of scripts" and "\<forall>i \<ge> n. scripts i = []" and "(cstep ^^ k) (initial scripts) t"
  shows "k \<le> 34 * n
    \<and> ((\<nexists>u. cstep t u) \<longrightarrow> (\<forall>i. todo t i = [] \<and> running t i = None) \<and> owner t = (\<lambda>_. None))"
proof -
  have "\<forall>i \<ge> n. todo (initial scripts) i = []" using assms(2) by (simp add: initial_def)
  from csteps_bounded [OF assms(3) this] have "k \<le> sum (work (initial scripts)) {..<n}" by simp
  also have "\<dots> \<le> 34 * n" using sum_bounded_above [of "{..<n}" "work (initial scripts)" 34] script_work [OF assms(1)] by simp
  finally have "k \<le> 34 * n" .
  moreover note inv = reachable_inv [OF csteps_reachable [OF assms(3) reachable.init [OF assms(1)]]]
  have "(\<forall>i. todo t i = [] \<and> running t i = None) \<and> owner t = (\<lambda>_. None)" if stop: "\<nexists>u. cstep t u"
  proof -
    from not_stuck [OF inv] stop have none: "todo t i = []" for i by blast
    with inv have "running t i = None" for i unfolding sys_inv_def by (metis list.distinct(1) not_None_eq)
    moreover have "owner t l = None" for l using inv none by (cases "owner t l") (auto simp: sys_inv_def)
    ultimately show ?thesis using none by blast
  qed
  ultimately show ?thesis by blast
qed

theorem callers_finish_witness:
  "\<exists>t. (cstep ^^ 4) two_calls t \<and> (\<forall>i. todo t i = []) \<and> owner t = (\<lambda>_. None)"
proof -
  let ?t = "the (run_schedule failing_schedule two_calls)"
  have "run_schedule failing_schedule two_calls \<noteq> None" by code_simp
  then have "(cstep ^^ length failing_schedule) two_calls ?t" by (intro run_schedule_steps) auto
  moreover have "length failing_schedule = 4" by (simp add: failing_schedule_def)
  ultimately have steps: "(cstep ^^ 4) two_calls ?t" by metis
  have "calls_of ((\<lambda>_. [])(0 := gen_script, 1 := ca_script))" "\<forall>i \<ge> (2 :: nat). ((\<lambda>_. [])(0 := gen_script, 1 := ca_script)) i = []"
    by (simp_all add: calls_of_def)
  from callers_finish [OF this steps [unfolded two_calls_def]]
  have "(\<nexists>u. cstep ?t u) \<longrightarrow> (\<forall>i. todo ?t i = []) \<and> owner ?t = (\<lambda>_. None)" by (simp add: two_calls_def)
  moreover have "todo ?t = (\<lambda>_. [])" 
    by (simp add: failing_schedule_def two_calls_def initial_def gen_script_def ca_script_def fun_eq_iff)
  then have "\<nexists>u. cstep ?t u" by (auto elim!: cstepE)
  ultimately show ?thesis using steps by blast
qed

text \<open>
  Property C30. The two mutexes do not keep the creation of certificate requests apart:
  a schedule of one \<open>GenerateSelfSignedCertAndKey\<close> and one \<open>NewCertAuthority\<close> leads to a state
  in which both threads are inside \<open>CreateCertificateSigningRequest\<close>, one holding \<open>csrLock\<close>
  and the other \<open>caLock\<close>.
\<close>

theorem csr_overlap:
  "reachable overlap_state \<and> running overlap_state 0 = Some CSROp \<and> running overlap_state 1 = Some CSROp
     \<and> owner overlap_state CsrLock = Some 0 \<and> owner overlap_state CaLock = Some 1"
proof -
  have "running overlap_state 0 = Some CSROp" "running overlap_state 1 = Some CSROp"
    "owner overlap_state CsrLock = Some 0" "owner overlap_state CaLock = Some 1"
    by code_simp+
  with overlap_reachable show ?thesis by simp
qed

end
