(* ===== verification/Checksum.thy ===== *)
theory Checksum
  imports Go_Strings "HOL-Library.Word" "HOL-Library.Char_ord"
begin

unbundle bit_operations_syntax

text \<open>
  The checksums of \<open>helpers/checksum.go\<close>. \<open>getHash\<close> chooses one of three hashes of the standard
  library by its name; the hashes are written out here (MD5 of RFC 1321, SHA-1 and SHA-256
  of FIPS 180-4) on 32-bit words, so that \<open>HexValueForByteArray\<close> computes what the Go function
  returns. A byte string is a \<open>string\<close>, whose characters are its bytes.
\<close>

section \<open>Words and bytes\<close>

definition byte :: "char \<Rightarrow> 8 word" where
  "byte c = word_of_nat (of_char c)"

definition rol :: "nat \<Rightarrow> 32 word \<Rightarrow> 32 word" where
  "rol n x = push_bit n x OR drop_bit (32 - n) x"

definition ror :: "nat \<Rightarrow> 32 word \<Rightarrow> 32 word" where
  "ror n x = drop_bit n x OR push_bit (32 - n) x"

definition bytes_be :: "nat \<Rightarrow> 'a::len word \<Rightarrow> 8 word list" where
  "bytes_be n x = map (\<lambda>i. ucast (drop_bit (8 * i) x)) (rev [0 ..< n])"

definition bytes_le :: "nat \<Rightarrow> 'a::len word \<Rightarrow> 8 word list" where
  "bytes_le n x = map (\<lambda>i. ucast (drop_bit (8 * i) x)) [0 ..< n]"

fun words_be :: "8 word list \<Rightarrow> 32 word list" where
  "words_be (a # b # c # d # r) =
     (push_bit 24 (ucast a) OR push_bit 16 (ucast b) OR push_bit 8 (ucast c) OR ucast d) # words_be r"
| "words_be _ = []"

fun words_le :: "8 word list \<Rightarrow> 32 word list" where
  "words_le (a # b # c # d # r) =
     (ucast a OR push_bit 8 (ucast b) OR push_bit 16 (ucast c) OR push_bit 24 (ucast d)) # words_le r"
| "words_le _ = []"

text \<open>A bit 1, zeros up to 56 bytes modulo 64, and the length in bits as 64 bits.\<close>

definition pad :: "(64 word \<Rightarrow> 8 word list) \<Rightarrow> 8 word list \<Rightarrow> 8 word list" where
  "pad len_bytes m = m @ 128 # replicate ((55 + 64 - length m mod 64) mod 64) 0
     @ len_bytes (word_of_nat (8 * length m))"

function blocks :: "8 word list \<Rightarrow> 8 word list list" where
  "blocks m = (if length m < 64 then [] else take 64 m # blocks (drop 64 m))"
  by pat_completeness auto
termination
  by (relation "measure length") auto

declare blocks.simps [simp del]

section \<open>MD5\<close>

type_synonym quad = "32 word \<times> 32 word \<times> 32 word \<times> 32 word"

definition md5_sines :: "32 word list" where
  "md5_sines =
    [3614090360, 3905402710, 606105819, 3250441966, 4118548399, 1200080426,
     2821735955, 4249261313, 1770035416, 2336552879, 4294925233, 2304563134,
     1804603682, 4254626195, 2792965006, 1236535329, 4129170786, 3225465664,
     643717713, 3921069994, 3593408605, 38016083, 3634488961, 3889429448,
     568446438, 3275163606, 4107603335, 1163531501, 2850285829, 4243563512,
     1735328473, 2368359562, 4294588738, 2272392833, 1839030562, 4259657740,
     2763975236, 1272893353, 4139469664, 3200236656, 681279174, 3936430074,
     3572445317, 76029189, 3654602809, 3873151461, 530742520, 3299628645,
     4096336452, 1126891415, 2878612391, 4237533241, 1700485571, 2399980690,
     4293915773, 2240044497, 1873313359, 4264355552, 2734768916, 1309151649,
     4149444226, 3174756917, 718787259, 3951481745]"

definition md5_shifts :: "nat list" where
  "md5_shifts = concat (replicate 4 [7, 12, 17, 22]) @ concat (replicate 4 [5, 9, 14, 20])
     @ concat (replicate 4 [4, 11, 16, 23]) @ concat (replicate 4 [6, 10, 15, 21])"

fun md5_step :: "32 word list \<Rightarrow> quad \<Rightarrow> nat \<Rightarrow> quad" where
  "md5_step M (a, b, c, d) i =
     (let (f, g) =
        (if i < 16 then ((b AND c) OR (NOT b AND d), i)
         else if i < 32 then ((d AND b) OR (NOT d AND c), (5 * i + 1) mod 16)
         else if i < 48 then (b XOR c XOR d, (3 * i + 5) mod 16)
         else (c XOR (b OR NOT d), (7 * i) mod 16))
      in (d, b + rol (md5_shifts ! i) (f + a + md5_sines ! i + M ! g), b, c))"

fun md5_block :: "quad \<Rightarrow> 8 word list \<Rightarrow> quad" where
  "md5_block (a, b, c, d) blk =
     (let (a', b', c', d') = foldl (md5_step (words_le blk)) (a, b, c, d) [0 ..< 64]
      in (a + a', b + b', c + c', d + d'))"

definition md5_sum :: "8 word list \<Rightarrow> 8 word list" where
  "md5_sum m =
     (let (a, b, c, d) = foldl md5_block (0x67452301, 0xefcdab89, 0x98badcfe, 0x10325476)
            (blocks (pad (bytes_le 8) m))
      in bytes_le 4 a @ bytes_le 4 b @ bytes_le 4 c @ bytes_le 4 d)"

section \<open>SHA-1\<close>

type_synonym quint = "32 word \<times> 32 word \<times> 32 word \<times> 32 word \<times> 32 word"

definition extend1 :: "32 word list \<Rightarrow> 32 word list" where
  "extend1 w = foldl (\<lambda>w i. w @ [rol 1 (w ! (i - 3) XOR w ! (i - 8) XOR w ! (i - 14) XOR w ! (i - 16))])
     w [16 ..< 80]"

fun sha1_step :: "32 word list \<Rightarrow> quint \<Rightarrow> nat \<Rightarrow> quint" where
  "sha1_step w (a, b, c, d, e) i =
     (let (f, k) =
        (if i < 20 then ((b AND c) OR (NOT b AND d), 0x5a827999)
         else if i < 40 then (b XOR c XOR d, 0x6ed9eba1)
         else if i < 60 then ((b AND c) OR (b AND d) OR (c AND d), 0x8f1bbcdc)
         else (b XOR c XOR d, 0xca62c1d6))
      in (rol 5 a + f + e + k + w ! i, a, rol 30 b, c, d))"

fun sha1_block :: "quint \<Rightarrow> 8 word list \<Rightarrow> quint" where
  "sha1_block (a, b, c, d, e) blk =
     (let (a', b', c', d', e') = foldl (sha1_step (extend1 (words_be blk))) (a, b, c, d, e) [0 ..< 80]
      in (a + a', b + b', c + c', d + d', e + e'))"

definition sha1_sum :: "8 word list \<Rightarrow> 8 word list" where
  "sha1_sum m =
     (let (a, b, c, d, e) =
        foldl sha1_block (0x67452301, 0xefcdab89, 0x98badcfe, 0x10325476, 0xc3d2e1f0)
          (blocks (pad (bytes_be 8) m))
      in concat (map (bytes_be 4) [a, b, c, d, e]))"

section \<open>SHA-256\<close>

type_synonym oct = "quad \<times> quad"

definition sha256_roots :: "32 word list" where
  "sha256_roots =
    [1116352408, 1899447441, 3049323471, 3921009573, 961987163, 1508970993,
     2453635748, 2870763221, 3624381080, 310598401, 607225278, 1426881987,
     1925078388, 2162078206, 2614888103, 3248222580, 3835390401, 4022224774,
     264347078, 604807628, 770255983, 1249150122, 1555081692, 1996064986,
     2554220882, 2821834349, 2952996808, 3210313671, 3336571891, 3584528711,
     113926993, 338241895, 666307205, 773529912, 1294757372, 1396182291,
     1695183700, 1986661051, 2177026350, 2456956037, 2730485921, 2820302411,
     3259730800, 3345764771, 3516065817, 3600352804, 4094571909, 275423344,
     430227734, 506948616, 659060556, 883997877, 958139571, 1322822218,
     1537002063, 1747873779, 1955562222, 2024104815, 2227730452, 2361852424,
     2428436474, 2756734187, 3204031479, 3329325298]"

definition extend256 :: "32 word list \<Rightarrow> 32 word list" where
  "extend256 w = foldl (\<lambda>w i.
     let x = w ! (i - 15); y = w ! (i - 2);
         s0 = ror 7 x XOR ror 18 x XOR drop_bit 3 x;
         s1 = ror 17 y XOR ror 19 y XOR drop_bit 10 y
     in w @ [w ! (i - 16) + s0 + w ! (i - 7) + s1]) w [16 ..< 64]"

fun sha256_step :: "32 word list \<Rightarrow> oct \<Rightarrow> nat \<Rightarrow> oct" where
  "sha256_step w ((a, b, c, d), (e, f, g, h)) i =
     (let s1 = ror 6 e XOR ror 11 e XOR ror 25 e;
          ch = (e AND f) XOR (NOT e AND g);
          t1 = h + s1 + ch + sha256_roots ! i + w ! i;
          s0 = ror 2 a XOR ror 13 a XOR ror 22 a;
          maj = (a AND b) XOR (a AND c) XOR (b AND c)
      in ((t1 + s0 + maj, a, b, c), (d + t1, e, f, g)))"

fun sha256_block :: "oct \<Rightarrow> 8 word list \<Rightarrow> oct" where
  "sha256_block ((a, b, c, d), (e, f, g, h)) blk =
     (let ((a', b', c', d'), (e', f', g', h')) =
            foldl (sha256_step (extend256 (words_be blk))) ((a, b, c, d), (e, f, g, h)) [0 ..< 64]
      in ((a + a', b + b', c + c', d + d'), (e + e', f + f', g + g', h + h')))"

definition sha256_sum :: "8 word list \<Rightarrow> 8 word list" where
  "sha256_sum m =
     (let ((a, b, c, d), (e, f, g, h)) =
        foldl sha256_block
          ((0x6a09e667, 0xbb67ae85, 0x3c6ef372, 0xa54ff53a), (0x510e527f, 0x9b05688c, 0x1f83d9ab, 0x5be0cd19))
          (blocks (pad (bytes_be 8) m))
      in concat (map (bytes_be 4) [a, b, c, d, e, f, g, h]))"

section \<open>The helper\<close>

text \<open>A \<open>hash.Hash\<close>: which hash it is and what was written to it.\<close>

datatype hash_kind = MD5 | SHA1 | SHA256

record hash =
  kind :: hash_kind
  written :: string

definition hash_new :: "hash_kind \<Rightarrow> hash" where
  "hash_new k = \<lparr>kind = k, written = []\<rparr>"

definition hash_Write :: "string \<Rightarrow> hash \<Rightarrow> hash" where
  "hash_Write p h = h\<lparr>written := written h @ p\<rparr>"

definition hash_Sum :: "hash \<Rightarrow> 8 word list" where
  "hash_Sum h = (let m = map byte (written h) in
     case kind h of MD5 \<Rightarrow> md5_sum m | SHA1 \<Rightarrow> sha1_sum m | SHA256 \<Rightarrow> sha256_sum m)"

definition getHash :: "string \<Rightarrow> go_error + hash" where
  "getHash algorithm =
     (if algorithm = ''md5'' then Inr (hash_new MD5)
      else if algorithm = ''sha1'' then Inr (hash_new SHA1)
      else if algorithm = ''sha256'' then Inr (hash_new SHA256)
      else Inl (Msg (algorithm @ '' not valid'')))"

text \<open>The verb \<open>%x\<close> on a byte slice: two lower-case hexadecimal digits for each byte.\<close>

definition hex_digit :: "nat \<Rightarrow> char" where
  "hex_digit n = ''0123456789abcdef'' ! n"

definition hex_byte :: "8 word \<Rightarrow> string" where
  "hex_byte b = [hex_digit (unat b div 16), hex_digit (unat b mod 16)]"

definition hex_text :: "8 word list \<Rightarrow> string" where
  "hex_text bs = concat (map hex_byte bs)"

definition HexValueForByteArray :: "string \<Rightarrow> string \<Rightarrow> go_error + string" where
  "HexValueForByteArray algorithm content =
     (case getHash algorithm of
        Inl err \<Rightarrow> Inl err
      | Inr h \<Rightarrow> Inr ([CHR 0x22] @ hex_text (hash_Sum (hash_Write content h)) @ [CHR 0x22]))"

section \<open>Reading hexadecimal text\<close>

definition hex_val :: "char \<Rightarrow> nat option" where
  "hex_val c = (if CHR ''0'' \<le> c \<and> c \<le> CHR ''9'' then Some (of_char c - 48)
     else if CHR ''a'' \<le> c \<and> c \<le> CHR ''f'' then Some (of_char c - 87) else None)"

fun unhex :: "string \<Rightarrow> 8 word list option" where
  "unhex [] = Some []"
| "unhex (c # d # r) = (case (hex_val c, hex_val d, unhex r) of
     (Some x, Some y, Some bs) \<Rightarrow> Some (word_of_nat (16 * x + y) # bs) | _ \<Rightarrow> None)"
| "unhex [c] = None"


lemma hex_val_digit: "n < 16 \<Longrightarrow> hex_val (hex_digit n) = Some n"
proof -
  assume "n < 16"
  then have "n \<in> set [0 ..< 16]" by simp
  moreover have "\<forall>n \<in> set [0 ..< 16]. hex_val (hex_digit n) = Some n" by code_simp
  ultimately show ?thesis by blast
qed

lemma byte_lt: "unat (b :: 8 word) < 256"
  using unsigned_less [of b, where ?'a = nat] by simp

lemma unhex_hex_text: "unhex (hex_text bs) = Some bs"
proof (induction bs)
  case Nil
  then show ?case by (simp add: hex_text_def)
next
  case (Cons b bs)
  have "unat b div 16 < 16" "unat b mod 16 < 16" using byte_lt [of b] by simp_all
  moreover have "word_of_nat (16 * (unat b div 16) + unat b mod 16) = b" by simp
  ultimately show ?case using Cons by (simp add: hex_text_def hex_byte_def hex_val_digit)
qed

lemma length_hex_text: "length (hex_text bs) = 2 * length bs"
  by (induction bs) (simp_all add: hex_text_def hex_byte_def)

lemma length_bytes: "length (bytes_be n x) = n" "length (bytes_le n x) = n"
  by (simp_all add: bytes_be_def bytes_le_def)

lemma length_sums: "length (md5_sum m) = 16" "length (sha1_sum m) = 20" "length (sha256_sum m) = 32"
  by (simp_all add: md5_sum_def sha1_sum_def sha256_sum_def length_bytes split: prod.split)

lemma length_hash_Sum:
  "length (hash_Sum h) = (case kind h of MD5 \<Rightarrow> 16 | SHA1 \<Rightarrow> 20 | SHA256 \<Rightarrow> 32)"
  by (simp add: hash_Sum_def length_sums split: hash_kind.split)

text \<open>Padding fills whole blocks, so no byte of the message is left out of the digest.\<close>

lemma pad_fill: "(n + (9 + (55 + 64 - n mod 64) mod 64)) mod 64 = (0::nat)"
proof -
  define k where "k = n mod 64"
  have k: "k < 64" by (simp add: k_def)
  have "(119 - k) mod 64 = (if k \<le> 55 then 55 - k else 119 - k)"
    using k by (auto simp: le_mod_geq)
  with k have "k + (9 + (119 - k) mod 64) = (if k \<le> 55 then 64 else 128)" by simp
  then have "(k + (9 + (119 - k) mod 64)) mod 64 = 0" by simp
  then show ?thesis
    using mod_add_left_eq [of n 64 "9 + (119 - k) mod 64"] by (simp add: k_def)
qed

lemma length_pad: "length (len_bytes (word_of_nat (8 * length m))) = 8 \<Longrightarrow> length (pad len_bytes m) mod 64 = 0"
  using pad_fill [of "length m"] by (simp add: pad_def add.commute add.left_commute)

lemma blocks_short: "length m < 64 \<Longrightarrow> blocks m = []"
  by (simp add: blocks.simps [of m])

lemma concat_blocks: "length m mod 64 = 0 \<Longrightarrow> concat (blocks m) = m"
proof (induction m rule: blocks.induct)
  case (1 m)
  show ?case
  proof (cases "length m < 64")
    case True
    with 1(2) have "m = []" by simp
    then show ?thesis by (simp add: blocks_short)
  next
    case False
    with 1(2) have "length (drop 64 m) mod 64 = 0" by (simp add: le_mod_geq)
    with 1(1) [OF False] False show ?thesis by (simp add: blocks.simps [of m])
  qed
qed

lemma blocks_pad:
  "concat (blocks (pad (bytes_le 8) m)) = pad (bytes_le 8) m"
  "concat (blocks (pad (bytes_be 8) m)) = pad (bytes_be 8) m"
  by (simp_all add: concat_blocks length_pad length_bytes)

section \<open>Properties\<close>

text \<open>The digest and its size in bytes for each name the source accepts.\<close>

definition checksum_spec :: "string \<rightharpoonup> (8 word list \<Rightarrow> 8 word list) \<times> nat" where
  "checksum_spec = [''md5'' \<mapsto> (md5_sum, 16), ''sha1'' \<mapsto> (sha1_sum, 20), ''sha256'' \<mapsto> (sha256_sum, 32)]"

lemma getHash_spec:
  "getHash algorithm = (case checksum_spec algorithm of
      None \<Rightarrow> Inl (Msg (algorithm @ '' not valid''))
    | Some _ \<Rightarrow> Inr (hash_new (if algorithm = ''md5'' then MD5 else if algorithm = ''sha1'' then SHA1 else SHA256)))"
  by (simp add: getHash_def checksum_spec_def)

text \<open>
  Property C34. \<open>HexValueForByteArray\<close> knows exactly the names md5, sha1 and sha256: for any
  other it returns the error that names the algorithm, for these the lower-case hexadecimal
  text of the digest between double quotes, from which the digest can be read back and whose
  length is twice the digest size plus the quotes.
\<close>

theorem checksum_text_roundtrip:
  "case checksum_spec algorithm of
     None \<Rightarrow> HexValueForByteArray algorithm content = Inl (Msg (algorithm @ '' not valid''))
   | Some (digest, n) \<Rightarrow>
       \<exists>h. HexValueForByteArray algorithm content = Inr ([CHR 0x22] @ h @ [CHR 0x22])
         \<and> unhex h = Some (digest (map byte content)) \<and> length h = 2 * n"
  by (simp add: HexValueForByteArray_def getHash_def checksum_spec_def unhex_hex_text length_hex_text
      length_hash_Sum hash_new_def hash_Write_def hash_Sum_def length_sums)

end
