(* ===== verification/Garden_Cleanup.thy ===== *)
theory Garden_Cleanup
  imports Go_Strings
begin

text \<open>
  \<open>CleanupGarden\<close> of \<open>helpers/cleanup_garden.go\<close>. The Garden client is third-party code: a
  record of its three operations over a state the model does not look into. The state of a
  run is the client's, with what was written to the Ginkgo writer, the pauses in
  nanoseconds and the results of the calls of \<open>Destroy\<close>, in order.
\<close>

section \<open>The client and the state of a run\<close>

text \<open>
  A container is known by its handle. \<open>Info\<close> gives the container path, empty if it failed:
  the source ignores the error and the zero value has an empty path.
\<close>

record 'g garden_client =
  Containers :: "'g \<Rightarrow> (go_error + string list) \<times> 'g"
  Info :: "string \<Rightarrow> 'g \<Rightarrow> string \<times> 'g"
  Destroy :: "string \<Rightarrow> 'g \<Rightarrow> go_error option \<times> 'g"

record 'g cleanup =
  garden :: 'g
  writer :: "string list"
  sleeps :: "int list"
  destroys :: "(string \<times> go_error option) list"

definition list_containers :: "'g garden_client \<Rightarrow> (go_error, 'g cleanup, string list) comp" where
  "list_containers C = (\<lambda>s. case Containers C (garden s) of (r, g) \<Rightarrow> (r, s\<lparr>garden := g\<rparr>))"

definition container_path :: "'g garden_client \<Rightarrow> string \<Rightarrow> (failure, 'g cleanup, string) comp" where
  "container_path C h = (\<lambda>s. case Info C h (garden s) of (p, g) \<Rightarrow> (Inr p, s\<lparr>garden := g\<rparr>))"

definition destroy :: "'g garden_client \<Rightarrow> string \<Rightarrow> (failure, 'g cleanup, go_error option) comp" where
  "destroy C h = (\<lambda>s. case Destroy C h (garden s) of
     (r, g) \<Rightarrow> (Inr r, s\<lparr>garden := g, destroys := destroys s @ [(h, r)]\<rparr>))"

definition say :: "string \<Rightarrow> (failure, 'g cleanup, unit) comp" where
  "say m = modify (\<lambda>s. s\<lparr>writer := writer s @ [m]\<rparr>)"

definition sleep :: "int \<Rightarrow> (failure, 'g cleanup, unit) comp" where
  "sleep d = modify (\<lambda>s. s\<lparr>sleeps := sleeps s @ [d]\<rparr>)"

section \<open>The function\<close>

text \<open>
  The loop labelled \<open>RETRY_LOOP\<close>, from its variable \<open>i\<close> on: the errors it appends to
  \<open>destroyContainerErrors\<close>. After the error of the third attempt was recorded the loop ends
  by its own condition.
\<close>

function retry_loop :: "'g garden_client \<Rightarrow> string \<Rightarrow> nat \<Rightarrow> (failure, 'g cleanup, go_error list) comp" where
  "retry_loop C h i =
     (if i < 3 then
        andThen (destroy C h) (\<lambda>r.
        case r of
          None \<Rightarrow> ret []
        | Some err \<Rightarrow>
            if contains (error_text err) ''unknown handle'' then ret []
            else if contains (error_text err) ''container already being destroyed'' then ret []
            else if i = 2 then andThen (retry_loop C h (Suc i)) (\<lambda>es. ret (err # es))
            else andThen (sleep 50000000) (\<lambda>_. retry_loop C h (Suc i)))
      else ret [])"
  by pat_completeness auto
termination
  by (relation "measure (\<lambda>(C, h, i). 3 - i)") auto

declare retry_loop.simps [simp del]

primrec cleanup_loop :: "'g garden_client \<Rightarrow> string list \<Rightarrow> go_error list
    \<Rightarrow> (failure, 'g cleanup, go_error list) comp" where
  "cleanup_loop C [] errs = ret errs"
| "cleanup_loop C (h # hs) errs =
     andThen (container_path C h) (\<lambda>p.
     andThen (say (''cleaning up container '' @ h @ '' ('' @ p @ '')'')) (\<lambda>_.
     andThen (retry_loop C h 0) (\<lambda>es.
     cleanup_loop C hs (errs @ es))))"

definition CleanupGarden :: "'g garden_client \<Rightarrow> (failure, 'g cleanup, go_error list) comp" where
  "CleanupGarden C =
     andThen (expect_ok (list_containers C)) (\<lambda>containers.
     andThen (say (''cleaning up '' @ nat_text (length containers) @ '' Garden containers'')) (\<lambda>_.
     cleanup_loop C containers []))"

section \<open>The results of the attempts on one container\<close>

text \<open>\<open>Destroy\<close> is not called again for the container after such a result.\<close>

fun settled :: "go_error option \<Rightarrow> bool" where
  "settled None = True"
| "settled (Some e) =
     (contains (error_text e) ''unknown handle'' \<or> contains (error_text e) ''container already being destroyed'')"

text \<open>
  What the comment asks for: up to three attempts, each but the last one failing with an
  error worth a retry, and less than three only if the last one settled the matter. The
  error of a third attempt that did not is reported.
\<close>

definition retry_spec :: "go_error option list \<Rightarrow> bool" where
  "retry_spec rs \<longleftrightarrow> 1 \<le> length rs \<and> length rs \<le> 3
     \<and> (\<forall>r \<in> set (butlast rs). \<not> settled r) \<and> (length rs < 3 \<longrightarrow> settled (last rs))"

definition verdict :: "go_error option list \<Rightarrow> go_error list" where
  "verdict rs = (if settled (last rs) then [] else [the (last rs)])"

definition attempts :: "string \<Rightarrow> go_error option list \<Rightarrow> (string \<times> go_error option) list" where
  "attempts h rs = map (Pair h) rs"

text \<open>The attempts from the \<open>i\<close>-th on, of which \<open>k\<close> are left.\<close>

definition attempts_left :: "nat \<Rightarrow> go_error option list \<Rightarrow> bool" where
  "attempts_left k rs \<longleftrightarrow> 1 \<le> length rs \<and> length rs \<le> k
     \<and> (\<forall>r \<in> set (butlast rs). \<not> settled r) \<and> (length rs < k \<longrightarrow> settled (last rs))"

definition after_attempts :: "string \<Rightarrow> go_error option list \<Rightarrow> 'g cleanup \<Rightarrow> 'g cleanup \<Rightarrow> bool" where
  "after_attempts h rs s t \<longleftrightarrow> destroys t = destroys s @ attempts h rs
     \<and> sleeps t = sleeps s @ replicate (length rs - 1) 50000000 \<and> writer t = writer s"

lemma retry_step:
  assumes "Destroy C h (garden s) = (r, g)" and "i < 3"
    and "s1 = s\<lparr>garden := g, destroys := destroys s @ [(h, r)]\<rparr>"
  shows "retry_loop C h i s =
    (if settled r then (Inr [], s1)
     else if i = 2 then (Inr [the r], s1)
     else retry_loop C h (Suc i) (s1\<lparr>sleeps := sleeps s @ [50000000]\<rparr>))"
proof -
  have run: "destroy C h s = (Inr r, s1)"
    using assms(1,3) by (simp add: destroy_def)
  have "retry_loop C h 3 = ret []" by (simp add: retry_loop.simps)
  moreover have "Suc 2 = 3" by simp
  ultimately show ?thesis
    using assms(2,3)
    by (cases r) (simp_all add: retry_loop.simps [of C h i] run sleep_def andThen_def)
qed

lemma retry_run:
  assumes "i + k = 3" and "0 < k"
  shows "\<exists>rs t. retry_loop C h i s = (Inr (verdict rs), t) \<and> attempts_left k rs \<and> after_attempts h rs s t"
  using assms
proof (induction k arbitrary: i s)
  case 0
  then show ?case by simp
next
  case (Suc k)
  obtain r g where d: "Destroy C h (garden s) = (r, g)" by fastforce
  define s1 where "s1 = s\<lparr>garden := g, destroys := destroys s @ [(h, r)]\<rparr>"
  have "i < 3" using Suc.prems by simp
  note step = retry_step [OF d this s1_def]
  show ?case
  proof (cases "settled r \<or> i = 2")
    case True
    with step have "retry_loop C h i s = (Inr (verdict [r]), s1)" by (auto simp: verdict_def)
    moreover have "attempts_left (Suc k) [r]"
      using True Suc.prems by (auto simp: attempts_left_def)
    moreover have "after_attempts h [r] s s1" by (simp add: after_attempts_def s1_def attempts_def)
    ultimately show ?thesis by blast
  next
    case False
    let ?s2 = "s1\<lparr>sleeps := sleeps s @ [50000000]\<rparr>"
    from False Suc.prems have "Suc i + k = 3" "0 < k" by linarith+
    from Suc.IH [OF this, of ?s2] obtain rs t where rs: "retry_loop C h (Suc i) ?s2 = (Inr (verdict rs), t)"
      "attempts_left k rs" "after_attempts h rs ?s2 t" by blast
    have "rs \<noteq> []" using rs(2) by (auto simp: attempts_left_def)
    with rs(2) False have "attempts_left (Suc k) (r # rs)" by (auto simp: attempts_left_def)
    moreover have "verdict (r # rs) = verdict rs" using \<open>rs \<noteq> []\<close> by (simp add: verdict_def)
    moreover have "after_attempts h (r # rs) s t"
      using rs(3) \<open>rs \<noteq> []\<close>
      by (cases rs) (simp_all add: after_attempts_def s1_def attempts_def)
    ultimately show ?thesis using step False rs(1) by metis
  qed
qed

section \<open>A whole run\<close>

text \<open>\<open>run_spec hs rss s t\<close>: the containers \<open>hs\<close> were handled one after the other with the results \<open>rss\<close>.\<close>

definition run_spec :: "string list \<Rightarrow> go_error option list list \<Rightarrow> 'g cleanup \<Rightarrow> 'g cleanup \<Rightarrow> bool" where
  "run_spec hs rss s t \<longleftrightarrow> length rss = length hs \<and> (\<forall>rs \<in> set rss. retry_spec rs)
     \<and> destroys t = destroys s @ concat (map2 attempts hs rss)
     \<and> sleeps t = sleeps s @ replicate (sum_list (map (\<lambda>rs. length rs - 1) rss)) 50000000"

lemma cleanup_loop_run:
  "\<exists>rss t. cleanup_loop C hs errs s = (Inr (errs @ concat (map verdict rss)), t) \<and> run_spec hs rss s t"
proof (induction hs arbitrary: errs s)
  case Nil
  then show ?case by (auto simp: run_spec_def intro!: exI [of _ "[]"])
next
  case (Cons h hs)
  obtain p g where i: "Info C h (garden s) = (p, g)" by fastforce
  define s1 where "s1 = s\<lparr>garden := g, writer := writer s @ [''cleaning up container '' @ h @ '' ('' @ p @ '')'']\<rparr>"
  obtain rs t1 where rs: "retry_loop C h 0 s1 = (Inr (verdict rs), t1)"
    "attempts_left 3 rs" "after_attempts h rs s1 t1"
    using retry_run [of 0 3 C h s1] by auto
  obtain rss t where rest: "cleanup_loop C hs (errs @ verdict rs) t1 =
      (Inr ((errs @ verdict rs) @ concat (map verdict rss)), t)" "run_spec hs rss t1 t"
    using Cons.IH by blast
  have "cleanup_loop C (h # hs) errs s = (Inr (errs @ concat (map verdict (rs # rss))), t)"
    using i rs(1) rest(1) by (simp add: andThen_def container_path_def say_def s1_def)
  moreover have "run_spec (h # hs) (rs # rss) s t"
    using rs(2,3) rest(2)
    by (simp add: run_spec_def after_attempts_def s1_def attempts_left_def retry_spec_def
        flip: replicate_add)
  ultimately show ?case by blast
qed

text \<open>
  Property C13. \<open>CleanupGarden\<close> fails only if the containers cannot be listed. Otherwise it
  calls \<open>Destroy\<close> on every container in order, at most three times each, stopping early only
  on success or when Garden no longer knows the container or is already destroying it, with
  a pause of 50 milliseconds before each further attempt; the errors it returns are those of
  the third attempts that did not settle the matter, and no container is skipped because an
  earlier one could not be destroyed.
\<close>

theorem cleanup_attempts:
  "case CleanupGarden C s of
     (Inl f, t) \<Rightarrow> \<exists>e g. Containers C (garden s) = (Inl e, g) \<and> f = Expectation (error_text e)
       \<and> destroys t = destroys s
   | (Inr errs, t) \<Rightarrow> \<exists>hs g rss. Containers C (garden s) = (Inr hs, g) \<and> run_spec hs rss s t
       \<and> errs = concat (map verdict rss)"
proof (cases "Containers C (garden s)")
  case (Pair r g)
  show ?thesis
  proof (cases r)
    case (Inl e)
    with Pair show ?thesis
      by (simp add: CleanupGarden_def andThen_def expect_ok_def list_containers_def)
  next
    case (Inr hs)
    let ?s = "s\<lparr>garden := g, writer := writer s @
      [''cleaning up '' @ nat_text (length hs) @ '' Garden containers'']\<rparr>"
    obtain rss t where "cleanup_loop C hs [] ?s = (Inr (concat (map verdict rss)), t)"
      "run_spec hs rss ?s t" using cleanup_loop_run [of C hs "[]" ?s] by auto
    with Pair Inr show ?thesis
      by (auto simp: CleanupGarden_def andThen_def expect_ok_def list_containers_def say_def run_spec_def)
  qed
qed

section \<open>What is left in Garden\<close>

text \<open>
  The documented behaviour of the client that the source relies on: \<open>Containers\<close> lists the
  live containers, listing and asking change none, \<open>Destroy\<close> never creates one, and the
  container is gone when it reports success or an unknown handle.
\<close>

definition garden_law :: "'g garden_client \<Rightarrow> ('g \<Rightarrow> string set) \<Rightarrow> bool" where
  "garden_law C live \<longleftrightarrow>
     (\<forall>g r g'. Containers C g = (r, g') \<longrightarrow> live g' = live g \<and> (\<forall>hs. r = Inr hs \<longrightarrow> set hs = live g))
   \<and> (\<forall>h g. live (snd (Info C h g)) = live g)
   \<and> (\<forall>h g r g'. Destroy C h g = (r, g') \<longrightarrow> live g' \<subseteq> live g
        \<and> ((case r of None \<Rightarrow> True | Some e \<Rightarrow> contains (error_text e) ''unknown handle'') \<longrightarrow> h \<notin> live g'))"

text \<open>The handles whose last attempt left the container to another destroyer.\<close>

definition left_to_others :: "(string \<times> go_error option) list \<Rightarrow> string set" where
  "left_to_others log = {h. \<exists>e. (h, Some e) \<in> set log
     \<and> contains (error_text e) ''container already being destroyed''}"

lemma retry_live:
  assumes law: "garden_law C live" and "retry_loop C h i s = (Inr [], t)" and "i < 3"
  shows "live (garden t) \<subseteq> live (garden s) \<and> set (destroys s) \<subseteq> set (destroys t)
    \<and> (h \<notin> live (garden t) \<or> h \<in> left_to_others (destroys t))"
  using assms(2,3)
proof (induction "3 - i" arbitrary: i s)
  case 0
  then show ?case by simp
next
  case (Suc k)
  obtain r g where d: "Destroy C h (garden s) = (r, g)" by fastforce
  define s1 where "s1 = s\<lparr>garden := g, destroys := destroys s @ [(h, r)]\<rparr>"
  from law d have l: "live g \<subseteq> live (garden s)"
    "(case r of None \<Rightarrow> True | Some e \<Rightarrow> contains (error_text e) ''unknown handle'') \<Longrightarrow> h \<notin> live g"
    unfolding garden_law_def by blast+
  note step = retry_step [OF d Suc.prems(2) s1_def]
  show ?case
  proof (cases "settled r")
    case True
    with step Suc.prems have "t = s1" by simp
    with True l show ?thesis
      by (cases r) (auto simp: s1_def left_to_others_def)
  next
    case False
    with step Suc.prems have rec: "retry_loop C h (Suc i) (s1\<lparr>sleeps := sleeps s @ [50000000]\<rparr>) = (Inr [], t)"
      and "i \<noteq> 2" by (auto split: if_splits)
    with Suc.prems(2) Suc.hyps(2) have "k = 3 - Suc i" "Suc i < 3" by simp_all
    from Suc.hyps(1) [OF this(1) rec this(2)] l(1) show ?thesis by (auto simp: s1_def)
  qed
qed

lemma left_to_others_mono: "set a \<subseteq> set b \<Longrightarrow> left_to_others a \<subseteq> left_to_others b"
  by (auto simp: left_to_others_def)

lemma cleanup_live:
  assumes law: "garden_law C live"
    and "cleanup_loop C hs errs s = (Inr [], t)"
  shows "live (garden t) \<subseteq> live (garden s) \<and> set (destroys s) \<subseteq> set (destroys t)
    \<and> live (garden t) \<inter> set hs \<subseteq> left_to_others (destroys t)"
  using assms(2)
proof (induction hs arbitrary: errs s)
  case Nil
  then show ?case by simp
next
  case (Cons h hs)
  obtain p g where i: "Info C h (garden s) = (p, g)" by fastforce
  define s1 where "s1 = s\<lparr>garden := g, writer := writer s @ [''cleaning up container '' @ h @ '' ('' @ p @ '')'']\<rparr>"
  obtain rs t1 where rs: "retry_loop C h 0 s1 = (Inr rs, t1)"
    using retry_run [of 0 3 C h s1] by auto
  have rest: "cleanup_loop C hs (errs @ rs) t1 = (Inr [], t)"
    using Cons.prems i rs by (simp add: andThen_def container_path_def say_def s1_def)
  then have "errs @ rs = []"
    using cleanup_loop_run [of C hs "errs @ rs" t1] by auto
  then have empty: "rs = []" by simp
  have g: "live g = live (garden s)" using law i unfolding garden_law_def by (metis snd_conv)
  have "live (garden t1) \<subseteq> live (garden s1) \<and> set (destroys s1) \<subseteq> set (destroys t1)
      \<and> (h \<notin> live (garden t1) \<or> h \<in> left_to_others (destroys t1))"
    using retry_live [OF law, of h 0 s1 t1] rs empty by simp
  moreover note Cons.IH [OF rest]
  ultimately show ?case
    using g left_to_others_mono [of "destroys t1" "destroys t"] by (auto simp: s1_def)
qed

text \<open>
  Property C32. With a Garden client that behaves as documented, a \<open>CleanupGarden\<close> that reports
  no errors leaves no container alive, but for those that another caller was already
  destroying.
\<close>

theorem cleanup_empties_garden:
  assumes "garden_law C live" and "CleanupGarden C s = (Inr [], t)"
  shows "live (garden t) \<subseteq> left_to_others (destroys t)"
proof -
  from assms(2) obtain hs g w where "Containers C (garden s) = (Inr hs, g)"
    "cleanup_loop C hs [] (s\<lparr>garden := g, writer := w\<rparr>) = (Inr [], t)"
    by (auto simp: CleanupGarden_def comp_iffs list_containers_def say_def split: prod.splits)
  with cleanup_live [OF assms(1), of hs "[]" "s\<lparr>garden := g, writer := w\<rparr>" t] assms(1) show ?thesis
    unfolding garden_law_def by auto
qed

text \<open>A Garden that is busy for the first two attempts on each container.\<close>

definition demo_garden :: "(string list \<times> nat) garden_client" where
  "demo_garden = \<lparr>Containers = (\<lambda>(hs, n). (Inr hs, (hs, n))),
     Info = (\<lambda>h g. (''/depot/'' @ h, g)),
     Destroy = (\<lambda>h (hs, n). if n < 2 then (Some (Msg ''busy''), (hs, Suc n)) else (None, (removeAll h hs, 0)))\<rparr>"

definition demo_cleanup :: "(string list \<times> nat) cleanup" where
  "demo_cleanup = \<lparr>garden = ([''a'', ''b''], 0), writer = [], sleeps = [], destroys = []\<rparr>"

lemma demo_garden_law: "garden_law demo_garden (\<lambda>(hs, n). set hs)"
proof -
  have "\<not> contains ''busy'' ''unknown handle''" by code_simp
  then show ?thesis by (auto simp: garden_law_def demo_garden_def split: if_splits)
qed

theorem cleanup_empties_garden_witness:
  "set (fst (garden (snd (CleanupGarden demo_garden demo_cleanup)))) \<subseteq> {}
     \<and> length (destroys (snd (CleanupGarden demo_garden demo_cleanup))) = 6"
proof -
  have run: "fst (CleanupGarden demo_garden demo_cleanup) = Inr []"
    "map snd (filter (\<lambda>r. snd r \<noteq> None \<and> snd r \<noteq> Some (Msg ''busy'')) (destroys (snd (CleanupGarden demo_garden demo_cleanup)))) = []"
    "length (destroys (snd (CleanupGarden demo_garden demo_cleanup))) = 6"
    by code_simp+
  have "CleanupGarden demo_garden demo_cleanup = (Inr [], snd (CleanupGarden demo_garden demo_cleanup))"
    by (metis prod.collapse run(1))
  from cleanup_empties_garden [OF demo_garden_law this]
  have "set (fst (garden (snd (CleanupGarden demo_garden demo_cleanup)))) \<subseteq>
      left_to_others (destroys (snd (CleanupGarden demo_garden demo_cleanup)))"
    by (simp add: case_prod_beta)
  moreover have "\<not> contains (error_text (Msg ''busy'')) ''container already being destroyed''" by code_simp
  ultimately show ?thesis
    using run(2,3) by (fastforce simp: left_to_others_def filter_empty_conv)
qed

end
