(* ===== verification/Go_Time.thy ===== *)
theory Go_Time
  imports Go_Strings
begin

text \<open>
  Go's \<open>time.Duration\<close>: an \<open>int64\<close> of nanoseconds (here an \<open>int\<close>), its \<open>String\<close> method, which
  writes the duration flags of the v0 command lines, and \<open>time.ParseDuration\<close>, which reads
  the durations of the environment. A fraction is scaled in \<open>float64\<close> by the library; its
  three roundings are written out on integers.
\<close>

section \<open>Units\<close>

definition Nanosecond :: int where "Nanosecond = 1"
definition Microsecond :: int where "Microsecond = 1000"
definition Millisecond :: int where "Millisecond = 1000000"
definition Second :: int where "Second = 1000000000"
definition Minute :: int where "Minute = 60000000000"
definition Hour :: int where "Hour = 3600000000000"

lemmas time_units = Nanosecond_def Microsecond_def Millisecond_def Second_def Minute_def Hour_def

section \<open>\<open>Duration.String\<close>\<close>

text \<open>
  \<open>fmtFrac\<close> writes the last \<open>prec\<close> digits as a fraction without trailing zeros, and nothing
  when they are all zero.
\<close>

fun drop_zeros :: "string \<Rightarrow> string" where
  "drop_zeros [] = []"
| "drop_zeros (c # cs) = (if c = CHR ''0'' then drop_zeros cs else c # cs)"

fun last_digits :: "nat \<Rightarrow> nat \<Rightarrow> string" where
  "last_digits v 0 = []"
| "last_digits v (Suc prec) = last_digits (v div 10) prec @ [digit_char (v mod 10)]"

definition fmtFrac :: "nat \<Rightarrow> nat \<Rightarrow> string" where
  "fmtFrac v prec = (let f = rev (drop_zeros (rev (last_digits v prec))) in if f = [] then [] else CHR ''.'' # f)"

definition micro :: string where
  "micro = [CHR 0xC2, CHR 0xB5]"

definition long_form :: "nat \<Rightarrow> string" where
  "long_form u =
     (let frac = fmtFrac u 9; secs = u div 10 ^ 9; mins = secs div 60; hours = mins div 60
      in (if hours > 0 then nat_text hours @ ''h'' else [])
         @ (if mins > 0 then nat_text (mins mod 60) @ ''m'' else [])
         @ nat_text (secs mod 60) @ frac @ ''s'')"

definition Duration_String :: "int \<Rightarrow> string" where
  "Duration_String d =
     (let u = nat \<bar>d\<bar>;
          body =
            (if u = 0 then ''0s''
             else if u < 10 ^ 3 then nat_text u @ ''ns''
             else if u < 10 ^ 6 then nat_text (u div 10 ^ 3) @ fmtFrac u 3 @ micro @ ''s''
             else if u < 10 ^ 9 then nat_text (u div 10 ^ 6) @ fmtFrac u 6 @ ''ms''
             else long_form u)
      in if d < 0 then CHR ''-'' # body else body)"

section \<open>Scaling a fraction in \<open>float64\<close>\<close>

text \<open>A positive \<open>float64\<close> is a mantissa and a binary exponent; a ratio is rounded to nearest, ties to even.\<close>

fun bit_len :: "nat \<Rightarrow> nat" where
  "bit_len n = (if n = 0 then 0 else Suc (bit_len (n div 2)))"

declare bit_len.simps [simp del]

definition round_even :: "nat \<Rightarrow> nat \<Rightarrow> nat" where
  "round_even p q =
     (let d = p div q; r = p mod q
      in if 2 * r < q then d else if 2 * r > q then d + 1 else if even d then d else d + 1)"

definition float_of :: "nat \<Rightarrow> nat \<Rightarrow> nat \<times> int" where
  "float_of p q =
     (let scaled = (\<lambda>e::int. if 0 \<le> e then (p, q * 2 ^ nat e) else (p * 2 ^ nat (- e), q));
          e0 = int (bit_len p) - int (bit_len q) - 53;
          (a, b) = scaled e0;
          e = (if 2 ^ 53 * b \<le> a then e0 + 1 else e0);
          (c, d) = scaled e
      in (round_even c d, e))"

definition float_times :: "nat \<times> int \<Rightarrow> nat \<times> int \<Rightarrow> nat \<times> int" where
  "float_times x y =
     (let m = fst x * fst y; e = snd x + snd y
      in if 0 \<le> e then float_of (m * 2 ^ nat e) 1 else float_of m (2 ^ nat (- e)))"

definition float_trunc :: "nat \<times> int \<Rightarrow> nat" where
  "float_trunc x = (if 0 \<le> snd x then fst x * 2 ^ nat (snd x) else fst x div 2 ^ nat (- snd x))"

text \<open>\<open>uint64(float64(f) * (float64(unit) / scale))\<close> for \<open>f > 0\<close>.\<close>

definition scale_fraction :: "nat \<Rightarrow> nat \<Rightarrow> nat \<Rightarrow> nat" where
  "scale_fraction f unit scale = float_trunc (float_times (float_of f 1) (float_of unit scale))"

section \<open>\<open>time.ParseDuration\<close>\<close>

definition unitMap :: "string \<rightharpoonup> nat" where
  "unitMap = [''ns'' \<mapsto> 1, ''us'' \<mapsto> 1000, micro @ ''s'' \<mapsto> 1000, [CHR 0xCE, CHR 0xBC] @ ''s'' \<mapsto> 1000,
     ''ms'' \<mapsto> 1000000, ''s'' \<mapsto> 1000000000, ''m'' \<mapsto> 60000000000, ''h'' \<mapsto> 3600000000000]"

fun leadingInt :: "nat \<Rightarrow> string \<Rightarrow> (nat \<times> string) option" where
  "leadingInt x [] = Some (x, [])"
| "leadingInt x (c # cs) =
     (if \<not> is_digit c then Some (x, c # cs)
      else if x > 2 ^ 63 div 10 then None
      else if x * 10 + digit_val c > 2 ^ 63 then None
      else leadingInt (x * 10 + digit_val c) cs)"

fun leadingFraction :: "nat \<Rightarrow> nat \<Rightarrow> bool \<Rightarrow> string \<Rightarrow> nat \<times> nat \<times> string" where
  "leadingFraction x scale overflow [] = (x, scale, [])"
| "leadingFraction x scale overflow (c # cs) =
     (if \<not> is_digit c then (x, scale, c # cs)
      else if overflow \<or> x > (2 ^ 63 - 1) div 10 \<or> x * 10 + digit_val c > 2 ^ 63
      then leadingFraction x scale True cs
      else leadingFraction (x * 10 + digit_val c) (scale * 10) False cs)"

lemma leadingInt_length: "leadingInt x s = Some (v, r) \<Longrightarrow> length r \<le> length s"
  by (induction x s rule: leadingInt.induct) (auto split: if_splits)

lemma leadingFraction_length: "leadingFraction x k b s = (f, sc, r) \<Longrightarrow> length r \<le> length s"
  by (induction x k b s rule: leadingFraction.induct) (auto split: if_splits)

definition unit_char :: "char \<Rightarrow> bool" where
  "unit_char c \<longleftrightarrow> c \<noteq> CHR ''.'' \<and> \<not> is_digit c"

text \<open>One number with its unit: what is added to the sum, and the rest of the text.\<close>

definition quoted :: "string \<Rightarrow> string" where
  "quoted s = [CHR 0x22] @ s @ [CHR 0x22]"

definition parse_fraction :: "string \<Rightarrow> nat \<times> nat \<times> bool \<times> string" where
  "parse_fraction s =
     (if s \<noteq> [] \<and> hd s = CHR ''.''
      then (let (f, scale, r) = leadingFraction 0 1 False (tl s)
            in (f, scale, length r \<noteq> length (tl s), r))
      else (0, 1, False, s))"

definition parse_unit :: "string \<Rightarrow> nat \<Rightarrow> nat \<Rightarrow> nat \<Rightarrow> string \<Rightarrow> string + nat \<times> string" where
  "parse_unit orig v f scale s =
     (let invalid = ''time: invalid duration '' @ quoted orig;
          u = takeWhile unit_char s;
          rest = dropWhile unit_char s
      in if u = [] then Inl (''time: missing unit in duration '' @ quoted orig)
         else case unitMap u of
           None \<Rightarrow> Inl (''time: unknown unit '' @ quoted u @ '' in duration '' @ quoted orig)
         | Some unit \<Rightarrow>
             if v > 2 ^ 63 div unit then Inl invalid
             else if f > 0
             then (let v' = v * unit + scale_fraction f unit scale
                   in if v' > 2 ^ 63 then Inl invalid else Inr (v', rest))
             else Inr (v * unit, rest))"

definition parse_item :: "string \<Rightarrow> string \<Rightarrow> string + nat \<times> string" where
  "parse_item orig s =
     (let invalid = ''time: invalid duration '' @ quoted orig
      in if s = [] \<or> \<not> (hd s = CHR ''.'' \<or> is_digit (hd s)) then Inl invalid
         else case leadingInt 0 s of
           None \<Rightarrow> Inl invalid
         | Some (v, s1) \<Rightarrow>
             (case parse_fraction s1 of
                (f, scale, post, s2) \<Rightarrow>
                  if length s1 = length s \<and> \<not> post then Inl invalid else parse_unit orig v f scale s2))"

lemma parse_fraction_length: "parse_fraction s = (f, scale, post, r) \<Longrightarrow> length r \<le> length s"
  by (auto simp: parse_fraction_def split: if_splits prod.splits dest!: leadingFraction_length)

lemma parse_unit_shorter:
  assumes "parse_unit orig v f scale s = Inr (w, rest)"
  shows "length rest < length s"
proof -
  from assms have "takeWhile unit_char s \<noteq> []" and rest: "rest = dropWhile unit_char s"
    by (auto simp: parse_unit_def Let_def split: if_splits option.splits)
  then obtain c cs where "s = c # cs" "unit_char c" by (cases s) (auto split: if_splits)
  with rest show ?thesis using length_dropWhile_le [of unit_char cs] by simp
qed

lemma parse_item_shorter: "parse_item orig s = Inr (v, rest) \<Longrightarrow> length rest < length s"
  by (auto simp: parse_item_def Let_def split: if_splits option.splits prod.splits
      dest!: leadingInt_length parse_fraction_length parse_unit_shorter)

function parse_items :: "string \<Rightarrow> nat \<Rightarrow> string \<Rightarrow> string + nat" where
  "parse_items orig d s =
     (if s = [] then Inr d
      else case parse_item orig s of
        Inl m \<Rightarrow> Inl m
      | Inr (v, rest) \<Rightarrow>
          if d + v > 2 ^ 63 then Inl (''time: invalid duration '' @ quoted orig)
          else parse_items orig (d + v) rest)"
  by pat_completeness auto
termination
  by (relation "measure (\<lambda>(orig, d, s). length s)") (auto intro: parse_item_shorter)

declare parse_items.simps [simp del]

definition ParseDuration :: "string \<Rightarrow> go_error + int" where
  "ParseDuration orig =
     (let s = unsigned_part orig; neg = negative orig;
          invalid = Inl (Msg (''time: invalid duration '' @ quoted orig))
      in if s = ''0'' then Inr 0
         else if s = [] then invalid
         else case parse_items orig 0 s of
           Inl m \<Rightarrow> Inl (Msg m)
         | Inr d \<Rightarrow> if neg then Inr (- int d) else if d > 2 ^ 63 - 1 then invalid else Inr (int d))"

section \<open>Whole seconds survive being written and read back\<close>

text \<open>The text that may follow a unit: nothing, or the digits of the next number.\<close>

definition number_next :: "string \<Rightarrow> bool" where
  "number_next r \<longleftrightarrow> r = [] \<or> is_digit (hd r)"

lemma leadingInt_stop: "r = [] \<or> \<not> is_digit (hd r) \<Longrightarrow> leadingInt x r = Some (x, r)"
  by (cases r) auto

lemma leadingInt_append:
  "\<forall>c \<in> set ds. is_digit c \<Longrightarrow>
     leadingInt x (ds @ r) = (case leadingInt x ds of None \<Rightarrow> None | Some (v, _) \<Rightarrow> leadingInt v r)"
  by (induction ds arbitrary: x) (auto simp: leadingInt_stop)

lemma leadingInt_nat_text: "n < 2 ^ 63 \<Longrightarrow> leadingInt 0 (nat_text n) = Some (n, [])"
proof (induction n rule: nat_text.induct)
  case (1 n)
  show ?case
  proof (cases "n < 10")
    case True
    then show ?thesis by (simp add: nat_text.simps [of n])
  next
    case False
    with 1 have "leadingInt 0 (nat_text (n div 10)) = Some (n div 10, [])" by simp
    moreover have "n div 10 * 10 + n mod 10 = n" by simp
    ultimately show ?thesis
      using False 1(2) nat_text_digits [of "n div 10"]
      by (simp add: nat_text.simps [of n] leadingInt_append)
  qed
qed

definition second_units :: "(char \<times> nat) set" where
  "second_units = {(CHR ''h'', 3600000000000), (CHR ''m'', 60000000000), (CHR ''s'', 1000000000)}"

lemma parse_item_number:
  assumes "(u, unit) \<in> second_units" and "n \<le> 2 ^ 63 div unit" and "number_next rest"
  shows "parse_item orig (nat_text n @ u # rest) = Inr (n * unit, rest)"
proof -
  have u: "\<not> is_digit u" "unit_char u" "unitMap [u] = Some unit" "u \<noteq> CHR ''.''"
    using assms(1) by (auto simp: second_units_def unit_char_def is_digit_def unitMap_def micro_def)
  have "2 ^ 63 div unit < 2 ^ 63"
    using assms(1) by (auto simp: second_units_def)
  with assms(2) have n: "n < 2 ^ 63" by simp
  have "leadingInt 0 (nat_text n @ u # rest) = Some (n, u # rest)"
    using leadingInt_nat_text [OF n] nat_text_digits [of n] u(1) by (simp add: leadingInt_append)
  moreover have "takeWhile unit_char rest = []" "dropWhile unit_char rest = rest"
    using assms(3) by (cases rest; simp add: number_next_def unit_char_def)+
  ultimately show ?thesis
    using assms(2) u nat_text_nonempty [of n] nat_text_hd_digit [of n]
    by (simp add: parse_item_def parse_fraction_def parse_unit_def)
qed

lemma parse_items_number:
  assumes "(u, unit) \<in> second_units" and "number_next rest" and "d + n * unit \<le> 2 ^ 63"
  shows "parse_items orig d (nat_text n @ u # rest) = parse_items orig (d + n * unit) rest"
proof -
  have "0 < unit" using assms(1) by (auto simp: second_units_def)
  with assms(3) have "n \<le> 2 ^ 63 div unit" by (simp add: less_eq_div_iff_mult_less_eq)
  with parse_item_number [OF assms(1) _ assms(2)] assms(3) show ?thesis
    by (simp add: parse_items.simps [of orig d])
qed

lemma number_next_text: "number_next []" "number_next (nat_text n @ r)"
  using nat_text_hd_digit [of n] nat_text_nonempty [of n] by (simp_all add: number_next_def)

lemma zeros_drop: "drop_zeros (replicate n CHR ''0'') = []"
  by (induction n) simp_all

lemma last_digits_zero: "v mod 10 ^ prec = 0 \<Longrightarrow> last_digits v prec = replicate prec CHR ''0''"
proof (induction prec arbitrary: v)
  case 0
  then show ?case by simp
next
  case (Suc prec)
  then have dvd: "10 * 10 ^ prec dvd v" by (simp add: mod_eq_0_iff_dvd)
  then have "v mod 10 = 0" by (metis dvd_mult_left mod_eq_0_iff_dvd)
  moreover have "v div 10 mod 10 ^ prec = 0"
    using dvd by (metis div_mult_self1_is_m dvd_def mod_mult_self1_is_0 mult.assoc zero_less_numeral)
  ultimately show ?case using Suc.IH [of "v div 10"]
    by (simp add: digit_char_def replicate_append_same)
qed

lemma fmtFrac_whole: "fmtFrac (k * 10 ^ prec) prec = []"
  by (simp add: fmtFrac_def last_digits_zero zeros_drop)

lemma split_seconds: "(k div 60 div 60) * 3600 + (k div 60 mod 60) * 60 + k mod 60 = (k::nat)"
proof -
  have "k div 60 = k div 60 div 60 * 60 + k div 60 mod 60" by simp
  moreover have "k = k div 60 * 60 + k mod 60" by simp
  ultimately show ?thesis by linarith
qed

text \<open>Every number of whole seconds that fits is written as a text that is read back as itself.\<close>

lemma ParseDuration_String_seconds:
  assumes "k \<le> 9223372036"
  shows "ParseDuration (Duration_String (int k * Second)) = Inr (int k * Second)"
proof (cases "k = 0")
  case True
  then show ?thesis
    by (simp add: Duration_String_def ParseDuration_def unsigned_part_def negative_def Let_def
        parse_items.simps parse_item_def parse_fraction_def parse_unit_def is_digit_def unit_char_def
        digit_val_def unitMap_def micro_def)
next
  case False
  let ?h = "k div 60 div 60" and ?m = "k div 60 mod 60" and ?s = "k mod 60"
  let ?text = "Duration_String (int k * Second)"
  have u: "(CHR ''h'', 3600000000000) \<in> second_units" "(CHR ''m'', 60000000000) \<in> second_units"
    "(CHR ''s'', 1000000000) \<in> second_units" by (simp_all add: second_units_def)
  have shown: "?text = (if ?h > 0 then nat_text ?h @ ''h'' else []) @
      (if k div 60 > 0 then nat_text ?m @ ''m'' else []) @ nat_text ?s @ ''s''"
  proof -
    have "nat \<bar>int k * Second\<bar> = k * 10 ^ 9" by (simp add: Second_def nat_mult_distrib)
    moreover have "\<not> k * 10 ^ 9 < (10 ^ 9 :: nat)" using False by simp
    moreover have "\<not> int k * Second < 0" by (simp add: Second_def)
    moreover have "fmtFrac (k * 10 ^ 9) 9 = []" by (rule fmtFrac_whole)
    ultimately show ?thesis
      using False by (simp add: Duration_String_def long_form_def Let_def)
  qed
  have sum: "?h * 3600000000000 + ?m * 60000000000 + ?s * 1000000000 = k * 1000000000"
    using arg_cong [OF split_seconds [of k], where f = "\<lambda>x. x * 1000000000"]
    by (simp add: add_mult_distrib)
  have cap: "k * 1000000000 \<le> 2 ^ 63" using assms by simp
  have secs: "parse_items orig d (nat_text ?s @ ''s'') = Inr (d + ?s * 1000000000)"
    if "d + ?s * 1000000000 \<le> 2 ^ 63" for orig d
    using parse_items_number [OF u(3) number_next_text(1) that] by (simp add: parse_items.simps)
  have mins: "parse_items orig d (nat_text ?m @ CHR ''m'' # nat_text ?s @ ''s'') =
      Inr (d + ?m * 60000000000 + ?s * 1000000000)"
    if "d + ?m * 60000000000 + ?s * 1000000000 \<le> 2 ^ 63" for orig d
    using parse_items_number [OF u(2) number_next_text(2), of d ?m orig ?s "''s''"] secs that by simp
  have hours: "parse_items orig 0 (nat_text ?h @ CHR ''h'' # nat_text ?m @ CHR ''m'' # nat_text ?s @ ''s'') =
      Inr (?h * 3600000000000 + ?m * 60000000000 + ?s * 1000000000)" for orig
    using parse_items_number [OF u(1) number_next_text(2), of 0 ?h orig ?m "CHR ''m'' # nat_text ?s @ ''s''"]
      mins [of "?h * 3600000000000"] sum cap by simp
  have parsed: "parse_items orig 0 ?text = Inr (k * 1000000000)" for orig
  proof (cases "?h > 0")
    case True
    then have "k div 60 > 0" by (metis div_0 gr0I less_irrefl)
    with True hours [of orig] sum show ?thesis by (simp add: shown)
  next
    case h: False
    show ?thesis
    proof (cases "k div 60 > 0")
      case True
      with h mins [of 0 orig] sum cap show ?thesis by (simp add: shown)
    next
      case False
      then have "k div 60 = 0" by simp
      with h secs [of 0 orig] sum cap show ?thesis by (simp add: shown)
    qed
  qed
  have "\<exists>n r. ?text = nat_text n @ r \<and> r \<noteq> []" by (auto simp: shown)
  then obtain n r where t: "?text = nat_text n @ r" "r \<noteq> []" by blast
  have hd: "is_digit (hd ?text)" "?text \<noteq> []"
    using nat_text_hd_digit [of n] nat_text_nonempty [of n] by (simp_all add: t(1))
  then have sign: "unsigned_part ?text = ?text" "\<not> negative ?text"
    by (auto simp: unsigned_part_def negative_def is_digit_def split: list.splits)
  have "?text \<noteq> ''0''"
  proof
    assume "?text = ''0''"
    with t have "length (nat_text n) + length r = 1" by (metis length_append length_Cons list.size(3) One_nat_def)
    with t(2) nat_text_nonempty [of n] show False by (cases r; cases "nat_text n") auto
  qed
  moreover have "k * 1000000000 \<le> 2 ^ 63 - 1" using assms by simp
  ultimately show ?thesis
    using parsed sign hd by (simp add: ParseDuration_def Second_def)
qed

end
