(* ===== verification/Suite_Helpers.thy ===== *)
theory Suite_Helpers
  imports Go_OS Go_Time
begin

text \<open>
  Small helpers the test suites share: \<open>StopProcesses\<close> (\<open>helpers/stop_process.go\<close>), the default
  timeouts (\<open>helpers/timeouts.go\<close>), \<open>Copy\<close> (\<open>helpers/copy.go\<close>) and \<open>GenerateGuid\<close>
  (\<open>helpers/generate_guid.go\<close>).
\<close>

section \<open>Stopping processes\<close>

text \<open>
  An \<open>ifrit.Process\<close> is third-party code and is known by a number. What matters of it is
  whether its channel \<open>Wait()\<close> delivers within the time given: a parameter that looks at the
  signals sent so far, to this process and to the others. \<open>InterceptGomegaFailures\<close> records
  failed assertions of its closure and lets it go on.
\<close>

datatype signal = SIGKILL | SIGTERM | SIGQUIT

datatype intercepted = NotReceived | Described string

record stopping =
  sent :: "(nat \<times> signal) list"
  said :: "string list"
  failures :: "intercepted list"

type_synonym exits = "(nat \<times> signal) list \<Rightarrow> nat \<Rightarrow> bool"

definition Signal :: "nat \<Rightarrow> signal \<Rightarrow> (failure, stopping, unit) comp" where
  "Signal p sig = modify (\<lambda>s. s\<lparr>sent := sent s @ [(p, sig)]\<rparr>)"

definition waited :: "exits \<Rightarrow> nat \<Rightarrow> (failure, stopping, bool) comp" where
  "waited E p = gets (\<lambda>s. E (sent s) p)"

definition intercepted_expect :: "bool \<Rightarrow> intercepted \<Rightarrow> (failure, stopping, unit) comp" where
  "intercepted_expect b m = (if b then ret () else modify (\<lambda>s. s\<lparr>failures := failures s @ [m]\<rparr>))"

definition stop_one :: "platform \<Rightarrow> exits \<Rightarrow> nat option \<Rightarrow> (failure, stopping, unit) comp" where
  "stop_one P E process =
     (case process of
        None \<Rightarrow> ret ()
      | Some p \<Rightarrow>
          andThen (if windows P then Signal p SIGKILL else Signal p SIGTERM) (\<lambda>_.
          andThen (waited E p) (\<lambda>stopped.
          if stopped then ret ()
          else
            andThen (modify (\<lambda>s. s\<lparr>said := said s @ [''!!!!!!!!!!!!!!!! STOP TIMEOUT !!!!!!!!!!!!!!!!'']\<rparr>)) (\<lambda>_.
            andThen (Signal p SIGQUIT) (\<lambda>_.
            andThen (waited E p) (\<lambda>received.
            andThen (intercepted_expect received NotReceived) (\<lambda>_.
            intercepted_expect False (Described ''process did not shut down cleanly; SIGQUIT sent''))))))))"

definition StopProcesses :: "platform \<Rightarrow> exits \<Rightarrow> nat option list \<Rightarrow> (failure, stopping, unit) comp" where
  "StopProcesses P E processes =
     andThen (modify (\<lambda>s. s\<lparr>failures := []\<rparr>)) (\<lambda>_.
     andThen (for_each processes (stop_one P E)) (\<lambda>_.
     andThen (gets failures) (\<lambda>fs.
     expect_that (fs = []) ''at least one process failed to shut down cleanly'')))"

text \<open>
  The signals as a plan: the processes that are there, in order, each with whether it was
  late, judged from the signals sent up to then.
\<close>

definition first_signal :: "platform \<Rightarrow> signal" where
  "first_signal P = (if windows P then SIGKILL else SIGTERM)"

definition signals_of :: "platform \<Rightarrow> nat \<times> bool \<Rightarrow> (nat \<times> signal) list" where
  "signals_of P pl = (fst pl, first_signal P) # (if snd pl then [(fst pl, SIGQUIT)] else [])"

primrec stop_plan :: "platform \<Rightarrow> exits \<Rightarrow> (nat \<times> signal) list \<Rightarrow> nat list \<Rightarrow> (nat \<times> bool) list" where
  "stop_plan P E log [] = []"
| "stop_plan P E log (p # ps) =
     (let late = \<not> E (log @ [(p, first_signal P)]) p
      in (p, late) # stop_plan P E (log @ signals_of P (p, late)) ps)"

definition present :: "'a option list \<Rightarrow> 'a list" where
  "present xs = map the (filter (\<lambda>x. x \<noteq> None) xs)"

lemma stop_plan_processes: "map fst (stop_plan P E log ps) = ps"
  by (induction ps arbitrary: log) (simp_all add: Let_def)

lemma stop_one_run:
  "fst (stop_one P E None s) = Inr () \<and> snd (stop_one P E None s) = s"
  "fst (stop_one P E (Some p) s) = Inr ()
   \<and> (let late = \<not> E (sent s @ [(p, first_signal P)]) p; t = snd (stop_one P E (Some p) s)
      in sent t = sent s @ signals_of P (p, late) \<and> (failures t = [] \<longleftrightarrow> failures s = [] \<and> \<not> late))"
  by (simp_all add: stop_one_def andThen_def Signal_def waited_def intercepted_expect_def
      first_signal_def signals_of_def Let_def)

lemma stop_all_run:
  "fst (for_each ps (stop_one P E) s) = Inr ()
   \<and> (let plan = stop_plan P E (sent s) (present ps); t = snd (for_each ps (stop_one P E) s)
      in sent t = sent s @ concat (map (signals_of P) plan)
       \<and> (failures t = [] \<longleftrightarrow> failures s = [] \<and> True \<notin> snd ` set plan))"
proof (induction ps arbitrary: s)
  case Nil
  then show ?case by (simp add: present_def)
next
  case (Cons p ps)
  obtain t where one: "stop_one P E p s = (Inr (), t)"
    using stop_one_run(1) [of P E s] stop_one_run(2) [of P E _ s]
    by (cases p) (metis prod.collapse)+
  note IH = Cons.IH [of t]
  show ?case
  proof (cases p)
    case None
    with one IH show ?thesis using stop_one_run(1) [of P E s] by (simp add: andThen_def present_def)
  next
    case (Some q)
    with one IH show ?thesis
      using stop_one_run(2) [of P E q s] by (auto simp: andThen_def present_def Let_def)
  qed
qed

lemma StopProcesses_run:
  "\<exists>t. StopProcesses P E ps s
      = (if True \<in> snd ` set (stop_plan P E (sent s) (present ps))
         then Inl (Expectation ''at least one process failed to shut down cleanly'') else Inr (), t)
    \<and> sent t = sent s @ concat (map (signals_of P) (stop_plan P E (sent s) (present ps)))"
proof -
  obtain t where run: "for_each ps (stop_one P E) (s\<lparr>failures := []\<rparr>) = (Inr (), t)"
    using stop_all_run [of ps P E "s\<lparr>failures := []\<rparr>"] by (metis prod.collapse)
  with stop_all_run [of ps P E "s\<lparr>failures := []\<rparr>"] show ?thesis
    by (auto simp: StopProcesses_def andThen_def Let_def expect_that_def)
qed

text \<open>
  Property C33. \<open>StopProcesses\<close> sends the stop signal to every process that is not nil, in the
  order of its arguments, whatever became of the ones before; one that does not stop within
  a minute is sent \<open>SIGQUIT\<close> next, before the following process is touched; and the call
  fails the spec exactly if some process was late, even if it then obeyed \<open>SIGQUIT\<close>.
\<close>

theorem stop_signals_everyone:
  "case StopProcesses P E processes s of (r, t) \<Rightarrow>
     sent t = sent s @ concat (map (signals_of P) (stop_plan P E (sent s) (present processes)))
   \<and> map fst (stop_plan P E (sent s) (present processes)) = present processes
   \<and> r = (if True \<in> snd ` set (stop_plan P E (sent s) (present processes))
          then Inl (Expectation ''at least one process failed to shut down cleanly'') else Inr ())"
proof -
  from StopProcesses_run [of P E processes s] obtain t where run: "StopProcesses P E processes s
      = (if True \<in> snd ` set (stop_plan P E (sent s) (present processes))
         then Inl (Expectation ''at least one process failed to shut down cleanly'') else Inr (), t)"
    and log: "sent t = sent s @ concat (map (signals_of P) (stop_plan P E (sent s) (present processes)))" by blast
  show ?thesis unfolding run by (simp add: log stop_plan_processes)
qed

section \<open>Default timeouts\<close>

text \<open>The package variables of the source and the settings of Gomega, on top of the environment.\<close>

record timeouts = os +
  DEFAULT_EVENTUALLY_TIMEOUT :: int
  DEFAULT_CONSISTENTLY_DURATION :: int
  DefaultEventuallyTimeout :: int
  DefaultConsistentlyDuration :: int
  DefaultConsistentlyPollingInterval :: int
  DefaultEventuallyPollingInterval :: int

text \<open>
  The step the source writes out for each variable. When the text is no duration, the
  assignment has already stored the zero duration that came with the error.
\<close>

definition duration_from_env :: "string \<Rightarrow> (int \<Rightarrow> 's timeouts_scheme \<Rightarrow> 's timeouts_scheme)
    \<Rightarrow> (failure, 's timeouts_scheme, unit) comp" where
  "duration_from_env k set_var =
     andThen (Getenv k) (\<lambda>v.
     if v \<noteq> [] then
       (case ParseDuration v of
          Inl err \<Rightarrow> andThen (modify (set_var 0)) (\<lambda>_. fail (Panic (error_text err)))
        | Inr d \<Rightarrow> modify (set_var d))
     else ret ())"

definition RegisterDefaultTimeouts :: "(failure, 's timeouts_scheme, unit) comp" where
  "RegisterDefaultTimeouts =
     andThen (duration_from_env ''DEFAULT_EVENTUALLY_TIMEOUT''
       (\<lambda>d s. s\<lparr>DEFAULT_EVENTUALLY_TIMEOUT := d\<rparr>)) (\<lambda>_.
     andThen (duration_from_env ''DEFAULT_CONSISTENTLY_DURATION''
       (\<lambda>d s. s\<lparr>DEFAULT_CONSISTENTLY_DURATION := d\<rparr>)) (\<lambda>_.
     modify (\<lambda>s. s\<lparr>DefaultEventuallyTimeout := DEFAULT_EVENTUALLY_TIMEOUT s,
       DefaultConsistentlyDuration := DEFAULT_CONSISTENTLY_DURATION s,
       DefaultConsistentlyPollingInterval := 100 * Millisecond,
       DefaultEventuallyPollingInterval := 500 * Millisecond\<rparr>)))"

text \<open>The initial values of the two package variables.\<close>

definition default_eventually_timeout :: int where
  "default_eventually_timeout = 1 * Minute"

definition default_consistently_duration :: int where
  "default_consistently_duration = 5 * Second"

text \<open>The duration a variable of the environment asks for, where it is set and not empty.\<close>

definition asked :: "string \<Rightarrow> int \<Rightarrow> 's os_scheme \<Rightarrow> go_error + int" where
  "asked k d s = (case env s k of None \<Rightarrow> Inr d | Some v \<Rightarrow> if v = [] then Inr d else ParseDuration v)"

lemma duration_from_env_run:
  assumes "set_var d s = s"
  shows "duration_from_env k set_var s = (case asked k d s of
     Inl e \<Rightarrow> (Inl (Panic (error_text e)), set_var 0 s) | Inr d' \<Rightarrow> (Inr (), set_var d' s))"
proof (cases "case env s k of None \<Rightarrow> [] | Some v \<Rightarrow> v")
  case Nil
  with assms show ?thesis
    by (cases "env s k") (simp_all add: duration_from_env_def Getenv_def asked_def andThen_def)
next
  case (Cons c cs)
  then have "env s k = Some (c # cs)" by (cases "env s k") simp_all
  then show ?thesis
    by (cases "ParseDuration (c # cs)") (simp_all add: duration_from_env_def Getenv_def asked_def andThen_def)
qed

lemma asked_env: "env t = env s \<Longrightarrow> asked k d t = asked k d s"
  by (simp add: asked_def)

text \<open>
  \<open>RegisterDefaultTimeouts\<close> panics with the parse error of the first of the two
  variables that is set, not empty and no duration, and then leaves all Gomega settings as
  they were; otherwise Gomega gets the two durations of the environment or the defaults.
\<close>

theorem timeouts_registered:
  "case RegisterDefaultTimeouts s of
     (Inl f, t) \<Rightarrow> \<exists>e. f = Panic (error_text e)
       \<and> (asked ''DEFAULT_EVENTUALLY_TIMEOUT'' (DEFAULT_EVENTUALLY_TIMEOUT s) s = Inl e
          \<or> asked ''DEFAULT_CONSISTENTLY_DURATION'' (DEFAULT_CONSISTENTLY_DURATION s) s = Inl e)
       \<and> DefaultEventuallyTimeout t = DefaultEventuallyTimeout s
       \<and> DefaultConsistentlyDuration t = DefaultConsistentlyDuration s
       \<and> DefaultConsistentlyPollingInterval t = DefaultConsistentlyPollingInterval s
       \<and> DefaultEventuallyPollingInterval t = DefaultEventuallyPollingInterval s
   | (Inr _, t) \<Rightarrow>
       asked ''DEFAULT_EVENTUALLY_TIMEOUT'' (DEFAULT_EVENTUALLY_TIMEOUT s) s = Inr (DefaultEventuallyTimeout t)
       \<and> asked ''DEFAULT_CONSISTENTLY_DURATION'' (DEFAULT_CONSISTENTLY_DURATION s) s = Inr (DefaultConsistentlyDuration t)
       \<and> DefaultConsistentlyPollingInterval t = 100 * Millisecond
       \<and> DefaultEventuallyPollingInterval t = 500 * Millisecond"
proof -
  let ?a = "asked ''DEFAULT_EVENTUALLY_TIMEOUT'' (DEFAULT_EVENTUALLY_TIMEOUT s) s"
  let ?b = "asked ''DEFAULT_CONSISTENTLY_DURATION'' (DEFAULT_CONSISTENTLY_DURATION s) s"
  have first: "duration_from_env ''DEFAULT_EVENTUALLY_TIMEOUT'' (\<lambda>d s. s\<lparr>DEFAULT_EVENTUALLY_TIMEOUT := d\<rparr>) s =
      (case ?a of Inl e \<Rightarrow> (Inl (Panic (error_text e)), s\<lparr>DEFAULT_EVENTUALLY_TIMEOUT := 0\<rparr>)
       | Inr d \<Rightarrow> (Inr (), s\<lparr>DEFAULT_EVENTUALLY_TIMEOUT := d\<rparr>))"
    by (rule duration_from_env_run) simp
  have second: "duration_from_env ''DEFAULT_CONSISTENTLY_DURATION'' (\<lambda>d s. s\<lparr>DEFAULT_CONSISTENTLY_DURATION := d\<rparr>)
        (s\<lparr>DEFAULT_EVENTUALLY_TIMEOUT := x\<rparr>) =
      (case ?b of Inl e \<Rightarrow> (Inl (Panic (error_text e)),
         s\<lparr>DEFAULT_EVENTUALLY_TIMEOUT := x, DEFAULT_CONSISTENTLY_DURATION := 0\<rparr>)
       | Inr d \<Rightarrow> (Inr (), s\<lparr>DEFAULT_EVENTUALLY_TIMEOUT := x, DEFAULT_CONSISTENTLY_DURATION := d\<rparr>))" for x
    using duration_from_env_run [where k = "''DEFAULT_CONSISTENTLY_DURATION''"
        and set_var = "\<lambda>d s. s\<lparr>DEFAULT_CONSISTENTLY_DURATION := d\<rparr>"
        and d = "DEFAULT_CONSISTENTLY_DURATION s" and s = "s\<lparr>DEFAULT_EVENTUALLY_TIMEOUT := x\<rparr>"]
      asked_env [of "s\<lparr>DEFAULT_EVENTUALLY_TIMEOUT := x\<rparr>" s]
    by simp
  show ?thesis
    by (cases ?a; cases ?b) (auto simp: RegisterDefaultTimeouts_def andThen_def first second)
qed

text \<open>
  A timeout of whole seconds that is exported in the notation Go prints durations
  in is the one Gomega is given.
\<close>

theorem exported_timeout_used:
  assumes "k \<le> 9223372036"
    and "env s ''DEFAULT_EVENTUALLY_TIMEOUT'' = Some (Duration_String (int k * Second))"
    and "env s ''DEFAULT_CONSISTENTLY_DURATION'' = None"
  shows "fst (RegisterDefaultTimeouts s) = Inr ()
    \<and> DefaultEventuallyTimeout (snd (RegisterDefaultTimeouts s)) = int k * Second"
proof -
  have "Duration_String (int k * Second) \<noteq> []"
    by (simp add: Duration_String_def long_form_def Let_def)
  with ParseDuration_String_seconds [OF assms(1)] assms(2,3) show ?thesis
    by (simp add: RegisterDefaultTimeouts_def duration_from_env_def Getenv_def andThen_def)
qed

definition demo_timeouts :: timeouts where
  "demo_timeouts = \<lparr>env = [''DEFAULT_EVENTUALLY_TIMEOUT'' \<mapsto> Duration_String (int 120 * Second)], fs = Map.empty, calls = 0, ran = [],
     DEFAULT_EVENTUALLY_TIMEOUT = default_eventually_timeout,
     DEFAULT_CONSISTENTLY_DURATION = default_consistently_duration,
     DefaultEventuallyTimeout = Second, DefaultConsistentlyDuration = Second,
     DefaultConsistentlyPollingInterval = Second, DefaultEventuallyPollingInterval = Second\<rparr>"

theorem exported_timeout_used_witness:
  "DefaultEventuallyTimeout (snd (RegisterDefaultTimeouts demo_timeouts)) = 2 * Minute"
proof -
  have "env demo_timeouts ''DEFAULT_EVENTUALLY_TIMEOUT'' = Some (Duration_String (int 120 * Second))"
    by (simp add: demo_timeouts_def)
  from exported_timeout_used [OF _ this] show ?thesis
    by (simp add: demo_timeouts_def time_units)
qed

section \<open>Copying and unique names\<close>

definition Copy :: "platform \<Rightarrow> string \<Rightarrow> string \<Rightarrow> (failure, 's os_scheme, unit) comp" where
  "Copy P sourcePath destinationPath =
     andThen (expect_that (sourcePath \<noteq> []) ''not to be empty'') (\<lambda>_.
     andThen (expect_that (destinationPath \<noteq> []) ''not to be empty'') (\<lambda>_.
     expect_ok (Run P ''cp'' [''-a'', sourcePath, destinationPath] [])))"

text \<open>\<open>uuid.NewV4\<close> is third-party code: the argument is what it returned.\<close>

definition GenerateGuid :: "go_error + string \<Rightarrow> (failure, 's, string) comp" where
  "GenerateGuid newV4 =
     (case newV4 of
        Inl err \<Rightarrow> fail (Panic ''Failed to generate a GUID.  Craziness.'')
      | Inr guid \<Rightarrow> ret guid)"

end
