(* ===== verification/BBS_Helpers.thy ===== *)
theory BBS_Helpers
  imports Go_Strings
begin

text \<open>
  The helpers that ask the BBS for tasks and long-running processes, \<open>helpers/pollers.go\<close>, and
  the Gomega matcher for crash events, \<open>helpers/match_bbs_event.go\<close>.

  The BBS client is third-party code: a record of the operations the helpers call, over a
  state the model does not look into. A poller's out parameter is an address into the cells
  of the caller, or nil.
\<close>

section \<open>Data\<close>

record ActualLRP =
  ProcessGuid :: string
  Index :: int
  InstanceGuid :: string
  CellId :: string
  State :: string

record Task =
  TaskGuid :: string
  Task_State :: int
  Failed :: bool

record ActualLRPFilter =
  filter_ProcessGuid :: string
  filter_Index :: "int option"

text \<open>\<open>Resolve\<close> gives the instance of a deprecated group and whether it is evacuating.\<close>

record ('b, 'grp) bbs_client =
  ActualLRPs :: "ActualLRPFilter \<Rightarrow> 'b \<Rightarrow> (go_error + ActualLRP list) \<times> 'b"
  ActualLRPGroupsByProcessGuid :: "string \<Rightarrow> 'b \<Rightarrow> (go_error + 'grp list) \<times> 'b"
  ActualLRPGroupByProcessGuidAndIndex :: "string \<Rightarrow> int \<Rightarrow> 'b \<Rightarrow> (go_error + 'grp) \<times> 'b"
  Resolve :: "'grp \<Rightarrow> go_error + ActualLRP \<times> bool"
  TaskByGuid :: "string \<Rightarrow> 'b \<Rightarrow> (go_error + Task) \<times> 'b"
  StateUnclaimed :: string
  StateRunning :: string

record 'b polling =
  bbs :: 'b
  task_cells :: "nat \<rightharpoonup> Task"
  lrp_cells :: "nat \<rightharpoonup> ActualLRP"

text \<open>A call of the client, whose error is a value for the caller to look at.\<close>

definition call :: "('b \<Rightarrow> (go_error + 'a) \<times> 'b) \<Rightarrow> (failure, 'b polling, go_error + 'a) comp" where
  "call f = (\<lambda>s. case f (bbs s) of (r, b) \<Rightarrow> (Inr r, s\<lparr>bbs := b\<rparr>))"

lemma call_run: "call f s = (Inr (fst (f (bbs s))), s\<lparr>bbs := snd (f (bbs s))\<rparr>)"
  by (simp add: call_def split: prod.split)

section \<open>Lists of processes\<close>

definition filteredActualLRPs :: "('b, 'grp) bbs_client \<Rightarrow> string \<Rightarrow> (ActualLRP \<Rightarrow> bool)
    \<Rightarrow> (failure, 'b polling, ActualLRP list) comp" where
  "filteredActualLRPs C processGuid filt =
     andThen (call (ActualLRPs C \<lparr>filter_ProcessGuid = processGuid, filter_Index = None\<rparr>)) (\<lambda>r.
     andThen (expect_val r) (\<lambda>lrps.
     ret (filter filt lrps)))"

definition ActiveActualLRPs :: "('b, 'grp) bbs_client \<Rightarrow> string \<Rightarrow> (failure, 'b polling, ActualLRP list) comp" where
  "ActiveActualLRPs C processGuid = filteredActualLRPs C processGuid (\<lambda>lrp. State lrp \<noteq> StateUnclaimed C)"

definition RunningActualLRPs :: "('b, 'grp) bbs_client \<Rightarrow> string \<Rightarrow> (failure, 'b polling, ActualLRP list) comp" where
  "RunningActualLRPs C processGuid = filteredActualLRPs C processGuid (\<lambda>lrp. State lrp = StateRunning C)"

section \<open>Pollers\<close>

definition store_task :: "nat option \<Rightarrow> Task \<Rightarrow> (failure, 'b polling, unit) comp" where
  "store_task p x = (case p of None \<Rightarrow> ret ()
     | Some a \<Rightarrow> modify (\<lambda>s. s\<lparr>task_cells := (task_cells s)(a \<mapsto> x)\<rparr>))"

definition store_lrp :: "nat option \<Rightarrow> ActualLRP \<Rightarrow> (failure, 'b polling, unit) comp" where
  "store_lrp p x = (case p of None \<Rightarrow> ret ()
     | Some a \<Rightarrow> modify (\<lambda>s. s\<lparr>lrp_cells := (lrp_cells s)(a \<mapsto> x)\<rparr>))"

definition TaskStatePoller :: "('b, 'grp) bbs_client \<Rightarrow> string \<Rightarrow> nat option
    \<Rightarrow> (failure, 'b polling, int) comp" where
  "TaskStatePoller C taskGuid task =
     andThen (call (TaskByGuid C taskGuid)) (\<lambda>r.
     andThen (expect_val r) (\<lambda>rTask.
     andThen (store_task task rTask) (\<lambda>_.
     ret (Task_State rTask))))"

definition TaskFailedPoller :: "('b, 'grp) bbs_client \<Rightarrow> string \<Rightarrow> nat option
    \<Rightarrow> (failure, 'b polling, bool) comp" where
  "TaskFailedPoller C taskGuid task =
     andThen (call (TaskByGuid C taskGuid)) (\<lambda>r.
     andThen (expect_val r) (\<lambda>rTask.
     andThen (store_task task rTask) (\<lambda>_.
     ret (Failed rTask))))"

definition not_found :: "go_error \<Rightarrow> bool" where
  "not_found e \<longleftrightarrow> contains (error_text e) ''Invalid Response with status code: 404''"

text \<open>
  The first half of each of the two polls of processes finds \<open>foundLRP\<close>; when the BBS has no
  instance, \<open>LRPStatePoller\<close> returns early.
\<close>

definition found_lrp :: "('b, 'grp) bbs_client \<Rightarrow> string \<Rightarrow> (failure, 'b polling, ActualLRP option) comp" where
  "found_lrp C processGuid =
     andThen (call (ActualLRPs C \<lparr>filter_ProcessGuid = processGuid, filter_Index = None\<rparr>)) (\<lambda>r.
     case r of
       Inl err \<Rightarrow>
         if not_found err then
           andThen (call (ActualLRPGroupsByProcessGuid C processGuid)) (\<lambda>r'.
           andThen (expect_val r') (\<lambda>lrpGroups.
           case lrpGroups of
             [] \<Rightarrow> ret None
           | grp # _ \<Rightarrow> andThen (expect_val (Resolve C grp)) (\<lambda>(l, _). ret (Some l))))
         else expect_val (Inl err)
     | Inr lrps \<Rightarrow> (case lrps of [] \<Rightarrow> ret None | l # _ \<Rightarrow> ret (Some l)))"

definition LRPStatePoller :: "('b, 'grp) bbs_client \<Rightarrow> string \<Rightarrow> nat option
    \<Rightarrow> (failure, 'b polling, string) comp" where
  "LRPStatePoller C processGuid lrp =
     andThen (found_lrp C processGuid) (\<lambda>foundLRP.
     case foundLRP of
       None \<Rightarrow> ret []
     | Some l \<Rightarrow> andThen (store_lrp lrp l) (\<lambda>_. ret (State l)))"

text \<open>The index of the caller is an \<open>int\<close>; the filter takes it as an \<open>int32\<close>, the deprecated call as it is.\<close>

definition found_instance :: "('b, 'grp) bbs_client \<Rightarrow> string \<Rightarrow> int \<Rightarrow> (failure, 'b polling, ActualLRP) comp" where
  "found_instance C processGuid index =
     andThen (call (ActualLRPs C \<lparr>filter_ProcessGuid = processGuid, filter_Index = Some (wrap32 index)\<rparr>)) (\<lambda>r.
     case r of
       Inl err \<Rightarrow>
         if not_found err then
           andThen (call (ActualLRPGroupByProcessGuidAndIndex C processGuid index)) (\<lambda>r'.
           andThen (expect_val r') (\<lambda>lrpGroup.
           andThen (expect_val (Resolve C lrpGroup)) (\<lambda>(l, _). ret l)))
         else expect_val (Inl err)
     | Inr lrps \<Rightarrow>
         andThen (expect_that (length lrps = 1) ''to have length 1'') (\<lambda>_. ret (lrps ! 0)))"

definition LRPInstanceStatePoller :: "('b, 'grp) bbs_client \<Rightarrow> string \<Rightarrow> int \<Rightarrow> nat option
    \<Rightarrow> (failure, 'b polling, string) comp" where
  "LRPInstanceStatePoller C processGuid index lrp =
     andThen (found_instance C processGuid index) (\<lambda>foundLRP.
     andThen (store_lrp lrp foundLRP) (\<lambda>_. ret (State foundLRP)))"

section \<open>Properties of the pollers\<close>

lemma filtered_run:
  "filteredActualLRPs C g p s =
     (case ActualLRPs C \<lparr>filter_ProcessGuid = g, filter_Index = None\<rparr> (bbs s) of
        (Inl e, b) \<Rightarrow> (Inl (Expectation (error_text e)), s\<lparr>bbs := b\<rparr>)
      | (Inr ls, b) \<Rightarrow> (Inr (filter p ls), s\<lparr>bbs := b\<rparr>))"
  by (simp add: filteredActualLRPs_def andThen_def call_run expect_val_def
      split: sum.split prod.split)

lemma subseq_filter_imp: "(\<And>x. p x \<Longrightarrow> q x) \<Longrightarrow> subseq (filter p xs) (filter q xs)"
proof (induction xs)
  case Nil
  then show ?case by simp
next
  case (Cons x xs)
  then show ?case by (cases "p x"; cases "q x") auto
qed

text \<open>
  For the same answer of the BBS, the running processes are among the active ones,
  in the same order, and every process left out of the active ones is unclaimed; both fail
  with the client's error.
\<close>

theorem running_among_active:
  assumes "StateRunning C \<noteq> StateUnclaimed C"
  shows "case (RunningActualLRPs C g s, ActiveActualLRPs C g s) of
     ((Inr running, t), (Inr active, u)) \<Rightarrow> t = u \<and> subseq running active
       \<and> (\<exists>ls b. ActualLRPs C \<lparr>filter_ProcessGuid = g, filter_Index = None\<rparr> (bbs s) = (Inr ls, b)
            \<and> set ls - set active \<subseteq> {l. State l = StateUnclaimed C})
   | ((Inl e, t), (Inl e', u)) \<Rightarrow> t = u \<and> e = e'
   | _ \<Rightarrow> False"
proof -
  have "State l = StateRunning C \<Longrightarrow> State l \<noteq> StateUnclaimed C" for l :: ActualLRP
    using assms by simp
  from subseq_filter_imp [OF this] show ?thesis
    by (auto simp: RunningActualLRPs_def ActiveActualLRPs_def filtered_run split: prod.split sum.split)
qed

definition demo_lrp :: "string \<Rightarrow> ActualLRP" where
  "demo_lrp st = \<lparr>ProcessGuid = ''p'', Index = 0, InstanceGuid = ''i'', CellId = ''c'', State = st\<rparr>"

text \<open>A BBS with three instances, and an older one that only knows groups.\<close>

definition demo_bbs :: "(unit, ActualLRP) bbs_client" where
  "demo_bbs = \<lparr>ActualLRPs = (\<lambda>f b. (Inr ([demo_lrp ''UNCLAIMED'', demo_lrp ''RUNNING'', demo_lrp ''CRASHED'']), b)),
     ActualLRPGroupsByProcessGuid = (\<lambda>g b. (Inr [demo_lrp ''UNCLAIMED''], b)),
     ActualLRPGroupByProcessGuidAndIndex = (\<lambda>g i b. (Inr (demo_lrp ''RUNNING''), b)),
     Resolve = (\<lambda>l. Inr (l, False)), TaskByGuid = (\<lambda>g b. (Inr \<lparr>TaskGuid = g, Task_State = 3, Failed = True\<rparr>, b)),
     StateUnclaimed = ''UNCLAIMED'', StateRunning = ''RUNNING''\<rparr>"

definition demo_old_bbs :: "(unit, ActualLRP) bbs_client" where
  "demo_old_bbs = demo_bbs\<lparr>ActualLRPs :=
     (\<lambda>f b. (Inl (Msg ''Invalid Response with status code: 404''), b))\<rparr>"

definition demo_polling :: "unit polling" where
  "demo_polling = \<lparr>bbs = (), task_cells = Map.empty, lrp_cells = Map.empty\<rparr>"

theorem running_among_active_witness:
  "subseq [demo_lrp ''RUNNING''] [demo_lrp ''RUNNING'', demo_lrp ''CRASHED'']"
proof -
  have "StateRunning demo_bbs \<noteq> StateUnclaimed demo_bbs" by (simp add: demo_bbs_def)
  from running_among_active [OF this, of "''p''" demo_polling] show ?thesis
    by (simp add: RunningActualLRPs_def ActiveActualLRPs_def filtered_run demo_bbs_def demo_lrp_def)
qed

lemma store_lrp_run:
  "store_lrp p l s = (Inr (), s\<lparr>lrp_cells := (case p of None \<Rightarrow> lrp_cells s | Some a \<Rightarrow> (lrp_cells s)(a \<mapsto> l))\<rparr>)"
  by (cases p) (simp_all add: store_lrp_def)

lemma store_task_run:
  "store_task p l s = (Inr (), s\<lparr>task_cells := (case p of None \<Rightarrow> task_cells s | Some a \<Rightarrow> (task_cells s)(a \<mapsto> l))\<rparr>)"
  by (cases p) (simp_all add: store_task_def)

text \<open>What a poller did to its out parameter.\<close>

definition stored :: "nat option \<Rightarrow> 'a \<Rightarrow> (nat \<rightharpoonup> 'a) \<Rightarrow> (nat \<rightharpoonup> 'a) \<Rightarrow> bool" where
  "stored p x f g \<longleftrightarrow> g = (case p of None \<Rightarrow> f | Some a \<Rightarrow> f(a \<mapsto> x))"

lemma keeps_call: "keeps (\<lambda>s. lrp_cells s = x) (call f)"
  by (simp add: keeps_def call_run)

lemma found_keeps_cells:
  "keeps (\<lambda>s. lrp_cells s = x) (found_lrp C g)"
  "keeps (\<lambda>s. lrp_cells s = x) (found_instance C g i)"
  unfolding found_lrp_def found_instance_def
  by (rule keeps_andThen [OF keeps_call],
      auto intro!: keeps_intros keeps_call split: sum.split list.split prod.split)+

text \<open>
  What the BBS answers, in terms of its calls: that it has no instance of a process, that
  \<open>l\<close> is the first one it has, and that \<open>l\<close> is the one with an index. An older BBS answers the
  new call with 404 and is asked for its groups next.
\<close>

definition asked_of_old :: "('b, 'grp) bbs_client \<Rightarrow> string \<Rightarrow> int option \<Rightarrow> 'b \<Rightarrow> 'b \<Rightarrow> bool" where
  "asked_of_old C g i b b' \<longleftrightarrow> (\<exists>e. ActualLRPs C \<lparr>filter_ProcessGuid = g, filter_Index = i\<rparr> b = (Inl e, b')
     \<and> contains (error_text e) ''Invalid Response with status code: 404'')"

definition has_none :: "('b, 'grp) bbs_client \<Rightarrow> string \<Rightarrow> 'b \<Rightarrow> bool" where
  "has_none C g b \<longleftrightarrow> (\<exists>b'. ActualLRPs C \<lparr>filter_ProcessGuid = g, filter_Index = None\<rparr> b = (Inr [], b'))
     \<or> (\<exists>b' b''. asked_of_old C g None b b' \<and> ActualLRPGroupsByProcessGuid C g b' = (Inr [], b''))"

definition has_first :: "('b, 'grp) bbs_client \<Rightarrow> string \<Rightarrow> 'b \<Rightarrow> ActualLRP \<Rightarrow> bool" where
  "has_first C g b l \<longleftrightarrow> (\<exists>ls b'. ActualLRPs C \<lparr>filter_ProcessGuid = g, filter_Index = None\<rparr> b = (Inr (l # ls), b'))
     \<or> (\<exists>b' b'' grp grps evacuating. asked_of_old C g None b b'
          \<and> ActualLRPGroupsByProcessGuid C g b' = (Inr (grp # grps), b'') \<and> Resolve C grp = Inr (l, evacuating))"

definition has_instance :: "('b, 'grp) bbs_client \<Rightarrow> string \<Rightarrow> int \<Rightarrow> 'b \<Rightarrow> ActualLRP \<Rightarrow> bool" where
  "has_instance C g i b l \<longleftrightarrow> (\<exists>b'. ActualLRPs C \<lparr>filter_ProcessGuid = g, filter_Index = Some (wrap32 i)\<rparr> b = (Inr [l], b'))
     \<or> (\<exists>b' b'' grp evacuating. asked_of_old C g (Some (wrap32 i)) b b'
          \<and> ActualLRPGroupByProcessGuidAndIndex C g i b' = (Inr grp, b'') \<and> Resolve C grp = Inr (l, evacuating))"

lemma found_lrp_iff:
  "found_lrp C g s = (r, t) \<Longrightarrow> (r = Inr None \<longleftrightarrow> has_none C g (bbs s)) \<and> (r = Inr (Some l) \<longleftrightarrow> has_first C g (bbs s) l)"
  by (auto simp: found_lrp_def has_none_def has_first_def asked_of_old_def not_found_def andThen_def call_def expect_val_def
      split: sum.splits prod.splits list.splits if_splits)

lemma found_instance_iff:
  "found_instance C g i s = (r, t) \<Longrightarrow> r = Inr l \<longleftrightarrow> has_instance C g i (bbs s) l"
  by (auto simp: found_instance_def has_instance_def asked_of_old_def not_found_def andThen_def call_def expect_val_def
      expect_that_def length_Suc_conv split: sum.splits prod.splits list.splits if_splits)

text \<open>
  Property C35. A poll of a process returns the state of the first instance the BBS has, from the
  new call or, if that is answered with 404, from the first group, and stores that very
  instance through the out parameter; it returns the empty state, with nothing stored, exactly
  when the BBS answers that it has no instance; and it fails, with nothing stored, exactly when
  the answer is neither. The poll of one instance returns and stores the only one the BBS has
  under that index, and fails exactly when the BBS does not answer with one. No other cell
  changes.
\<close>

theorem lrp_pollers_store_what_they_report:
  "(case LRPStatePoller C g p s of
      (Inr st, t) \<Rightarrow> (has_none C g (bbs s) \<and> st = [] \<and> lrp_cells t = lrp_cells s)
        \<or> (\<exists>l. has_first C g (bbs s) l \<and> st = State l \<and> stored p l (lrp_cells s) (lrp_cells t))
    | (Inl f, t) \<Rightarrow> \<not> has_none C g (bbs s) \<and> (\<nexists>l. has_first C g (bbs s) l) \<and> lrp_cells t = lrp_cells s)
   \<and> (case LRPInstanceStatePoller C g i p s of
      (Inr st, t) \<Rightarrow> \<exists>l. has_instance C g i (bbs s) l \<and> st = State l \<and> stored p l (lrp_cells s) (lrp_cells t)
    | (Inl f, t) \<Rightarrow> (\<nexists>l. has_instance C g i (bbs s) l) \<and> lrp_cells t = lrp_cells s)"
proof (intro conjI)
  obtain r u where find: "found_lrp C g s = (r, u)" by fastforce
  have "lrp_cells u = lrp_cells s"
    by (rule keeps_run [OF found_keeps_cells(1) find]) simp
  with find found_lrp_iff [OF find] show "case LRPStatePoller C g p s of
      (Inr st, t) \<Rightarrow> (has_none C g (bbs s) \<and> st = [] \<and> lrp_cells t = lrp_cells s)
        \<or> (\<exists>l. has_first C g (bbs s) l \<and> st = State l \<and> stored p l (lrp_cells s) (lrp_cells t))
    | (Inl f, t) \<Rightarrow> \<not> has_none C g (bbs s) \<and> (\<nexists>l. has_first C g (bbs s) l) \<and> lrp_cells t = lrp_cells s"
    by (cases r; cases p) (auto simp: LRPStatePoller_def andThen_def store_lrp_run stored_def split: option.split)
next
  obtain r u where find: "found_instance C g i s = (r, u)" by fastforce
  have same: "lrp_cells u = lrp_cells s"
    by (rule keeps_run [OF found_keeps_cells(2) find]) simp
  note known = found_instance_iff [OF find]
  show "case LRPInstanceStatePoller C g i p s of
      (Inr st, t) \<Rightarrow> \<exists>l. has_instance C g i (bbs s) l \<and> st = State l \<and> stored p l (lrp_cells s) (lrp_cells t)
    | (Inl f, t) \<Rightarrow> (\<nexists>l. has_instance C g i (bbs s) l) \<and> lrp_cells t = lrp_cells s"
  proof (cases r)
    case (Inl f)
    with known have "\<nexists>l. has_instance C g i (bbs s) l" by auto
    with Inl find same show ?thesis by (simp add: LRPInstanceStatePoller_def andThen_def)
  next
    case (Inr l)
    with known have "has_instance C g i (bbs s) l" by blast
    with Inr find same show ?thesis
      by (cases p) (auto simp: LRPInstanceStatePoller_def andThen_def store_lrp_run stored_def)
  qed
qed

text \<open>
  Both task polls read the task once, store it through the out parameter and report
  its state and its failed flag; on an error they fail the spec and store nothing.
\<close>

theorem task_pollers_store_what_they_report:
  "case TaskByGuid C g (bbs s) of
     (Inr x, b) \<Rightarrow>
       (\<exists>t. TaskStatePoller C g p s = (Inr (Task_State x), t) \<and> TaskFailedPoller C g p s = (Inr (Failed x), t)
          \<and> bbs t = b \<and> stored p x (task_cells s) (task_cells t))
   | (Inl e, b) \<Rightarrow>
       TaskStatePoller C g p s = (Inl (Expectation (error_text e)), s\<lparr>bbs := b\<rparr>)
     \<and> TaskFailedPoller C g p s = (Inl (Expectation (error_text e)), s\<lparr>bbs := b\<rparr>)"
  by (auto simp: TaskStatePoller_def TaskFailedPoller_def andThen_def call_run store_task_run
      stored_def split: sum.splits prod.splits option.splits)

text \<open>
  Property C36. The fallback to the deprecated calls makes an old BBS look like a new one: if the
  new call answers 404 there, and the group it has resolves to the instance the new BBS lists
  (first), the polls return the same state and store the same instance with both.
\<close>

theorem old_bbs_polled_alike:
  assumes "ActualLRPs old (ActualLRPFilter.make g None) b = (Inl e, b1)" and "not_found e"
    and "ActualLRPGroupsByProcessGuid old g b1 = (Inr (grp # grps), b2)"
    and "Resolve old grp = Inr (l, evacuating)"
    and "ActualLRPs new (ActualLRPFilter.make g None) b' = (Inr (l # ls), b'1)"
    and "bbs s = b" and "bbs s' = b'" and "lrp_cells s = lrp_cells s'"
  shows "fst (LRPStatePoller old g p s) = fst (LRPStatePoller new g p s')
    \<and> lrp_cells (snd (LRPStatePoller old g p s)) = lrp_cells (snd (LRPStatePoller new g p s'))
    \<and> fst (LRPStatePoller old g p s) = Inr (State l)"
  using assms
  by (cases p) (simp_all add: LRPStatePoller_def found_lrp_def andThen_def call_run store_lrp_run ActualLRPFilter.make_def)

theorem old_bbs_polled_alike_witness:
  "fst (LRPStatePoller demo_old_bbs ''p'' (Some 7) demo_polling) = Inr ''UNCLAIMED''"
proof -
  have "fst (LRPStatePoller demo_old_bbs ''p'' (Some 7) demo_polling) = Inr (State (demo_lrp ''UNCLAIMED''))"
    by (rule old_bbs_polled_alike [where new = demo_bbs and s' = demo_polling and b = "()" and b' = "()"
          and e = "Msg ''Invalid Response with status code: 404''"
          and grp = "demo_lrp ''UNCLAIMED''" and grps = "[]" and evacuating = False
          and ls = "[demo_lrp ''RUNNING'', demo_lrp ''CRASHED'']", THEN conjunct2, THEN conjunct2])
      (simp_all add: demo_old_bbs_def demo_bbs_def demo_polling_def not_found_def)
  then show ?thesis by (simp add: demo_lrp_def)
qed

section \<open>The matcher for crash events\<close>

record ActualLRPCrashedEvent =
  event_ProcessGuid :: string
  event_Index :: int
  event_CellId :: string
  event_InstanceGuid :: string

text \<open>A value of an interface type: a pointer to a crash event, perhaps nil, or something else.\<close>

datatype 'v interface = CrashedEvent "ActualLRPCrashedEvent option" | Other 'v

record ActualLRPCrashedEventMatcher =
  matcher_ProcessGuid :: string
  matcher_InstanceGuid :: string
  matcher_CellId :: string
  matcher_Index :: int

definition MatchActualLRPCrashedEvent :: "string \<Rightarrow> string \<Rightarrow> string \<Rightarrow> int \<Rightarrow> ActualLRPCrashedEventMatcher" where
  "MatchActualLRPCrashedEvent processGuid instanceGuid cellId index =
     \<lparr>matcher_ProcessGuid = processGuid, matcher_InstanceGuid = instanceGuid,
      matcher_CellId = cellId, matcher_Index = index\<rparr>"

definition Match :: "ActualLRPCrashedEventMatcher \<Rightarrow> 'v interface \<Rightarrow> failure + bool \<times> go_error option" where
  "Match matcher actual =
     (case actual of
        Other _ \<Rightarrow> Inr (False, None)
      | CrashedEvent None \<Rightarrow> Inl (Panic ''invalid memory address or nil pointer dereference'')
      | CrashedEvent (Some event) \<Rightarrow>
          Inr (event_ProcessGuid event = matcher_ProcessGuid matcher
             \<and> event_Index event = wrap32 (matcher_Index matcher)
             \<and> event_CellId event = matcher_CellId matcher
             \<and> event_InstanceGuid event = matcher_InstanceGuid matcher, None))"

text \<open>\<open>format.Object(actual, 1)\<close> of Gomega is the parameter \<open>object\<close>.\<close>

definition FailureMessage :: "('v interface \<Rightarrow> string) \<Rightarrow> ActualLRPCrashedEventMatcher \<Rightarrow> 'v interface \<Rightarrow> string" where
  "FailureMessage object matcher actual =
     ''Expected'' @ newline @ object actual @ newline @ ''to be a ActualLRPCrashedEvent with'' @ newline
     @ ''  ProcessGuid='' @ matcher_ProcessGuid matcher @ newline @ ''  Index='' @ Itoa (matcher_Index matcher)"

definition NegatedFailureMessage :: "('v interface \<Rightarrow> string) \<Rightarrow> ActualLRPCrashedEventMatcher \<Rightarrow> 'v interface \<Rightarrow> string" where
  "NegatedFailureMessage object matcher actual =
     ''Expected'' @ newline @ object actual @ newline @ ''not to be a ActualLRPCrashedEvent with'' @ newline
     @ ''  ProcessGuid='' @ matcher_ProcessGuid matcher @ newline @ ''  Index='' @ Itoa (matcher_Index matcher)"

text \<open>
  For an index that fits the 32 bits of the event's, the matcher built by
  \<open>MatchActualLRPCrashedEvent\<close> accepts exactly the pointer to the event with those four
  fields and reports no error for any other value, but it panics on a nil event; an index
  outside of 32 bits is reduced first, so that \<open>index\<close> and \<open>index + 2 ^ 32\<close> accept the same.
\<close>

theorem matcher_accepts:
  assumes "- (2 ^ 31) \<le> i" and "i < 2 ^ 31"
  shows "(Match (MatchActualLRPCrashedEvent g inst c i) v = Inr (True, None) \<longleftrightarrow>
       v = CrashedEvent (Some \<lparr>event_ProcessGuid = g, event_Index = i, event_CellId = c, event_InstanceGuid = inst\<rparr>))
    \<and> ((\<exists>f. Match (MatchActualLRPCrashedEvent g inst c i) v = Inl f) \<longleftrightarrow> v = CrashedEvent None)
    \<and> Match (MatchActualLRPCrashedEvent g inst c (i + 2 ^ 32 * k)) v = Match (MatchActualLRPCrashedEvent g inst c i) v"
  using wrap32_id [OF assms] wrap32_periodic [of i k]
  by (auto simp: Match_def MatchActualLRPCrashedEvent_def split: interface.split option.split)

theorem matcher_accepts_witness:
  "Match (MatchActualLRPCrashedEvent ''p'' ''i'' ''c'' (1 + 2 ^ 32))
     (CrashedEvent (Some \<lparr>event_ProcessGuid = ''p'', event_Index = 1, event_CellId = ''c'', event_InstanceGuid = ''i''\<rparr>) :: unit interface)
   = Inr (True, None)"
  using matcher_accepts [of 1 "''p''" "''i''" "''c''"
      "CrashedEvent (Some \<lparr>event_ProcessGuid = ''p'', event_Index = 1, event_CellId = ''c'', event_InstanceGuid = ''i''\<rparr>) :: unit interface" 1]
  by simp

end
