(* ===== verification/Route_Helpers.thy ===== *)
theory Route_Helpers
  imports Go_Strings "HOL-Library.Char_ord" "HOL-Library.List_Lexorder"
begin

text \<open>
  The helpers of \<open>helpers/route_helpers.go\<close> that send requests through the router. The HTTP
  client is a parameter: what it answers to a request in a state of the network. A response
  body is read to its end or fails to be read.
\<close>

section \<open>Requests\<close>

record request =
  Scheme :: string
  URLHost :: string
  Path :: string
  Host :: string

record response =
  StatusCode :: int
  Body :: "go_error + string"

type_synonym 'n http_client = "request \<Rightarrow> 'n \<Rightarrow> (go_error + response) \<times> 'n"

definition host_request :: "string \<Rightarrow> string \<Rightarrow> string list \<Rightarrow> request" where
  "host_request routerAddr host pathElements =
     \<lparr>Scheme = ''http'', URLHost = routerAddr, Path = ''/'' @ join pathElements ''/'', Host = host\<rparr>"

definition ResponseCodeFromHostPoller :: "'n http_client \<Rightarrow> string \<Rightarrow> string \<Rightarrow> string list
    \<Rightarrow> (go_error, 'n, int) comp" where
  "ResponseCodeFromHostPoller Do routerAddr host pathElements =
     andThen (Do (host_request routerAddr host pathElements)) (\<lambda>response.
     ret (StatusCode response))"

definition ResponseBodyAndStatusCodeFromHost :: "'n http_client \<Rightarrow> string \<Rightarrow> string \<Rightarrow> string list
    \<Rightarrow> (go_error, 'n, string \<times> int) comp" where
  "ResponseBodyAndStatusCodeFromHost Do routerAddr host pathElements =
     andThen (Do (host_request routerAddr host pathElements)) (\<lambda>response.
     case Body response of
       Inl err \<Rightarrow> fail err
     | Inr contents \<Rightarrow> ret (contents, StatusCode response))"

section \<open>What a response of the router itself looks like\<close>

text \<open>
  The regular expression \<open>Requested route \('.*'\) does not exist\<close>, searched anywhere in the
  body: the dot matches every character but a newline.
\<close>

definition route_start :: string where
  "route_start = ''Requested route ('' @ [CHR 0x27]"

definition route_end :: string where
  "route_end = [CHR 0x27] @ '') does not exist''"

fun route_closes :: "string \<Rightarrow> bool" where
  "route_closes s = (prefix route_end s
     \<or> (case s of [] \<Rightarrow> False | c # r \<Rightarrow> c \<noteq> CHR 0x0A \<and> route_closes r))"

fun unknown_route :: "string \<Rightarrow> bool" where
  "unknown_route s = ((prefix route_start s \<and> route_closes (drop (length route_start) s))
     \<or> (case s of [] \<Rightarrow> False | _ # r \<Rightarrow> unknown_route r))"

declare route_closes.simps [simp del] unknown_route.simps [simp del]

lemma route_closes_iff: "route_closes s \<longleftrightarrow> (\<exists>m b. s = m @ route_end @ b \<and> CHR 0x0A \<notin> set m)"
proof (induction s)
  case Nil
  then show ?case by (simp add: route_closes.simps route_end_def)
next
  case (Cons c s)
  have "route_closes (c # s) \<longleftrightarrow> prefix route_end (c # s) \<or> c \<noteq> CHR 0x0A \<and> route_closes s"
    by (subst route_closes.simps) simp
  also have "\<dots> \<longleftrightarrow> (\<exists>b. c # s = route_end @ b)
      \<or> (\<exists>m b. c # s = (c # m) @ route_end @ b \<and> CHR 0x0A \<notin> set (c # m))"
    using Cons by (auto simp: prefix_def)
  also have "\<dots> \<longleftrightarrow> (\<exists>m b. c # s = m @ route_end @ b \<and> CHR 0x0A \<notin> set m)"
  proof
    assume "(\<exists>b. c # s = route_end @ b)
      \<or> (\<exists>m b. c # s = (c # m) @ route_end @ b \<and> CHR 0x0A \<notin> set (c # m))"
    then show "\<exists>m b. c # s = m @ route_end @ b \<and> CHR 0x0A \<notin> set m"
      by (metis append_Nil empty_iff empty_set)
  next
    assume "\<exists>m b. c # s = m @ route_end @ b \<and> CHR 0x0A \<notin> set m"
    then obtain m b where mb: "c # s = m @ route_end @ b" "CHR 0x0A \<notin> set m" by blast
    then show "(\<exists>b. c # s = route_end @ b)
      \<or> (\<exists>m b. c # s = (c # m) @ route_end @ b \<and> CHR 0x0A \<notin> set (c # m))"
      by (cases m) auto
  qed
  finally show ?case .
qed

lemma unknown_route_iff:
  "unknown_route s \<longleftrightarrow> (\<exists>a m b. s = a @ route_start @ m @ route_end @ b \<and> CHR 0x0A \<notin> set m)"
proof (induction s)
  case Nil
  then show ?case by (simp add: unknown_route.simps route_start_def)
next
  case (Cons c s)
  let ?P = "\<lambda>s. \<exists>m b. s = route_start @ m @ route_end @ b \<and> CHR 0x0A \<notin> set m"
  have here: "prefix route_start t \<and> route_closes (drop (length route_start) t) \<longleftrightarrow> ?P t" for t
    by (auto simp: prefix_def route_closes_iff) blast+
  have "unknown_route (c # s) \<longleftrightarrow> ?P (c # s) \<or> unknown_route s"
    by (subst unknown_route.simps) (simp add: here)
  also have "\<dots> \<longleftrightarrow> (\<exists>a m b. c # s = a @ route_start @ m @ route_end @ b \<and> CHR 0x0A \<notin> set m)"
  proof
    assume "?P (c # s) \<or> unknown_route s"
    then show "\<exists>a m b. c # s = a @ route_start @ m @ route_end @ b \<and> CHR 0x0A \<notin> set m"
      unfolding Cons by (metis append_Cons append_Nil)
  next
    assume "\<exists>a m b. c # s = a @ route_start @ m @ route_end @ b \<and> CHR 0x0A \<notin> set m"
    then obtain a m b where "c # s = a @ route_start @ m @ route_end @ b" "CHR 0x0A \<notin> set m" by blast
    then show "?P (c # s) \<or> unknown_route s"
      unfolding Cons by (cases a) (auto, blast)
  qed
  finally show ?case .
qed

definition failed_endpoint :: "string \<Rightarrow> bool" where
  "failed_endpoint body \<longleftrightarrow> contains body ''Registered endpoint failed to handle the request''"

section \<open>Which instances respond\<close>

text \<open>
  The loop of \<open>HelloWorldInstancePoller\<close> with the number of requests still to send and the keys
  of \<open>respondingIndicesHash\<close> so far, each once. The map is iterated in an unknown order, but
  its keys are then sorted.
\<close>

primrec instance_loop :: "'n http_client \<Rightarrow> string \<Rightarrow> string \<Rightarrow> nat \<Rightarrow> string list
    \<Rightarrow> (failure, 'n, string list) comp" where
  "instance_loop Do routerAddr host 0 keys = ret keys"
| "instance_loop Do routerAddr host (Suc k) keys = (\<lambda>n.
     case ResponseBodyAndStatusCodeFromHost Do routerAddr host [] n of
       (Inl err, n') \<Rightarrow> instance_loop Do routerAddr host k keys n'
     | (Inr (body, status), n') \<Rightarrow>
         if status = 404
         then andThen (expect_that (unknown_route body) ''Got a 404, but it wasn't from the router!'')
                (\<lambda>_. instance_loop Do routerAddr host k keys) n'
         else if status = 502
         then andThen (expect_that (failed_endpoint body) ''Got a 502, but it wasn't from the router!'')
                (\<lambda>_. instance_loop Do routerAddr host k keys) n'
         else instance_loop Do routerAddr host k (List.insert body keys) n')"

definition HelloWorldInstancePoller :: "'n http_client \<Rightarrow> string \<Rightarrow> string \<Rightarrow> (failure, 'n, string list) comp" where
  "HelloWorldInstancePoller Do routerAddr host =
     andThen (instance_loop Do routerAddr host 20 []) (\<lambda>respondingIndices.
     ret (sort respondingIndices))"

text \<open>The answers to \<open>k\<close> requests in a row, and the network after them.\<close>

primrec answers_in_turn :: "'n http_client \<Rightarrow> string \<Rightarrow> string \<Rightarrow> nat \<Rightarrow> 'n \<Rightarrow> (go_error + string \<times> int) list \<times> 'n" where
  "answers_in_turn Do routerAddr host 0 n = ([], n)"
| "answers_in_turn Do routerAddr host (Suc k) n =
     (let (r, n1) = ResponseBodyAndStatusCodeFromHost Do routerAddr host [] n;
          (rs, n2) = answers_in_turn Do routerAddr host k n1
      in (r # rs, n2))"

text \<open>A 404 or 502 that did not come from the router, and the answers of instances.\<close>

fun foreign :: "go_error + string \<times> int \<Rightarrow> bool" where
  "foreign (Inl _) = False"
| "foreign (Inr (body, status)) =
     (status = 404 \<and> \<not> unknown_route body \<or> status = 502 \<and> \<not> failed_endpoint body)"

definition instances_in :: "(go_error + string \<times> int) list \<Rightarrow> string set" where
  "instances_in rs = {body. \<exists>status. Inr (body, status) \<in> set rs \<and> status \<notin> {404, 502}}"

lemma instances_in_Cons:
  "instances_in (r # rs) =
     (case r of Inl _ \<Rightarrow> {} | Inr (body, status) \<Rightarrow> if status \<in> {404, 502} then {} else {body})
     \<union> instances_in rs"
  by (auto simp: instances_in_def split: sum.split)

lemma instance_loop_run:
  "case instance_loop Do addr host k keys n of
     (Inr xs, n') \<Rightarrow> n' = snd (answers_in_turn Do addr host k n)
       \<and> (\<forall>r \<in> set (fst (answers_in_turn Do addr host k n)). \<not> foreign r)
       \<and> set xs = set keys \<union> instances_in (fst (answers_in_turn Do addr host k n))
       \<and> (distinct keys \<longrightarrow> distinct xs)
   | (Inl f, n') \<Rightarrow> \<exists>r \<in> set (fst (answers_in_turn Do addr host k n)). foreign r"
proof (induction k arbitrary: keys n)
  case 0
  then show ?case by (simp add: instances_in_def)
next
  case (Suc k)
  obtain r n1 where r: "ResponseBodyAndStatusCodeFromHost Do addr host [] n = (r, n1)" by fastforce
  obtain rs n2 where rs: "answers_in_turn Do addr host k n1 = (rs, n2)" by fastforce
  have all: "answers_in_turn Do addr host (Suc k) n = (r # rs, n2)" by (simp add: r rs)
  show ?case
  proof (cases "foreign r")
    case True
    then obtain body status where b: "r = Inr (body, status)" by (cases r) auto
    have "\<exists>f. instance_loop Do addr host (Suc k) keys n = (Inl f, n1)"
      using True by (auto simp: r b)
    with True all show ?thesis by auto
  next
    case False
    define keys' where "keys' = (case r of Inl _ \<Rightarrow> keys
      | Inr (body, status) \<Rightarrow> if status \<in> {404, 502} then keys else List.insert body keys)"
    have step: "instance_loop Do addr host (Suc k) keys n = instance_loop Do addr host k keys' n1"
      using False by (auto simp: r keys'_def split: sum.split)
    have "set keys' \<union> instances_in rs = set keys \<union> instances_in (r # rs)"
      "distinct keys \<longrightarrow> distinct keys'"
      by (auto simp: keys'_def instances_in_Cons split: sum.split)
    with Suc.IH [where keys = keys' and n = n1] False show ?thesis
      unfolding step all by (auto simp: rs split: prod.splits sum.splits)
  qed
qed

text \<open>
  Property C28. \<open>HelloWorldInstancePoller\<close> sends twenty requests and returns, sorted and without
  repetition, exactly the bodies of the answers with a status other than 404 and 502 (a
  request that failed is ignored); it fails the spec exactly when some 404 or 502 among the
  answers does not carry the router's own message.
\<close>

theorem responding_instances:
  "case HelloWorldInstancePoller Do addr host n of
     (Inr xs, n') \<Rightarrow> n' = snd (answers_in_turn Do addr host 20 n) \<and> sorted xs \<and> distinct xs
       \<and> set xs = instances_in (fst (answers_in_turn Do addr host 20 n))
       \<and> (\<forall>r \<in> set (fst (answers_in_turn Do addr host 20 n)). \<not> foreign r)
   | (Inl f, n') \<Rightarrow> \<exists>r \<in> set (fst (answers_in_turn Do addr host 20 n)). foreign r"
  using instance_loop_run [where Do = Do and addr = addr and host = host and n = n and k = 20 and keys = "[]"]
  by (auto simp: HelloWorldInstancePoller_def andThen_def split: sum.splits prod.splits)

text \<open>
  The 404 that is accepted as the router's is one with its sentence on one line
  around the name of the route; in particular it is accepted for every route name without a
  newline, wherever the sentence stands in the body.
\<close>

theorem router_404_recognised:
  assumes "CHR 0x0A \<notin> set route" and "body = a @ ''Requested route ('' @ [CHR 0x27] @ route @ [CHR 0x27] @ '') does not exist'' @ b"
    and "Do (host_request addr host []) n = (Inr \<lparr>StatusCode = 404, Body = Inr body\<rparr>, n')"
  shows "instance_loop Do addr host (Suc k) keys n = instance_loop Do addr host k keys n'"
proof -
  have "unknown_route body"
    unfolding unknown_route_iff using assms(1,2) by (auto simp: route_start_def route_end_def)
  moreover have "ResponseBodyAndStatusCodeFromHost Do addr host [] n = (Inr (body, 404), n')"
    using assms(3) by (simp add: ResponseBodyAndStatusCodeFromHost_def andThen_def)
  ultimately show ?thesis by simp
qed

definition demo_404 :: string where
  "demo_404 = ''404: '' @ ''Requested route ('' @ [CHR 0x27] @ ''a.b'' @ [CHR 0x27] @ '') does not exist'' @ ''.''"

definition demo_router :: "nat http_client" where
  "demo_router req n = (if n = 0 then (Inr \<lparr>StatusCode = 404, Body = Inr demo_404\<rparr>, Suc n)
     else (Inr \<lparr>StatusCode = 200, Body = Inr (nat_text (n mod 3))\<rparr>, Suc n))"

theorem router_404_recognised_witness:
  "instance_loop demo_router ''r:80'' ''a.b'' (Suc 0) [] 0 = (Inr [], 1)"
proof -
  have "instance_loop demo_router ''r:80'' ''a.b'' (Suc 0) [] 0 = instance_loop demo_router ''r:80'' ''a.b'' 0 [] 1"
    by (rule router_404_recognised [OF _ demo_404_def]) (simp_all add: demo_router_def)
  then show ?thesis by simp
qed

text \<open>
  Both request helpers address the router but name the application's host, and the
  path is the slash-separated list of its elements after a leading slash, from which the
  elements can be read back when none contains a slash.
\<close>

theorem request_path_roundtrip:
  assumes "elems \<noteq> []" and "\<forall>e \<in> set elems. CHR ''/'' \<notin> set e"
  shows "split_on (CHR ''/'') (Path (host_request addr host elems)) = [] # elems
    \<and> URLHost (host_request addr host elems) = addr \<and> Host (host_request addr host elems) = host"
  using assms by (simp add: host_request_def split_on_join)

theorem request_path_roundtrip_witness:
  "split_on (CHR ''/'') (Path (host_request ''r:80'' ''h'' [''env'', ''x''])) = [[], ''env'', ''x'']"
  using request_path_roundtrip [of "[''env'', ''x'']" "''r:80''" "''h''"] by simp

text \<open>One 404 of the router, then three instances in turn.\<close>

theorem responding_instances_witness:
  "set (projr (fst (HelloWorldInstancePoller demo_router ''r:80'' ''a.b'' 0))) =
     instances_in (fst (answers_in_turn demo_router ''r:80'' ''a.b'' 20 0))
   \<and> fst (HelloWorldInstancePoller demo_router ''r:80'' ''a.b'' 0) = Inr [''0'', ''1'', ''2'']"
proof -
  have "fst (HelloWorldInstancePoller demo_router ''r:80'' ''a.b'' 0) = Inr [''0'', ''1'', ''2'']"
    by code_simp
  with responding_instances [of demo_router "''r:80''" "''a.b''" 0] show ?thesis
    by (cases "HelloWorldInstancePoller demo_router ''r:80'' ''a.b'' 0") auto
qed

end
