(* ===== verification/World_Types.thy ===== *)
theory World_Types
  imports Cert_Locks Port_Authority Go_Time
begin

text \<open>
  The data of \<open>world/components.go\<close>: the configuration structs, the component maker and its
  runners, and the state they work on. Structs of other packages are records of the fields
  the source sets; a runner is the \<open>ginkgomon.Config\<close> it is made from.
\<close>

section \<open>Constants\<close>

definition PreloadedStacks :: "string list" where
  "PreloadedStacks = [''red-stack'', ''blue-stack'', ''cflinuxfs3'']"

text \<open>The package variable \<open>DefaultStack\<close>.\<close>

definition FirstStack :: string where
  "FirstStack = PreloadedStacks ! 0"

definition LifecycleFilename :: string where
  "LifecycleFilename = ''lifecycle.tar.gz''"

section \<open>Structs\<close>

text \<open>Indexing a Go map of strings gives the empty string for a missing key.\<close>

type_synonym string_map = "string \<rightharpoonup> string"

definition at_key :: "string_map \<Rightarrow> string \<Rightarrow> string" where
  "at_key m k = (case m k of None \<Rightarrow> [] | Some v \<Rightarrow> v)"

record BuiltArtifacts =
  Executables :: string_map
  Lifecycles :: string_map
  Healthcheck :: string

record SSHKeys =
  HostKey :: string
  HostKeyPem :: string
  PrivateKeyPem :: string
  AuthorizedKey :: string

record SSLConfig =
  ServerCert :: string
  ServerKey :: string
  ClientCert :: string
  ClientKey :: string
  CACert :: string

record NetworkPluginConfig =
  NetworkName :: string
  SubnetRange :: string
  GatewayAddress :: string

record GrootFSCreate =
  JSON :: bool
  UidMappings :: "string list"
  GidMappings :: "string list"
  SkipLayerValidation :: bool

record GrootFSConfig =
  StorePath :: string
  DraxBin :: string
  grootfs_LogLevel :: string
  Create :: GrootFSCreate

record GardenSettingsConfig =
  GrootFSBinPath :: string
  GrootFSStorePath :: string
  GardenBinPath :: string
  GardenGraphPath :: string
  UnprivilegedGrootfsConfig :: GrootFSConfig
  PrivilegedGrootfsConfig :: GrootFSConfig
  networkPluginConfig :: NetworkPluginConfig

record ComponentAddresses =
  NATS_addr :: string
  BBS_addr :: string
  Health_addr :: string
  Rep_addr :: string
  FileServer_addr :: string
  Router_addr :: string
  RouterStatus_addr :: string
  RouterRoutes_addr :: string
  RouterRouteServices_addr :: string
  Garden_addr :: string
  Auctioneer_addr :: string
  SSHProxy_addr :: string
  SSHProxyHealthCheck_addr :: string
  FakeVolmanDriver_addr :: string
  Locket_addr :: string
  SQL_addr :: string

text \<open>\<open>repconfig.RootFS\<close>.\<close>

record RootFS =
  RootFS_Name :: string
  RootFS_Path :: string

text \<open>
  The field \<open>portAllocator\<close> of the source is a reference to the allocator of the suite, which
  is part of the state here.
\<close>

record commonComponentMaker =
  artifacts :: BuiltArtifacts
  addresses :: ComponentAddresses
  rootFSes :: "RootFS list"
  gardenConfig :: GardenSettingsConfig
  sshConfig :: SSHKeys
  bbsSSL :: SSLConfig
  locketSSL :: SSLConfig
  repSSL :: SSLConfig
  auctioneerSSL :: SSLConfig
  routingAPISSL :: SSLConfig
  sqlCACertFile :: string
  volmanDriverConfigDir :: string
  dbDriverName :: string
  dbBaseConnectionString :: string
  startCheckTimeout :: int
  tmpDir :: string

section \<open>The state\<close>

text \<open>
  The operating system, the certificate mutexes and the port allocator. \<open>out\<close> is what was
  printed on the standard output.
\<close>

record world = cert_os +
  allocator :: portAllocator
  out :: "string list"

type_synonym ('s, 'a) op = "(failure, 's world_scheme, 'a) comp"

text \<open>
  Claiming ports from the allocator of the suite: what \<open>ClaimPorts\<close> returned, with its error
  as a value. The caller converts the port to an \<open>int\<close> where the source does.
\<close>

definition claim_ports :: "int \<Rightarrow> ('s, go_error + 16 word) op" where
  "claim_ports n = (\<lambda>s. case ClaimPorts n (allocator s) of
     (Inl e, p) \<Rightarrow> (Inr (Inl (Msg e)), s\<lparr>allocator := p\<rparr>)
   | (Inr w, p) \<Rightarrow> (Inr (Inr w), s\<lparr>allocator := p\<rparr>))"

section \<open>Runners\<close>

record 's runner =
  Name :: string
  AnsiColorCode :: string
  StartCheck :: string
  StartCheckTimeout :: int
  Command :: "string \<times> string list"
  Cleanup :: "('s, unit) op"

text \<open>The value of a \<open>Cleanup\<close> that the source leaves out.\<close>

definition no_cleanup :: "('s, unit) op" where
  "no_cleanup = ret ()"

section \<open>Ports of a node\<close>

text \<open>\<open>int\<close> arithmetic of 64 bits.\<close>

definition offsetPort :: "int \<Rightarrow> int \<Rightarrow> int" where
  "offsetPort basePort offset = wrap64 (basePort + wrap64 (10 * offset))"

text \<open>Pointers to fresh variables, which nothing else refers to: the value they point to.\<close>

definition intPtr :: "int \<Rightarrow> int option" where
  "intPtr i = Some i"

definition boolPtr :: "bool \<Rightarrow> bool option" where
  "boolPtr b = Some b"

section \<open>Accessors\<close>

definition VolmanDriverConfigDir :: "commonComponentMaker \<Rightarrow> string" where
  "VolmanDriverConfigDir maker = volmanDriverConfigDir maker"

definition SSHConfig :: "commonComponentMaker \<Rightarrow> SSHKeys" where
  "SSHConfig maker = sshConfig maker"

definition PortAllocator :: "commonComponentMaker \<Rightarrow> ('s, portAllocator) op" where
  "PortAllocator maker = gets allocator"

definition Artifacts :: "commonComponentMaker \<Rightarrow> BuiltArtifacts" where
  "Artifacts maker = artifacts maker"

definition Addresses :: "commonComponentMaker \<Rightarrow> ComponentAddresses" where
  "Addresses maker = addresses maker"

definition BBSSSLConfig :: "commonComponentMaker \<Rightarrow> SSLConfig" where
  "BBSSSLConfig maker = bbsSSL maker"

definition RepSSLConfig :: "commonComponentMaker \<Rightarrow> SSLConfig" where
  "RepSSLConfig maker = repSSL maker"

definition BBSURL :: "commonComponentMaker \<Rightarrow> string" where
  "BBSURL maker = ''https://'' @ BBS_addr (addresses maker)"

text \<open>\<open>locket.ClientLocketConfig\<close>.\<close>

record ClientLocketConfig =
  LocketAddress :: string
  LocketCACertFile :: string
  LocketClientCertFile :: string
  LocketClientKeyFile :: string

definition locketClientConfig :: "commonComponentMaker \<Rightarrow> ClientLocketConfig" where
  "locketClientConfig maker =
     \<lparr>LocketAddress = Locket_addr (addresses maker),
      LocketCACertFile = CACert (locketSSL maker),
      LocketClientCertFile = ClientCert (locketSSL maker),
      LocketClientKeyFile = ClientKey (locketSSL maker)\<rparr>"

text \<open>\<open>lagerflags.LagerConfig\<close>; the time format constant of the library is a parameter of its users.\<close>

record LagerConfig =
  LogLevel :: string
  TimeFormat :: string

section \<open>Modifying a configuration\<close>

text \<open>\<open>for _, f := range modifyConfigFuncs { f(&cfg) }\<close>.\<close>

definition modified :: "('c \<Rightarrow> 'c) list \<Rightarrow> 'c \<Rightarrow> 'c" where
  "modified ms cfg = fold (\<lambda>f c. f c) ms cfg"

lemma modified_simps [simp]:
  "modified [] c = c" "modified (f # ms) c = modified ms (f c)"
  "modified (ms @ gs) c = modified gs (modified ms c)"
  by (simp_all add: modified_def)

end
