(* ===== verification/BBS_Requests.thy ===== *)
theory BBS_Requests
  imports World_Types
begin

text \<open>
  The requests of \<open>helpers/bbs_requests.go\<close>: the desired long-running processes and tasks the
  suites create. Of the BBS models, which are third-party code, the records below have the
  fields the source sets; the others have their zero value. \<open>models.WrapAction\<close> and the
  routing information of \<open>cfroutes\<close> are parameters (\<open>wrap\<close> and \<open>routing\<close>).
\<close>

section \<open>Models\<close>

datatype action =
    DownloadAction string string string
  | RunAction string string "string list" "(string \<times> string) list"
  | OtherAction string

record ('w, 'r) models =
  WrapAction :: "action \<Rightarrow> 'w"
  RoutingInfo :: "(string list \<times> int) list \<Rightarrow> 'r"

record ('w, 'r) DesiredLRP =
  lrp_ProcessGuid :: string
  Domain :: string
  RootFs :: string
  Instances :: int
  LogGuid :: string
  Routes :: 'r
  Ports :: "int list"
  Setup_action :: 'w
  Action :: 'w
  Monitor :: "'w option"
  CheckDefinition :: "int list"
  StartTimeoutMs :: int
  PlacementTags :: "string list"
  MemoryMb :: int
  DiskMb :: int
  MetricTags :: "string \<rightharpoonup> string"

record 'c CertificateProperties =
  OrganizationalUnit :: 'c

record ('w, 'c) task_request =
  task_TaskGuid :: string
  task_Domain :: string
  task_RootFs :: string
  task_MemoryMb :: int
  task_DiskMb :: int
  task_Action :: 'w
  task_CertificateProperties :: "'c option"
  task_PlacementTags :: "string list"

section \<open>Defaults\<close>

definition defaultDomain :: string where
  "defaultDomain = ''inigo''"

definition defaultLogGuid :: string where
  "defaultLogGuid = ''logGuid''"

definition defaultPreloadedRootFS :: string where
  "defaultPreloadedRootFS = ''preloaded:'' @ FirstStack"

definition SecondaryPreloadedRootFS :: string where
  "SecondaryPreloadedRootFS = ''preloaded:'' @ PreloadedStacks ! 1"

definition ExtraPreloadedRootFs :: string where
  "ExtraPreloadedRootFs = ''preloaded:diego-extra-rootfs''"

definition BogusPreloadedRootFS :: string where
  "BogusPreloadedRootFS = ''preloaded:bogus-rootfs''"

definition dockerRootFS :: string where
  "dockerRootFS = ''docker:///cloudfoundry/diego-docker-app#latest''"

definition DefaultHost :: string where
  "DefaultHost = ''lrp-route''"

definition defaultRoutes :: "('w, 'r) models \<Rightarrow> 'r" where
  "defaultRoutes M = RoutingInfo M [([DefaultHost], 8080)]"

definition defaultPorts :: "int list" where
  "defaultPorts = [8080]"

definition defaultSetup :: "('w, 'r) models \<Rightarrow> ComponentAddresses \<Rightarrow> 'w" where
  "defaultSetup M addrs = WrapAction M
     (DownloadAction (''http://'' @ FileServer_addr addrs @ ''/v1/static/'' @ ''lrp.zip'') ''/tmp/diego'' ''vcap'')"

definition defaultAction :: "('w, 'r) models \<Rightarrow> 'w" where
  "defaultAction M = WrapAction M (RunAction ''vcap'' ''/tmp/diego/go-server'' [] [(''PORT'', ''8080'')])"

definition defaultMonitor :: "('w, 'r) models \<Rightarrow> 'w" where
  "defaultMonitor M = WrapAction M (RunAction ''vcap'' ''nc'' [''-z'', ''localhost'', ''8080''] [])"

text \<open>The ports of the TCP checks of the definition.\<close>

definition defaultDeclartiveMonitor :: "int list" where
  "defaultDeclartiveMonitor = [8080]"

definition dockerMonitor :: "('w, 'r) models \<Rightarrow> 'w" where
  "dockerMonitor M = WrapAction M (RunAction ''vcap'' ''sh'' [''-c'', ''echo bogus | nc localhost 8080''] [])"

section \<open>Long-running processes\<close>

definition lrpCreateRequest :: "('w, 'r) models \<Rightarrow> ComponentAddresses \<Rightarrow> string \<Rightarrow> string \<Rightarrow> string
    \<Rightarrow> int \<Rightarrow> string list \<Rightarrow> 'w \<Rightarrow> 'w option \<Rightarrow> ('w, 'r) DesiredLRP" where
  "lrpCreateRequest M addrs processGuid logGuid rootfs numInstances placementTags action monitor =
     \<lparr>lrp_ProcessGuid = processGuid,
      Domain = defaultDomain,
      RootFs = rootfs,
      Instances = wrap32 numInstances,
      LogGuid = logGuid,
      Routes = defaultRoutes M,
      Ports = defaultPorts,
      Setup_action = defaultSetup M addrs,
      Action = action,
      Monitor = monitor,
      CheckDefinition = [],
      StartTimeoutMs = 0,
      PlacementTags = placementTags,
      MemoryMb = 0,
      DiskMb = 0,
      MetricTags = [''source_id'' \<mapsto> processGuid]\<rparr>"

definition DefaultLRPCreateRequest :: "('w, 'r) models \<Rightarrow> ComponentAddresses \<Rightarrow> string \<Rightarrow> string \<Rightarrow> int
    \<Rightarrow> ('w, 'r) DesiredLRP" where
  "DefaultLRPCreateRequest M addrs processGuid logGuid numInstances =
     lrpCreateRequest M addrs processGuid logGuid defaultPreloadedRootFS numInstances []
       (defaultAction M) (Some (defaultMonitor M))"

definition DefaultDeclaritiveHealthcheckLRPCreateRequest :: "('w, 'r) models \<Rightarrow> ComponentAddresses
    \<Rightarrow> string \<Rightarrow> string \<Rightarrow> int \<Rightarrow> ('w, 'r) DesiredLRP" where
  "DefaultDeclaritiveHealthcheckLRPCreateRequest M addrs processGuid logGuid numInstances =
     (let request = lrpCreateRequest M addrs processGuid logGuid defaultPreloadedRootFS numInstances []
            (defaultAction M) None
      in request\<lparr>CheckDefinition := defaultDeclartiveMonitor, StartTimeoutMs := Minute div Millisecond\<rparr>)"

definition LRPCreateRequestWithPlacementTag :: "('w, 'r) models \<Rightarrow> ComponentAddresses \<Rightarrow> string
    \<Rightarrow> string list \<Rightarrow> ('w, 'r) DesiredLRP" where
  "LRPCreateRequestWithPlacementTag M addrs processGuid tags =
     lrpCreateRequest M addrs processGuid defaultLogGuid defaultPreloadedRootFS 1 tags
       (defaultAction M) (Some (defaultMonitor M))"

definition LRPCreateRequestWithRootFS :: "('w, 'r) models \<Rightarrow> ComponentAddresses \<Rightarrow> string \<Rightarrow> string
    \<Rightarrow> ('w, 'r) DesiredLRP" where
  "LRPCreateRequestWithRootFS M addrs processGuid rootfs =
     lrpCreateRequest M addrs processGuid defaultLogGuid rootfs 1 [] (defaultAction M) (Some (defaultMonitor M))"

definition DockerLRPCreateRequest :: "('w, 'r) models \<Rightarrow> ComponentAddresses \<Rightarrow> string \<Rightarrow> ('w, 'r) DesiredLRP" where
  "DockerLRPCreateRequest M addrs processGuid =
     (let action = WrapAction M (RunAction ''vcap'' ''dockerapp'' [] [(''PORT'', ''8080'')])
      in lrpCreateRequest M addrs processGuid defaultLogGuid dockerRootFS 1 [] action (Some (dockerMonitor M)))"

definition CrashingLRPCreateRequest :: "('w, 'r) models \<Rightarrow> ComponentAddresses \<Rightarrow> string \<Rightarrow> ('w, 'r) DesiredLRP" where
  "CrashingLRPCreateRequest M addrs processGuid =
     (let action = WrapAction M (RunAction ''vcap'' ''false'' [] [])
      in lrpCreateRequest M addrs processGuid defaultLogGuid defaultPreloadedRootFS 1 [] action (Some (defaultMonitor M)))"

definition LightweightLRPCreateRequest :: "('w, 'r) models \<Rightarrow> ComponentAddresses \<Rightarrow> string \<Rightarrow> ('w, 'r) DesiredLRP" where
  "LightweightLRPCreateRequest M addrs processGuid =
     (let action = WrapAction M (RunAction ''vcap'' ''sh'' [''-c'', ''while true; do sleep 1; done''] []);
          monitor = WrapAction M (RunAction ''vcap'' ''sh'' [''-c'', ''echo all good''] []);
          lrp = lrpCreateRequest M addrs processGuid defaultLogGuid defaultPreloadedRootFS 1 [] action (Some monitor)
      in lrp\<lparr>MemoryMb := 128, DiskMb := 1024\<rparr>)"

text \<open>\<open>UpsertInigoDomain\<close>: the client's operation on a domain with a time to live, then the check of its error.\<close>

definition UpsertInigoDomain :: "(string \<Rightarrow> int \<Rightarrow> 's \<Rightarrow> go_error option \<times> 's) \<Rightarrow> (failure, 's, unit) comp" where
  "UpsertInigoDomain UpsertDomain = (\<lambda>s. case UpsertDomain defaultDomain 0 s of
     (None, t) \<Rightarrow> (Inr (), t)
   | (Some err, t) \<Rightarrow> (Inl (Expectation (error_text err)), t))"

section \<open>Tasks\<close>

definition taskCreateRequest :: "('w, 'r) models \<Rightarrow> string \<Rightarrow> string \<Rightarrow> action \<Rightarrow> int \<Rightarrow> int \<Rightarrow> 'c option
    \<Rightarrow> ('w, 'c) task_request" where
  "taskCreateRequest M taskGuid rootFS action memoryMB diskMB certificateProperties =
     \<lparr>task_TaskGuid = taskGuid,
      task_Domain = defaultDomain,
      task_RootFs = rootFS,
      task_MemoryMb = wrap32 memoryMB,
      task_DiskMb = wrap32 diskMB,
      task_Action = WrapAction M action,
      task_CertificateProperties = certificateProperties,
      task_PlacementTags = []\<rparr>"

definition TaskCreateRequest :: "('w, 'r) models \<Rightarrow> string \<Rightarrow> action \<Rightarrow> ('w, 'c) task_request" where
  "TaskCreateRequest M taskGuid action = taskCreateRequest M taskGuid defaultPreloadedRootFS action 0 0 None"

definition TaskCreateRequestWithTags :: "('w, 'r) models \<Rightarrow> string \<Rightarrow> action \<Rightarrow> string list
    \<Rightarrow> ('w, 'c) task_request" where
  "TaskCreateRequestWithTags M taskGuid action tags =
     (let task = taskCreateRequest M taskGuid defaultPreloadedRootFS action 0 0 None
      in task\<lparr>task_PlacementTags := tags\<rparr>)"

definition TaskCreateRequestWithMemory :: "('w, 'r) models \<Rightarrow> string \<Rightarrow> action \<Rightarrow> int \<Rightarrow> ('w, 'c) task_request" where
  "TaskCreateRequestWithMemory M taskGuid action memoryMB =
     taskCreateRequest M taskGuid defaultPreloadedRootFS action memoryMB 0 None"

definition TaskCreateRequestWithRootFS :: "('w, 'r) models \<Rightarrow> string \<Rightarrow> string \<Rightarrow> action \<Rightarrow> ('w, 'c) task_request" where
  "TaskCreateRequestWithRootFS M taskGuid rootfs action = taskCreateRequest M taskGuid rootfs action 0 0 None"

definition TaskCreateRequestWithMemoryAndDisk :: "('w, 'r) models \<Rightarrow> string \<Rightarrow> action \<Rightarrow> int \<Rightarrow> int
    \<Rightarrow> ('w, 'c) task_request" where
  "TaskCreateRequestWithMemoryAndDisk M taskGuid action memoryMB diskMB =
     taskCreateRequest M taskGuid defaultPreloadedRootFS action memoryMB diskMB None"

definition TaskCreateRequestWithCertificateProperties :: "('w, 'r) models \<Rightarrow> string \<Rightarrow> action \<Rightarrow> 'c option
    \<Rightarrow> ('w, 'c) task_request" where
  "TaskCreateRequestWithCertificateProperties M taskGuid action certificateProperties =
     taskCreateRequest M taskGuid defaultPreloadedRootFS action 0 0 certificateProperties"

section \<open>Well-formed requests\<close>

text \<open>
  What every request of the suite has in common: the domain the suite upserts, a source id
  that is the process guid, a route to a port the process exposes, the download of the
  application from the file server, and a health check of exactly one of the two kinds.
\<close>

definition lrp_wf :: "('w, 'r) models \<Rightarrow> ComponentAddresses \<Rightarrow> string \<Rightarrow> ('w, 'r) DesiredLRP \<Rightarrow> bool" where
  "lrp_wf M addrs guid lrp \<longleftrightarrow> lrp_ProcessGuid lrp = guid \<and> Domain lrp = defaultDomain
     \<and> MetricTags lrp = [''source_id'' \<mapsto> guid]
     \<and> (\<exists>p \<in> set (Ports lrp). Routes lrp = RoutingInfo M [([DefaultHost], p)])
     \<and> (\<exists>from to user. Setup_action lrp = WrapAction M (DownloadAction from to user)
          \<and> prefix (''http://'' @ FileServer_addr addrs @ ''/'') from)
     \<and> (Monitor lrp = None \<longleftrightarrow> CheckDefinition lrp \<noteq> [])
     \<and> set (CheckDefinition lrp) \<subseteq> set (Ports lrp)"

lemma lrpCreateRequest_wf:
  "lrp_wf M addrs guid (lrpCreateRequest M addrs guid logGuid rootfs n tags action (Some monitor))"
  by (auto simp: lrp_wf_def lrpCreateRequest_def defaultRoutes_def defaultPorts_def defaultSetup_def prefix_def)

lemma lrp_wf_resources:
  "lrp_wf M addrs guid lrp \<Longrightarrow> lrp_wf M addrs guid (lrp\<lparr>MemoryMb := m, DiskMb := d\<rparr>)"
  by (simp add: lrp_wf_def)

text \<open>
  Property C38. Every long-running process that the seven helpers of \<open>helpers/bbs_requests.go\<close> build is
  in the domain that \<open>UpsertInigoDomain\<close> keeps fresh, is tagged with its own guid, routes the
  default host to a port it exposes, downloads its application from the file server of the
  addresses, and is checked for health in exactly one way, a monitor action or a check of ports
  it exposes; it has one instance, or the number asked for, of which the low 32 bits are kept.
  (A spec may change what a helper returned, for instance drop its set-up or its monitor, or build a
  request of its own: this is about the helpers.)
\<close>

theorem lrp_requests_wf:
  "lrp_wf M addrs guid (DefaultLRPCreateRequest M addrs guid logGuid n)
   \<and> lrp_wf M addrs guid (DefaultDeclaritiveHealthcheckLRPCreateRequest M addrs guid logGuid n)
   \<and> lrp_wf M addrs guid (LRPCreateRequestWithPlacementTag M addrs guid tags)
   \<and> lrp_wf M addrs guid (LRPCreateRequestWithRootFS M addrs guid rootfs)
   \<and> lrp_wf M addrs guid (DockerLRPCreateRequest M addrs guid)
   \<and> lrp_wf M addrs guid (CrashingLRPCreateRequest M addrs guid)
   \<and> lrp_wf M addrs guid (LightweightLRPCreateRequest M addrs guid)
   \<and> [Instances (LRPCreateRequestWithPlacementTag M addrs guid tags),
      Instances (LRPCreateRequestWithRootFS M addrs guid rootfs), Instances (DockerLRPCreateRequest M addrs guid),
      Instances (CrashingLRPCreateRequest M addrs guid), Instances (LightweightLRPCreateRequest M addrs guid)]
     = [1, 1, 1, 1, 1]
   \<and> Instances (DefaultLRPCreateRequest M addrs guid logGuid n) = wrap32 n
   \<and> Instances (DefaultDeclaritiveHealthcheckLRPCreateRequest M addrs guid logGuid n) = wrap32 n"
proof -
  have "lrp_wf M addrs guid (DefaultDeclaritiveHealthcheckLRPCreateRequest M addrs guid logGuid n)"
    by (auto simp: lrp_wf_def DefaultDeclaritiveHealthcheckLRPCreateRequest_def lrpCreateRequest_def
        defaultRoutes_def defaultPorts_def defaultSetup_def defaultDeclartiveMonitor_def prefix_def)
  moreover have "wrap32 1 = 1" by (rule wrap32_id) simp_all
  ultimately show ?thesis
    by (simp add: DefaultLRPCreateRequest_def LRPCreateRequestWithPlacementTag_def
        DefaultDeclaritiveHealthcheckLRPCreateRequest_def LRPCreateRequestWithRootFS_def DockerLRPCreateRequest_def CrashingLRPCreateRequest_def
        LightweightLRPCreateRequest_def Let_def lrp_wf_resources lrpCreateRequest_wf)
      (simp add: lrpCreateRequest_def)
qed

text \<open>
  A task asks for the memory and the disk of its caller where they fit the 32 bits
  of the model; beyond that the conversion keeps only the low 32 bits, so that a request for
  2 ^ 32 megabytes asks for none.
\<close>

theorem task_resources:
  assumes "- (2 ^ 31) \<le> m" and "m < 2 ^ 31" and "- (2 ^ 31) \<le> d" and "d < 2 ^ 31"
  shows "task_MemoryMb (TaskCreateRequestWithMemoryAndDisk M guid action m d :: ('w, 'c) task_request) = m
    \<and> task_DiskMb (TaskCreateRequestWithMemoryAndDisk M guid action m d :: ('w, 'c) task_request) = d
    \<and> task_MemoryMb (TaskCreateRequestWithMemory M guid action (m + 2 ^ 32 * k) :: ('w, 'c) task_request) = m"
  using wrap32_id [OF assms(1,2)] wrap32_id [OF assms(3,4)] wrap32_periodic [of m k]
  by (simp add: TaskCreateRequestWithMemoryAndDisk_def TaskCreateRequestWithMemory_def taskCreateRequest_def)

definition demo_models :: "(action, (string list \<times> int) list) models" where
  "demo_models = \<lparr>WrapAction = (\<lambda>a. a), RoutingInfo = (\<lambda>r. r)\<rparr>"

theorem task_resources_witness:
  "task_MemoryMb (TaskCreateRequestWithMemoryAndDisk demo_models ''t'' (OtherAction ''x'') 512 2048 :: (action, unit) task_request) = 512"
  using task_resources [of 512 2048 demo_models "''t''" "OtherAction ''x''" 0, where ?'c = unit] by simp

end
