(* ===== verification/Announcement_Server.thy ===== *)
theory Announcement_Server
  imports Checksum
begin

text \<open>
  The announcement server of \<open>inigo_announcement_server/inigo_announcement_server.go\<close>, and
  \<open>Callback\<close> of \<open>helpers/callback.go\<close> which starts it: its handler as a function, its
  handlers as concurrent threads that share the list under a read-write mutex, the address
  that announces, and the JSON list that is read back. The parts of \<open>net/url\<close> and
  \<open>encoding/json\<close> the two need are written out for byte strings; bytes above 127 are taken
  to be valid UTF-8, which both packages pass on unchanged.
\<close>

section \<open>Query strings\<close>

text \<open>\<open>url.QueryUnescape\<close>: a plus is a space, a percent sign starts two hexadecimal digits.\<close>

definition hex_any :: "char \<Rightarrow> nat option" where
  "hex_any c = (if CHR ''A'' \<le> c \<and> c \<le> CHR ''F'' then Some (of_char c - 55) else hex_val c)"

fun QueryUnescape :: "string \<Rightarrow> string option" where
  "QueryUnescape [] = Some []"
| "QueryUnescape (c # cs) =
     (if c = CHR ''%'' then
        (case cs of
           a # b # r \<Rightarrow> (case (hex_any a, hex_any b, QueryUnescape r) of
             (Some x, Some y, Some t) \<Rightarrow> Some (char_of (16 * x + y) # t) | _ \<Rightarrow> None)
         | _ \<Rightarrow> None)
      else map_option (Cons (if c = CHR ''+'' then CHR '' '' else c)) (QueryUnescape cs))"

text \<open>
  \<open>url.ParseQuery\<close> as \<open>Query()\<close> uses it: a pair with a semicolon or a bad escape is dropped,
  and an empty one too. \<open>Get\<close> is the first value of the key, or the empty string.
\<close>

definition cut :: "char \<Rightarrow> string \<Rightarrow> string \<times> string" where
  "cut c s = (takeWhile (\<lambda>x. x \<noteq> c) s, drop 1 (dropWhile (\<lambda>x. x \<noteq> c) s))"

definition parse_pair :: "string \<Rightarrow> (string \<times> string) option" where
  "parse_pair p =
     (if p = [] \<or> CHR '';'' \<in> set p then None
      else case (QueryUnescape (fst (cut (CHR ''='') p)), QueryUnescape (snd (cut (CHR ''='') p))) of
        (Some k, Some v) \<Rightarrow> Some (k, v) | _ \<Rightarrow> None)"

definition Query :: "string \<Rightarrow> (string \<times> string) list" where
  "Query q = List.map_filter parse_pair (split_on (CHR ''&'') q)"

definition Get :: "(string \<times> string) list \<Rightarrow> string \<Rightarrow> string" where
  "Get kvs k = (case filter (\<lambda>kv. fst kv = k) kvs of [] \<Rightarrow> [] | kv # _ \<Rightarrow> snd kv)"

text \<open>The text after the host of an address, without its fragment: the path and the query.\<close>

definition path_and_query :: "string \<Rightarrow> string \<times> string" where
  "path_and_query u = cut (CHR ''?'') (takeWhile (\<lambda>x. x \<noteq> CHR ''#'') u)"

section \<open>A JSON list of strings\<close>

definition escape_char :: "char \<Rightarrow> string" where
  "escape_char c =
     (if c = CHR 0x22 \<or> c = CHR 0x5C then [CHR 0x5C, c]
      else if c = CHR 0x08 then CHR 0x5C # ''b''
      else if c = CHR 0x0C then CHR 0x5C # ''f''
      else if c = CHR 0x0A then CHR 0x5C # ''n''
      else if c = CHR 0x0D then CHR 0x5C # ''r''
      else if c = CHR 0x09 then CHR 0x5C # ''t''
      else if of_char c < (32::nat) \<or> c = CHR ''<'' \<or> c = CHR ''>'' \<or> c = CHR ''&''
      then CHR 0x5C # ''u00'' @ [hex_digit (of_char c div 16), hex_digit (of_char c mod 16)]
      else [c])"

definition json_string :: "string \<Rightarrow> string" where
  "json_string s = [CHR 0x22] @ concat (map escape_char s) @ [CHR 0x22]"

definition json_encode :: "string list \<Rightarrow> string" where
  "json_encode xs = ''['' @ join (map json_string xs) '','' @ '']'' @ [CHR 0x0A]"

text \<open>Reading the characters of a string up to its closing quote.\<close>

fun json_chars :: "string \<Rightarrow> (string \<times> string) option" where
  "json_chars [] = None"
| "json_chars (c # cs) =
     (if c = CHR 0x22 then Some ([], cs)
      else if c = CHR 0x5C then
        (case cs of
           [] \<Rightarrow> None
         | e # r \<Rightarrow>
             if e = CHR ''u'' then
               (case r of
                  z # y # a # b # r' \<Rightarrow>
                    (if z = CHR ''0'' \<and> y = CHR ''0''
                     then (case (hex_any a, hex_any b) of
                             (Some m, Some n) \<Rightarrow>
                               map_option (map_prod (Cons (char_of (16 * m + n))) id) (json_chars r')
                           | _ \<Rightarrow> None)
                     else None)
                | _ \<Rightarrow> None)
             else (case map_of [(CHR 0x22, CHR 0x22), (CHR 0x5C, CHR 0x5C), (CHR ''/'', CHR ''/''),
                       (CHR ''b'', CHR 0x08), (CHR ''f'', CHR 0x0C), (CHR ''n'', CHR 0x0A),
                       (CHR ''r'', CHR 0x0D), (CHR ''t'', CHR 0x09)] e of
                     Some x \<Rightarrow> map_option (map_prod (Cons x) id) (json_chars r)
                   | None \<Rightarrow> None))
      else if of_char c < (32::nat) then None
      else map_option (map_prod (Cons c) id) (json_chars cs))"

lemma json_chars_length: "json_chars s = Some (x, r) \<Longrightarrow> length r < length s"
  by (induction s arbitrary: x r rule: json_chars.induct)
    (fastforce split: if_splits option.splits list.splits)+

function json_items :: "string \<Rightarrow> string list option" where
  "json_items s =
     (if s = [] \<or> hd s \<noteq> CHR 0x22 then None
      else case json_chars (tl s) of
        Some (x, c # t) \<Rightarrow>
          if c = CHR '','' then map_option (Cons x) (json_items t)
          else if c = CHR '']'' then Some [x] else None
      | _ \<Rightarrow> None)"
  by pat_completeness auto
termination
  by (relation "measure length") (auto dest: json_chars_length)

declare json_items.simps [simp del]

definition json_decode :: "string \<Rightarrow> string list option" where
  "json_decode s =
     (if take 2 s = ''[]'' then Some [] else if take 1 s = ''['' then json_items (tl s) else None)"

lemma hex_any_digit: "n < 16 \<Longrightarrow> hex_any (hex_digit n) = Some n"
proof -
  assume n: "n < 16"
  then have "n \<in> set [0 ..< 16]" by simp
  moreover have "\<forall>n \<in> set [0 ..< 16]. \<not> (CHR ''A'' \<le> hex_digit n \<and> hex_digit n \<le> CHR ''F'')" by code_simp
  ultimately show ?thesis using hex_val_digit [OF n] by (auto simp: hex_any_def)
qed

lemma json_chars_escape:
  "json_chars (escape_char c @ t) = map_option (map_prod (Cons c) id) (json_chars t)"
proof -
  have "of_char c < (256::nat)" by simp
  then have h: "of_char c div 16 < (16::nat)" "of_char c mod 16 < (16::nat)"
    by (simp_all add: less_mult_imp_div_less)
  have j: "char_of (16 * (of_char c div 16) + of_char c mod 16 :: nat) = c" by simp
  show ?thesis
    using h j by (auto simp: escape_char_def hex_any_digit)
qed

lemma json_chars_string:
  "json_chars (concat (map escape_char s) @ CHR 0x22 # t) = Some (s, t)"
proof (induction s)
  case Nil
  then show ?case by simp
next
  case (Cons c s)
  have "json_chars (escape_char c @ concat (map escape_char s) @ CHR 0x22 # t) = Some (c # s, t)"
    by (simp add: json_chars_escape Cons)
  then show ?case by simp
qed

lemma json_items_join:
  "xs \<noteq> [] \<Longrightarrow> json_items (join (map json_string xs) '','' @ CHR '']'' # t) = Some xs"
proof (induction xs rule: list_nonempty_induct)
  case (single x)
  show ?case
    by (simp add: json_items.simps json_string_def json_chars_string)
next
  case (cons x xs)
  then show ?case
    by (subst json_items.simps) (simp add: join_Cons json_string_def [of x] json_chars_string)
qed

lemma json_roundtrip: "json_decode (json_encode xs) = Some xs"
proof (cases xs)
  case Nil
  then show ?thesis by (simp add: json_decode_def json_encode_def)
next
  case (Cons y ys)
  have "\<exists>u. join (map json_string xs) '','' = CHR 0x22 # u"
    unfolding Cons by (cases ys) (simp_all add: json_string_def)
  then have "take 2 (json_encode xs) \<noteq> ''[]''"
    by (auto simp: json_encode_def numeral_2_eq_2)
  with Cons json_items_join [of xs] show ?thesis
    by (simp add: json_decode_def json_encode_def)
qed

section \<open>The server\<close>

text \<open>
  The package variables, and the list of the handler's closure while the server runs. What
  the listener of \<open>net.Listen\<close> reports as its address is the parameter \<open>listen\<close>.
\<close>

record announcer =
  running :: bool
  serverAddr :: string
  registered :: "string list"

datatype reply = Reply int string

definition Callback :: "(string \<Rightarrow> go_error + string) \<Rightarrow> string \<Rightarrow> (failure, 's, string) comp" where
  "Callback listen listenHost = expect_val (listen (listenHost @ '':0''))"

definition Start :: "(string \<Rightarrow> go_error + string) \<Rightarrow> string \<Rightarrow> (failure, announcer, unit) comp" where
  "Start listen externalAddress =
     andThen (Callback listen externalAddress) (\<lambda>addr.
     modify (\<lambda>s. s\<lparr>running := True, serverAddr := addr, registered := []\<rparr>))"

text \<open>\<open>server.Close()\<close>; before a first \<open>Start\<close> the variable is nil.\<close>

definition Stop :: "bool \<Rightarrow> (failure, announcer, unit) comp" where
  "Stop started = (if started then modify (\<lambda>s. s\<lparr>running := False\<rparr>)
     else fail (Panic ''invalid memory address or nil pointer dereference''))"

text \<open>The handler, run to its end without another handler in between.\<close>

definition handle :: "string \<Rightarrow> string \<Rightarrow> (failure, announcer, reply) comp" where
  "handle path rawQuery =
     (if path = ''/announce'' then
        andThen (modify (\<lambda>s. s\<lparr>registered := registered s @ [Get (Query rawQuery) ''announcement'']\<rparr>)) (\<lambda>_.
        ret (Reply 200 []))
      else if path = ''/announcements'' then
        andThen (gets registered) (\<lambda>rs. ret (Reply 200 (json_encode rs)))
      else ret (Reply 404 []))"

definition AnnounceURL :: "string \<Rightarrow> announcer \<Rightarrow> string" where
  "AnnounceURL announcement s = ''http://'' @ serverAddr s @ ''/announce?announcement='' @ announcement"

text \<open>A GET of an address of this server, made of printable characters: it is refused when the server is not running.\<close>

definition http_get :: "string \<Rightarrow> (failure, announcer, go_error + reply) comp" where
  "http_get url = (\<lambda>s.
     if running s \<and> prefix (''http://'' @ serverAddr s) url
     then (let (p, q) = path_and_query (drop (length (''http://'' @ serverAddr s)) url)
           in andThen (handle p q) (\<lambda>r. ret (Inr r)) s)
     else (Inr (Inl (Msg ''connection refused'')), s))"

definition Announcements :: "(failure, announcer, string list) comp" where
  "Announcements =
     andThen (gets (\<lambda>s. ''http://'' @ serverAddr s @ ''/announcements'')) (\<lambda>url.
     andThen (http_get url) (\<lambda>r.
     andThen (expect_val r) (\<lambda>resp.
     case resp of Reply _ text \<Rightarrow>
       (case json_decode text of
          None \<Rightarrow> fail (Expectation ''invalid character'')
        | Some responses \<Rightarrow> ret responses))))"

text \<open>What a container does with the address it is given.\<close>

definition announce :: "string \<Rightarrow> (failure, announcer, go_error + reply) comp" where
  "announce announcement = andThen (gets (AnnounceURL announcement)) http_get"

section \<open>What is announced is what is read\<close>

text \<open>Announcements of printable characters that mean nothing in a query.\<close>

definition url_plain :: "string \<Rightarrow> bool" where
  "url_plain a \<longleftrightarrow> (\<forall>c \<in> set a. (33::nat) \<le> of_char c \<and> of_char c \<le> (126::nat)
     \<and> c \<notin> {CHR ''%'', CHR ''+'', CHR ''&'', CHR '';'', CHR ''#''})"

lemma QueryUnescape_plain: "\<forall>c \<in> set s. c \<notin> {CHR ''%'', CHR ''+''} \<Longrightarrow> QueryUnescape s = Some s"
  by (induction s) auto

lemma takeWhile_until: "c \<notin> set a \<Longrightarrow> takeWhile (\<lambda>x. x \<noteq> c) (a @ c # b) = a"
  by (induction a) auto

lemma dropWhile_until: "c \<notin> set a \<Longrightarrow> dropWhile (\<lambda>x. x \<noteq> c) (a @ c # b) = c # b"
  by (induction a) auto

lemma takeWhile_none: "c \<notin> set a \<Longrightarrow> takeWhile (\<lambda>x. x \<noteq> c) a = a"
  by (induction a) auto

lemma cut_at: "c \<notin> set a \<Longrightarrow> cut c (a @ c # b) = (a, b)"
  by (simp add: cut_def takeWhile_until dropWhile_until)

lemma cut_none: "c \<notin> set a \<Longrightarrow> cut c a = (a, [])"
  by (induction a) (auto simp: cut_def)

lemma parse_announcement:
  assumes "url_plain a"
  shows "parse_pair (''announcement='' @ a) = Some (''announcement'', a)"
proof -
  have "cut (CHR ''='') (''announcement'' @ CHR ''='' # a) = (''announcement'', a)"
    by (rule cut_at) simp
  moreover have "QueryUnescape a = Some a" "QueryUnescape ''announcement'' = Some ''announcement''"
    using assms by (auto simp: url_plain_def intro!: QueryUnescape_plain)
  moreover have "CHR '';'' \<notin> set (''announcement='' @ a)"
    using assms by (auto simp: url_plain_def)
  ultimately show ?thesis by (simp add: parse_pair_def)
qed

text \<open>The server takes the text up to the first ampersand or number sign.\<close>

lemma announce_run:
  assumes "running s" and "url_plain a" and "b = [] \<or> hd b = CHR ''&'' \<or> hd b = CHR ''#''"
  shows "announce (a @ b) s = (Inr (Inr (Reply 200 [])), s\<lparr>registered := registered s @ [a]\<rparr>)"
proof -
  have a: "CHR ''#'' \<notin> set a" "CHR ''&'' \<notin> set a" using assms(2) by (auto simp: url_plain_def)
  define t where "t = takeWhile (\<lambda>x. x \<noteq> CHR ''#'') b"
  have t: "t = [] \<or> hd t = CHR ''&''" using assms(3) by (cases b) (auto simp: t_def)
  have "takeWhile (\<lambda>x. x \<noteq> CHR ''#'') (a @ b) = a @ t"
    using a(1) unfolding t_def by (induction a) auto
  then have "path_and_query (''/announce?announcement='' @ a @ b) = (''/announce'', ''announcement='' @ a @ t)"
    by (simp add: path_and_query_def cut_def)
  moreover have "\<exists>rest. split_on (CHR ''&'') (''announcement='' @ a @ t) = (''announcement='' @ a) # rest"
  proof (cases t)
    case Nil
    with a(2) show ?thesis by (simp add: split_on_none)
  next
    case (Cons c u)
    with t have c: "c = CHR ''&''" by simp
    have "CHR ''&'' \<notin> set (''announcement='' @ a)" using a(2) by simp
    from split_on_append [OF this, of u] Cons c show ?thesis by simp
  qed
  ultimately show ?thesis
    using assms(1) parse_announcement [OF assms(2)]
    by (auto simp: announce_def AnnounceURL_def http_get_def handle_def andThen_def Query_def Get_def
        map_filter_simps)
qed

lemma Announcements_run: "running s \<Longrightarrow> Announcements s = (Inr (registered s), s)"
  by (simp add: Announcements_def http_get_def handle_def andThen_def path_and_query_def cut_def
      json_roundtrip)

primrec announce_all :: "string list \<Rightarrow> (failure, announcer, unit) comp" where
  "announce_all [] = ret ()"
| "announce_all (a # as) = andThen (announce a) (\<lambda>r. andThen (expect_val r) (\<lambda>_. announce_all as))"

lemma announce_all_run:
  "running s \<Longrightarrow> \<forall>a \<in> set as. url_plain a \<Longrightarrow>
     announce_all as s = (Inr (), s\<lparr>registered := registered s @ as\<rparr>)"
proof (induction as arbitrary: s)
  case Nil
  then show ?case by simp
next
  case (Cons a as)
  then have "announce a s = (Inr (Inr (Reply 200 [])), s\<lparr>registered := registered s @ [a]\<rparr>)"
    using announce_run [of s a "[]"] by simp
  with Cons show ?case by (simp add: andThen_def)
qed

text \<open>
  Property C21. After a start, the announcements made through \<open>AnnounceURL\<close> are read back by
  \<open>Announcements\<close> in their order, whatever quotes or backslashes they hold, as long as they
  are made of printable characters other than the percent sign, the plus, the ampersand,
  the semicolon and the number sign; a second start forgets them.
\<close>

theorem announcements_read_back:
  assumes "listen (ext @ '':0'') = Inr addr" and "\<forall>a \<in> set as. url_plain a"
  shows "fst (andThen (Start listen ext) (\<lambda>_. andThen (announce_all as) (\<lambda>_. Announcements)) s) = Inr as
    \<and> fst (andThen (Start listen ext) (\<lambda>_. andThen (announce_all as) (\<lambda>_.
        andThen (Start listen ext) (\<lambda>_. Announcements))) s) = Inr []"
  using assms
  by (simp add: Start_def Callback_def andThen_def announce_all_run Announcements_run)

definition demo_announcer :: announcer where
  "demo_announcer = \<lparr>running = False, serverAddr = [], registered = []\<rparr>"

theorem announcements_read_back_witness:
  "fst (andThen (Start (\<lambda>a. Inr ''10.0.0.1:4567'') ''10.0.0.1'') (\<lambda>_.
     andThen (announce_all [''a-0'', [CHR 0x22, CHR ''x'']]) (\<lambda>_. Announcements)) demo_announcer)
   = Inr [''a-0'', [CHR 0x22, CHR ''x'']]"
proof -
  have "\<forall>a \<in> set [''a-0'', [CHR 0x22, CHR ''x'']]. url_plain a" by (simp add: url_plain_def)
  from announcements_read_back [OF _ this, of "\<lambda>a. Inr ''10.0.0.1:4567''" "''10.0.0.1''" "''10.0.0.1:4567''" demo_announcer]
  show ?thesis by simp
qed

text \<open>
  \<open>AnnounceURL\<close> does not escape its argument: of an announcement with an ampersand
  or a number sign only the part before it is registered, so two different announcements can
  be the same to the suite.
\<close>

theorem announcement_cut_short:
  assumes "running s" and "url_plain a" and "hd b = CHR ''&'' \<or> hd b = CHR ''#''" and "b \<noteq> []"
  shows "fst (andThen (announce (a @ b)) (\<lambda>_. Announcements) s) = Inr (registered s @ [a])
    \<and> a @ b \<noteq> a"
  using assms announce_run [OF assms(1,2), of b]
  by (simp add: andThen_def Announcements_run)

theorem announcement_cut_short_witness:
  "fst (andThen (announce ''a&b'') (\<lambda>_. Announcements) (demo_announcer\<lparr>running := True\<rparr>)) = Inr [''a'']"
  using announcement_cut_short [of "demo_announcer\<lparr>running := True\<rparr>" "''a''" "''&b''"]
  by (simp add: demo_announcer_def url_plain_def)

end
