(* ===== verification/Announcement_Threads.thy ===== *)
theory Announcement_Threads
  imports Announcement_Server
begin

text \<open>
  The handler of the announcement server as the HTTP server runs it: one thread for each
  request, all sharing the list and the read-write mutex of \<open>Start\<close>. Each access to the
  list and each operation on the mutex is a step of its own; \<open>append\<close> loads the list and
  stores the longer one.
\<close>

section \<open>Steps\<close>

datatype job = Announce string | ListAll | NoSuchPath

datatype pc =
    Begin
  | Locked
  | Loaded "string list"
  | Stored
  | RLocked
  | Encoded "string list"
  | Done "string list"

record shared =
  list :: "string list"
  writer_lock :: "nat option"
  reader_locks :: "nat set"
  pcs :: "nat \<Rightarrow> pc"

definition idle_server :: shared where
  "idle_server = \<lparr>list = [], writer_lock = None, reader_locks = {}, pcs = (\<lambda>_. Begin)\<rparr>"

definition goto :: "nat \<Rightarrow> pc \<Rightarrow> shared \<Rightarrow> shared" where
  "goto i p s = s\<lparr>pcs := (pcs s)(i := p)\<rparr>"

inductive hstep :: "(nat \<Rightarrow> job) \<Rightarrow> shared \<Rightarrow> shared \<Rightarrow> bool" for J where
  lock: "J i = Announce a \<Longrightarrow> pcs s i = Begin \<Longrightarrow> writer_lock s = None \<Longrightarrow> reader_locks s = {} \<Longrightarrow>
    hstep J s (goto i Locked (s\<lparr>writer_lock := Some i\<rparr>))"
| load: "pcs s i = Locked \<Longrightarrow> hstep J s (goto i (Loaded (list s)) s)"
| store: "J i = Announce a \<Longrightarrow> pcs s i = Loaded v \<Longrightarrow>
    hstep J s (goto i Stored (s\<lparr>list := v @ [a]\<rparr>))"
| unlock: "pcs s i = Stored \<Longrightarrow> hstep J s (goto i (Done []) (s\<lparr>writer_lock := None\<rparr>))"
| rlock: "J i = ListAll \<Longrightarrow> pcs s i = Begin \<Longrightarrow> writer_lock s = None \<Longrightarrow>
    hstep J s (goto i RLocked (s\<lparr>reader_locks := insert i (reader_locks s)\<rparr>))"
| encode: "pcs s i = RLocked \<Longrightarrow> hstep J s (goto i (Encoded (list s)) s)"
| runlock: "pcs s i = Encoded v \<Longrightarrow>
    hstep J s (goto i (Done v) (s\<lparr>reader_locks := reader_locks s - {i}\<rparr>))"
| not_found: "J i = NoSuchPath \<Longrightarrow> pcs s i = Begin \<Longrightarrow> hstep J s (goto i (Done []) s)"

inductive served :: "(nat \<Rightarrow> job) \<Rightarrow> shared \<Rightarrow> bool" for J where
  start: "served J idle_server"
| step: "served J s \<Longrightarrow> hstep J s t \<Longrightarrow> served J t"

section \<open>The invariant\<close>

text \<open>The threads whose announcement is in the list.\<close>

definition announced :: "(nat \<Rightarrow> job) \<Rightarrow> shared \<Rightarrow> nat set" where
  "announced J s = {i. (\<exists>a. J i = Announce a) \<and> (pcs s i = Stored \<or> (\<exists>v. pcs s i = Done v))}"

definition text_of :: "job \<Rightarrow> string" where
  "text_of j = (case j of Announce a \<Rightarrow> a | _ \<Rightarrow> [])"

fun writes :: "pc \<Rightarrow> bool" where
  "writes Locked = True"
| "writes (Loaded _) = True"
| "writes Stored = True"
| "writes _ = False"

fun reads :: "pc \<Rightarrow> bool" where
  "reads RLocked = True"
| "reads (Encoded _) = True"
| "reads _ = False"

definition lock_inv :: "(nat \<Rightarrow> job) \<Rightarrow> shared \<Rightarrow> bool" where
  "lock_inv J s \<longleftrightarrow>
     (\<forall>i. writes (pcs s i) \<longleftrightarrow> writer_lock s = Some i)
   \<and> (\<forall>i. reads (pcs s i) \<longleftrightarrow> i \<in> reader_locks s)
   \<and> (writer_lock s \<noteq> None \<longrightarrow> reader_locks s = {})
   \<and> (\<forall>i. writes (pcs s i) \<longrightarrow> (\<exists>a. J i = Announce a))
   \<and> (\<forall>i. reads (pcs s i) \<longrightarrow> J i = ListAll)"

definition list_inv :: "(nat \<Rightarrow> job) \<Rightarrow> shared \<Rightarrow> bool" where
  "list_inv J s \<longleftrightarrow>
     (\<forall>i v. pcs s i = Loaded v \<longrightarrow> v = list s)
   \<and> (\<forall>i v. J i = ListAll \<and> (pcs s i = Encoded v \<or> pcs s i = Done v) \<longrightarrow> prefix v (list s))
   \<and> (\<exists>order. distinct order \<and> set order = announced J s \<and> list s = map (text_of \<circ> J) order)"

lemma lock_inv_step: "hstep J s t \<Longrightarrow> lock_inv J s \<Longrightarrow> lock_inv J t"
proof (induction rule: hstep.induct)
  case (unlock s i)
  then have "writes (pcs s i)" by simp
  with unlock.prems have "writer_lock s = Some i" by (simp add: lock_inv_def)
  with unlock.prems show ?case by (auto simp: lock_inv_def goto_def)
next
  case (load s i)
  then have "writes (pcs s i)" by simp
  with load.prems show ?case by (auto simp: lock_inv_def goto_def)
next
  case (store i a s v)
  then have "writes (pcs s i)" by simp
  with store.prems show ?case by (auto simp: lock_inv_def goto_def)
next
  case (encode s i)
  then have "reads (pcs s i)" by simp
  with encode.prems show ?case by (auto simp: lock_inv_def goto_def)
next
  case (runlock s i v)
  then have "reads (pcs s i)" by simp
  with runlock.prems show ?case by (auto simp: lock_inv_def goto_def)
qed (auto simp: lock_inv_def goto_def)

text \<open>A thread inside the mutex is alone there with the list.\<close>

lemma writer_alone: "lock_inv J s \<Longrightarrow> writes (pcs s i) \<Longrightarrow> writes (pcs s j) \<Longrightarrow> i = j"
  by (simp add: lock_inv_def)

lemma announced_goto:
  "announced J (goto i p s) =
     (if (\<exists>a. J i = Announce a) \<and> (p = Stored \<or> (\<exists>v. p = Done v)) then insert i (announced J s)
      else announced J s - {i})"
  by (auto simp: announced_def goto_def)

lemma announced_fields [simp]:
  "announced J (s\<lparr>list := l\<rparr>) = announced J s" "announced J (s\<lparr>writer_lock := w\<rparr>) = announced J s"
  "announced J (s\<lparr>reader_locks := r\<rparr>) = announced J s"
  by (simp_all add: announced_def)

lemma list_inv_same_order:
  assumes "list_inv J s" and "list t = list s" and "announced J t = announced J s"
    and "\<And>i v. pcs t i = Loaded v \<Longrightarrow> v = list s"
    and "\<And>i v. J i = ListAll \<Longrightarrow> pcs t i = Encoded v \<or> pcs t i = Done v \<Longrightarrow> prefix v (list s)"
  shows "list_inv J t"
  using assms unfolding list_inv_def by auto

lemma list_inv_store:
  assumes inv: "lock_inv J s" "list_inv J s" and "J i = Announce a" "pcs s i = Loaded v"
    and t: "t = goto i Stored (s\<lparr>list := v @ [a]\<rparr>)"
  shows "list_inv J t"
proof -
  from inv(2) assms(4) have v: "v = list s" by (auto simp: list_inv_def)
  obtain order where order: "distinct order" "set order = announced J s"
    "list s = map (text_of \<circ> J) order" using inv(2) by (auto simp: list_inv_def)
  have "i \<notin> announced J s" using assms(4) by (simp add: announced_def)
  with order assms(3) have new: "distinct (order @ [i])" "set (order @ [i]) = announced J t"
    "list t = map (text_of \<circ> J) (order @ [i])" and lst: "list t = list s @ [a]"
    by (auto simp: t v announced_goto text_of_def) (simp_all add: goto_def)
  have loaded: "w = list t" if "pcs t j = Loaded w" for j w
  proof -
    from that have "j \<noteq> i" "pcs s j = Loaded w" by (auto simp: t goto_def split: if_splits)
    moreover have "writes (pcs s j)" "writes (pcs s i)" using calculation assms(4) by simp_all
    ultimately show ?thesis using writer_alone [OF inv(1)] by blast
  qed
  have listed: "prefix w (list t)" if "J j = ListAll" "pcs t j = Encoded w \<or> pcs t j = Done w" for j w
  proof -
    from that have "pcs s j = Encoded w \<or> pcs s j = Done w" by (auto simp: t goto_def split: if_splits)
    with inv(2) that(1) have "prefix w (list s)" by (auto simp: list_inv_def)
    with lst show ?thesis by simp
  qed
  show ?thesis
    unfolding list_inv_def using loaded listed new by blast
qed

lemma list_inv_step: "hstep J s t \<Longrightarrow> lock_inv J s \<Longrightarrow> list_inv J s \<Longrightarrow> list_inv J t"
proof (induction rule: hstep.induct)
  case (store i a s v)
  show ?case
    by (rule list_inv_store [OF store.prems store.hyps refl])
next
  case (unlock s i)
  have "\<exists>a. J i = Announce a" using unlock.hyps unlock.prems(1) by (simp add: lock_inv_def)
  moreover have "i \<in> announced J s" using calculation unlock.hyps by (simp add: announced_def)
  ultimately show ?case
    using unlock.prems(2)
    by (intro list_inv_same_order [OF unlock.prems(2)])
      (auto simp: announced_goto list_inv_def, auto simp: goto_def split: if_splits)
next
  case (lock i a s)
  have "i \<notin> announced J s" using lock.hyps by (simp add: announced_def)
  then show ?case
    using lock.prems(2)
    by (intro list_inv_same_order [OF lock.prems(2)])
      (auto simp: announced_goto list_inv_def, auto simp: goto_def split: if_splits)
next
  case (load s i)
  have "i \<notin> announced J s" using load.hyps by (simp add: announced_def)
  then show ?case
    using load.prems(2)
    by (intro list_inv_same_order [OF load.prems(2)])
      (auto simp: announced_goto list_inv_def, auto simp: goto_def split: if_splits)
next
  case (rlock i s)
  then have "i \<notin> announced J s" by (simp add: announced_def)
  then show ?case
    using rlock.prems(2)
    by (intro list_inv_same_order [OF rlock.prems(2)])
      (auto simp: announced_goto list_inv_def, auto simp: goto_def split: if_splits)
next
  case (encode s i)
  then have "J i = ListAll" by (simp add: lock_inv_def)
  then have "i \<notin> announced J s" by (simp add: announced_def)
  then show ?case
    using encode.prems(2)
    by (intro list_inv_same_order [OF encode.prems(2)])
      (auto simp: announced_goto list_inv_def, auto simp: goto_def split: if_splits)
next
  case (runlock s i v)
  then have "J i = ListAll" by (simp add: lock_inv_def)
  moreover have "i \<notin> announced J s" using calculation by (simp add: announced_def)
  ultimately show ?case
    using runlock.prems(2) runlock.hyps
    by (intro list_inv_same_order [OF runlock.prems(2)])
      (auto simp: announced_goto list_inv_def, auto simp: goto_def split: if_splits)
next
  case (not_found i s)
  then have "i \<notin> announced J s" by (simp add: announced_def)
  then show ?case
    using not_found
    by (intro list_inv_same_order [OF not_found.prems(2)])
      (auto simp: announced_goto list_inv_def, auto simp: goto_def split: if_splits)
qed

lemma served_inv: "served J s \<Longrightarrow> lock_inv J s \<and> list_inv J s"
proof (induction rule: served.induct)
  case start
  show ?case by (simp add: idle_server_def lock_inv_def list_inv_def announced_def)
next
  case (step s t)
  then show ?case by (blast intro: lock_inv_step list_inv_step)
qed

text \<open>
  Property C8. However the requests to the announcement server interleave, none is lost: the
  list always holds exactly the announcements whose handler has stored them, each once, in
  the order of their turns under the mutex; and every answer to a listing is a list the
  server had at some moment, a prefix of the present one.
\<close>

theorem no_announcement_lost:
  assumes "served J s"
  shows "(\<exists>order. distinct order \<and> set order = announced J s \<and> list s = map (text_of \<circ> J) order)
    \<and> (\<forall>i v. J i = ListAll \<longrightarrow> pcs s i = Encoded v \<or> pcs s i = Done v \<longrightarrow> prefix v (list s))"
  using served_inv [OF assms] unfolding list_inv_def by blast

definition demo_jobs :: "nat \<Rightarrow> job" where
  "demo_jobs i = (if i = 0 then Announce ''x'' else if i = 1 then ListAll else NoSuchPath)"

definition demo_stored :: shared where
  "demo_stored = goto 0 Stored ((goto 0 (Loaded []) (goto 0 Locked (idle_server\<lparr>writer_lock := Some 0\<rparr>)))\<lparr>list := [''x'']\<rparr>)"

lemma demo_served: "served demo_jobs demo_stored"
proof -
  let ?a = "goto 0 Locked (idle_server\<lparr>writer_lock := Some 0\<rparr>)"
  have 1: "served demo_jobs ?a"
    by (rule served.step [OF served.start hstep.lock]) (simp_all add: idle_server_def demo_jobs_def)
  have "hstep demo_jobs ?a (goto 0 (Loaded (list ?a)) ?a)" by (rule hstep.load) (simp add: goto_def)
  with 1 have 2: "served demo_jobs (goto 0 (Loaded []) ?a)"
    using served.step by (fastforce simp: idle_server_def goto_def)
  have "hstep demo_jobs (goto 0 (Loaded []) ?a)
      (goto 0 Stored ((goto 0 (Loaded []) ?a)\<lparr>list := [] @ [''x'']\<rparr>))"
    by (rule hstep.store) (simp_all add: goto_def demo_jobs_def)
  from served.step [OF 2 this] show ?thesis by (simp add: demo_stored_def)
qed

theorem no_announcement_lost_witness:
  "\<exists>order. distinct order \<and> set order = {0} \<and> [''x''] = map (text_of \<circ> demo_jobs) order"
proof -
  have "announced demo_jobs demo_stored = {0}"
    by (auto simp: announced_def demo_stored_def goto_def idle_server_def demo_jobs_def)
  moreover have "list demo_stored = [''x'']" by (simp add: demo_stored_def goto_def)
  ultimately show ?thesis using no_announcement_lost [OF demo_served] by simp
qed

text \<open>
  Property C31. The mutex of the announcement server never blocks for good: as long as some
  handler has not finished, some handler can take its next step.
\<close>

theorem handlers_not_stuck:
  assumes "served J s" and "\<forall>v. pcs s i \<noteq> Done v"
  shows "\<exists>t. hstep J s t"
proof -
  from served_inv [OF assms(1)] have inv: "lock_inv J s" by simp
  have free: "\<exists>t. hstep J s t" if "writes (pcs s j) \<or> reads (pcs s j)" for j
  proof (cases "pcs s j")
    case (Loaded v)
    with inv obtain a where "J j = Announce a" by (metis lock_inv_def writes.simps(2))
    with Loaded show ?thesis by (blast intro: hstep.store)
  qed (use that in \<open>auto intro: hstep.intros\<close>)
  show ?thesis
  proof (cases "writer_lock s = None \<and> reader_locks s = {}")
    case False
    then obtain j where "writes (pcs s j) \<or> reads (pcs s j)" using inv by (auto simp: lock_inv_def)
    then show ?thesis by (rule free)
  next
    case True
    with inv have "\<not> writes (pcs s i)" "\<not> reads (pcs s i)" by (simp_all add: lock_inv_def)
    with assms(2) have "pcs s i = Begin" by (cases "pcs s i") simp_all
    with True show ?thesis by (cases "J i") (blast intro: hstep.intros)+
  qed
qed

theorem handlers_not_stuck_witness: "\<exists>t. hstep demo_jobs demo_stored t"
proof -
  have "\<forall>v. pcs demo_stored 1 \<noteq> Done v" by (simp add: demo_stored_def goto_def idle_server_def)
  from handlers_not_stuck [OF demo_served this] show ?thesis .
qed

end
