(* ===== verification/Announcement_Order.thy ===== *)
theory Announcement_Order
  imports Announcement_Threads
begin

text \<open>
  The interleaved handlers of \<open>Announcement_Threads\<close> implement the sequential handler of
  \<open>Announcement_Server\<close>: each of them takes effect in one step between its beginning and its
  end, and in the order of these steps the sequential handler gives the same replies.
\<close>

section \<open>The sequential server\<close>

text \<open>The switch of the handler on the path of a request.\<close>

definition job_of :: "string \<times> string \<Rightarrow> job" where
  "job_of r =
     (if fst r = ''/announce'' then Announce (Get (Query (snd r)) ''announcement'')
      else if fst r = ''/announcements'' then ListAll
      else NoSuchPath)"

text \<open>The requests handled one after the other.\<close>

primrec serve_all :: "(nat \<Rightarrow> string \<times> string) \<Rightarrow> nat list \<Rightarrow> (failure, announcer, reply list) comp" where
  "serve_all req [] = ret []"
| "serve_all req (i # is) =
     andThen (handle (fst (req i)) (snd (req i))) (\<lambda>r.
     andThen (serve_all req is) (\<lambda>rs. ret (r # rs)))"

lemma serve_all_append:
  assumes "serve_all req is s = (Inr rs, t)"
  shows "serve_all req (is @ js) s = (case serve_all req js t of (Inl e, u) \<Rightarrow> (Inl e, u) | (Inr qs, u) \<Rightarrow> (Inr (rs @ qs), u))"
  using assms
proof (induction "is" arbitrary: s rs)
  case Nil
  then show ?case by (auto split: prod.split sum.split)
next
  case (Cons i "is")
  from Cons.prems obtain r rs' u where h: "handle (fst (req i)) (snd (req i)) s = (Inr r, u)"
    and rest: "serve_all req is u = (Inr rs', t)" and rs: "rs = r # rs'"
    by (auto simp: andThen_Inr_iff)
  from Cons.IH [OF rest] show ?case
    by (simp add: andThen_def h rs split: prod.split sum.split)
qed

section \<open>The abstraction\<close>

definition server_of :: "string \<Rightarrow> shared \<Rightarrow> announcer" where
  "server_of addr s = \<lparr>running = True, serverAddr = addr, registered = list s\<rparr>"

text \<open>The reply that is settled, from the step on in which the handler takes effect.\<close>

definition decided :: "(nat \<Rightarrow> job) \<Rightarrow> shared \<Rightarrow> nat \<Rightarrow> reply option" where
  "decided J s i =
     (case pcs s i of
        Stored \<Rightarrow> Some (Reply 200 [])
      | Encoded v \<Rightarrow> Some (Reply 200 (json_encode v))
      | Done v \<Rightarrow> Some (case J i of Announce _ \<Rightarrow> Reply 200 [] | ListAll \<Rightarrow> Reply 200 (json_encode v) | NoSuchPath \<Rightarrow> Reply 404 [])
      | _ \<Rightarrow> None)"

definition undecided_kept :: "(nat \<Rightarrow> string \<times> string) \<Rightarrow> string \<Rightarrow> shared \<Rightarrow> shared \<Rightarrow> bool" where
  "undecided_kept req addr s t \<longleftrightarrow> server_of addr t = server_of addr s \<and> decided (job_of \<circ> req) t = decided (job_of \<circ> req) s"

definition decides :: "(nat \<Rightarrow> string \<times> string) \<Rightarrow> string \<Rightarrow> nat \<Rightarrow> shared \<Rightarrow> shared \<Rightarrow> bool" where
  "decides req addr i s t \<longleftrightarrow> decided (job_of \<circ> req) s i = None
     \<and> (\<exists>r. handle (fst (req i)) (snd (req i)) (server_of addr s) = (Inr r, server_of addr t)
         \<and> decided (job_of \<circ> req) t = (decided (job_of \<circ> req) s)(i \<mapsto> r))"

lemma handle_job:
  "job_of r = Announce a \<Longrightarrow> handle (fst r) (snd r) s = (Inr (Reply 200 []), s\<lparr>registered := registered s @ [a]\<rparr>)"
  "job_of r = ListAll \<Longrightarrow> handle (fst r) (snd r) s = (Inr (Reply 200 (json_encode (registered s))), s)"
  "job_of r = NoSuchPath \<Longrightarrow> handle (fst r) (snd r) s = (Inr (Reply 404 []), s)"
  by (auto simp: job_of_def handle_def andThen_def modify_def gets_def split: if_splits)

lemma decided_goto: "decided J (goto i p s) = (decided J s)(i := decided J (goto i p s) i)"
  by (auto simp: decided_def goto_def)

lemma decided_fields [simp]:
  "decided J (s\<lparr>list := l\<rparr>) = decided J s" "decided J (s\<lparr>writer_lock := w\<rparr>) = decided J s"
  "decided J (s\<lparr>reader_locks := r\<rparr>) = decided J s"
  by (simp_all add: decided_def fun_eq_iff)

lemma server_of_simps [simp]:
  "server_of addr (s\<lparr>pcs := ps\<rparr>) = server_of addr s"
  "server_of addr (goto i p s) = server_of addr s" "server_of addr (s\<lparr>writer_lock := w\<rparr>) = server_of addr s"
  "server_of addr (s\<lparr>reader_locks := r\<rparr>) = server_of addr s"
  "server_of addr (s\<lparr>list := l\<rparr>) = (server_of addr s)\<lparr>registered := l\<rparr>"
  by (simp_all add: server_of_def goto_def)

text \<open>Every step either changes nothing the clients can tell, or is the whole handler of one request.\<close>

lemma hstep_simulates:
  assumes "hstep (job_of \<circ> req) s t" and "lock_inv (job_of \<circ> req) s" and "list_inv (job_of \<circ> req) s"
  shows "undecided_kept req addr s t \<or> (\<exists>i. decides req addr i s t)"
  using assms
proof (induction rule: hstep.induct)
  case (lock i a s)
  then have "decided (job_of \<circ> req) s i = None" by (simp add: decided_def)
  moreover have "decided (job_of \<circ> req) (goto i Locked (s\<lparr>writer_lock := Some i\<rparr>)) i = None" by (simp add: decided_def goto_def)
  ultimately have "undecided_kept req addr s (goto i Locked (s\<lparr>writer_lock := Some i\<rparr>))"
    unfolding undecided_kept_def using decided_goto [of "job_of \<circ> req" i Locked "s\<lparr>writer_lock := Some i\<rparr>"]
    by (auto simp: fun_eq_iff)
  then show ?case by blast
next
  case (load s i)
  then have "undecided_kept req addr s (goto i (Loaded (list s)) s)"
    by (auto simp: undecided_kept_def fun_eq_iff decided_def goto_def)
  then show ?case by blast
next
  case (store i a s v)
  from store.prems(2) store.hyps(2) have v: "v = list s" by (simp add: list_inv_def)
  have "decides req addr i s (goto i Stored (s\<lparr>list := v @ [a]\<rparr>))"
    using store.hyps handle_job(1) [of "req i" a "server_of addr s"]
    by (auto simp: decides_def v fun_eq_iff decided_def goto_def server_of_def)
  then show ?case by blast
next
  case (unlock s i)
  then have "\<exists>a. (job_of \<circ> req) i = Announce a" by (simp add: lock_inv_def)
  then have "undecided_kept req addr s (goto i (Done []) (s\<lparr>writer_lock := None\<rparr>))"
    using unlock.hyps by (auto simp: undecided_kept_def fun_eq_iff decided_def goto_def)
  then show ?case by blast
next
  case (rlock i s)
  then have "undecided_kept req addr s (goto i RLocked (s\<lparr>reader_locks := insert i (reader_locks s)\<rparr>))"
    by (auto simp: undecided_kept_def fun_eq_iff decided_def goto_def)
  then show ?case by blast
next
  case (encode s i)
  then have "(job_of \<circ> req) i = ListAll" by (simp add: lock_inv_def)
  then have "decides req addr i s (goto i (Encoded (list s)) s)"
    using encode.hyps handle_job(2) [of "req i" "server_of addr s"]
    by (auto simp: decides_def fun_eq_iff decided_def goto_def server_of_def)
  then show ?case by blast
next
  case (runlock s i v)
  then have "(job_of \<circ> req) i = ListAll" by (simp add: lock_inv_def)
  then have "undecided_kept req addr s (goto i (Done v) (s\<lparr>reader_locks := reader_locks s - {i}\<rparr>))"
    using runlock.hyps by (auto simp: undecided_kept_def fun_eq_iff decided_def goto_def)
  then show ?case by blast
next
  case (not_found i s)
  then have "decides req addr i s (goto i (Done []) s)"
    using handle_job(3) [of "req i" "server_of addr s"]
    by (auto simp: decides_def fun_eq_iff decided_def goto_def server_of_def)
  then show ?case by blast
qed

section \<open>Properties\<close>

text \<open>
  \<open>order\<close> lists the requests whose reply is settled, each once, so that the sequential handler,
  started on the empty list, gives them these replies and leaves the present list.
\<close>

definition linearises :: "(nat \<Rightarrow> string \<times> string) \<Rightarrow> string \<Rightarrow> nat list \<Rightarrow> shared \<Rightarrow> bool" where
  "linearises req addr order s \<longleftrightarrow> distinct order \<and> set order = {i. decided (job_of \<circ> req) s i \<noteq> None}
     \<and> serve_all req order (server_of addr idle_server)
         = (Inr (map (\<lambda>i. the (decided (job_of \<circ> req) s i)) order), server_of addr s)"

lemma linearises_start: "linearises req addr [] idle_server"
  by (simp add: linearises_def idle_server_def decided_def)

lemma linearises_step:
  assumes "linearises req addr order s" and "served (job_of \<circ> req) s" and "hstep (job_of \<circ> req) s t"
  shows "\<exists>more. linearises req addr (order @ more) t"
proof -
  let ?d = "decided (job_of \<circ> req)"
  from hstep_simulates [OF assms(3)] served_inv [OF assms(2)]
  consider "undecided_kept req addr s t" | i where "decides req addr i s t" by blast
  then show ?thesis
  proof cases
    case 1
    with assms(1) have "linearises req addr (order @ []) t" by (simp add: linearises_def undecided_kept_def)
    then show ?thesis by blast
  next
    case 2
    then obtain r where none: "?d s i = None" and h: "handle (fst (req i)) (snd (req i)) (server_of addr s) = (Inr r, server_of addr t)"
      and d: "?d t = (?d s)(i \<mapsto> r)" by (auto simp: decides_def)
    have run: "serve_all req order (server_of addr idle_server) = (Inr (map (\<lambda>i. the (?d s i)) order), server_of addr s)"
      and i: "i \<notin> set order" using assms(1) none by (simp_all add: linearises_def)
    have "serve_all req (order @ [i]) (server_of addr idle_server) = (Inr (map (\<lambda>i. the (?d s i)) order @ [r]), server_of addr t)"
      unfolding serve_all_append [OF run] by (simp add: andThen_def h ret_def)
    moreover have "map (\<lambda>i. the (?d s i)) order @ [r] = map (\<lambda>i. the (?d t i)) (order @ [i])" using i by (auto simp: d)
    ultimately have "linearises req addr (order @ [i]) t"
      using assms(1) i by (auto simp: linearises_def d)
    then show ?thesis by blast
  qed
qed

lemma linearises_steps:
  assumes "(hstep (job_of \<circ> req))\<^sup>*\<^sup>* s t" and "linearises req addr order s" and "served (job_of \<circ> req) s"
  shows "\<exists>more. linearises req addr (order @ more) t \<and> served (job_of \<circ> req) t"
  using assms
proof (induction rule: rtranclp_induct)
  case base
  then show ?case by (metis append_Nil2)
next
  case (step t u)
  then obtain more where m: "linearises req addr (order @ more) t" "served (job_of \<circ> req) t" by blast
  from linearises_step [OF m step.hyps(2)] served.step [OF m(2) step.hyps(2)] show ?case
    by (metis append.assoc)
qed

lemma linearised: "served (job_of \<circ> req) s \<Longrightarrow> \<exists>order. linearises req addr order s"
proof (induction rule: served.induct)
  case start
  show ?case using linearises_start by blast
next
  case (step s t)
  then show ?case using linearises_step by blast
qed

text \<open>
  Property C4. The server is linearizable: however its handlers interleave, the replies settled so
  far are those of the sequential handler for the same requests in some order, which leads to
  the list the server has; and whatever happens later only adds requests at the end of this
  order, so that a request that comes after another was answered is also ordered after it.
\<close>

theorem interleaving_refines_handle:
  assumes "served (job_of \<circ> req) s"
  shows "\<exists>order. linearises req addr order s
    \<and> (\<forall>t. (hstep (job_of \<circ> req))\<^sup>*\<^sup>* s t \<longrightarrow> (\<exists>more. linearises req addr (order @ more) t))"
  using linearised [OF assms] linearises_steps [OF _ _ assms] by blast

text \<open>An announcement that is stored while a listing has not begun.\<close>

definition demo_requests :: "nat \<Rightarrow> string \<times> string" where
  "demo_requests i = (if i = 0 then (''/announce'', ''announcement=x'') else if i = 1 then (''/announcements'', []) else (''/'', []))"

lemma demo_requests_jobs: "job_of \<circ> demo_requests = demo_jobs"
proof
  fix i
  have "job_of (''/announce'', ''announcement=x'') = Announce ''x''" by code_simp
  then show "(job_of \<circ> demo_requests) i = demo_jobs i"
    by (simp add: demo_requests_def demo_jobs_def job_of_def)
qed

theorem interleaving_refines_handle_witness:
  "serve_all demo_requests [0] (server_of ''a'' idle_server) = (Inr [Reply 200 []], server_of ''a'' demo_stored)"
proof -
  from interleaving_refines_handle [of demo_requests demo_stored "''a''"] demo_served obtain order where
    o: "linearises demo_requests ''a'' order demo_stored" by (auto simp: demo_requests_jobs)
  have d: "decided demo_jobs demo_stored = (\<lambda>_. None)(0 \<mapsto> Reply 200 [])"
    by (auto simp: decided_def demo_stored_def goto_def idle_server_def)
  with o have "distinct order" "set order = {0}" by (auto simp: linearises_def demo_requests_jobs split: if_splits)
  then have "order = [0]" by (metis card.empty card_insert_disjoint distinct_card distinct_singleton empty_iff finite.emptyI length_0_conv length_Suc_conv list.set(1) list.simps(15) singletonD insert_iff)
  with o d show ?thesis by (simp add: linearises_def demo_requests_jobs)
qed

end
