(* ===== verification/Go_Server.thy ===== *)
theory Go_Server
  imports Go_OS Go_Time
begin

text \<open>
  The test application \<open>fixtures/go-server/server.go\<close>: its HTTP handlers over the response
  writer of \<open>net/http\<close>, the addresses \<open>main\<close> listens on, and \<open>GoServerApp\<close> of
  \<open>fixtures/app_fixtures.go\<close>, which builds it.
\<close>

section \<open>The response\<close>

text \<open>
  The first status is sent, at the latest by the first write; a later one is superfluous: the
  library logs it and sends nothing. A panic of a handler ends the connection.
\<close>

record http = os +
  status :: "int option"
  body :: string
  superfluous :: "int list"

type_synonym ('s, 'a) handler = "(failure, 's http_scheme, 'a) comp"

definition WriteHeader :: "int \<Rightarrow> ('s, unit) handler" where
  "WriteHeader code = modify (\<lambda>s.
     if status s = None then s\<lparr>status := Some code\<rparr> else s\<lparr>superfluous := superfluous s @ [code]\<rparr>)"

definition Write :: "string \<Rightarrow> ('s, unit) handler" where
  "Write data = modify (\<lambda>s.
     s\<lparr>status := (if status s = None then Some 200 else status s), body := body s @ data\<rparr>)"

text \<open>An operation of package \<open>os\<close> whose error is a value for the handler.\<close>

definition try_os :: "(go_error, 's, 'a) comp \<Rightarrow> (failure, 's, go_error + 'a) comp" where
  "try_os m = (\<lambda>s. case m s of (r, t) \<Rightarrow> (Inr r, t))"

text \<open>
  How a command ended: with an exit status, by a signal, or not started at all. What the
  programs do is the parameter \<open>runs\<close>.
\<close>

datatype command_end = Exited nat | Signaled string | NotStarted go_error

type_synonym runs = "string \<Rightarrow> string list \<Rightarrow> command_end"

fun run_error :: "command_end \<Rightarrow> string option" where
  "run_error (Exited n) = (if n = 0 then None else Some (''exit status '' @ nat_text n))"
| "run_error (Signaled sig) = Some (''signal: '' @ sig)"
| "run_error (NotStarted e) = Some (error_text e)"

section \<open>The handlers\<close>

definition hello :: "('s, unit) handler" where
  "hello = andThen (Getenv ''INSTANCE_INDEX'') Write"

definition write_handler :: "platform \<Rightarrow> ('s, unit) handler" where
  "write_handler P =
     andThen (Getenv ''MOUNT_POINT_DIR'') (\<lambda>dir.
     let mountPointPath = dir @ ''/test.txt''; d1 = ''Hello Persistent World!'' @ newline in
     andThen (try_os (WriteFile P mountPointPath d1 420)) (\<lambda>r.
     case r of
       Inl err \<Rightarrow> andThen (WriteHeader 500) (\<lambda>_. Write (error_text err))
     | Inr _ \<Rightarrow>
         andThen (WriteHeader 200) (\<lambda>_.
         andThen (try_os (ReadFile P mountPointPath)) (\<lambda>r'.
         case r' of
           Inl err \<Rightarrow> andThen (WriteHeader 500) (\<lambda>_. Write (error_text err))
         | Inr contents \<Rightarrow> Write contents))))"

text \<open>\<open>os.Environ()\<close> lists the environment as \<open>key=value\<close>, in an order the model leaves open.\<close>

definition env_handler :: "((string \<rightharpoonup> string) \<Rightarrow> string list) \<Rightarrow> ('s, unit) handler" where
  "env_handler Environ = andThen (gets (\<lambda>s. Environ (env s))) (\<lambda>es. for_each es (\<lambda>e. Write (e @ newline)))"

text \<open>
  The exit status that \<open>syscall.WaitStatus\<close> reports for a process ended by a signal is \<open>-1\<close>.
  A command that was not started has no \<open>*exec.ExitError\<close>: the source writes its message and
  then calls a method of the nil pointer.
\<close>

definition curl :: "runs \<Rightarrow> ('s, unit) handler" where
  "curl runs =
     (case runs ''curl'' [''--connect-timeout'', ''5'', ''http://www.example.com''] of
        Exited n \<Rightarrow> if n = 0 then Write (Itoa 0) else Write (Itoa (int n))
      | Signaled _ \<Rightarrow> Write (Itoa (-1))
      | NotStarted _ \<Rightarrow>
          andThen (Write (''Unknown Exit Code'' @ newline)) (\<lambda>_.
          fail (Panic ''invalid memory address or nil pointer dereference'')))"

definition yo :: "('s, unit) handler" where
  "yo = Write ''sup dawg''"

definition privileged :: "runs \<Rightarrow> ('s, unit) handler" where
  "privileged runs =
     (case run_error (runs ''touch'' [''/proc/sysrq-trigger'']) of
        Some err \<Rightarrow> andThen (WriteHeader 500) (\<lambda>_. Write (''Failed to touch file: '' @ err @ newline))
      | None \<Rightarrow> Write (''Success'' @ newline))"

definition cfInstanceCert :: "platform \<Rightarrow> ('s, unit) handler" where
  "cfInstanceCert P =
     andThen (Getenv ''CF_INSTANCE_CERT'') (\<lambda>path.
     andThen (try_os (ReadFile P path)) (\<lambda>r.
     case r of Inl err \<Rightarrow> WriteHeader 500 | Inr contents \<Rightarrow> Write contents))"

definition cfInstanceKey :: "platform \<Rightarrow> ('s, unit) handler" where
  "cfInstanceKey P =
     andThen (Getenv ''CF_INSTANCE_KEY'') (\<lambda>path.
     andThen (try_os (ReadFile P path)) (\<lambda>r.
     case r of Inl err \<Rightarrow> WriteHeader 500 | Inr contents \<Rightarrow> Write contents))"

text \<open>The query of the request as the map from a parameter to its values.\<close>

definition catFile :: "platform \<Rightarrow> (string \<rightharpoonup> string list) \<Rightarrow> ('s, unit) handler" where
  "catFile P param =
     (case param ''file'' of
        Some (fileToCat # _) \<Rightarrow>
          andThen (try_os (ReadFile P fileToCat)) (\<lambda>r.
          case r of
            Inl err \<Rightarrow> if is_not_exist err then WriteHeader 404 else WriteHeader 500
          | Inr contents \<Rightarrow> Write contents)
      | _ \<Rightarrow> fail (Panic ''index out of range [0] with length 0''))"

section \<open>Routing and listening\<close>

definition dispatch :: "platform \<Rightarrow> runs \<Rightarrow> ((string \<rightharpoonup> string) \<Rightarrow> string list) \<Rightarrow> string
    \<Rightarrow> (string \<rightharpoonup> string list) \<Rightarrow> ('s, unit) handler" where
  "dispatch P runs Environ path param =
     (if path = ''/env'' then env_handler Environ
      else if path = ''/write'' then write_handler P
      else if path = ''/curl'' then curl runs
      else if path = ''/yo'' then yo
      else if path = ''/privileged'' then privileged runs
      else if path = ''/cf-instance-cert'' then cfInstanceCert P
      else if path = ''/cf-instance-key'' then cfInstanceKey P
      else if path = ''/cat'' then catFile P param
      else hello)"

text \<open>
  What \<open>main\<close> sets up before it waits: the bytes it allocates for its flag (an unsigned 64-bit
  product), the addresses of the plain servers, and of the TLS server if there is one with
  its certificate and key.
\<close>

record listening =
  garbage :: "64 word"
  listens :: "string list"
  listens_tls :: "(string \<times> string \<times> string) option"

definition main_setup :: "64 word \<Rightarrow> 's os_scheme \<Rightarrow> listening" where
  "main_setup memoryAllocated s =
     (let ports = getenv s ''PORT''; httpsPort = getenv s ''HTTPS_PORT'';
          portArray = split_on (CHR '' '') ports;
          addr = (if getenv s ''SKIP_LOCALHOST_LISTEN'' \<noteq> [] then getenv s ''CF_INSTANCE_INTERNAL_IP'' else [])
      in \<lparr>garbage = memoryAllocated * 1024 * 1024,
          listens = map (\<lambda>port. addr @ '':'' @ port) portArray,
          listens_tls = (if httpsPort \<noteq> []
            then Some ('':'' @ httpsPort, getenv s ''CF_INSTANCE_CERT'', getenv s ''CF_INSTANCE_KEY'') else None)\<rparr>)"

section \<open>Properties of the handlers\<close>

definition fresh :: "'s http_scheme \<Rightarrow> bool" where
  "fresh s \<longleftrightarrow> status s = None \<and> body s = [] \<and> superfluous s = []"

lemma try_os_run: "try_os m s = (Inr (fst (m s)), snd (m s))"
  by (simp add: try_os_def split: prod.split)

lemma ReadFile_response:
  assumes "ReadFile P p s = (r, t)"
  shows "status t = status s \<and> body t = body s \<and> superfluous t = superfluous s"
proof -
  have blind: "files_blind (\<lambda>u. status u = status s \<and> body u = body s \<and> superfluous u = superfluous s)"
    by (simp add: files_blind_def)
  show ?thesis by (rule keeps_run [OF keeps_ReadFile [OF blind] assms]) simp
qed

lemma WriteFile_response:
  assumes "WriteFile P p d m s = (r, t)"
  shows "status t = status s \<and> body t = body s \<and> superfluous t = superfluous s"
proof -
  have blind: "files_blind (\<lambda>u. status u = status s \<and> body u = body s \<and> superfluous u = superfluous s)"
    by (simp add: files_blind_def)
  show ?thesis by (rule keeps_run [OF keeps_WriteFile [OF blind] assms]) simp
qed

lemma ReadFile_content: "ReadFile P p s = (Inr d, t) \<Longrightarrow> fs s p = Some (File m c) \<Longrightarrow> d = c"
  by (auto simp: ReadFile_def sys_def Let_def split: option.splits)

lemma WriteFile_content: "WriteFile P p d m s = (Inr u, t) \<Longrightarrow> \<exists>k. fs t p = Some (File k d)"
  by (auto simp: WriteFile_def sys_def create_new_def Let_def
      split: option.splits sum.splits prod.splits node.splits if_splits)

text \<open>
  Property C37. The handler of \<open>/write\<close> answers 500 with the error when the file cannot be
  written. Otherwise it answers 200: with the greeting, which is then what the file holds,
  or, when the file cannot be read back, with the text of the error; the 500 that the source
  wants to send in that case comes after the 200 and is dropped.
\<close>

theorem write_then_read:
  assumes "fresh s" and "p = getenv s ''MOUNT_POINT_DIR'' @ ''/test.txt''"
  shows "case write_handler P s of (r, t) \<Rightarrow> r = Inr () \<and>
    (case WriteFile P p (''Hello Persistent World!'' @ newline) 420 s of
       (Inl e, u) \<Rightarrow> status t = Some 500 \<and> body t = error_text e \<and> superfluous t = []
     | (Inr _, u) \<Rightarrow> status t = Some 200
         \<and> (\<exists>k. fs u p = Some (File k (''Hello Persistent World!'' @ newline)))
         \<and> (case ReadFile P p (u\<lparr>status := Some 200\<rparr>) of
              (Inl e, v) \<Rightarrow> body t = error_text e \<and> superfluous t = [500]
            | (Inr d, v) \<Rightarrow> body t = ''Hello Persistent World!'' @ newline \<and> superfluous t = []))"
proof -
  let ?d = "''Hello Persistent World!'' @ newline"
  obtain r u where w: "WriteFile P p ?d 420 s = (r, u)" by fastforce
  note same = WriteFile_response [OF w]
  show ?thesis
  proof (cases r)
    case (Inl e)
    with w same assms show ?thesis
      by (simp add: write_handler_def Getenv_run try_os_run andThen_def Let_def WriteHeader_def Write_def fresh_def)
  next
    case (Inr x)
    from w Inr obtain k where k: "fs u p = Some (File k ?d)" using WriteFile_content by metis
    let ?u = "u\<lparr>status := Some 200\<rparr>"
    obtain r' v where rd: "ReadFile P p ?u = (r', v)" by fastforce
    note same' = ReadFile_response [OF rd]
    have "d = ?d" if "r' = Inr d" for d
      using ReadFile_content [of P p ?u d v k ?d] rd that k by simp
    with w Inr k rd same same' assms show ?thesis
      by (cases r') (auto simp: write_handler_def Getenv_run try_os_run andThen_def Let_def WriteHeader_def Write_def fresh_def)
  qed
qed

definition demo_http :: http where
  "demo_http = \<lparr>env = [''MOUNT_POINT_DIR'' \<mapsto> ''/mnt''], fs = [''/mnt'' \<mapsto> Dir 493], calls = 0, ran = [],
     status = None, body = [], superfluous = []\<rparr>"

text \<open>A host on which the second system call fails.\<close>

definition bad_disk :: platform where
  "bad_disk = demo_platform\<lparr>fault := (\<lambda>n. if n = 1 then Some (EIO ''input/output error'') else None)\<rparr>"

theorem write_then_read_witness:
  "status (snd (write_handler bad_disk demo_http)) = Some 200
     \<and> body (snd (write_handler bad_disk demo_http)) = ''open /mnt/test.txt: input/output error''"
proof -
  have s: "fresh demo_http" "''/mnt/test.txt'' = getenv demo_http ''MOUNT_POINT_DIR'' @ ''/test.txt''"
    by (simp_all add: fresh_def demo_http_def getenv_def)
  show ?thesis
    using write_then_read [OF s, of bad_disk]
    by (simp add: WriteFile_def ReadFile_def sys_def create_new_def bad_disk_def demo_platform_def
        demo_http_def parent_dir_def sep_def windows_def Let_def case_prod_beta)
qed

text \<open>Handlers that always finish and send a status.\<close>

definition answers :: "('s, unit) handler \<Rightarrow> bool" where
  "answers h \<longleftrightarrow> (\<forall>s. \<exists>t. h s = (Inr (), t) \<and> status t \<noteq> None)"

lemma answersD: "answers h \<Longrightarrow> case h s of (Inl f, t) \<Rightarrow> False | (Inr _, t) \<Rightarrow> status t \<noteq> None"
  unfolding answers_def by (drule spec [of _ s]) auto

lemma answers_run: "answers h \<Longrightarrow> \<exists>t. h s = (Inr (), t) \<and> status t \<noteq> None"
  by (simp add: answers_def)

lemma answers_Write: "answers (Write d)" "answers (WriteHeader c)"
  by (auto simp: answers_def Write_def WriteHeader_def)

lemma answers_after: "(\<And>a. answers (k a)) \<Longrightarrow> (\<And>s. \<exists>a t. m s = (Inr a, t)) \<Longrightarrow> answers (andThen m k)"
  unfolding answers_def andThen_def by (metis (mono_tags, lifting) case_prod_conv sum.case(2))

lemma runs_on: "\<exists>a t. Getenv k s = (Inr a, t)" "\<exists>a t. try_os m s = (Inr a, t)"
  "\<exists>a t. Write d s = (Inr a, t)" "\<exists>a t. WriteHeader c s = (Inr a, t)"
  by (simp_all add: Getenv_run try_os_run Write_def WriteHeader_def)

lemma answers_result:
  "(\<And>e. answers (f e)) \<Longrightarrow> (\<And>a. answers (g a)) \<Longrightarrow> answers (case r of Inl e \<Rightarrow> f e | Inr a \<Rightarrow> g a)"
  by (cases r) simp_all

lemmas answers_intros = answers_Write answers_after answers_result runs_on

lemma answers_simple: "answers hello" "answers yo" "answers (privileged runs)"
  "answers (cfInstanceCert P)" "answers (cfInstanceKey P)" "answers (write_handler P)"
proof -
  show "answers hello" unfolding hello_def by (intro answers_intros)
  show "answers yo" unfolding yo_def by (intro answers_intros)
  show "answers (privileged runs)"
    unfolding privileged_def
    by (cases "run_error (runs ''touch'' [''/proc/sysrq-trigger''])") (auto intro!: answers_intros)
  show "answers (cfInstanceCert P)" "answers (cfInstanceKey P)"
    unfolding cfInstanceCert_def cfInstanceKey_def by (intro answers_intros)+
  show "answers (write_handler P)"
    unfolding write_handler_def Let_def by (intro answers_intros)
qed

lemma Write_ret: "andThen (Write d) ret = Write d"
  by (simp add: andThen_def fun_eq_iff Write_def)

lemma answers_for_each:
  assumes "es \<noteq> []"
  shows "answers (for_each es (\<lambda>e. Write (e @ newline)))"
  using assms
proof (induction rule: list_nonempty_induct)
  case (single e)
  show ?case by (simp add: Write_ret answers_Write)
next
  case (cons e es)
  show ?case
    unfolding for_each.simps by (rule answers_after [OF cons.IH runs_on(3)])
qed

lemma answers_env:
  assumes "\<forall>e. Environ e \<noteq> []"
  shows "answers (env_handler Environ)"
  unfolding answers_def
proof
  fix s :: "'a http_scheme"
  from assms have "Environ (env s) \<noteq> []" by simp
  from answers_run [OF answers_for_each [OF this], of s]
  show "\<exists>t. env_handler Environ s = (Inr (), t) \<and> status t \<noteq> None"
    by (simp add: env_handler_def andThen_def)
qed

lemma answers_catFile:
  assumes "param ''file'' = Some (f # r)"
  shows "answers (catFile P param)"
proof -
  note assms
  moreover have "answers (if b then WriteHeader 404 else WriteHeader 500)" for b
    by (cases b) (simp_all add: answers_Write)
  ultimately show ?thesis
    unfolding catFile_def by (simp add: answers_intros)
qed

lemma curl_run:
  "case curl runs s of
     (Inl f, t) \<Rightarrow> (\<exists>e. runs ''curl'' [''--connect-timeout'', ''5'', ''http://www.example.com''] = NotStarted e)
        \<and> body t = body s @ ''Unknown Exit Code'' @ newline
   | (Inr _, t) \<Rightarrow> status t \<noteq> None"
  by (cases "runs ''curl'' [''--connect-timeout'', ''5'', ''http://www.example.com'']")
    (simp_all add: curl_def Write_def andThen_def)

lemma catFile_run:
  "case catFile P param s of
     (Inl f, t) \<Rightarrow> (param ''file'' = None \<or> param ''file'' = Some []) \<and> t = s
   | (Inr _, t) \<Rightarrow> status t \<noteq> None"
proof (cases "\<exists>f r. param ''file'' = Some (f # r)")
  case True
  then obtain f r where "param ''file'' = Some (f # r)" by blast
  then have "answers (catFile P param :: ('a, unit) handler)" by (rule answers_catFile)
  from answersD [OF this, of s] show ?thesis by (auto split: sum.splits prod.splits)
next
  case False
  then have "param ''file'' = None \<or> param ''file'' = Some []"
    by (metis neq_Nil_conv not_None_eq)
  then show ?thesis by (auto simp: catFile_def)
qed

text \<open>
  Of all handlers only those of \<open>/curl\<close> and \<open>/cat\<close> can panic: the first exactly
  when the program cannot be started, after it has written its message, the second exactly
  when the request has no \<open>file\<close>. Every other request is answered with a status.
\<close>

theorem handlers_that_panic:
  assumes "\<forall>e. Environ e \<noteq> []"
  shows "case dispatch P runs Environ path param s of
     (Inl f, t) \<Rightarrow> (path = ''/curl'' \<and> (\<exists>e. runs ''curl'' [''--connect-timeout'', ''5'', ''http://www.example.com''] = NotStarted e)
          \<and> body t = body s @ ''Unknown Exit Code'' @ newline)
        \<or> (path = ''/cat'' \<and> (param ''file'' = None \<or> param ''file'' = Some []) \<and> t = s)
   | (Inr _, t) \<Rightarrow> status t \<noteq> None"
proof (cases "path = ''/curl''")
  case True
  then show ?thesis
    using curl_run [of runs s] by (auto simp: dispatch_def split: sum.splits prod.splits)
next
  case curl: False
  show ?thesis
  proof (cases "path = ''/cat''")
    case True
    then show ?thesis
      using catFile_run [where P = P and param = param and s = s] by (auto simp: dispatch_def split: sum.splits prod.splits)
  next
    case False
    with curl have "answers (dispatch P runs Environ path param :: ('a, unit) handler)"
      unfolding dispatch_def by (simp add: answers_simple answers_env [OF assms])
    from answersD [OF this, of s] show ?thesis by (auto split: sum.splits prod.splits)
  qed
qed

theorem handlers_that_panic_witness:
  "\<exists>f t. dispatch demo_platform (\<lambda>_ _. NotStarted (Msg ''not found'')) (\<lambda>_. [''A=b'']) ''/curl'' Map.empty demo_http = (Inl f, t)
     \<and> body t = ''Unknown Exit Code'' @ newline"
proof -
  have "\<forall>e. (\<lambda>_. [''A=b'']) (e :: string \<rightharpoonup> string) \<noteq> []" by simp
  from handlers_that_panic [OF this, where P = demo_platform and runs = "\<lambda>_ _. NotStarted (Msg ''not found'')"
      and path = "''/curl''" and param = Map.empty and s = demo_http]
  show ?thesis by (simp add: dispatch_def curl_def Write_def andThen_def demo_http_def)
qed

text \<open>
  The application listens on one address for each port of its space-separated
  list, on all interfaces or on the instance's internal address, and on a TLS address only
  when it has a port for it.
\<close>

theorem listens_on_every_port:
  assumes "ports \<noteq> []" and "\<forall>p \<in> set ports. CHR '' '' \<notin> set p"
    and "env s ''PORT'' = Some (join ports '' '')"
  shows "listens (main_setup m s) = map (\<lambda>p. (if getenv s ''SKIP_LOCALHOST_LISTEN'' = [] then []
      else getenv s ''CF_INSTANCE_INTERNAL_IP'') @ '':'' @ p) ports
    \<and> (listens_tls (main_setup m s) = None \<longleftrightarrow> env s ''HTTPS_PORT'' \<in> {None, Some []})"
proof -
  have "split_on (CHR '' '') (getenv s ''PORT'') = ports"
    using assms by (simp add: getenv_def split_on_join)
  then show ?thesis
    by (auto simp: main_setup_def Let_def, auto simp: getenv_def split: option.splits)
qed

theorem listens_on_every_port_witness:
  "listens (main_setup 0 (demo_http\<lparr>env := [''PORT'' \<mapsto> ''8080 9090'']\<rparr>)) = ['':8080'', '':9090'']"
  using listens_on_every_port [of "[''8080'', ''9090'']" "demo_http\<lparr>env := [''PORT'' \<mapsto> ''8080 9090'']\<rparr>" 0]
  by (simp add: getenv_def)

text \<open>
  The memory flag is a number of mebibytes, as its description says and its name
  \<open>allocate-memory-b\<close> does not, and the product is computed modulo 2 to the 64: from
  17592186044416 on it starts again at nothing.
\<close>

theorem allocated_bytes:
  assumes "n < 2 ^ 44"
  shows "unat (garbage (main_setup (word_of_nat n) s)) = n * 1048576
    \<and> garbage (main_setup (word_of_nat (n + 2 ^ 44)) s) = garbage (main_setup (word_of_nat n) s)"
proof -
  have product: "(word_of_nat n :: 64 word) * 1024 * 1024 = word_of_nat (n * 1048576)" by simp
  have "unat (word_of_nat (n * 1048576) :: 64 word) = n * 1048576"
    using assms by (subst unsigned_of_nat) (simp add: take_bit_nat_eq_self)
  then have "unat (garbage (main_setup (word_of_nat n) s)) = n * 1048576"
    by (simp only: main_setup_def Let_def listening.simps product)
  moreover have "(word_of_nat (n + 2 ^ 44) :: 64 word) * 1024 * 1024 = word_of_nat n * 1024 * 1024"
  proof -
    have "(2 ^ 44 * 1048576 :: 64 word) = 0" by code_simp
    then show ?thesis by (simp add: algebra_simps)
  qed
  ultimately show ?thesis by (simp only: main_setup_def Let_def listening.simps)
qed

theorem allocated_bytes_witness: "unat (garbage (main_setup 3 demo_http)) = 3145728"
  using allocated_bytes [of 3 demo_http] by simp

section \<open>Building the application\<close>

text \<open>
  \<open>gexec.Build\<close> is third-party code: from the package, the flags, the environment and the files
  it makes a binary, whose path it returns. \<open>builds\<close> records the value of \<open>CGO_ENABLED\<close> each
  build saw.
\<close>

record building = os +
  builds :: "(string \<times> string list \<times> string option) list"

type_synonym gexec = "string \<Rightarrow> string list \<Rightarrow> (string \<rightharpoonup> string) \<Rightarrow> (string \<rightharpoonup> node)
    \<Rightarrow> (go_error + string) \<times> (string \<rightharpoonup> node)"

definition Build :: "gexec \<Rightarrow> string \<Rightarrow> string list \<Rightarrow> (go_error, 's building_scheme, string) comp" where
  "Build G pkg flags = (\<lambda>s. case G pkg flags (env s) (fs s) of
     (r, f) \<Rightarrow> (r, s\<lparr>fs := f, builds := builds s @ [(pkg, flags, env s ''CGO_ENABLED'')]\<rparr>))"

record ArchiveFile =
  archive_Name :: string
  archive_Body :: string

definition getGoServerBinaryName :: "platform \<Rightarrow> string" where
  "getGoServerBinaryName P = (if windows P then ''go-server.exe'' else ''go-server'')"

definition GoServerApp :: "platform \<Rightarrow> gexec \<Rightarrow> (failure, 's building_scheme, ArchiveFile list) comp" where
  "GoServerApp P G =
     andThen (Getenv ''CGO_ENABLED'') (\<lambda>originalCGOValue.
     andThen (expect_ok (Setenv P ''CGO_ENABLED'' ''0'')) (\<lambda>_.
     andThen (expect_ok (Build G ''code.cloudfoundry.org/inigo/fixtures/go-server'' [])) (\<lambda>serverPath.
     andThen (expect_ok (Setenv P ''CGO_ENABLED'' originalCGOValue)) (\<lambda>_.
     andThen (expect_ok (ReadFile P serverPath)) (\<lambda>contents.
     ret [\<lparr>archive_Name = getGoServerBinaryName P, archive_Body = contents\<rparr>,
          \<lparr>archive_Name = ''staging_info.yml'',
           archive_Body = ''detected_buildpack: Doesn'' @ [CHR 0x27] @ ''t Matter'' @ newline @ ''start_command: go-server''\<rparr>])))))"

text \<open>
  \<open>GoServerApp\<close> builds the application with cgo disabled and, when it succeeds,
  leaves the value \<open>CGO_ENABLED\<close> had before; but a variable that was not set is then set to
  the empty string, and a build that fails leaves it at 0.
\<close>

theorem go_server_app_environment:
  assumes "\<forall>n. fault P n = None"
  shows "case GoServerApp P G s of
     (Inr files, t) \<Rightarrow> env t = (env s)(''CGO_ENABLED'' \<mapsto> getenv s ''CGO_ENABLED'')
       \<and> builds t = builds s @ [(''code.cloudfoundry.org/inigo/fixtures/go-server'', [], Some ''0'')]
       \<and> map archive_Name files = [getGoServerBinaryName P, ''staging_info.yml'']
   | (Inl f, t) \<Rightarrow>
       (\<exists>e. fst (G ''code.cloudfoundry.org/inigo/fixtures/go-server'' [] ((env s)(''CGO_ENABLED'' \<mapsto> ''0'')) (fs s)) = Inl e)
         \<longrightarrow> env t ''CGO_ENABLED'' = Some ''0''"
proof -
  let ?pkg = "''code.cloudfoundry.org/inigo/fixtures/go-server''"
  have set: "Setenv P k v u = (Inr (), u\<lparr>calls := Suc (calls u), env := (env u)(k \<mapsto> v)\<rparr>)"
    for k v and u :: "'a building_scheme"
    using assms by (simp add: Setenv_def sys_def Let_def)
  obtain r f where G: "G ?pkg [] ((env s)(''CGO_ENABLED'' \<mapsto> ''0'')) (fs s) = (r, f)" by fastforce
  show ?thesis
  proof (cases r)
    case (Inl e)
    with G show ?thesis
      by (simp add: GoServerApp_def andThen_def Getenv_run expect_ok_def set Build_def)
  next
    case (Inr path)
    define u where "u = s\<lparr>fs := f, builds := builds s @ [(?pkg, [], Some ''0'')], calls := Suc (Suc (calls s)),
      env := (env s)(''CGO_ENABLED'' \<mapsto> getenv s ''CGO_ENABLED'')\<rparr>"
    obtain r' t where rd: "ReadFile P path u = (r', t)" by fastforce
    have "env t = env u \<and> builds t = builds u"
    proof -
      have blind: "files_blind (\<lambda>x. env x = env u \<and> builds x = builds u)" by (simp add: files_blind_def)
      show ?thesis by (rule keeps_run [OF keeps_ReadFile [OF blind] rd]) simp
    qed
    with G Inr rd show ?thesis
      by (cases r') (simp_all add: GoServerApp_def andThen_def Getenv_run expect_ok_def set Build_def u_def)
  qed
qed

definition demo_gexec :: gexec where
  "demo_gexec pkg flags e f = (Inr ''/tmp/build'', f(''/tmp/build'' \<mapsto> File 493 ''ELF''))"

definition demo_building :: building where
  "demo_building = \<lparr>env = Map.empty, fs = [''/tmp'' \<mapsto> Dir 511], calls = 0, ran = [], builds = []\<rparr>"

theorem go_server_app_environment_witness:
  "env (snd (GoServerApp demo_platform demo_gexec demo_building)) ''CGO_ENABLED'' = Some []"
proof -
  have "\<forall>n. fault demo_platform n = None" by (simp add: demo_platform_def)
  from go_server_app_environment [OF this, of demo_gexec demo_building]
  have "\<forall>fl t. GoServerApp demo_platform demo_gexec demo_building = (Inr fl, t) \<longrightarrow> env t ''CGO_ENABLED'' = Some []"
    by (auto simp: demo_building_def getenv_def)
  moreover have "\<exists>fl. fst (GoServerApp demo_platform demo_gexec demo_building) = Inr fl"
    by (simp add: GoServerApp_def andThen_def Getenv_def expect_ok_def Setenv_def sys_def Let_def
        Build_def ReadFile_def demo_gexec_def demo_platform_def demo_building_def)
  ultimately show ?thesis by (metis prod.collapse)
qed

end
