(* ===== verification/Cert_Source.thy ===== *)
theory Cert_Source
  imports Cert_Authority
begin

text \<open>
  The interface \<open>certauthority.CertAuthority\<close> as its clients rely on it: a source of
  certificates that puts each key and certificate into files of their own, leaves all other
  files alone and leaves the mutexes as free as it found them. The authority of
  \<open>helpers/certauthority\<close> is one.
\<close>

text \<open>A client that asks for several certificates in a row.\<close>

fun certs_run :: "(string \<Rightarrow> string list \<Rightarrow> bool \<Rightarrow> (stop, 's cert_os_scheme, string \<times> string) comp)
    \<Rightarrow> (string \<times> string list \<times> bool) list \<Rightarrow> (stop, 's cert_os_scheme, (string \<times> string) list) comp" where
  "certs_run gen [] = ret []"
| "certs_run gen ((cn, sans, ica) # rs) =
     andThen (gen cn sans ica) (\<lambda>kc. andThen (certs_run gen rs) (\<lambda>kcs. ret (kc # kcs)))"

definition pair_files :: "(string \<times> string) list \<Rightarrow> string list" where
  "pair_files kcs = concat (map (\<lambda>(k, c). [k, c]) kcs)"

lemma pair_files_simps [simp]:
  "pair_files [] = []" "pair_files ((k, c) # kcs) = k # c # pair_files kcs"
  by (simp_all add: pair_files_def)

locale cert_source =
  fixes gen :: "string \<Rightarrow> string list \<Rightarrow> bool \<Rightarrow> (stop, 's cert_os_scheme, string \<times> string) comp"
  assumes keeps_files: "keeps (extends f) (gen cn sans ica)"
    and issued: "gen cn sans ica s = (Inr (k, c), t) \<Longrightarrow>
      fs s k = None \<and> fs s c = None \<and> k \<noteq> c \<and> fs t k \<noteq> None \<and> fs t c \<noteq> None"
    and no_deadlock: "none_held s \<Longrightarrow> gen cn sans ica s = (Inl e, t) \<Longrightarrow> \<exists>err. e = Returned err"
    and frees_locks: "none_held s \<Longrightarrow> gen cn sans ica s = (r, t) \<Longrightarrow> none_held t"
begin

lemma gen_mono: "gen cn sans ica s = (r, t) \<Longrightarrow> fs s \<subseteq>\<^sub>m fs t"
  using keeps_run [OF keeps_files _ extends_refl] by (simp add: extends_def)

text \<open>No two certificates of a run share a file, and none takes the place of an older file.\<close>

lemma run_distinct:
  "certs_run gen rs s = (Inr kcs, t) \<Longrightarrow>
     distinct (pair_files kcs) \<and> (\<forall>p \<in> set (pair_files kcs). fs s p = None \<and> fs t p \<noteq> None) \<and> fs s \<subseteq>\<^sub>m fs t"
proof (induction rs arbitrary: s kcs t)
  case Nil
  then show ?case by simp
next
  case (Cons r rs)
  obtain cn sans ica where r: "r = (cn, sans, ica)" using prod_cases3 by blast
  from Cons.prems obtain k c u kcs' where g: "gen cn sans ica s = (Inr (k, c), u)"
    and rest: "certs_run gen rs u = (Inr kcs', t)" and kcs: "kcs = (k, c) # kcs'"
    by (auto simp: r andThen_Inr_iff)
  note i = issued [OF g] and m = gen_mono [OF g] and IH = Cons.IH [OF rest]
  have "k \<notin> set (pair_files kcs')" "c \<notin> set (pair_files kcs')" using i IH by auto
  moreover have "fs s p = None" if "fs u p = None" for p
    using m that by (cases "fs s p") (auto simp: map_le_def dom_def split: option.splits)
  moreover have "fs t k \<noteq> None" "fs t c \<noteq> None"
    using i IH by (auto simp: map_le_def dom_def)
  moreover have "fs s \<subseteq>\<^sub>m fs t" using m IH map_le_trans by blast
  ultimately show ?case using i IH by (simp add: kcs)
qed

lemma run_no_deadlock:
  "none_held s \<Longrightarrow> certs_run gen rs s = (r, t) \<Longrightarrow> none_held t \<and> (\<forall>e. r = Inl e \<longrightarrow> (\<exists>err. e = Returned err))"
proof (induction rs arbitrary: s r t)
  case Nil
  then show ?case by auto
next
  case (Cons q rs)
  obtain cn sans ica where q: "q = (cn, sans, ica)" using prod_cases3 by blast
  obtain x u where g: "gen cn sans ica s = (x, u)" by fastforce
  note u = frees_locks [OF Cons.prems(1) g]
  show ?case
  proof (cases x)
    case (Inl e)
    with Cons.prems g no_deadlock [of s cn sans ica e u] u show ?thesis by (auto simp: q andThen_def)
  next
    case (Inr kc)
    obtain y v where rest: "certs_run gen rs u = (y, v)" by fastforce
    with Cons.prems(2) g Inr Cons.IH [OF u rest] show ?thesis
      by (cases y) (auto simp: q andThen_def)
  qed
qed

end

interpretation authority: cert_source "GenerateSelfSignedCertAndKey P X c" for P X c
proof unfold_locales
  fix f cn sans ica and s :: "'s cert_os_scheme" and k c' t e r
  show "keeps (extends f) (GenerateSelfSignedCertAndKey P X c cn sans ica)"
    by (rule GenerateSelfSigned_extends)
  show "fs s k = None \<and> fs s c' = None \<and> k \<noteq> c' \<and> fs t k \<noteq> None \<and> fs t c' \<noteq> None"
    if "GenerateSelfSignedCertAndKey P X c cn sans ica s = (Inr (k, c'), t)"
  proof -
    from GenerateSelfSigned_Inr [OF that] obtain kb cb u where
      "write_pair P (depotDir c) cn kb cb u = (Inr (k, c'), t)" "fs u = fs s" by blast
    from write_pair_Inr [OF this(1)] this(2) show ?thesis by auto
  qed
  assume free: "none_held s"
  note o = performsD [OF GenerateSelfSigned_performs free, of P X c cn sans ica]
  show "\<exists>err. e = Returned err" if "GenerateSelfSignedCertAndKey P X c cn sans ica s = (Inl e, t)"
    using o that by (simp add: outcome_Inl_iff)
  show "none_held t" if "GenerateSelfSignedCertAndKey P X c cn sans ica s = (r, t)"
    using o that by (cases r) (auto simp: outcome_Inl_iff)
qed

end
