(* ===== verification/World_Maker.thy ===== *)
theory World_Maker
  imports World_Types Cert_Source
begin

text \<open>
  How \<open>world/components.go\<close> makes a component maker: \<open>DBInfo\<close>, \<open>makeCommonComponentMaker\<close> and
  the two constructors. The certificate authority is used through its interface, which is
  the locale \<open>cert_source\<close>; the model of \<open>helpers/certauthority\<close> interprets it.
\<close>

section \<open>Libraries\<close>

text \<open>
  What third-party code answers: whether the tests run on Postgres, the \<open>n\<close>-th RSA key pair of
  a size, and a new UUID; and the clock in nanoseconds.
\<close>

record KeyPair =
  PrivateKey :: string
  PEMEncodedPrivateKey :: string
  AuthorizedKeyText :: string

record maker_lib =
  UsePostgres :: bool
  NewKeyPair :: "nat \<Rightarrow> nat \<Rightarrow> go_error + KeyPair"
  NewV4 :: "go_error + string"
  UnixNano :: int

text \<open>The interface \<open>certauthority.CertAuthority\<close>: its stored pair and its generator.\<close>

record 's CertAuthority =
  ca_pair :: "string \<times> string"
  generate :: "string \<Rightarrow> string list \<Rightarrow> bool \<Rightarrow> (stop, 's cert_os_scheme, string \<times> string) comp"

text \<open>
  \<open>Expect(err).NotTo(HaveOccurred())\<close> after a call of the generator. A mutex that is never
  granted blocks the spec, an unlocking of a free one ends the program.
\<close>

definition expect_cert :: "(stop, 's, 'a) comp \<Rightarrow> (failure, 's, 'a) comp" where
  "expect_cert m = (\<lambda>s. case m s of
     (Inr a, t) \<Rightarrow> (Inr a, t)
   | (Inl (Returned e), t) \<Rightarrow> (Inl (Expectation (error_text e)), t)
   | (Inl (Blocked l), t) \<Rightarrow> (Inl (Deadlock ''sync.Mutex''), t)
   | (Inl (UnlockOfUnlocked l), t) \<Rightarrow> (Inl (Panic ''sync: unlock of unlocked mutex''), t))"

section \<open>The database\<close>

definition DBInfo :: "maker_lib \<Rightarrow> ('e, 's os_scheme, string \<times> string) comp" where
  "DBInfo L =
     andThen (LookupEnv ''DB_USER'') (\<lambda>u.
     let user = (case u of None \<Rightarrow> ''diego'' | Some v \<Rightarrow> v) in
     if UsePostgres L then
       andThen (LookupEnv ''DB_PASSWORD'') (\<lambda>p.
       let password = (case p of None \<Rightarrow> ''diego_pw'' | Some v \<Rightarrow> v) in
       ret (''postgres'', ''postgres://'' @ user @ '':'' @ password @ ''@127.0.0.1/''))
     else
       andThen (LookupEnv ''DB_PASSWORD'') (\<lambda>p.
       let password = (case p of None \<Rightarrow> ''diego_password'' | Some v \<Rightarrow> v) in
       ret (''mysql'', user @ '':'' @ password @ ''@tcp(localhost:3306)/'')))"

section \<open>The maker\<close>

definition start_check_timeout :: "('s, int) op" where
  "start_check_timeout =
     andThen (LookupEnv ''START_CHECK_TIMEOUT_DURATION'') (\<lambda>found.
     case found of
       None \<Rightarrow> ret (10 * Second)
     | Some timeout \<Rightarrow>
         if timeout = [] then ret (10 * Second)
         else (case ParseDuration timeout of
                 Inl err \<Rightarrow> fail (Expectation (timeout @ '' not a valid duration''))
               | Inr d \<Rightarrow> ret d))"

definition id_mappings :: "string list" where
  "id_mappings = [''0:4294967294:1'', ''1:1:4294967293'']"

definition grootfs_config :: "platform \<Rightarrow> maker_lib \<Rightarrow> string \<Rightarrow> string list \<Rightarrow> GrootFSConfig" where
  "grootfs_config P L kind mappings =
     \<lparr>StorePath = ''/mnt/garden-storage/'' @ kind @ ''-'' @ Itoa (GinkgoParallelProcess P) @ ''-'' @ Itoa (UnixNano L),
      DraxBin = ''/usr/local/bin/drax'',
      grootfs_LogLevel = ''debug'',
      Create = \<lparr>JSON = True, UidMappings = mappings, GidMappings = mappings, SkipLayerValidation = True\<rparr>\<rparr>"

definition makeCommonComponentMaker :: "platform \<Rightarrow> maker_lib \<Rightarrow> 's world_ext CertAuthority
    \<Rightarrow> BuiltArtifacts \<Rightarrow> ComponentAddresses \<Rightarrow> ('s, commonComponentMaker) op" where
  "makeCommonComponentMaker P L certAuthority builtArtifacts worldAddresses =
     andThen start_check_timeout (\<lambda>timeout.
     andThen (TempDir P ''component-maker'') (\<lambda>tmp.
     andThen (Getenv ''GROOTFS_BINPATH'') (\<lambda>grootfsBinPath.
     andThen (Getenv ''GROOTFS_STORE_PATH'') (\<lambda>grootfsStorePath.
     andThen (Getenv ''GARDEN_BINPATH'') (\<lambda>gardenBinPath.
     andThen (Getenv ''GARDEN_TEST_ROOTFS'') (\<lambda>gardenRootFSPath.
     andThen (Getenv ''GARDEN_GRAPH_PATH'') (\<lambda>graphPath.
     andThen (if graphPath = [] then TempDirWithParent P tmp ''garden-graph'' else ret graphPath) (\<lambda>gardenGraphPath.
     andThen (expect_that (grootfsBinPath \<noteq> []) ''must provide $GROOTFS_BINPATH'') (\<lambda>_.
     andThen (if windows P then expect_that (grootfsStorePath \<noteq> []) ''must provide $GROOTFS_STORE_PATH'' else ret ()) (\<lambda>_.
     andThen (expect_that (gardenBinPath \<noteq> []) ''must provide $GARDEN_BINPATH'') (\<lambda>_.
     andThen (expect_that (gardenRootFSPath \<noteq> []) ''must provide $GARDEN_TEST_ROOTFS'') (\<lambda>_.
     andThen (Getenv ''EXTERNAL_ADDRESS'') (\<lambda>externalAddress.
     andThen (expect_that (externalAddress \<noteq> []) ''must provide $EXTERNAL_ADDRESS'') (\<lambda>_.
     let stackPathMap = map (\<lambda>stack. \<lparr>RootFS_Name = stack, RootFS_Path = gardenRootFSPath\<rparr>) PreloadedStacks in
     andThen (expect_val (NewKeyPair L 0 1024)) (\<lambda>hostKeyPair.
     andThen (expect_val (NewKeyPair L 1 1024)) (\<lambda>userKeyPair.
     let sshKeys = \<lparr>HostKey = PrivateKey hostKeyPair, HostKeyPem = PEMEncodedPrivateKey hostKeyPair,
           PrivateKeyPem = PEMEncodedPrivateKey userKeyPair, AuthorizedKey = AuthorizedKeyText userKeyPair\<rparr>;
         caCert = snd (ca_pair certAuthority) in
     andThen (expect_cert (generate certAuthority ''bbs_server'' [''bbs_server''] False)) (\<lambda>(bbsServerKey, bbsServerCert).
     andThen (expect_cert (generate certAuthority ''rep_server'' [''cell.service.cf.internal'', ''*.cell.service.cf.internal''] False)) (\<lambda>(repServerKey, repServerCert).
     andThen (expect_cert (generate certAuthority ''auctioneer_server'' [''auctioneer_server''] False)) (\<lambda>(auctioneerServerKey, auctioneerServerCert).
     andThen (expect_cert (generate certAuthority ''routing_api_server'' [''routing_api_server''] False)) (\<lambda>(routingAPIKey, routingAPICert).
     andThen (expect_cert (generate certAuthority ''client'' [''client''] False)) (\<lambda>(clientKey, clientCert).
     let sqlCACert = filepath_Join P [''..'', ''fixtures'', ''certs'', ''sql-certs'', ''server-ca.crt''];
         ssl = (\<lambda>cert key. \<lparr>ServerCert = cert, ServerKey = key, ClientCert = clientCert, ClientKey = clientKey, CACert = caCert\<rparr>);
         gardenCfg = \<lparr>GrootFSBinPath = grootfsBinPath, GrootFSStorePath = grootfsStorePath,
           GardenBinPath = gardenBinPath, GardenGraphPath = gardenGraphPath,
           UnprivilegedGrootfsConfig = grootfs_config P L ''unprivileged'' id_mappings,
           PrivilegedGrootfsConfig = grootfs_config P L ''privileged'' [],
           networkPluginConfig = \<lparr>NetworkName = ''winc-nat'', SubnetRange = ''172.30.0.0/22'', GatewayAddress = ''172.30.0.1''\<rparr>\<rparr> in
     andThen (expect_val (NewV4 L)) (\<lambda>guid.
     andThen (TempDirWithParent P tmp guid) (\<lambda>volmanConfigDir.
     andThen (DBInfo L) (\<lambda>(driverName, baseConnectionString).
     ret \<lparr>artifacts = builtArtifacts, addresses = worldAddresses, rootFSes = stackPathMap,
       gardenConfig = gardenCfg, sshConfig = sshKeys,
       bbsSSL = ssl bbsServerCert bbsServerKey,
       locketSSL = ssl bbsServerCert bbsServerKey,
       repSSL = ssl repServerCert repServerKey,
       auctioneerSSL = ssl auctioneerServerCert auctioneerServerKey,
       routingAPISSL = \<lparr>ServerCert = routingAPICert, ServerKey = routingAPIKey, ClientCert = [], ClientKey = [], CACert = caCert\<rparr>,
       sqlCACertFile = sqlCACert, volmanDriverConfigDir = volmanConfigDir,
       dbDriverName = driverName, dbBaseConnectionString = baseConnectionString,
       startCheckTimeout = timeout, tmpDir = tmp\<rparr>))))))))))))))))))))))))"

text \<open>The two makers embed the common one.\<close>

datatype ComponentMaker = v0ComponentMaker commonComponentMaker | v1ComponentMaker commonComponentMaker

definition MakeV0ComponentMaker :: "platform \<Rightarrow> maker_lib \<Rightarrow> 's world_ext CertAuthority
    \<Rightarrow> BuiltArtifacts \<Rightarrow> ComponentAddresses \<Rightarrow> ('s, ComponentMaker) op" where
  "MakeV0ComponentMaker P L certAuthority builtArtifacts worldAddresses =
     andThen (makeCommonComponentMaker P L certAuthority builtArtifacts worldAddresses) (\<lambda>m. ret (v0ComponentMaker m))"

definition MakeComponentMaker :: "platform \<Rightarrow> maker_lib \<Rightarrow> 's world_ext CertAuthority
    \<Rightarrow> BuiltArtifacts \<Rightarrow> ComponentAddresses \<Rightarrow> ('s, ComponentMaker) op" where
  "MakeComponentMaker P L certAuthority builtArtifacts worldAddresses =
     andThen (makeCommonComponentMaker P L certAuthority builtArtifacts worldAddresses) (\<lambda>m. ret (v1ComponentMaker m))"

section \<open>What every run of the constructor keeps\<close>

lemma expect_cert_Inr_iff: "expect_cert m s = (Inr a, t) \<longleftrightarrow> m s = (Inr a, t)"
  by (auto simp: expect_cert_def split: sum.splits prod.splits stop.splits)

lemma keeps_expect_cert: "keeps I m \<Longrightarrow> keeps I (expect_cert m)"
  by (force simp: keeps_def expect_cert_def split: sum.splits prod.splits stop.splits)

lemma keeps_DBInfo: "keeps I (DBInfo L)"
  unfolding DBInfo_def Let_def by (intro keeps_intros)

lemma keeps_start_check_timeout: "keeps I start_check_timeout"
  unfolding start_check_timeout_def
  by (intro keeps_andThen keeps_env) (auto intro: keeps_intros split: option.split sum.split)

lemma TempDir_extends: "keeps (extends f) (TempDir P pre)"
proof (rule keepsI)
  fix s :: "'a os_scheme" assume f: "extends f s"
  show "extends f (snd (TempDir P pre s))"
    using keepsD [OF extends_TempDirWithParent f, of P "os_TempDir P s" pre]
    by (simp add: TempDir_def TempDirWithParent_def andThen_def)
qed

lemma TempDir_Inr:
  assumes "TempDir P pre s = (Inr name, t)"
  shows "fs s name = None" and "fs t = (fs s)(name \<mapsto> Dir 493)"
proof -
  have "TempDirWithParent P (os_TempDir P s) pre s = (Inr name, t)"
    using assms by (simp add: TempDir_def TempDirWithParent_def andThen_def)
  then show "fs s name = None" and "fs t = (fs s)(name \<mapsto> Dir 493)"
    by (rule TempDirWithParent_Inr)+
qed

lemma maker_keeps:
  fixes A :: "'s world_ext CertAuthority"
  assumes "\<And>cn sans ica. keeps I (generate A cn sans ica)" and "\<And>pre. keeps I (TempDir P pre)"
    and "\<And>d pre. keeps I (TempDirWithParent P d pre)"
  shows "keeps I (makeCommonComponentMaker P L A art addr)"
  unfolding makeCommonComponentMaker_def Let_def
  by (intro keeps_andThen keeps_start_check_timeout keeps_env keeps_expect_that keeps_expect_val
      keeps_if keeps_ret keeps_prod keeps_expect_cert keeps_DBInfo assms)

text \<open>The authority of \<open>helpers/certauthority\<close> behind the interface.\<close>

definition authority_of :: "platform \<Rightarrow> ('key, 'csr, 'crt) pkix \<Rightarrow> certAuthority \<Rightarrow> 's CertAuthority" where
  "authority_of P X c = \<lparr>ca_pair = CAAndKey c, generate = GenerateSelfSignedCertAndKey P X c\<rparr>"

lemma maker_extends: "keeps (extends f) (makeCommonComponentMaker P L (authority_of P X c) art addr)"
  by (rule maker_keeps)
    (simp_all add: authority_of_def authority.keeps_files TempDir_extends extends_TempDirWithParent)

section \<open>The certificates of a maker\<close>

definition cert_requests :: "(string \<times> string list \<times> bool) list" where
  "cert_requests = [(''bbs_server'', [''bbs_server''], False),
     (''rep_server'', [''cell.service.cf.internal'', ''*.cell.service.cf.internal''], False),
     (''auctioneer_server'', [''auctioneer_server''], False),
     (''routing_api_server'', [''routing_api_server''], False), (''client'', [''client''], False)]"

definition server_pair :: "SSLConfig \<Rightarrow> string \<times> string" where
  "server_pair ssl = (ServerKey ssl, ServerCert ssl)"

definition client_pair :: "SSLConfig \<Rightarrow> string \<times> string" where
  "client_pair ssl = (ClientKey ssl, ClientCert ssl)"

lemma start_check_timeout_state: "start_check_timeout s = (r, t) \<Longrightarrow> t = s"
  by (auto simp: start_check_timeout_def andThen_def LookupEnv_def split: option.splits if_splits sum.splits)

lemma DBInfo_state: "DBInfo L s = (r, t) \<Longrightarrow> t = s"
  by (auto simp: DBInfo_def Let_def andThen_def LookupEnv_def split: if_splits)

lemma check_if_windows: "(if b then expect_that c msg else ret ()) s = (Inr u, t) \<Longrightarrow> t = s \<and> (b \<longrightarrow> c)"
  by (auto simp: expect_that_Inr_iff split: if_splits)

text \<open>The decomposition of a successful run into its directories and its certificate requests.\<close>

definition graph_dir :: "platform \<Rightarrow> string \<Rightarrow> string \<Rightarrow> ('s, string) op" where
  "graph_dir P tmp graphPath = (if graphPath = [] then TempDirWithParent P tmp ''garden-graph'' else ret graphPath)"

lemma certs_run_requests:
  assumes "g ''bbs_server'' [''bbs_server''] False s0 = (Inr p1, s1)"
    and "g ''rep_server'' [''cell.service.cf.internal'', ''*.cell.service.cf.internal''] False s1 = (Inr p2, s2)"
    and "g ''auctioneer_server'' [''auctioneer_server''] False s2 = (Inr p3, s3)"
    and "g ''routing_api_server'' [''routing_api_server''] False s3 = (Inr p4, s4)"
    and "g ''client'' [''client''] False s4 = (Inr p5, s5)"
  shows "certs_run g cert_requests s0 = (Inr [p1, p2, p3, p4, p5], s5)"
  using assms by (simp add: cert_requests_def andThen_def)

lemma maker_Inr:
  assumes "makeCommonComponentMaker P L A art addr s = (Inr m, t)"
  shows "\<exists>s1 s2 s3 guid. TempDir P ''component-maker'' s = (Inr (tmpDir m), s1)
    \<and> graph_dir P (tmpDir m) (getenv s1 ''GARDEN_GRAPH_PATH'') s1 = (Inr (GardenGraphPath (gardenConfig m)), s2)
    \<and> certs_run (generate A) cert_requests s2 =
        (Inr [server_pair (bbsSSL m), server_pair (repSSL m), server_pair (auctioneerSSL m),
              server_pair (routingAPISSL m), client_pair (bbsSSL m)], s3)
    \<and> NewV4 L = Inr guid \<and> TempDirWithParent P (tmpDir m) guid s3 = (Inr (volmanDriverConfigDir m), t)
    \<and> locketSSL m = bbsSSL m \<and> client_pair (repSSL m) = client_pair (bbsSSL m)
    \<and> client_pair (auctioneerSSL m) = client_pair (bbsSSL m)
    \<and> CACert ` {bbsSSL m, repSSL m, auctioneerSSL m, routingAPISSL m} = {snd (ca_pair A)}
    \<and> rootFSes m = map (\<lambda>n. \<lparr>RootFS_Name = n, RootFS_Path = getenv s1 ''GARDEN_TEST_ROOTFS''\<rparr>) PreloadedStacks
    \<and> getenv s1 ''GARDEN_TEST_ROOTFS'' \<noteq> [] \<and> getenv s1 ''GARDEN_BINPATH'' = GardenBinPath (gardenConfig m)
    \<and> GardenBinPath (gardenConfig m) \<noteq> []
    \<and> artifacts m = art \<and> addresses m = addr"
  using assms
  apply (clarsimp simp: makeCommonComponentMaker_def Let_def andThen_Inr_iff Getenv_Inr_iff expect_that_Inr_iff
      expect_val_Inr_iff expect_cert_Inr_iff simp flip: graph_dir_def)
  apply (drule start_check_timeout_state check_if_windows DBInfo_state)+
  apply clarsimp
  apply (simp add: server_pair_def client_pair_def)
  apply (drule (4) certs_run_requests)
  apply blast
  done

section \<open>Properties\<close>

text \<open>
  Property C2. A maker that was made has, for each of its servers, a key and a certificate of
  their own: the ten files are distinct and were not there before; the client pair is shared
  by all, Locket serves with the pair of the BBS, and every configuration trusts the one
  authority. Its temporary directory is new, and no older file was touched.
\<close>

theorem maker_certificates:
  assumes "makeCommonComponentMaker P L (authority_of P X c) art addr s = (Inr m, t)"
  shows "distinct (pair_files [server_pair (bbsSSL m), server_pair (repSSL m), server_pair (auctioneerSSL m),
        server_pair (routingAPISSL m), client_pair (bbsSSL m)])
    \<and> (\<forall>p \<in> set (pair_files [server_pair (bbsSSL m), server_pair (repSSL m), server_pair (auctioneerSSL m),
        server_pair (routingAPISSL m), client_pair (bbsSSL m)]) \<union> {tmpDir m, volmanDriverConfigDir m}.
        fs s p = None \<and> fs t p \<noteq> None)
    \<and> locketSSL m = bbsSSL m \<and> client_pair (repSSL m) = client_pair (bbsSSL m)
    \<and> client_pair (auctioneerSSL m) = client_pair (bbsSSL m)
    \<and> CACert ` {bbsSSL m, repSSL m, auctioneerSSL m, routingAPISSL m} = {caCert c}
    \<and> fs s \<subseteq>\<^sub>m fs t"
proof -
  from maker_Inr [OF assms] obtain s1 s2 s3 guid where
    tmp: "TempDir P ''component-maker'' s = (Inr (tmpDir m), s1)" and
    graph: "graph_dir P (tmpDir m) (getenv s1 ''GARDEN_GRAPH_PATH'') s1 = (Inr (GardenGraphPath (gardenConfig m)), s2)" and
    certs: "certs_run (GenerateSelfSignedCertAndKey P X c) cert_requests s2 =
        (Inr [server_pair (bbsSSL m), server_pair (repSSL m), server_pair (auctioneerSSL m),
              server_pair (routingAPISSL m), client_pair (bbsSSL m)], s3)" and
    vol: "TempDirWithParent P (tmpDir m) guid s3 = (Inr (volmanDriverConfigDir m), t)" and
    ssl: "locketSSL m = bbsSSL m" "client_pair (repSSL m) = client_pair (bbsSSL m)"
      "client_pair (auctioneerSSL m) = client_pair (bbsSSL m)"
      "CACert ` {bbsSSL m, repSSL m, auctioneerSSL m, routingAPISSL m} = {caCert c}"
    by (auto simp: authority_of_def CAAndKey_def)
  note d = authority.run_distinct [OF certs]
  have dir: "fs s (tmpDir m) = None" "fs s1 (tmpDir m) \<noteq> None" "fs s \<subseteq>\<^sub>m fs s1"
    using TempDir_Inr [OF tmp] keeps_run [OF TempDir_extends tmp extends_refl]
    by (simp_all add: extends_def)
  have graph_mono: "fs s1 \<subseteq>\<^sub>m fs s2"
    using graph keeps_run [OF extends_TempDirWithParent, of P "tmpDir m" "''garden-graph''" s1 _ s2] extends_refl
    by (fastforce simp: graph_dir_def extends_def split: if_splits)
  have vol_dir: "fs s3 (volmanDriverConfigDir m) = None" "fs t (volmanDriverConfigDir m) \<noteq> None" "fs s3 \<subseteq>\<^sub>m fs t"
    using TempDirWithParent_Inr [OF vol] keeps_run [OF extends_TempDirWithParent vol extends_refl]
    by (simp_all add: extends_def)
  have through: "f \<subseteq>\<^sub>m g \<Longrightarrow> g p = None \<Longrightarrow> f p = None" "f \<subseteq>\<^sub>m g \<Longrightarrow> f p \<noteq> None \<Longrightarrow> g p \<noteq> None"
    for f g :: "string \<rightharpoonup> node" and p
    by (auto simp: map_le_def dom_def split: option.splits)
  have mono: "fs s \<subseteq>\<^sub>m fs s2" "fs s \<subseteq>\<^sub>m fs s3" "fs s1 \<subseteq>\<^sub>m fs t" "fs s \<subseteq>\<^sub>m fs t"
    using dir(3) graph_mono d vol_dir(3) by (metis map_le_trans)+
  let ?F = "pair_files [server_pair (bbsSSL m), server_pair (repSSL m), server_pair (auctioneerSSL m),
        server_pair (routingAPISSL m), client_pair (bbsSSL m)]"
  have files: "\<forall>p \<in> set ?F \<union> {tmpDir m, volmanDriverConfigDir m}. fs s p = None \<and> fs t p \<noteq> None"
  proof
    fix p assume p: "p \<in> set ?F \<union> {tmpDir m, volmanDriverConfigDir m}"
    show "fs s p = None \<and> fs t p \<noteq> None"
    proof (cases "p \<in> set ?F")
      case True
      with d have "fs s2 p = None" "fs s3 p \<noteq> None" by blast+
      with through(1) [OF mono(1)] through(2) [OF vol_dir(3)] show ?thesis by blast
    next
      case False
      with p have "p = tmpDir m \<or> p = volmanDriverConfigDir m" by blast
      with dir(1) through(2) [OF mono(3) dir(2)] through(1) [OF mono(2) vol_dir(1)] vol_dir(2)
      show ?thesis by blast
    qed
  qed
  show ?thesis by (intro conjI files ssl mono(4) conjunct1 [OF d])
qed
text \<open>A suite on Linux with its environment, its depot and a library that always answers.\<close>

definition demo_maker_lib :: maker_lib where
  "demo_maker_lib = \<lparr>UsePostgres = False,
     NewKeyPair = (\<lambda>n bits. Inr \<lparr>PrivateKey = ''priv'' @ nat_text n, PEMEncodedPrivateKey = ''pem'' @ nat_text n,
       AuthorizedKeyText = ''auth'' @ nat_text n\<rparr>),
     NewV4 = Inr ''guid'', UnixNano = 42\<rparr>"

definition demo_world :: world where
  "demo_world = \<lparr>
     env = [''GROOTFS_BINPATH'' \<mapsto> ''/groot'', ''GARDEN_BINPATH'' \<mapsto> ''/garden'', ''GARDEN_TEST_ROOTFS'' \<mapsto> ''/rootfs'',
            ''EXTERNAL_ADDRESS'' \<mapsto> ''10.0.0.1''],
     fs = [''/tmp'' \<mapsto> Dir 511, ''/depot'' \<mapsto> Dir 493, ''/depot/ca.crt'' \<mapsto> File 420 ''PEM ca'', ''/depot/ca.key'' \<mapsto> File 420 ''PEM key''],
     calls = 0, ran = [], locked = (\<lambda>_. False), pk_calls = 0, history = [],
     allocator = \<lparr>nextPort = 20000, endingPort = 20100\<rparr>, out = []\<rparr>"

definition demo_addresses :: ComponentAddresses where
  "demo_addresses = \<lparr>NATS_addr = ''127.0.0.1:10001'', BBS_addr = ''127.0.0.1:10101'', Health_addr = ''127.0.0.1:10201'',
     Rep_addr = ''0.0.0.0:10301'', FileServer_addr = ''127.0.0.1:10401'', Router_addr = ''127.0.0.1:10501'',
     RouterStatus_addr = ''127.0.0.1:10601'', RouterRoutes_addr = ''127.0.0.1:10651'',
     RouterRouteServices_addr = ''127.0.0.1:10661'', Garden_addr = ''127.0.0.1:10701'',
     Auctioneer_addr = ''127.0.0.1:10801'', SSHProxy_addr = ''127.0.0.1:10901'',
     SSHProxyHealthCheck_addr = ''127.0.0.1:10951'', FakeVolmanDriver_addr = ''127.0.0.1:11001'',
     Locket_addr = ''127.0.0.1:11101'', SQL_addr = ''diego:diego_password@tcp(localhost:3306)/diego_1''\<rparr>"

definition demo_artifacts :: BuiltArtifacts where
  "demo_artifacts = \<lparr>Executables = [''rep'' \<mapsto> ''/bin/rep''], Lifecycles = Map.empty, Healthcheck = ''/hc''\<rparr>"

definition demo_maker_run :: "(failure + commonComponentMaker) \<times> world" where
  "demo_maker_run = makeCommonComponentMaker demo_platform demo_maker_lib
     (authority_of demo_platform demo_pkix demo_authority) demo_artifacts demo_addresses demo_world"

definition demo_maker :: commonComponentMaker where
  "demo_maker = projr (fst demo_maker_run)"

definition demo_made :: world where
  "demo_made = snd demo_maker_run"

lemma demo_run_dir: "map_sum (\<lambda>_. ()) tmpDir (fst demo_maker_run) = Inr ''/tmp/component-maker0''"
  by code_simp

lemma demo_maker_made:
  "makeCommonComponentMaker demo_platform demo_maker_lib
     (authority_of demo_platform demo_pkix demo_authority) demo_artifacts demo_addresses demo_world
   = (Inr demo_maker, demo_made)"
proof -
  have "\<not> isl (fst demo_maker_run)"
    using demo_run_dir by (cases "fst demo_maker_run") simp_all
  then show ?thesis
    unfolding demo_maker_def demo_made_def
    by (metis demo_maker_run_def prod.collapse sum.collapse(2))
qed

lemma demo_maker_dir: "tmpDir demo_maker = ''/tmp/component-maker0''"
  using demo_run_dir unfolding demo_maker_def by (cases "fst demo_maker_run") simp_all

theorem maker_certificates_witness:
  "distinct (pair_files [server_pair (bbsSSL demo_maker), server_pair (repSSL demo_maker),
     server_pair (auctioneerSSL demo_maker), server_pair (routingAPISSL demo_maker), client_pair (bbsSSL demo_maker)])
   \<and> fs demo_world \<subseteq>\<^sub>m fs demo_made"
  using maker_certificates [OF demo_maker_made] by blast

section \<open>Mutexes and missing variables\<close>

text \<open>From free mutexes the computation ends with free mutexes and never waits for one for good.\<close>

definition unblocked :: "('s, 'a) op \<Rightarrow> bool" where
  "unblocked m \<longleftrightarrow> (\<forall>s. none_held s \<longrightarrow> none_held (snd (m s))
     \<and> (\<forall>w. fst (m s) \<noteq> Inl (Deadlock w)) \<and> (\<forall>w. fst (m s) \<noteq> Inl (Panic w)))"

lemma unblocked_andThen: "unblocked m \<Longrightarrow> (\<And>a. unblocked (k a)) \<Longrightarrow> unblocked (andThen m k)"
  unfolding unblocked_def andThen_def
  by (auto split: sum.splits prod.splits; metis fst_conv snd_conv)

lemma unblocked_expect_ok:
  fixes m :: "(go_error, 's world_scheme, 'a) comp"
  assumes "keeps none_held m"
  shows "unblocked (expect_ok m)"
  using assms unfolding unblocked_def keeps_def expect_ok_def
  by (auto split: sum.splits prod.splits; metis snd_conv)

lemma unblocked_pure: "unblocked (ret a)" "unblocked (gets f)" "unblocked (expect_that b msg)"
  "unblocked (expect_val r)" "unblocked (Getenv k)" "unblocked (LookupEnv k)"
  by (cases b; cases r; simp add: unblocked_def Getenv_def LookupEnv_def)+

lemma unblocked_split:
  "(b \<Longrightarrow> unblocked m) \<Longrightarrow> (\<not> b \<Longrightarrow> unblocked n) \<Longrightarrow> unblocked (if b then m else n)"
  "(\<And>a b. unblocked (f a b)) \<Longrightarrow> unblocked (case p of (a, b) \<Rightarrow> f a b)"
  by (simp_all split: prod.split)

lemma unblocked_dirs: "unblocked (TempDir P pre)" "unblocked (TempDirWithParent P d pre)"
  unfolding TempDir_def TempDirWithParent_def
  by (intro unblocked_andThen unblocked_expect_ok unblocked_pure MkdirTemp_keeps keeps_Chmod files_blind_locks)+

lemma unblocked_cert:
  "unblocked (expect_cert (GenerateSelfSignedCertAndKey P X c cn sans ica) :: ('s, string \<times> string) op)"
  unfolding unblocked_def
proof (intro allI impI)
  fix s :: "'s world_scheme" assume free: "none_held s"
  obtain r t where run: "GenerateSelfSignedCertAndKey P X c cn sans ica s = (r, t)" by fastforce
  have "none_held t" by (rule authority.frees_locks [OF free run])
  moreover have "\<exists>err. e = Returned err" if "r = Inl e" for e
    using authority.no_deadlock [OF free] run that by blast
  ultimately show "none_held (snd (expect_cert (GenerateSelfSignedCertAndKey P X c cn sans ica) s)) \<and>
      (\<forall>w. fst (expect_cert (GenerateSelfSignedCertAndKey P X c cn sans ica) s) \<noteq> Inl (Deadlock w)) \<and>
      (\<forall>w. fst (expect_cert (GenerateSelfSignedCertAndKey P X c cn sans ica) s) \<noteq> Inl (Panic w))"
    using run by (cases r) (auto simp: expect_cert_def)
qed

lemma unblocked_start: "unblocked start_check_timeout"
  unfolding start_check_timeout_def
  by (rule unblocked_andThen)
    (auto simp: unblocked_pure split: option.split sum.split, simp add: unblocked_def)

lemma unblocked_DBInfo: "unblocked (DBInfo L)"
  unfolding DBInfo_def Let_def by (intro unblocked_andThen unblocked_split unblocked_pure)

text \<open>
  Making a component maker while no certificate is being signed never deadlocks on
  the mutexes of the authority, never unlocks a free one, and leaves both free, whether it
  succeeds or fails.
\<close>

theorem maker_never_deadlocks:
  assumes "none_held s"
  shows "case makeCommonComponentMaker P L (authority_of P X c) art addr s of
     (r, t) \<Rightarrow> none_held t \<and> (\<forall>w. r \<noteq> Inl (Deadlock w)) \<and> (\<forall>w. r \<noteq> Inl (Panic w))"
proof -
  have "unblocked (makeCommonComponentMaker P L (authority_of P X c) art addr)"
    unfolding makeCommonComponentMaker_def Let_def authority_of_def CertAuthority.simps
    by (intro unblocked_andThen unblocked_split unblocked_pure unblocked_dirs unblocked_cert
        unblocked_start unblocked_DBInfo)
  with assms show ?thesis unfolding unblocked_def by (auto split: prod.split)
qed

theorem maker_never_deadlocks_witness: "none_held demo_world \<and> none_held demo_made"
proof -
  have "none_held demo_world" by (simp add: none_held_def demo_world_def)
  from this maker_never_deadlocks [OF this, of demo_platform demo_maker_lib demo_pkix demo_authority
      demo_artifacts demo_addresses]
  show ?thesis by (simp add: demo_maker_made)
qed

text \<open>
  The constructor checks its environment only after it has made its temporary
  directory: without \<open>GROOTFS_BINPATH\<close> it fails with its message, and the new directory is
  left behind with nobody who could remove it.
\<close>

theorem unconfigured_maker_leaves_directory:
  assumes "getenv s ''GROOTFS_BINPATH'' = []" and "getenv s ''GARDEN_GRAPH_PATH'' \<noteq> []"
    and "env s ''START_CHECK_TIMEOUT_DURATION'' = None"
    and "TempDir P ''component-maker'' s = (Inr tmp, s1)"
  shows "makeCommonComponentMaker P L A art addr s = (Inl (Expectation ''must provide $GROOTFS_BINPATH''), s1)
    \<and> fs s tmp = None \<and> fs s1 = (fs s)(tmp \<mapsto> Dir 493)"
proof -
  have "files_blind (\<lambda>u. env u = env s)" by (simp add: files_blind_def)
  from keeps_run [OF TempDir_keeps [OF this] assms(4)] have env: "env s1 = env s" by simp
  have "start_check_timeout s = (Inr (10 * Second), s)"
    using assms(3) by (simp add: start_check_timeout_def andThen_def LookupEnv_def)
  with assms env TempDir_Inr [OF assms(4)] show ?thesis
    by (simp add: makeCommonComponentMaker_def andThen_def Getenv_run getenv_def)
qed

theorem unconfigured_maker_leaves_directory_witness:
  "fst (makeCommonComponentMaker demo_platform demo_maker_lib (authority_of demo_platform demo_pkix demo_authority)
     demo_artifacts demo_addresses (demo_world\<lparr>env := [''GARDEN_GRAPH_PATH'' \<mapsto> ''/graph'']\<rparr>))
   = Inl (Expectation ''must provide $GROOTFS_BINPATH'')"
proof -
  let ?s = "demo_world\<lparr>env := [''GARDEN_GRAPH_PATH'' \<mapsto> ''/graph'']\<rparr>"
  have "\<not> isl (fst (TempDir demo_platform ''component-maker'' ?s))" by code_simp
  then obtain tmp s1 where "TempDir demo_platform ''component-maker'' ?s = (Inr tmp, s1)"
    by (cases "TempDir demo_platform ''component-maker'' ?s"; cases "fst (TempDir demo_platform ''component-maker'' ?s)") auto
  from unconfigured_maker_leaves_directory [OF _ _ _ this, of demo_maker_lib
      "authority_of demo_platform demo_pkix demo_authority" demo_artifacts demo_addresses]
  show ?thesis by (simp add: getenv_def)
qed

end
