(* ===== verification/World_Stores.thy ===== *)
theory World_Stores
  imports World_Maker
begin

text \<open>
  Setting up and tearing down what the component makers need: the GrootFS stores, the
  configuration files the makers write, \<open>Setup\<close> and \<open>Teardown\<close> of \<open>world/components.go\<close>.
\<close>

section \<open>Configuration files\<close>

text \<open>\<open>Write\<close> on a file handle adds to the end of the file.\<close>

definition file_Write :: "platform \<Rightarrow> string \<Rightarrow> string \<Rightarrow> (go_error, 's os_scheme, unit) comp" where
  "file_Write P name data = sys P ''write'' name (\<lambda>s. case fs s name of
     Some (File m d) \<Rightarrow> (Inr (), s\<lparr>fs := (fs s)(name \<mapsto> File m (d @ data))\<rparr>)
   | Some (Dir _) \<Rightarrow> (Inl EISDIR, s)
   | None \<Rightarrow> (Inr (), s))"

text \<open>
  The encoders of the YAML and JSON libraries for the structs the makers write are
  parameters, one function from a value to its text or an error.
\<close>

text \<open>
  The steps the source repeats for every configuration file: encode the value, check the
  error, write the text and check the error (\<open>json.Encoder\<close> reports both as one).
\<close>

definition write_encoded :: "platform \<Rightarrow> string \<Rightarrow> go_error + string \<Rightarrow> ('s, unit) op" where
  "write_encoded P name encoded =
     andThen (expect_val encoded) (\<lambda>data.
     expect_ok (file_Write P name data))"

definition grootfsConfigPath :: "platform \<Rightarrow> (GrootFSConfig \<Rightarrow> go_error + string) \<Rightarrow> GrootFSConfig
    \<Rightarrow> ('s, string) op" where
  "grootfsConfigPath P yaml grootfsConfig =
     andThen (expect_ok (CreateTemp P [] ''grootfs-config'')) (\<lambda>configFile.
     andThen (write_encoded P configFile (yaml grootfsConfig)) (\<lambda>_.
     ret configFile))"

definition networkPluginConfigPath :: "platform \<Rightarrow> (NetworkPluginConfig \<Rightarrow> go_error + string)
    \<Rightarrow> commonComponentMaker \<Rightarrow> NetworkPluginConfig \<Rightarrow> ('s, string) op" where
  "networkPluginConfigPath P json maker config =
     andThen (TempDirWithParent P (tmpDir maker) ''network-plugin'') (\<lambda>dir.
     andThen (expect_ok (CreateTemp P dir ''network-plugin-config'')) (\<lambda>configFile.
     andThen (write_encoded P configFile (json config)) (\<lambda>_.
     ret configFile)))"

section \<open>GrootFS\<close>

text \<open>\<open>cmd.Run()\<close>, whose error the caller gets as a value.\<close>

definition grootfsRunner :: "platform \<Rightarrow> commonComponentMaker \<Rightarrow> string list
    \<Rightarrow> (go_error, 's world_scheme, unit) comp" where
  "grootfsRunner P maker args =
     Run P (filepath_Join P [GardenBinPath (gardenConfig maker), ''grootfs'']) args []"

definition mapping_args :: "string \<Rightarrow> string list \<Rightarrow> string list" where
  "mapping_args flag mappings = concat (map (\<lambda>m. [flag, m]) mappings)"

text \<open>
  The path of the configuration is found first; a failure there ends the spec, while the
  error of the command is returned.
\<close>

definition grootfsInitStore :: "platform \<Rightarrow> (GrootFSConfig \<Rightarrow> go_error + string) \<Rightarrow> commonComponentMaker
    \<Rightarrow> GrootFSConfig \<Rightarrow> ('s, unit) op" where
  "grootfsInitStore P yaml maker grootfsConfig =
     andThen (grootfsConfigPath P yaml grootfsConfig) (\<lambda>path.
     let grootfsArgs = [''--config'', path] @ [''init-store'']
           @ mapping_args ''--uid-mapping'' (UidMappings (Create grootfsConfig))
           @ mapping_args ''--gid-mapping'' (GidMappings (Create grootfsConfig))
     in expect_ok (grootfsRunner P maker grootfsArgs))"

definition GrootFSInitStore :: "platform \<Rightarrow> (GrootFSConfig \<Rightarrow> go_error + string) \<Rightarrow> commonComponentMaker
    \<Rightarrow> ('s, unit) op" where
  "GrootFSInitStore P yaml maker =
     andThen (grootfsInitStore P yaml maker (UnprivilegedGrootfsConfig (gardenConfig maker))) (\<lambda>_.
     grootfsInitStore P yaml maker (PrivilegedGrootfsConfig (gardenConfig maker)))"

definition grootfsDeleteStore :: "platform \<Rightarrow> (GrootFSConfig \<Rightarrow> go_error + string) \<Rightarrow> commonComponentMaker
    \<Rightarrow> GrootFSConfig \<Rightarrow> ('s, unit) op" where
  "grootfsDeleteStore P yaml maker grootfsConfig =
     andThen (grootfsConfigPath P yaml grootfsConfig) (\<lambda>path.
     let grootfsArgs = [''--config'', path] @ [''delete-store'']
     in expect_ok (grootfsRunner P maker grootfsArgs))"

definition GrootFSDeleteStore :: "platform \<Rightarrow> (GrootFSConfig \<Rightarrow> go_error + string) \<Rightarrow> commonComponentMaker
    \<Rightarrow> ('s, unit) op" where
  "GrootFSDeleteStore P yaml maker =
     andThen (grootfsDeleteStore P yaml maker (UnprivilegedGrootfsConfig (gardenConfig maker))) (\<lambda>_.
     grootfsDeleteStore P yaml maker (PrivilegedGrootfsConfig (gardenConfig maker)))"

section \<open>\<open>Setup\<close> and \<open>Teardown\<close>\<close>

text \<open>
  \<open>Eventually(f, time.Minute).Should(Succeed())\<close>: \<open>f\<close> is called until it succeeds; the number
  of polls that fit into the time is a parameter, at least one.
\<close>

primrec eventually :: "nat \<Rightarrow> (go_error, 's, unit) comp \<Rightarrow> (failure, 's, unit) comp" where
  "eventually 0 m = expect_ok m"
| "eventually (Suc n) m = (\<lambda>s. case m s of (Inr u, t) \<Rightarrow> (Inr u, t) | (Inl _, t) \<Rightarrow> eventually n m t)"

definition Setup :: "platform \<Rightarrow> (GrootFSConfig \<Rightarrow> go_error + string) \<Rightarrow> commonComponentMaker \<Rightarrow> ('s, unit) op" where
  "Setup P yaml maker = (if \<not> windows P then GrootFSInitStore P yaml maker else ret ())"

definition Teardown :: "platform \<Rightarrow> nat \<Rightarrow> (GrootFSConfig \<Rightarrow> go_error + string) \<Rightarrow> commonComponentMaker
    \<Rightarrow> ('s, unit) op" where
  "Teardown P polls yaml maker =
     (let deleteTmpDir = RemoveAll P (tmpDir maker) in
      if \<not> windows P then
        andThen (GrootFSDeleteStore P yaml maker) (\<lambda>_. eventually polls deleteTmpDir)
      else (\<lambda>s. (Inr (), snd (deleteTmpDir s))))"

section \<open>Properties\<close>

lemma Run_Inr: "Run P prog args dir s = (Inr u, t) \<Longrightarrow> ran t = ran s @ [(prog, args)]"
  by (auto simp: Run_def split: prod.splits option.splits)

lemma keeps_file_Write: "files_blind I \<Longrightarrow> keeps I (file_Write P name data)"
  unfolding file_Write_def by (rule keeps_sys) (auto simp: files_blindD split: option.split node.split)

text \<open>Nothing but a command adds to the commands that were run.\<close>

lemma create_new_ran: "ran (snd (create_new P n x s)) = ran s"
  by (auto simp: create_new_def split: option.split node.split)

lemma sys_ran: "(\<And>u. ran (snd (body u)) = ran u) \<Longrightarrow> sys P op path body s = (r, t) \<Longrightarrow> ran t = ran s"
proof -
  assume body: "\<And>u. ran (snd (body u)) = ran u" and run: "sys P op path body s = (r, t)"
  have "ran (snd (sys P op path body s)) = ran s"
    using body [of "s\<lparr>calls := Suc (calls s)\<rparr>"]
    by (auto simp: sys_def Let_def split: option.split sum.split prod.split)
  with run show ?thesis by simp
qed

lemma temp_loop_ran:
  "(\<And>n u. ran (snd (mk n u)) = ran u) \<Longrightarrow> ran (snd (temp_loop P mk x pre suf attempt s)) = ran s"
proof -
  assume "\<And>n u. ran (snd (mk n u)) = ran u"
  then have "keeps (\<lambda>u. ran u = ran s) (mk n)" for n by (simp add: keeps_def)
  from temp_loop_keeps [OF this] show ?thesis by simp
qed

lemma OpenExcl_ran: "ran (snd (OpenExcl P n p u)) = ran u"
  using sys_ran [of "create_new P n (File p [])" P "''open''" n u] create_new_ran
  by (metis OpenExcl_def prod.collapse)

lemma CreateTemp_ran: "CreateTemp P d pattern s = (r, t) \<Longrightarrow> ran t = ran s"
proof -
  assume run: "CreateTemp P d pattern s = (r, t)"
  have "ran (snd (CreateTemp P d pattern s)) = ran s"
    by (auto simp: CreateTemp_def Let_def temp_loop_ran OpenExcl_ran split: sum.split prod.split)
  with run show ?thesis by simp
qed

lemma file_Write_ran: "file_Write P name data s = (r, t) \<Longrightarrow> ran t = ran s"
  unfolding file_Write_def by (rule sys_ran) (auto split: option.split node.split)

lemma grootfsConfigPath_ran: "grootfsConfigPath P yaml cfg s = (Inr p, t) \<Longrightarrow> ran t = ran s"
  by (auto simp: grootfsConfigPath_def write_encoded_def comp_iffs expect_val_Inr_iff
      dest!: CreateTemp_ran file_Write_ran)

text \<open>
  The configuration file a store is made with is a new one in the system's directory for
  temporary files, and holds the text of the configuration.
\<close>

lemma file_Write_Inr:
  "file_Write P name data s = (Inr u, t) \<Longrightarrow> fs s name = Some (File m d) \<Longrightarrow>
     fs t = (fs s)(name \<mapsto> File m (d @ data))"
  by (auto simp: file_Write_def sys_def Let_def split: option.splits)

lemma grootfsConfigPath_Inr:
  assumes "grootfsConfigPath P yaml cfg s = (Inr p, t)"
  shows "\<exists>data. yaml cfg = Inr data \<and> fs s p = None \<and> fs t = (fs s)(p \<mapsto> File 384 data)"
proof -
  from assms obtain s1 data where c: "CreateTemp P [] ''grootfs-config'' s = (Inr p, s1)"
    and data: "yaml cfg = Inr data" and w: "file_Write P p data s1 = (Inr (), t)"
    by (auto simp: grootfsConfigPath_def write_encoded_def comp_iffs expect_val_Inr_iff)
  note new = CreateTemp_Inr [OF c]
  from file_Write_Inr [OF w, of 384 "[]"] new data show ?thesis by simp
qed

text \<open>
  On Linux a successful \<open>Setup\<close> has run \<open>grootfs init-store\<close> twice, first for the
  unprivileged and then for the privileged store, each time with all user mappings before
  all group mappings and with a new configuration file; on Windows \<open>Setup\<close> does nothing.
\<close>

theorem setup_initialises_stores:
  assumes "Setup P yaml maker s = (Inr (), t)"
  shows "if windows P then t = s
    else \<exists>path1 path2 data1. ran t = ran s @
       [(filepath_Join P [GardenBinPath (gardenConfig maker), ''grootfs''],
         [''--config'', path1, ''init-store'']
           @ mapping_args ''--uid-mapping'' (UidMappings (Create (UnprivilegedGrootfsConfig (gardenConfig maker))))
           @ mapping_args ''--gid-mapping'' (GidMappings (Create (UnprivilegedGrootfsConfig (gardenConfig maker))))),
        (filepath_Join P [GardenBinPath (gardenConfig maker), ''grootfs''],
         [''--config'', path2, ''init-store'']
           @ mapping_args ''--uid-mapping'' (UidMappings (Create (PrivilegedGrootfsConfig (gardenConfig maker))))
           @ mapping_args ''--gid-mapping'' (GidMappings (Create (PrivilegedGrootfsConfig (gardenConfig maker)))))]
     \<and> fs s path1 = None \<and> yaml (UnprivilegedGrootfsConfig (gardenConfig maker)) = Inr data1"
proof (cases "windows P")
  case True
  with assms show ?thesis by (simp add: Setup_def)
next
  case False
  have one: "\<exists>path data. ran v = ran u @ [(filepath_Join P [GardenBinPath (gardenConfig maker), ''grootfs''],
         [''--config'', path, ''init-store'']
           @ mapping_args ''--uid-mapping'' (UidMappings (Create cfg))
           @ mapping_args ''--gid-mapping'' (GidMappings (Create cfg)))] \<and> fs u path = None \<and> yaml cfg = Inr data"
    if run: "grootfsInitStore P yaml maker cfg u = (Inr (), v)" for cfg u v
  proof -
    from run obtain path w where p: "grootfsConfigPath P yaml cfg u = (Inr path, w)"
      and r: "Run P (filepath_Join P [GardenBinPath (gardenConfig maker), ''grootfs''])
        ([''--config'', path] @ [''init-store'']
           @ mapping_args ''--uid-mapping'' (UidMappings (Create cfg))
           @ mapping_args ''--gid-mapping'' (GidMappings (Create cfg))) [] w = (Inr (), v)"
      by (auto simp: grootfsInitStore_def grootfsRunner_def comp_iffs)
    from Run_Inr [OF r] grootfsConfigPath_ran [OF p] grootfsConfigPath_Inr [OF p] show ?thesis by auto
  qed
  from assms False obtain u where
    a: "grootfsInitStore P yaml maker (UnprivilegedGrootfsConfig (gardenConfig maker)) s = (Inr (), u)" and
    b: "grootfsInitStore P yaml maker (PrivilegedGrootfsConfig (gardenConfig maker)) u = (Inr (), t)"
    by (auto simp: Setup_def GrootFSInitStore_def comp_iffs)
  from one [OF a] one [OF b] False show ?thesis by auto
qed

text \<open>Runs of the demonstration suite, for any maker: the encoder always answers.\<close>

definition demo_yaml :: "GrootFSConfig \<Rightarrow> go_error + string" where
  "demo_yaml cfg = Inr ''store: x''"

lemma demo_setup: "Setup demo_platform demo_yaml m demo_world = (Inr (), snd (Setup demo_platform demo_yaml m demo_world))"
proof -
  have "fst (Setup demo_platform demo_yaml m demo_world) = Inr ()" by code_simp
  then show ?thesis by (metis prod.collapse)
qed

theorem setup_initialises_stores_witness:
  "length (ran (snd (Setup demo_platform demo_yaml demo_maker demo_world))) = 2"
proof -
  have "\<not> windows demo_platform" "ran demo_world = []" by (simp_all add: windows_def demo_platform_def demo_world_def)
  with setup_initialises_stores [OF demo_setup [of demo_maker]] show ?thesis by auto
qed

section \<open>Tearing down\<close>

lemma RemoveAll_removes:
  "RemoveAll P d s = (Inr u, t) \<Longrightarrow> d \<noteq> [] \<Longrightarrow> inside P d p \<Longrightarrow> fs t p = None"
  "RemoveAll P d s = (Inr u, t) \<Longrightarrow> \<not> inside P d p \<Longrightarrow> fs t p = fs s p"
  by (auto simp: RemoveAll_def ret_def sys_def Let_def split: option.splits if_splits)

lemma RemoveAll_keeps_outside: "\<not> inside P d p \<Longrightarrow> fs (snd (RemoveAll P d s)) p = fs s p"
  by (simp add: RemoveAll_def sys_def Let_def split: option.split)

lemma RemoveAll_fault_free: "fault P (calls s) = None \<Longrightarrow> fst (RemoveAll P d s) = Inr ()"
  by (simp add: RemoveAll_def sys_def Let_def)

lemma eventually_Inr:
  "eventually n m s = (Inr u, t) \<Longrightarrow> \<exists>s'. m s' = (Inr u, t)"
  by (induction n arbitrary: s) (auto simp: expect_ok_Inr_iff split: sum.splits prod.splits)

text \<open>A temporary name is never empty.\<close>

lemma joinPath_nonempty: "joinPath P dir x \<noteq> []"
  by (simp add: joinPath_def)

lemma CreateTemp_nonempty:
  assumes "CreateTemp P dir pattern s = (Inr name, t)"
  shows "name \<noteq> []"
proof -
  from assms obtain d pre suf x where "temp_loop P (\<lambda>n. OpenExcl P n 384) x (joinPath P d pre) suf 0 s = (Inr name, t)"
    by (auto simp: CreateTemp_def Let_def split: sum.splits prod.splits if_splits)
  from new_file.temp_loop_Inr(3) [OF this] joinPath_nonempty show ?thesis by force
qed

lemma TempDirWithParent_nonempty:
  assumes "TempDirWithParent P dir pattern s = (Inr name, t)"
  shows "name \<noteq> []"
proof -
  from assms obtain s1 where "MkdirTemp P dir pattern s = (Inr name, s1)"
    by (auto simp: TempDirWithParent_def comp_iffs)
  then obtain d pre suf x where "temp_loop P (\<lambda>n. Mkdir P n 448) x (joinPath P d pre) suf 0 s = (Inr name, s1)"
    by (auto simp: MkdirTemp_def Let_def split: sum.splits prod.splits if_splits)
  from new_dir.temp_loop_Inr(3) [OF this] joinPath_nonempty show ?thesis by force
qed

text \<open>A new directory lies inside the one it was made in.\<close>

lemma joinPath_inside: "dir \<noteq> [] \<Longrightarrow> last dir \<noteq> sep P \<Longrightarrow> inside P dir (joinPath P dir x @ y)"
  by (simp add: joinPath_def inside_def prefix_def)

lemma MkdirTemp_inside:
  assumes "MkdirTemp P dir pattern s = (Inr name, t)" and "dir \<noteq> []" and "last dir \<noteq> sep P"
  shows "inside P dir name"
proof -
  from assms(1,2) obtain pre suf x where "temp_loop P (\<lambda>n. Mkdir P n 448) x (joinPath P dir pre) suf 0 s = (Inr name, t)"
    by (auto simp: MkdirTemp_def Let_def split: sum.splits prod.splits if_splits)
  from new_dir.temp_loop_Inr(3) [OF this] obtain r where "name = joinPath P dir pre @ r @ suf" by blast
  with joinPath_inside [OF assms(2,3)] show ?thesis by simp
qed

lemma TempDirWithParent_inside:
  "TempDirWithParent P dir pre s = (Inr name, t) \<Longrightarrow> dir \<noteq> [] \<Longrightarrow> last dir \<noteq> sep P \<Longrightarrow> inside P dir name"
  by (auto simp: TempDirWithParent_def comp_iffs intro: MkdirTemp_inside)

text \<open>
  After a successful \<open>Teardown\<close> on Linux nothing is left inside the maker's
  temporary directory, whatever the components put there since, and \<open>grootfs delete-store\<close>
  has run for both stores; on Windows \<open>Teardown\<close> always succeeds, and touches no path outside
  of that directory.
\<close>

theorem teardown_empties_directory:
  assumes "Teardown P polls yaml maker s = (r, t)" and "tmpDir maker \<noteq> []"
  shows "(\<not> windows P \<and> r = Inr () \<longrightarrow> (\<forall>p. inside P (tmpDir maker) p \<longrightarrow> fs t p = None)
       \<and> (\<exists>path1 path2 u. GrootFSDeleteStore P yaml maker s = (Inr (), u)
            \<and> ran u = ran s @ map (\<lambda>p. (filepath_Join P [GardenBinPath (gardenConfig maker), ''grootfs''],
                [''--config'', p, ''delete-store''])) [path1, path2]))
    \<and> (windows P \<longrightarrow> r = Inr () \<and> (\<forall>p. \<not> inside P (tmpDir maker) p \<longrightarrow> fs t p = fs s p))"
proof (cases "windows P")
  case True
  with assms(1) show ?thesis by (auto simp: Teardown_def RemoveAll_keeps_outside)
next
  case False
  have one: "\<exists>path. ran v = ran u @ [(filepath_Join P [GardenBinPath (gardenConfig maker), ''grootfs''],
      [''--config'', path, ''delete-store''])]"
    if run: "grootfsDeleteStore P yaml maker cfg u = (Inr (), v)" for cfg u v
  proof -
    from run obtain path w where p: "grootfsConfigPath P yaml cfg u = (Inr path, w)"
      and r: "Run P (filepath_Join P [GardenBinPath (gardenConfig maker), ''grootfs''])
        [''--config'', path, ''delete-store''] [] w = (Inr (), v)"
      by (auto simp: grootfsDeleteStore_def grootfsRunner_def comp_iffs)
    from Run_Inr [OF r] grootfsConfigPath_ran [OF p] show ?thesis by simp
  qed
  have "(\<forall>p. inside P (tmpDir maker) p \<longrightarrow> fs t p = None)
       \<and> (\<exists>path1 path2 u. GrootFSDeleteStore P yaml maker s = (Inr (), u)
            \<and> ran u = ran s @ map (\<lambda>p. (filepath_Join P [GardenBinPath (gardenConfig maker), ''grootfs''],
                [''--config'', p, ''delete-store''])) [path1, path2])" if ok: "r = Inr ()"
  proof -
    from assms(1) ok False obtain u where del: "GrootFSDeleteStore P yaml maker s = (Inr (), u)"
      and rm: "eventually polls (RemoveAll P (tmpDir maker)) u = (Inr (), t)"
      by (auto simp: Teardown_def Let_def comp_iffs)
    from eventually_Inr [OF rm] obtain u' where "RemoveAll P (tmpDir maker) u' = (Inr (), t)" by blast
    from RemoveAll_removes(1) [OF this assms(2)] have gone: "\<forall>p. inside P (tmpDir maker) p \<longrightarrow> fs t p = None" by blast
    from del obtain v where a: "grootfsDeleteStore P yaml maker (UnprivilegedGrootfsConfig (gardenConfig maker)) s = (Inr (), v)"
      and b: "grootfsDeleteStore P yaml maker (PrivilegedGrootfsConfig (gardenConfig maker)) v = (Inr (), u)"
      by (auto simp: GrootFSDeleteStore_def comp_iffs)
    from one [OF a] one [OF b] obtain path1 path2 where "ran u = ran s @
        map (\<lambda>p. (filepath_Join P [GardenBinPath (gardenConfig maker), ''grootfs''],
          [''--config'', p, ''delete-store''])) [path1, path2]" by auto
    with gone del show ?thesis by blast
  qed
  with False show ?thesis by blast
qed

lemma demo_teardown: "Teardown demo_platform 0 demo_yaml m demo_world = (Inr (), snd (Teardown demo_platform 0 demo_yaml m demo_world))"
proof -
  have "fst (GrootFSDeleteStore demo_platform demo_yaml m demo_world) = Inr ()" by code_simp
  then obtain u where del: "GrootFSDeleteStore demo_platform demo_yaml m demo_world = (Inr (), u)" by (metis prod.collapse)
  have "fst (RemoveAll demo_platform (tmpDir m) u) = Inr ()"
    by (rule RemoveAll_fault_free) (simp add: demo_platform_def)
  then obtain v where "RemoveAll demo_platform (tmpDir m) u = (Inr (), v)" by (metis prod.collapse)
  moreover have "\<not> windows demo_platform" by (simp add: windows_def demo_platform_def)
  ultimately show ?thesis using del by (simp add: Teardown_def Let_def andThen_def expect_ok_def)
qed

theorem teardown_empties_directory_witness:
  "fs (snd (Teardown demo_platform 0 demo_yaml demo_maker demo_world)) (tmpDir demo_maker @ ''/x'') = None"
proof -
  have "\<not> windows demo_platform" "sep demo_platform = CHR ''/''"
    by (simp_all add: windows_def demo_platform_def sep_def)
  with teardown_empties_directory [OF demo_teardown [of demo_maker]] show ?thesis
    by (simp add: inside_def demo_maker_dir)
qed

text \<open>Everything the constructor made, but for the certificates, is inside its directory.\<close>

lemma maker_inside:
  assumes "makeCommonComponentMaker P L A art addr s = (Inr m, t)" and "tmpDir m \<noteq> []" and "last (tmpDir m) \<noteq> sep P"
  shows "inside P (tmpDir m) (tmpDir m) \<and> inside P (tmpDir m) (volmanDriverConfigDir m)"
  using maker_Inr [OF assms(1)] TempDirWithParent_inside assms(2,3) by (fastforce simp: inside_def)



end
