(* ===== verification/World_Common.thy ===== *)
theory World_Common
  imports World_Stores
begin

text \<open>
  The methods of \<open>commonComponentMaker\<close> in \<open>world/components.go\<close> that make a component for
  both kinds of maker: the configuration each one gets, the file it is written to, the
  command line, the ports claimed, and the cleanup.

  Third-party constructors and constants are parameters: the fields of \<open>lib\<close> below and, for
  the components whose runner another package makes, that package's constructor.
\<close>

section \<open>Libraries\<close>

text \<open>An error of a call looked at by the caller.\<close>

definition attempt :: "(go_error, 's, 'a) comp \<Rightarrow> (failure, 's, go_error + 'a) comp" where
  "attempt m = (\<lambda>s. case m s of (r, t) \<Rightarrow> (Inr r, t))"

text \<open>
  The methods of \<open>repconfig.RootFSes\<close> and the constants of the locket and lager packages.
\<close>

record lib =
  StackPathMap :: "RootFS list \<Rightarrow> string_map"
  RootFS_Names :: "RootFS list \<Rightarrow> string list"
  DefaultSessionTTL :: int
  RetryInterval :: int
  FormatRFC3339 :: string

lemma keeps_attempt: "keeps I m \<Longrightarrow> keeps I (attempt m)"
  by (force simp: keeps_def attempt_def split: prod.splits)

definition debug_lager :: "'l lib_scheme \<Rightarrow> LagerConfig" where
  "debug_lager L = \<lparr>LogLevel = ''debug'', TimeFormat = FormatRFC3339 L\<rparr>"

definition executable :: "commonComponentMaker \<Rightarrow> string \<Rightarrow> string" where
  "executable maker k = at_key (Executables (artifacts maker)) k"

definition DefaultStack :: "'l lib_scheme \<Rightarrow> commonComponentMaker \<Rightarrow> ('s, string) op" where
  "DefaultStack L maker =
     andThen (expect_that (rootFSes maker \<noteq> []) ''not to be empty'') (\<lambda>_.
     case RootFS_Names L (rootFSes maker) of
       [] \<Rightarrow> fail (Panic ''index out of range [0] with length 0'')
     | n # _ \<Rightarrow> ret n)"

section \<open>NATS\<close>

definition NATS :: "commonComponentMaker \<Rightarrow> string list \<Rightarrow> ('s, 's runner) op" where
  "NATS maker argv =
     andThen (expect_val (SplitHostPort (NATS_addr (addresses maker)))) (\<lambda>(host, port).
     andThen (LookupEnv ''NATS_SERVER_BINARY'') (\<lambda>natsServerPath.
     case natsServerPath of
       None \<Rightarrow>
         andThen (modify (\<lambda>s. s\<lparr>out := out s @ [''You need nats-server install set NATS_SERVER_BINARY env variable'']\<rparr>)) (\<lambda>_.
         fail (OsExit 1))
     | Some path \<Rightarrow>
         ret \<lparr>Name = ''nats-server'', AnsiColorCode = ''30m'', StartCheck = ''Server is ready'',
              StartCheckTimeout = startCheckTimeout maker,
              Command = (path, [''--addr'', host, ''--port'', port] @ argv), Cleanup = no_cleanup\<rparr>))"

section \<open>Garden\<close>

record GdnRunnerConfig =
  Tardis :: string
  GdnBin :: string
  TarBin :: string
  InitBin :: string
  ExecRunnerBin :: string
  RuntimePluginBin :: string
  NSTarBin :: string
  ImagePluginBin :: string
  PrivilegedImagePluginBin :: string
  ImagePluginExtraArgs :: "string list"
  PrivilegedImagePluginExtraArgs :: "string list"
  NetworkPluginBin :: string
  NetworkPluginExtraArgs :: "string list"
  MaxContainers :: "int option"
  DenyNetworks :: "string list"
  AllowHostAccess :: "bool option"
  PortPoolSize :: "int option"
  PortPoolStart :: "int option"
  DefaultRootFS :: string
  BindSocket :: string
  BindIP :: string
  BindPort :: "int option"

record GardenRunner =
  garden_Config :: GdnRunnerConfig
  garden_StartCheck :: string
  garden_StartCheckTimeout :: int

text \<open>
  \<open>runner.DefaultGdnRunnerConfig\<close> is the parameter \<open>defaults\<close>, from the path of Tardis; the
  other fields of its configuration are left as it sets them. The encoders \<open>yaml\<close> and \<open>json\<close>
  are those of the GrootFS and the network plugin configuration.
\<close>

definition garden :: "platform \<Rightarrow> 'l lib_scheme \<Rightarrow> (string \<Rightarrow> GdnRunnerConfig) \<Rightarrow> (GrootFSConfig \<Rightarrow> go_error + string)
    \<Rightarrow> (NetworkPluginConfig \<Rightarrow> go_error + string) \<Rightarrow> commonComponentMaker \<Rightarrow> bool
    \<Rightarrow> (GdnRunnerConfig \<Rightarrow> GdnRunnerConfig) list \<Rightarrow> ('s, GardenRunner) op" where
  "garden P L defaults yaml json maker includeDefaultStack ms =
     (let bin = (\<lambda>x. filepath_Join P [GardenBinPath (gardenConfig maker), x]) in
     andThen (if includeDefaultStack
              then andThen (DefaultStack L maker) (\<lambda>stack. ret (at_key (StackPathMap L (rootFSes maker)) stack))
              else ret []) (\<lambda>defaultRootFS.
     let config = (defaults (bin ''tardis''))\<lparr>GdnBin := executable maker ''garden''\<rparr> in
     andThen
       (if windows P then
          andThen (networkPluginConfigPath P json maker (networkPluginConfig (gardenConfig maker))) (\<lambda>path.
          ret (config\<lparr>TarBin := bin ''tar.exe'', InitBin := bin ''init.exe'', RuntimePluginBin := bin ''winc.exe'',
            NSTarBin := bin ''nstar.exe'', ImagePluginBin := bin ''grootfs.exe'',
            ImagePluginExtraArgs := [quoted ''--driver-store'', GrootFSStorePath (gardenConfig maker)],
            NetworkPluginBin := bin ''winc-network.exe'',
            NetworkPluginExtraArgs := [quoted ''--configFile'', path],
            MaxContainers := Some 20\<rparr>))
        else
          andThen (grootfsConfigPath P yaml (UnprivilegedGrootfsConfig (gardenConfig maker))) (\<lambda>path1.
          andThen (grootfsConfigPath P yaml (PrivilegedGrootfsConfig (gardenConfig maker))) (\<lambda>path2.
          andThen (claim_ports 10) (\<lambda>ports.
          andThen (expect_val ports) (\<lambda>startPort.
          ret (config\<lparr>TarBin := bin ''tar'', InitBin := bin ''init'', ExecRunnerBin := bin ''dadoo'',
            RuntimePluginBin := bin ''runc'', NSTarBin := bin ''nstar'', ImagePluginBin := bin ''grootfs'',
            PrivilegedImagePluginBin := bin ''grootfs'',
            ImagePluginExtraArgs := [quoted ''--config'', path1],
            PrivilegedImagePluginExtraArgs := [quoted ''--config'', path2],
            DenyNetworks := [''0.0.0.0/0''], AllowHostAccess := boolPtr True,
            PortPoolSize := Some 10, PortPoolStart := Some (uint startPort)\<rparr>)))))) (\<lambda>config.
     andThen (expect_val (SplitHostPort (Garden_addr (addresses maker)))) (\<lambda>(host, port).
     andThen (expect_val (Atoi port)) (\<lambda>intPort.
     let config = modified ms (config\<lparr>DefaultRootFS := defaultRootFS, BindSocket := [], BindIP := host,
           BindPort := intPtr intPort\<rparr>)
     in ret \<lparr>garden_Config = config, garden_StartCheck = ''guardian.started'',
          garden_StartCheckTimeout = startCheckTimeout maker\<rparr>)))))"

definition GardenWithoutDefaultStack :: "platform \<Rightarrow> 'l lib_scheme \<Rightarrow> (string \<Rightarrow> GdnRunnerConfig) \<Rightarrow> (GrootFSConfig \<Rightarrow> go_error + string)
    \<Rightarrow> (NetworkPluginConfig \<Rightarrow> go_error + string) \<Rightarrow> commonComponentMaker \<Rightarrow> ('s, GardenRunner) op" where
  "GardenWithoutDefaultStack P L defaults yaml json maker = garden P L defaults yaml json maker False []"

definition Garden :: "platform \<Rightarrow> 'l lib_scheme \<Rightarrow> (string \<Rightarrow> GdnRunnerConfig) \<Rightarrow> (GrootFSConfig \<Rightarrow> go_error + string)
    \<Rightarrow> (NetworkPluginConfig \<Rightarrow> go_error + string) \<Rightarrow> commonComponentMaker
    \<Rightarrow> (GdnRunnerConfig \<Rightarrow> GdnRunnerConfig) list \<Rightarrow> ('s, GardenRunner) op" where
  "Garden P L defaults yaml json maker ms = garden P L defaults yaml json maker True ms"

section \<open>The routing API\<close>

record APIConfig =
  ListenPort :: "16 word"
  HTTPEnabled :: bool
  MTLSListenPort :: "16 word"
  MTLSClientCAPath :: string
  MTLSServerCertPath :: string
  MTLSServerKeyPath :: string

record RoutingAPIConfig =
  routing_Locket :: ClientLocketConfig
  API :: APIConfig

record SQLConfig =
  DriverName :: string
  DBName :: string
  sql_Port :: int
  sql_Username :: string
  sql_Password :: string

definition RoutingAPI :: "platform \<Rightarrow> (string \<Rightarrow> int \<Rightarrow> SQLConfig \<Rightarrow> (RoutingAPIConfig \<Rightarrow> RoutingAPIConfig) list \<Rightarrow> go_error + 'r)
    \<Rightarrow> commonComponentMaker \<Rightarrow> (RoutingAPIConfig \<Rightarrow> RoutingAPIConfig) list \<Rightarrow> ('s, 'r) op" where
  "RoutingAPI P NewRoutingAPIRunner maker ms =
     (let binPath = executable maker ''routing-api'';
          sqlConfig = \<lparr>DriverName = dbDriverName maker, DBName = ''routingapi_'' @ Itoa (GinkgoParallelProcess P),
            sql_Port = 0, sql_Username = [], sql_Password = []\<rparr> in
     andThen (claim_ports 2) (\<lambda>claimed.
     andThen (expect_val claimed) (\<lambda>port.
     andThen (LookupEnv ''DB_USER'') (\<lambda>u.
     let user = (case u of None \<Rightarrow> ''diego'' | Some v \<Rightarrow> v) in
     andThen
       (if dbDriverName maker = ''mysql'' then
          andThen (LookupEnv ''DB_PASSWORD'') (\<lambda>p.
          let password = (case p of None \<Rightarrow> ''diego_password'' | Some v \<Rightarrow> v)
          in ret (sqlConfig\<lparr>sql_Port := 3306, sql_Username := user, sql_Password := password\<rparr>))
        else
          andThen (LookupEnv ''DB_PASSWORD'') (\<lambda>p.
          let password = (case p of None \<Rightarrow> ''diego_pw'' | Some v \<Rightarrow> v)
          in ret (sqlConfig\<lparr>sql_Port := 5432, sql_Username := user, sql_Password := password\<rparr>))) (\<lambda>sqlConfig.
     let ms = ms @ [\<lambda>c. c\<lparr>routing_Locket := locketClientConfig maker\<rparr>];
         ms = ms @ [\<lambda>c. c\<lparr>API := \<lparr>ListenPort = port, HTTPEnabled = True, MTLSListenPort = port + 2,
           MTLSClientCAPath = CACert (routingAPISSL maker), MTLSServerCertPath = ServerCert (routingAPISSL maker),
           MTLSServerKeyPath = ServerKey (routingAPISSL maker)\<rparr>\<rparr>]
     in expect_val (NewRoutingAPIRunner binPath (uint (port + 1)) sqlConfig ms))))))"

section \<open>Locket\<close>

record LocketConfig =
  locket_CertFile :: string
  locket_KeyFile :: string
  locket_CaFile :: string
  locket_DatabaseConnectionString :: string
  locket_DatabaseDriver :: string
  locket_ListenAddress :: string
  locket_SQLCACertFile :: string
  locket_LagerConfig :: LagerConfig

definition Locket :: "'l lib_scheme \<Rightarrow> (string \<Rightarrow> (LocketConfig \<Rightarrow> LocketConfig) \<Rightarrow> 'r) \<Rightarrow> commonComponentMaker
    \<Rightarrow> (LocketConfig \<Rightarrow> LocketConfig) list \<Rightarrow> 'r" where
  "Locket L NewLocketRunner maker ms =
     NewLocketRunner (executable maker ''locket'') (\<lambda>cfg. modified ms
       (cfg\<lparr>locket_CertFile := ServerCert (locketSSL maker),
         locket_KeyFile := ServerKey (locketSSL maker),
         locket_CaFile := CACert (locketSSL maker),
         locket_DatabaseConnectionString := SQL_addr (addresses maker),
         locket_DatabaseDriver := dbDriverName maker,
         locket_ListenAddress := Locket_addr (addresses maker),
         locket_SQLCACertFile := sqlCACertFile maker,
         locket_LagerConfig := debug_lager L\<rparr>))"

section \<open>Route emitters\<close>

record RouteEmitterConfig =
  emitter_LocketSessionName :: string
  emitter_NATSAddresses :: string
  emitter_BBSAddress :: string
  emitter_LockRetryInterval :: int
  emitter_LagerConfig :: LagerConfig
  emitter_BBSClientCertFile :: string
  emitter_BBSClientKeyFile :: string
  emitter_BBSCACertFile :: string
  emitter_CommunicationTimeout :: int
  emitter_LockTTL :: int
  emitter_NATSUsername :: string
  emitter_NATSPassword :: string
  emitter_RouteEmittingWorkers :: int
  emitter_SyncInterval :: int
  emitter_TCPRouteTTL :: int
  emitter_UnregistrationInterval :: int
  emitter_UnregistrationSendCount :: int
  emitter_EnableTCPEmitter :: bool
  emitter_EnableInternalEmitter :: bool
  emitter_RegisterDirectInstanceRoutes :: bool
  emitter_ClientLocketConfig :: "ClientLocketConfig option"
  emitter_UUID :: string

definition RouteEmitterN :: "platform \<Rightarrow> 'l lib_scheme \<Rightarrow> (RouteEmitterConfig \<Rightarrow> go_error + string) \<Rightarrow> commonComponentMaker
    \<Rightarrow> int \<Rightarrow> (RouteEmitterConfig \<Rightarrow> RouteEmitterConfig) list \<Rightarrow> ('s, 's runner) op" where
  "RouteEmitterN P L json maker n ms =
     (let name = ''route-emitter-'' @ Itoa n in
     andThen (TempDirWithParent P (tmpDir maker) ''route-emitter'') (\<lambda>dir.
     andThen (expect_ok (CreateTemp P dir ''route-emitter-config'')) (\<lambda>configFile.
     let cfg = modified ms
       \<lparr>emitter_LocketSessionName = name,
        emitter_NATSAddresses = NATS_addr (addresses maker),
        emitter_BBSAddress = BBSURL maker,
        emitter_LockRetryInterval = Second,
        emitter_LagerConfig = debug_lager L,
        emitter_BBSClientCertFile = ClientCert (bbsSSL maker),
        emitter_BBSClientKeyFile = ClientKey (bbsSSL maker),
        emitter_BBSCACertFile = CACert (bbsSSL maker),
        emitter_CommunicationTimeout = 30 * Second,
        emitter_LockTTL = DefaultSessionTTL L,
        emitter_NATSUsername = ''nats'',
        emitter_NATSPassword = ''nats'',
        emitter_RouteEmittingWorkers = 20,
        emitter_SyncInterval = Minute,
        emitter_TCPRouteTTL = 2 * Minute,
        emitter_UnregistrationInterval = 30 * Second,
        emitter_UnregistrationSendCount = 20,
        emitter_EnableTCPEmitter = False,
        emitter_EnableInternalEmitter = False,
        emitter_RegisterDirectInstanceRoutes = False,
        emitter_ClientLocketConfig = Some (locketClientConfig maker),
        emitter_UUID = ''route-emitter-inigo-lock-owner''\<rparr> in
     andThen (write_encoded P configFile (json cfg)) (\<lambda>_.
     ret \<lparr>Name = name, AnsiColorCode = ''36m'',
       StartCheck = quoted (name @ ''.watcher.sync.complete''),
       StartCheckTimeout = startCheckTimeout maker,
       Command = (executable maker ''route-emitter'', [''-config'', configFile]),
       Cleanup = expect_ok (RemoveAll P configFile)\<rparr>))))"

section \<open>The file server\<close>

record FileServerConfig =
  ServerAddress :: string
  files_LagerConfig :: LagerConfig
  StaticDirectory :: string

text \<open>
  The copy of one lifecycle into the served files, unless there is none: the program and its
  arguments, where \<open>win_dest\<close> is the directory the command for Windows names.
\<close>

definition serve_lifecycle :: "platform \<Rightarrow> string \<Rightarrow> string \<Rightarrow> string \<Rightarrow> string \<Rightarrow> ('s, unit) op" where
  "serve_lifecycle P file dest win_dest archive =
     andThen (attempt (Stat P file)) (\<lambda>r.
     if (case r of Inl err \<Rightarrow> is_not_exist err | Inr _ \<Rightarrow> False) then ret ()
     else expect_ok
       (if windows P
        then Run P ''powershell'' [''-Command'', ''cp -Recurse -Force '' @ file @ '' '' @ filepath_Join P [win_dest, archive]] []
        else Run P ''cp'' [file, filepath_Join P [dest, archive]] []))"

definition FileServer :: "platform \<Rightarrow> 'l lib_scheme \<Rightarrow> (FileServerConfig \<Rightarrow> go_error + string) \<Rightarrow> commonComponentMaker
    \<Rightarrow> ('s, 's runner \<times> string) op" where
  "FileServer P L json maker =
     andThen (TempDirWithParent P (tmpDir maker) ''file-server-files'') (\<lambda>servedFilesDir.
     andThen (TempDirWithParent P (tmpDir maker) ''file-server'') (\<lambda>dir.
     andThen (expect_ok (CreateTemp P dir ''file-server-config'')) (\<lambda>configFile.
     let cfg = \<lparr>ServerAddress = FileServer_addr (addresses maker), files_LagerConfig = debug_lager L,
           StaticDirectory = servedFilesDir\<rparr>;
         buildpackAppLifeCycleDir = filepath_Join P [servedFilesDir, ''buildpack_app_lifecycle''] in
     andThen (expect_ok (Mkdir P buildpackAppLifeCycleDir 493)) (\<lambda>_.
     andThen (serve_lifecycle P (at_key (Lifecycles (artifacts maker)) ''buildpackapplifecycle'')
       buildpackAppLifeCycleDir buildpackAppLifeCycleDir ''buildpack_app_lifecycle.tgz'') (\<lambda>_.
     let dockerAppLifeCycleDir = filepath_Join P [servedFilesDir, ''docker_app_lifecycle''] in
     andThen (expect_ok (Mkdir P dockerAppLifeCycleDir 493)) (\<lambda>_.
     andThen (serve_lifecycle P (at_key (Lifecycles (artifacts maker)) ''dockerapplifecycle'')
       dockerAppLifeCycleDir buildpackAppLifeCycleDir ''docker_app_lifecycle.tgz'') (\<lambda>_.
     andThen (write_encoded P configFile (json cfg)) (\<lambda>_.
     ret (\<lparr>Name = ''file-server'', AnsiColorCode = ''92m'', StartCheck = quoted ''file-server.ready'',
        StartCheckTimeout = startCheckTimeout maker,
        Command = (executable maker ''file-server'', [''-config'', configFile]),
        Cleanup = andThen (expect_ok (RemoveAll P servedFilesDir)) (\<lambda>_. expect_ok (RemoveAll P configFile))\<rparr>,
       servedFilesDir)))))))))"

section \<open>The router\<close>

text \<open>\<open>%d\<close> of a \<open>uint16\<close> conversion.\<close>

definition uint16_text :: "int \<Rightarrow> string" where
  "uint16_text i = Itoa (uint (word_of_int i :: 16 word))"

text \<open>The template, line by line, with the values of its six verbs.\<close>

definition router_lines :: "int \<Rightarrow> int \<Rightarrow> string \<Rightarrow> int \<Rightarrow> int \<Rightarrow> int \<Rightarrow> string list" where
  \<open>router_lines status routes natsHost natsPort router routeServices =
     [''status:'',
      ''  port: '' @ uint16_text status,
      ''  user: ""'',
      ''  pass: ""'',
      ''  routes:'',
      ''    port: '' @ uint16_text routes,
      ''nats:'',
      ''  hosts:'',
      ''  - hostname: '' @ natsHost,
      ''    port: '' @ uint16_text natsPort,
      ''  user: ""'',
      ''  pass: ""'',
      ''logging:'',
      ''  file: /dev/stdout'',
      ''  syslog: ""'',
      ''  level: info'',
      ''  loggregator_enabled: false'',
      ''  metron_address: 127.0.0.1:65534'',
      ''port: '' @ uint16_text router,
      ''index: 0'',
      ''zone: ""'',
      ''tracing:'',
      ''  enable_zipkin: false'',
      ''trace_key: ""'',
      ''access_log:'',
      ''  file: ""'',
      ''  enable_streaming: false'',
      ''enable_access_log_streaming: false'',
      ''debug_addr: ""'',
      ''enable_proxy: false'',
      ''enable_ssl: false'',
      ''ssl_port: 0'',
      ''ssl_cert_path: ""'',
      ''ssl_key_path: ""'',
      ''sslcertificate:'',
      ''  certificate: []'',
      ''  privatekey: null'',
      ''  ocspstaple: []'',
      ''  signedcertificatetimestamps: []'',
      ''  leaf: null'',
      ''skip_ssl_validation: false'',
      ''cipher_suites: "TLS_ECDHE_RSA_WITH_AES_128_CBC_SHA256"'',
      ''ciphersuites: []'',
      ''load_balancer_healthy_threshold: 0s'',
      ''publish_start_message_interval: 0s'',
      ''suspend_pruning_if_nats_unavailable: false'',
      ''prune_stale_droplets_interval: 5s'',
      ''droplet_stale_threshold: 10s'',
      ''publish_active_apps_interval: 0s'',
      ''start_response_delay_interval: 1s'',
      ''endpoint_timeout: 0s'',
      ''route_services_timeout: 0s'',
      ''secure_cookies: false'',
      ''oauth:'',
      ''  token_endpoint: ""'',
      ''  port: 0'',
      ''  skip_ssl_validation: false'',
      ''  client_name: ""'',
      ''  client_secret: ""'',
      ''  ca_certs: ""'',
      ''routing_api:'',
      ''  uri: ""'',
      ''  port: 0'',
      ''  auth_disabled: false'',
      ''route_services_internal_server_port: '' @ uint16_text routeServices,
      ''route_services_secret: ""'',
      ''route_services_secret_decrypt_only: ""'',
      ''route_services_recommend_https: false'',
      ''extra_headers_to_log: []'',
      ''token_fetcher_max_retries: 0'',
      ''token_fetcher_retry_interval: 0s'',
      ''token_fetcher_expiration_buffer_time: 0'',
      ''pid_file: ""'']\<close>

definition router_config :: "int \<Rightarrow> int \<Rightarrow> string \<Rightarrow> int \<Rightarrow> int \<Rightarrow> int \<Rightarrow> string" where
  "router_config status routes natsHost natsPort router routeServices =
     newline @ concat (map (\<lambda>l. l @ newline) (router_lines status routes natsHost natsPort router routeServices))"

text \<open>
  \<open>os.Remove\<close> of a file. The source removes only files with it, so the other half of the
  call, the removal of an empty directory, is left out: a directory is refused.
\<close>

definition Remove :: "platform \<Rightarrow> string \<Rightarrow> (go_error, 's os_scheme, unit) comp" where
  "Remove P name = sys P ''remove'' name (\<lambda>s. case fs s name of
     None \<Rightarrow> (Inl ENOENT, s)
   | Some (File _ _) \<Rightarrow> (Inr (), s\<lparr>fs := (fs s)(name := None)\<rparr>)
   | Some (Dir _) \<Rightarrow> (Inl EISDIR, s))"

definition address_port :: "string \<Rightarrow> ('s, int) op" where
  "address_port addr =
     andThen (expect_val (SplitHostPort addr)) (\<lambda>(_, port). expect_val (Atoi port))"

definition Router :: "platform \<Rightarrow> commonComponentMaker \<Rightarrow> ('s, 's runner) op" where
  "Router P maker =
     andThen (address_port (Router_addr (addresses maker))) (\<lambda>routerPortInt.
     andThen (address_port (RouterStatus_addr (addresses maker))) (\<lambda>routerStatusPortInt.
     andThen (address_port (RouterRoutes_addr (addresses maker))) (\<lambda>routerRoutesPortInt.
     andThen (address_port (RouterRouteServices_addr (addresses maker))) (\<lambda>routerRouteServicesPortInt.
     andThen (expect_val (SplitHostPort (NATS_addr (addresses maker)))) (\<lambda>(natsHost, natsPort).
     andThen (expect_val (Atoi natsPort)) (\<lambda>natsPortInt.
     let routerConfig = router_config routerStatusPortInt routerRoutesPortInt natsHost natsPortInt
           routerPortInt routerRouteServicesPortInt in
     andThen (TempDirWithParent P (tmpDir maker) ''router-config'') (\<lambda>dir.
     andThen (expect_ok (CreateTemp P dir ''router-config'')) (\<lambda>configFile.
     andThen (expect_ok (file_Write P configFile routerConfig)) (\<lambda>_.
     ret \<lparr>Name = ''router'', AnsiColorCode = ''93m'', StartCheck = ''router.started'',
       StartCheckTimeout = startCheckTimeout maker,
       Command = (executable maker ''router'', [''-c'', configFile]),
       Cleanup = expect_ok (Remove P configFile)\<rparr>)))))))))"

section \<open>The SSH proxy\<close>

record SSHProxyConfig =
  Address :: string
  HealthCheckAddress :: string
  proxy_BBSAddress :: string
  BBSCACert :: string
  BBSClientCert :: string
  BBSClientKey :: string
  EnableDiegoAuth :: bool
  proxy_HostKey :: string
  proxy_LagerConfig :: LagerConfig
  proxy_CommunicationTimeout :: int
  ConnectToInstanceAddress :: bool
  IdleConnectionTimeout :: int

definition SSHProxy :: "platform \<Rightarrow> 'l lib_scheme \<Rightarrow> (SSHProxyConfig \<Rightarrow> go_error + string) \<Rightarrow> commonComponentMaker
    \<Rightarrow> (SSHProxyConfig \<Rightarrow> SSHProxyConfig) list \<Rightarrow> ('s, 's runner) op" where
  "SSHProxy P L json maker ms =
     (let sshProxyConfig = modified ms
       \<lparr>Address = SSHProxy_addr (addresses maker),
        HealthCheckAddress = SSHProxyHealthCheck_addr (addresses maker),
        proxy_BBSAddress = BBSURL maker,
        BBSCACert = CACert (bbsSSL maker),
        BBSClientCert = ClientCert (bbsSSL maker),
        BBSClientKey = ClientKey (bbsSSL maker),
        EnableDiegoAuth = True,
        proxy_HostKey = HostKeyPem (sshConfig maker),
        proxy_LagerConfig = debug_lager L,
        proxy_CommunicationTimeout = 10 * Second,
        ConnectToInstanceAddress = False,
        IdleConnectionTimeout = 5 * Minute\<rparr> in
     andThen (expect_ok (CreateTemp P [] ''ssh-proxy-config'')) (\<lambda>configFile.
     andThen (write_encoded P configFile (json sshProxyConfig)) (\<lambda>_.
     ret \<lparr>Name = ''ssh-proxy'', AnsiColorCode = ''96m'', StartCheck = ''ssh-proxy.started'',
       StartCheckTimeout = startCheckTimeout maker,
       Command = (executable maker ''ssh-proxy'', [''-config'', configFile]),
       Cleanup = no_cleanup\<rparr>)))"

section \<open>Clients\<close>

text \<open>
  The constructors of the clients are parameters: an address, or the URL, the certificate
  files and the sizes of the session cache and of the pool of idle connections.
\<close>

definition GardenClient :: "(string \<Rightarrow> string \<Rightarrow> 'c) \<Rightarrow> commonComponentMaker \<Rightarrow> 'c" where
  "GardenClient connect maker = connect ''tcp'' (Garden_addr (addresses maker))"

definition BBSClient :: "(string \<Rightarrow> string \<Rightarrow> string \<Rightarrow> string \<Rightarrow> int \<Rightarrow> int \<Rightarrow> go_error + 'c) \<Rightarrow> commonComponentMaker
    \<Rightarrow> ('s, 'c) op" where
  "BBSClient NewClient maker =
     expect_val (NewClient (BBSURL maker) (CACert (bbsSSL maker)) (ClientCert (bbsSSL maker)) (ClientKey (bbsSSL maker)) 0 0)"

record TLSConfig =
  RequireTLS :: bool
  tls_CertFile :: string
  tls_KeyFile :: string
  tls_CaCertFile :: string
  ClientCacheSize :: int

text \<open>\<open>BeAnExistingFile\<close> asks \<open>os.Stat\<close>; its argument is the timeout of the HTTP client.\<close>

definition RepClientFactory :: "platform \<Rightarrow> (int \<Rightarrow> TLSConfig \<Rightarrow> go_error + 'c) \<Rightarrow> commonComponentMaker \<Rightarrow> ('s, 'c) op" where
  "RepClientFactory P NewClientFactory maker =
     andThen (attempt (Stat P (CACert (repSSL maker)))) (\<lambda>r.
     andThen (expect_that (\<not> isl r) ''to exist'') (\<lambda>_.
     expect_val (NewClientFactory (10 * Second)
       \<lparr>RequireTLS = True, tls_CertFile = ClientCert (repSSL maker), tls_KeyFile = ClientKey (repSSL maker),
        tls_CaCertFile = CACert (repSSL maker), ClientCacheSize = 100\<rparr>)))"

definition BBSServiceClient :: "(ClientLocketConfig \<Rightarrow> go_error + 'l) \<Rightarrow> ('l \<Rightarrow> 'c) \<Rightarrow> commonComponentMaker \<Rightarrow> ('s, 'c) op" where
  "BBSServiceClient NewClient NewServiceClient maker =
     andThen (expect_val (NewClient (locketClientConfig maker))) (\<lambda>locketClient.
     ret (NewServiceClient locketClient))"

section \<open>Volume drivers\<close>

text \<open>The directory of the drivers of this Ginkgo process.\<close>

definition node_drivers :: "platform \<Rightarrow> commonComponentMaker \<Rightarrow> string" where
  "node_drivers P maker = path_Join [volmanDriverConfigDir maker, ''node-'' @ Itoa (GinkgoParallelProcess P)]"

definition VolmanClient :: "platform \<Rightarrow> go_error + 'm \<Rightarrow> ('m \<Rightarrow> string list \<Rightarrow> 'c) \<Rightarrow> commonComponentMaker \<Rightarrow> ('s, 'c) op" where
  "VolmanClient P NewIngressClient NewServer maker =
     andThen (expect_val NewIngressClient) (\<lambda>metronClient.
     ret (NewServer metronClient [node_drivers P maker]))"

definition VolmanDriver :: "platform \<Rightarrow> (string \<Rightarrow> go_error + 'd) \<Rightarrow> commonComponentMaker \<Rightarrow> ('s, 's runner \<times> 'd) op" where
  "VolmanDriver P NewRemoteClient maker =
     andThen (claim_ports 1) (\<lambda>claimed.
     andThen (expect_val claimed) (\<lambda>debugServerPort.
     let debugServerAddress = ''0.0.0.0:'' @ Itoa (uint debugServerPort);
         fakeDriverRunner = \<lparr>Name = ''local-driver'', AnsiColorCode = [], StartCheck = ''localdriver-server.started'',
           StartCheckTimeout = 0,
           Command = (executable maker ''local-driver'',
             [''-listenAddr'', FakeVolmanDriver_addr (addresses maker),
              ''-debugAddr'', debugServerAddress,
              ''-mountDir'', volmanDriverConfigDir maker,
              ''-logLevel'', ''debug'',
              ''-driversPath'', node_drivers P maker,
              ''-transport'', ''tcp-json'',
              ''-uniqueVolumeIds'']),
           Cleanup = no_cleanup\<rparr> in
     andThen (expect_val (NewRemoteClient (''http://'' @ FakeVolmanDriver_addr (addresses maker)))) (\<lambda>client.
     ret (fakeDriverRunner, client))))"

end
