(* ===== verification/World_Configs.thy ===== *)
theory World_Configs
  imports World_Common
begin

text \<open>
  What the methods of \<open>commonComponentMaker\<close> (theory \<open>World_Common\<close>) leave on disk, claim
  from the port allocator and run: the configuration files and their cleanup, the served
  files, the ports of the routing API, of Garden and of the router.
\<close>

section \<open>Shared lemmas\<close>

lemma claim_ports_Inr:
  assumes "claim_ports n s = (Inr (Inr w), t)" and "port_inv (allocator s)" and "1 \<le> n"
    and "nat n + last_no (allocator s) \<le> 65535"
  shows "unat w = next_no (allocator s)" and "next_no (allocator t) = next_no (allocator s) + nat n"
    and "last_no (allocator t) = last_no (allocator s)" and "port_inv (allocator t)"
    and "next_no (allocator t) \<le> last_no (allocator s) + 1"
proof -
  from assms(1) have c: "ClaimPorts n (allocator s) = (Inr w, allocator t)"
    by (auto simp: claim_ports_def split: prod.splits sum.splits)
  from alloc.claim_granted [OF assms(2-4), of w] c
  show "unat w = next_no (allocator s)" "next_no (allocator t) = next_no (allocator s) + nat n" by simp_all
  show last: "last_no (allocator t) = last_no (allocator s)" using alloc.claim_last [of n "allocator s"] c by simp
  show inv: "port_inv (allocator t)" using alloc.claim_inv [OF assms(2-4)] c by simp
  from alloc.inv_bound [OF inv] last show "next_no (allocator t) \<le> last_no (allocator s) + 1" by simp
qed

lemma uint_unat: "uint w = int (unat w)"
  by simp

text \<open>A configuration file: created empty in a new place, then filled.\<close>

lemma extends_file: "extends f s \<Longrightarrow> f p = Some x \<Longrightarrow> fs s p = Some x"
  by (auto simp: extends_def map_le_def dom_def)

lemma write_encoded_Inr:
  assumes "write_encoded P p enc s = (Inr u, t)" and "fs s p = Some (File m d)"
  shows "\<exists>data. enc = Inr data \<and> fs t = (fs s)(p \<mapsto> File m (d @ data))"
  using assms by (auto simp: write_encoded_def comp_iffs expect_val_Inr_iff dest: file_Write_Inr)

lemma TempDirWithParent_mono:
  assumes "TempDirWithParent P d pre s = (r, t)"
  shows "fs s \<subseteq>\<^sub>m fs t"
  using keeps_run [OF extends_TempDirWithParent assms extends_refl] by (simp add: extends_def)

lemma map_le_None: "f \<subseteq>\<^sub>m g \<Longrightarrow> g p = None \<Longrightarrow> f p = None"
  by (auto simp: map_le_def dom_def)

text \<open>Where a configuration file is: below the directory it was made for.\<close>

lemma TempDirWithParent_below:
  assumes "TempDirWithParent P d pre s = (Inr dir, t)" and "d \<noteq> []" and "last d \<noteq> sep P"
  shows "prefix (d @ [sep P]) dir"
proof -
  from assms(1) obtain u where "MkdirTemp P d pre s = (Inr dir, u)" by (auto simp: TempDirWithParent_def comp_iffs)
  with assms(2) obtain q suf x where "temp_loop P (\<lambda>n. Mkdir P n 448) x (joinPath P d q) suf 0 s = (Inr dir, u)"
    by (auto simp: MkdirTemp_def Let_def split: sum.splits prod.splits if_splits)
  from new_dir.temp_loop_Inr(3) [OF this] assms(3) show ?thesis by (auto simp: joinPath_def prefix_def)
qed

lemma index_of_none: "c \<notin> set s \<Longrightarrow> index_of c s = None"
  by (induction s) auto

lemma sep_not_in: "CHR ''/'' \<notin> set x \<Longrightarrow> CHR 0x5C \<notin> set x \<Longrightarrow> sep P \<notin> set x"
  by (simp add: sep_def)

lemma CreateTemp_place:
  assumes "CreateTemp P d pre s = (Inr f, t)" and "sep P \<notin> set pre" and "CHR ''*'' \<notin> set pre"
  shows "\<exists>y. f = joinPath P (if d = [] then os_TempDir P s else d) pre @ y"
proof -
  have "last_index_of (CHR ''*'') pre = None"
    using assms(3) index_of_none [of "CHR ''*''" "rev pre"] by (simp add: last_index_of_def)
  with assms(1,2) obtain x where
    "temp_loop P (\<lambda>n. OpenExcl P n 384) x (joinPath P (if d = [] then os_TempDir P s else d) pre) [] 0 s = (Inr f, t)"
    by (auto simp: CreateTemp_def Let_def prefixAndSuffix_def)
  from new_file.temp_loop_Inr(3) [OF this] show ?thesis by auto
qed

lemma config_inside:
  assumes "TempDirWithParent P d pre s = (Inr dir, s1)" and "d \<noteq> []" and "last d \<noteq> sep P"
    and "CreateTemp P dir pat s1 = (Inr f, s2)" and "sep P \<notin> set pat" and "CHR ''*'' \<notin> set pat"
  shows "inside P d f"
proof -
  note p = TempDirWithParent_below [OF assms(1-3)]
  then have "dir \<noteq> []" by auto
  with CreateTemp_place [OF assms(4-6)] have "prefix dir f" by (auto simp: joinPath_def)
  with p show ?thesis by (auto simp: inside_def intro: prefix_order.trans)
qed

text \<open>The steps in front of every runner with a configuration file of its own.\<close>

lemma config_file:
  assumes "TempDirWithParent P d pre s = (Inr dir, s1)" and "CreateTemp P dir pattern s1 = (Inr f, s2)"
    and "write_encoded P f enc s2 = (Inr (), t)"
  shows "\<exists>data. enc = Inr data \<and> fs s f = None \<and> fs s dir = None \<and> f \<noteq> dir
    \<and> fs t = (fs s)(dir \<mapsto> Dir 493, f \<mapsto> File 384 data)"
proof -
  note d = TempDirWithParent_Inr [OF assms(1)] and c = CreateTemp_Inr [OF assms(2)]
  from c(2) have "fs s2 f = Some (File 384 [])" by simp
  from write_encoded_Inr [OF assms(3) this] obtain data where
    data: "enc = Inr data" "fs t = (fs s2)(f \<mapsto> File 384 data)" by auto
  from c(1) d(2) have "f \<noteq> dir" by auto
  moreover from c(1) d have "fs s f = None" by (auto split: if_splits)
  ultimately show ?thesis using data c(2) d by auto
qed

section \<open>The ports of the routing API\<close>

text \<open>
  Property C39. \<open>RoutingAPI\<close> claims two ports and gives the first to the API and the second to
  the SQL runner, but lets the API listen for mutual TLS on a third one that it did not
  claim: that is the port the next claim from the allocator, of whatever size, gets.
\<close>

theorem routing_api_unclaimed_port:
  assumes "RoutingAPI P (\<lambda>bin sqlPort sql ms. Inr (sqlPort, API (modified ms cfg))) maker ms s = (Inr (sqlPort, api), t)"
    and "port_inv (allocator s)" and "2 + last_no (allocator s) \<le> 65535"
    and "claim_ports n t = (Inr (Inr w), u)" and "1 \<le> n" and "nat n + last_no (allocator s) \<le> 65535"
  shows "ListenPort api = of_nat (next_no (allocator s)) \<and> sqlPort = int (next_no (allocator s)) + 1
    \<and> MTLSListenPort api = w"
proof -
  from assms(1) obtain w1 s1 where c: "claim_ports 2 s = (Inr (Inr w1), s1)" and rest: "t = s1"
      "sqlPort = uint (w1 + 1)" "ListenPort api = w1" "MTLSListenPort api = w1 + 2"
    by (auto simp: RoutingAPI_def Let_def andThen_Inr_iff expect_val_Inr_iff LookupEnv_Inr_iff split: if_splits)
  note p = claim_ports_Inr [OF c assms(2) _ ] and q = claim_ports_Inr [OF assms(4) [unfolded rest(1)]]
  have w1: "unat w1 = next_no (allocator s)" "next_no (allocator s1) = next_no (allocator s) + 2"
    "port_inv (allocator s1)" "last_no (allocator s1) = last_no (allocator s)"
    "next_no (allocator s1) \<le> last_no (allocator s) + 1"
    using p assms(3) by simp_all
  have w: "unat w = next_no (allocator s) + 2"
    using q [OF w1(3) assms(5)] assms(6) w1(2,4) by simp
  have w2: "uint (w1 + 1) = int (next_no (allocator s)) + 1"
    using w1 assms(3) by (simp add: uint_unat unat_word_ariths del: of_nat_unat)
  have "unat (w1 + 2) = next_no (allocator s) + 2"
    using w1 assms(3) by (simp add: unat_word_ariths)
  with w have "w = w1 + 2" unfolding word_unat_eq_iff by simp
  moreover have "w1 = of_nat (next_no (allocator s))" by (simp flip: w1(1))
  ultimately show ?thesis using rest w2 by simp
qed

text \<open>The user and the password, from the environment or the default.\<close>

definition db_user :: "'s os_scheme \<Rightarrow> string" where
  "db_user s = (case env s ''DB_USER'' of None \<Rightarrow> ''diego'' | Some v \<Rightarrow> v)"

definition db_password :: "string \<Rightarrow> 's os_scheme \<Rightarrow> string" where
  "db_password standard s = (case env s ''DB_PASSWORD'' of None \<Rightarrow> standard | Some v \<Rightarrow> v)"

lemma DBInfo_Inr:
  assumes "DBInfo L s = (Inr (driver, base), t)"
  shows "UsePostgres L \<Longrightarrow> driver = ''postgres'' \<and>
      base = ''postgres://'' @ db_user s @ '':'' @ db_password ''diego_pw'' s @ ''@127.0.0.1/''"
    and "\<not> UsePostgres L \<Longrightarrow> driver = ''mysql'' \<and>
      base = db_user s @ '':'' @ db_password ''diego_password'' s @ ''@tcp(localhost:3306)/''"
  using assms
  by (simp_all only: DBInfo_def Let_def andThen_Inr_iff LookupEnv_Inr_iff db_user_def db_password_def
      if_True if_False ret_run prod.inject sum.inject) (elim exE conjE; simp only: prod.inject sum.inject)+

lemma RoutingAPI_sql:
  assumes "RoutingAPI P (\<lambda>bin sqlPort sql ms. Inr sql) maker ms s = (Inr sql, t)"
  shows "DriverName sql = dbDriverName maker" and "sql_Username sql = db_user s"
    and "dbDriverName maker = ''mysql'' \<Longrightarrow> sql_Port sql = 3306 \<and> sql_Password sql = db_password ''diego_password'' s"
    and "dbDriverName maker \<noteq> ''mysql'' \<Longrightarrow> sql_Port sql = 5432 \<and> sql_Password sql = db_password ''diego_pw'' s"
proof -
  from assms show "DriverName sql = dbDriverName maker" "sql_Username sql = db_user s"
    by (auto simp: RoutingAPI_def Let_def andThen_Inr_iff expect_val_Inr_iff LookupEnv_Inr_iff claim_ports_def
        db_user_def split: prod.splits sum.splits if_splits)
  show "sql_Port sql = 3306 \<and> sql_Password sql = db_password ''diego_password'' s" if "dbDriverName maker = ''mysql''"
    using assms that
    by (auto simp: RoutingAPI_def Let_def andThen_Inr_iff expect_val_Inr_iff LookupEnv_Inr_iff claim_ports_def
        db_password_def split: prod.splits sum.splits)
  show "sql_Port sql = 5432 \<and> sql_Password sql = db_password ''diego_pw'' s" if "dbDriverName maker \<noteq> ''mysql''"
    using assms that
    by (auto simp: RoutingAPI_def Let_def andThen_Inr_iff expect_val_Inr_iff LookupEnv_Inr_iff claim_ports_def
        db_password_def split: prod.splits sum.splits)
qed

text \<open>
  The database credentials and the port \<open>RoutingAPI\<close> passes on are those of the
  connection string \<open>DBInfo\<close> gave to the maker, as long as the environment is the same.
\<close>

theorem routing_api_credentials:
  assumes "DBInfo L u = (Inr (dbDriverName maker, base), v)" and "env s = env u"
    and "RoutingAPI P (\<lambda>bin sqlPort sql ms. Inr sql) maker ms s = (Inr sql, t)"
  shows "base = (if UsePostgres L
        then ''postgres://'' @ sql_Username sql @ '':'' @ sql_Password sql @ ''@127.0.0.1/''
        else sql_Username sql @ '':'' @ sql_Password sql @ ''@tcp(localhost:'' @ Itoa (sql_Port sql) @ '')/'')
    \<and> DriverName sql = (if UsePostgres L then ''postgres'' else ''mysql'')
    \<and> sql_Port sql = (if UsePostgres L then 5432 else 3306)"
proof (cases "UsePostgres L")
  case True
  from DBInfo_Inr(1) [OF assms(1) True] have d: "dbDriverName maker = ''postgres''"
    "base = ''postgres://'' @ db_user s @ '':'' @ db_password ''diego_pw'' s @ ''@127.0.0.1/''"
    by (simp_all add: db_user_def db_password_def assms(2))
  have "dbDriverName maker \<noteq> ''mysql''" by (simp add: d)
  with RoutingAPI_sql [OF assms(3)] True d show ?thesis by simp
next
  case False
  from DBInfo_Inr(2) [OF assms(1) False] have d: "dbDriverName maker = ''mysql''"
    "base = db_user s @ '':'' @ db_password ''diego_password'' s @ ''@tcp(localhost:3306)/''"
    by (simp_all add: db_user_def db_password_def assms(2))
  have "''@tcp(localhost:'' @ Itoa 3306 @ '')/'' = ''@tcp(localhost:3306)/''" by code_simp
  with RoutingAPI_sql [OF assms(3)] False d show ?thesis by simp
qed

section \<open>The ports of Garden\<close>

text \<open>Writing a configuration file claims no port.\<close>

lemma files_blind_allocator: "files_blind (\<lambda>s. allocator s = a)"
  by (simp add: files_blind_def)

lemma grootfsConfigPath_allocator:
  assumes "grootfsConfigPath P yaml c s = (r, t)"
  shows "allocator t = allocator s"
proof -
  have "keeps (\<lambda>u. allocator u = allocator s) (grootfsConfigPath P yaml c)"
    unfolding grootfsConfigPath_def write_encoded_def
    by (intro keeps_andThen keeps_expect_ok keeps_expect_val CreateTemp_keeps keeps_file_Write keeps_ret files_blind_allocator)
  from keeps_run [OF this assms] show ?thesis by simp
qed

lemma DefaultStack_state: "DefaultStack L maker s = (Inr x, t) \<Longrightarrow> t = s"
  by (auto simp: DefaultStack_def andThen_Inr_iff expect_that_Inr_iff split: list.splits)

text \<open>
  On Linux Garden gets a pool of ten ports from the allocator: they start at the
  port its configuration names, and no later sequence of claims is given one of them.
\<close>

theorem garden_port_pool:
  fixes s t :: "'s world_scheme"
  assumes "Garden P L defaults yaml json maker [] s = (Inr r, t)" and "\<not> windows P"
    and "port_inv (allocator s)" and "10 + last_no (allocator s) \<le> 65535"
    and "\<forall>n \<in> set ns. 1 \<le> n \<and> nat n + last_no (allocator s) \<le> 65535"
  shows "PortPoolSize (garden_Config r) = Some 10
    \<and> PortPoolStart (garden_Config r) = Some (int (next_no (allocator s)))
    \<and> next_no (allocator s) + 10 \<le> last_no (allocator s) + 1
    \<and> set (ports_of (fst (claim_run ClaimPorts ns (allocator t))))
        \<inter> {next_no (allocator s) ..< next_no (allocator s) + 10} = {}"
proof -
  from assms(1,2) obtain s1 u :: "'s world_scheme" and w where before: "allocator s1 = allocator s"
    and c: "claim_ports 10 s1 = (Inr (Inr w), u)" and after: "allocator t = allocator u"
    and r: "PortPoolSize (garden_Config r) = Some 10" "PortPoolStart (garden_Config r) = Some (uint w)"
    by (auto simp: Garden_def World_Common.garden_def Let_def andThen_Inr_iff expect_val_Inr_iff
        dest!: grootfsConfigPath_allocator DefaultStack_state)
  note p = claim_ports_Inr [OF c, unfolded before, OF assms(3) _ ]
  have w: "unat w = next_no (allocator s)" "next_no (allocator u) = next_no (allocator s) + 10"
    "port_inv (allocator u)" "last_no (allocator u) = last_no (allocator s)"
    "next_no (allocator u) \<le> last_no (allocator s) + 1"
    using p assms(4) by simp_all
  have "set (ports_of (fst (claim_run ClaimPorts ns (allocator u)))) \<subseteq> {next_no (allocator u) .. last_no (allocator u)}"
    using alloc.run_disjoint(2) [OF w(3)] assms(5) w(4) by simp
  then have "set (ports_of (fst (claim_run ClaimPorts ns (allocator t))))
        \<inter> {next_no (allocator s) ..< next_no (allocator s) + 10} = {}"
    using w(2) after by fastforce
  with w r show ?thesis by (simp add: uint_unat del: of_nat_unat)
qed

section \<open>The served files\<close>

lemma Mkdir_ran: "Mkdir P d m s = (r, t) \<Longrightarrow> ran t = ran s"
  unfolding Mkdir_def by (rule sys_ran) (rule create_new_ran)

lemma Chmod_ran: "Chmod P d m s = (r, t) \<Longrightarrow> ran t = ran s"
  unfolding Chmod_def by (rule sys_ran) (auto split: option.split node.split)

lemma MkdirTemp_ran: "MkdirTemp P d pattern s = (Inr x, t) \<Longrightarrow> ran t = ran s"
proof -
  assume run: "MkdirTemp P d pattern s = (Inr x, t)"
  have "ran (snd (Mkdir P n 448 u)) = ran u" for n and u :: "'a os_scheme"
    by (metis Mkdir_ran prod.collapse)
  then have "ran (snd (temp_loop P (\<lambda>n. Mkdir P n 448) e pre suf a s)) = ran s" for e pre suf a
    by (rule temp_loop_ran)
  with run show ?thesis
    by (auto simp: MkdirTemp_def Let_def split: sum.splits prod.splits if_splits; metis snd_conv)
qed

lemma TempDirWithParent_ran: "TempDirWithParent P d pre s = (Inr x, t) \<Longrightarrow> ran t = ran s"
  by (auto simp: TempDirWithParent_def comp_iffs dest!: MkdirTemp_ran Chmod_ran)

text \<open>The command that copies a file, on either system.\<close>

definition copy_command :: "platform \<Rightarrow> string \<Rightarrow> string \<Rightarrow> string \<times> string list" where
  "copy_command P source target =
     (if windows P then (''powershell'', [''-Command'', ''cp -Recurse -Force '' @ source @ '' '' @ target])
      else (''cp'', [source, target]))"

text \<open>No system call fails and the programs that are run only add files.\<close>

definition well_behaved :: "platform \<Rightarrow> bool" where
  "well_behaved P \<longleftrightarrow> (\<forall>n. fault P n = None) \<and> (\<forall>prog args d f. f \<subseteq>\<^sub>m snd (exec P prog args d f))"

lemma Run_mono: "well_behaved P \<Longrightarrow> Run P prog args d s = (r, t) \<Longrightarrow> fs s \<subseteq>\<^sub>m fs t"
  by (auto simp: Run_def well_behaved_def split: prod.splits) (metis snd_conv)

lemma Mkdir_mono: "Mkdir P d m s = (Inr u, t) \<Longrightarrow> fs s \<subseteq>\<^sub>m fs t"
  by (drule new_dir.created) (auto simp: map_le_def)

lemma Stat_there: "well_behaved P \<Longrightarrow> fs s f \<noteq> None \<Longrightarrow> \<exists>n. Stat P f s = (Inr n, s\<lparr>calls := Suc (calls s)\<rparr>)"
  by (auto simp: Stat_def sys_def Let_def well_behaved_def)

lemma serve_lifecycle_Inr:
  assumes "serve_lifecycle P f dest win_dest archive s = (Inr u, t)" and "well_behaved P" and "fs s f \<noteq> None"
  shows "ran t = ran s @ [copy_command P f (filepath_Join P [if windows P then win_dest else dest, archive])]"
    and "fs s \<subseteq>\<^sub>m fs t"
proof -
  from Stat_there [OF assms(2,3)] obtain n where st: "Stat P f s = (Inr n, s\<lparr>calls := Suc (calls s)\<rparr>)" by blast
  let ?c = "copy_command P f (filepath_Join P [if windows P then win_dest else dest, archive])"
  from assms(1) st have run: "Run P (fst ?c) (snd ?c) [] (s\<lparr>calls := Suc (calls s)\<rparr>) = (Inr (), t)"
    by (simp add: serve_lifecycle_def attempt_def andThen_def expect_ok_Inr_iff copy_command_def split: if_splits)
  from Run_Inr [OF run] show "ran t = ran s @ [?c]" by simp
  from Run_mono [OF assms(2) run] show "fs s \<subseteq>\<^sub>m fs t" by simp
qed


section \<open>Configuration files\<close>

text \<open>
  A route emitter reads its configuration from a new file below the maker's
  directory, which holds the configuration as its caller modified it; nothing else was
  written but the file's own directory, and the cleanup removes the file and nothing else.
\<close>

theorem route_emitter_config:
  fixes s t :: "'s world_scheme"
  assumes "RouteEmitterN P L json maker n ms s = (Inr r, t)" and "tmpDir maker \<noteq> []" and "last (tmpDir maker) \<noteq> sep P"
  shows "\<exists>dir f cfg data. Command r = (executable maker ''route-emitter'', [''-config'', f])
    \<and> inside P (tmpDir maker) f \<and> json (modified ms cfg) = Inr data
    \<and> emitter_LocketSessionName cfg = ''route-emitter-'' @ Itoa n \<and> emitter_BBSAddress cfg = BBSURL maker
    \<and> fs s f = None \<and> fs t = (fs s)(dir \<mapsto> Dir 493, f \<mapsto> File 384 data)
    \<and> (\<forall>v w. Cleanup r v = (Inr (), w) \<longrightarrow> fs w = (\<lambda>p. if inside P f p then None else fs v p))"
proof -
  from assms(1) obtain dir f cfg s1 s2 where
    d: "TempDirWithParent P (tmpDir maker) ''route-emitter'' s = (Inr dir, s1)"
    and c: "CreateTemp P dir ''route-emitter-config'' s1 = (Inr f, s2)"
    and w: "write_encoded P f (json (modified ms cfg)) s2 = (Inr (), t)"
    and cfg: "emitter_LocketSessionName cfg = ''route-emitter-'' @ Itoa n" "emitter_BBSAddress cfg = BBSURL maker"
    and r: "Command r = (executable maker ''route-emitter'', [''-config'', f])" "Cleanup r = expect_ok (RemoveAll P f)"
    by (auto simp: RouteEmitterN_def Let_def andThen_Inr_iff expect_ok_Inr_iff)
  from config_file [OF d c w] obtain data where data: "json (modified ms cfg) = Inr data" "fs s f = None"
    "fs t = (fs s)(dir \<mapsto> Dir 493, f \<mapsto> File 384 data)" by blast
  have "inside P (tmpDir maker) f"
    by (rule config_inside [OF d assms(2,3) c sep_not_in]) simp_all
  moreover have "\<forall>v w. Cleanup r v = (Inr (), w) \<longrightarrow> fs w = (\<lambda>p. if inside P f p then None else fs v p)"
    using CreateTemp_nonempty [OF c] by (auto simp: r(2) expect_ok_Inr_iff fun_eq_iff dest: RemoveAll_removes)
  ultimately show ?thesis using r(1) cfg data by blast
qed

text \<open>
  The configuration of the SSH proxy outlives the specs: it is made beside the
  maker's directory and not in it, and the proxy's runner has no cleanup.
\<close>

theorem ssh_proxy_config_left:
  fixes s t :: "'s world_scheme"
  assumes "SSHProxy P L json maker ms s = (Inr r, t)"
    and "tmpDir maker = joinPath P (os_TempDir P s) ''component-maker'' @ x"
  shows "\<exists>f data. Command r = (executable maker ''ssh-proxy'', [''-config'', f])
    \<and> fs s f = None \<and> fs t = (fs s)(f \<mapsto> File 384 data)
    \<and> \<not> inside P (tmpDir maker) f \<and> (\<forall>v. Cleanup r v = (Inr (), v))"
proof -
  from assms(1) obtain f s1 cfg where c: "CreateTemp P [] ''ssh-proxy-config'' s = (Inr f, s1)"
    and w: "write_encoded P f (json cfg) s1 = (Inr (), t)"
    and r: "Command r = (executable maker ''ssh-proxy'', [''-config'', f])" "Cleanup r = no_cleanup"
    by (auto simp: SSHProxy_def Let_def andThen_Inr_iff expect_ok_Inr_iff)
  note c' = CreateTemp_Inr [OF c]
  from c'(2) have "fs s1 f = Some (File 384 [])" by simp
  from write_encoded_Inr [OF w this] c'(2) obtain data where "fs t = (fs s)(f \<mapsto> File 384 data)" by auto
  moreover obtain y where "f = joinPath P (os_TempDir P s) ''ssh-proxy-config'' @ y"
    using CreateTemp_place [OF c sep_not_in] by auto
  then have "\<not> inside P (tmpDir maker) f"
    by (auto simp: assms(2) inside_def joinPath_def prefix_def split: if_splits)
  ultimately show ?thesis using r c'(1) by (auto simp: no_cleanup_def)
qed

section \<open>The ports of the router\<close>

lemma uint16_text_port: "0 \<le> p \<Longrightarrow> p < 65536 \<Longrightarrow> uint16_text p = Itoa p"
  by (simp add: uint16_text_def uint_word_of_int)

lemma address_port_Itoa:
  assumes "plain_host h" and "0 \<le> p" and "p < 65536"
  shows "address_port (h @ '':'' @ Itoa p) s = (Inr p, s)"
  using SplitHostPort_Itoa [OF assms(1), of p] Atoi_Itoa [of p] assms(2,3)
  by (simp add: address_port_def int64_ok_def andThen_def)

text \<open>
  The router's file carries the ports of the addresses the suite was given: its
  own, those of its status and its routes endpoint and of the route services, and the host
  and the port of NATS, each on its own line of the configuration.
\<close>

theorem router_config_ports:
  fixes s t :: "'s world_scheme"
  assumes "Router P maker s = (Inr r, t)"
    and "Router_addr (addresses maker) = h1 @ '':'' @ Itoa router"
    and "RouterStatus_addr (addresses maker) = h2 @ '':'' @ Itoa status"
    and "RouterRoutes_addr (addresses maker) = h3 @ '':'' @ Itoa routes"
    and "RouterRouteServices_addr (addresses maker) = h4 @ '':'' @ Itoa services"
    and "NATS_addr (addresses maker) = h5 @ '':'' @ Itoa nats"
    and "\<forall>h \<in> {h1, h2, h3, h4, h5}. plain_host h"
    and "\<forall>p \<in> {router, status, routes, services, nats}. 0 \<le> p \<and> p < 65536"
  shows "\<exists>f lines m. Command r = (executable maker ''router'', [''-c'', f]) \<and> fs s f = None
    \<and> fs t f = Some (File m (newline @ concat (map (\<lambda>l. l @ newline) lines)))
    \<and> take 2 lines = [''status:'', ''  port: '' @ Itoa status]
    \<and> lines ! 5 = ''    port: '' @ Itoa routes
    \<and> lines ! 8 = ''  - hostname: '' @ h5 \<and> lines ! 9 = ''    port: '' @ Itoa nats
    \<and> lines ! 18 = ''port: '' @ Itoa router
    \<and> lines ! 64 = ''route_services_internal_server_port: '' @ Itoa services"
proof -
  let ?lines = "router_lines status routes h5 nats router services"
  have ports: "address_port (Router_addr (addresses maker)) u = (Inr router, u)"
    "address_port (RouterStatus_addr (addresses maker)) u = (Inr status, u)"
    "address_port (RouterRoutes_addr (addresses maker)) u = (Inr routes, u)"
    "address_port (RouterRouteServices_addr (addresses maker)) u = (Inr services, u)"
    "SplitHostPort (NATS_addr (addresses maker)) = Inr (h5, Itoa nats)" "Atoi (Itoa nats) = Inr nats" for u
    unfolding assms(2-6) using assms(7,8)
    by (intro address_port_Itoa SplitHostPort_Itoa Atoi_Itoa; simp add: int64_ok_def)+
  from assms(1) obtain dir f s1 s2 where
    d: "TempDirWithParent P (tmpDir maker) ''router-config'' s = (Inr dir, s1)"
    and c: "CreateTemp P dir ''router-config'' s1 = (Inr f, s2)"
    and w: "file_Write P f (router_config status routes h5 nats router services) s2 = (Inr (), t)"
    and r: "Command r = (executable maker ''router'', [''-c'', f])"
    by (auto simp: Router_def Let_def andThen_Inr_iff expect_ok_Inr_iff ports)
  from CreateTemp_Inr(2) [OF c] have "fs s2 f = Some (File 384 [])" by simp
  from file_Write_Inr [OF w this] have "fs t f = Some (File 384 (router_config status routes h5 nats router services))"
    by simp
  moreover have "fs s f = None"
    using CreateTemp_Inr(1) [OF c] TempDirWithParent_mono [OF d] map_le_None by metis
  moreover have "take 2 ?lines = [''status:'', ''  port: '' @ Itoa status]"
    "?lines ! 5 = ''    port: '' @ Itoa routes"
    "?lines ! 8 = ''  - hostname: '' @ h5" "?lines ! 9 = ''    port: '' @ Itoa nats"
    "?lines ! 18 = ''port: '' @ Itoa router"
    "?lines ! 64 = ''route_services_internal_server_port: '' @ Itoa services"
    using assms(8) by (simp_all add: router_lines_def uint16_text_port)
  ultimately show ?thesis using r unfolding router_config_def by blast
qed

section \<open>Runs of a suite\<close>

text \<open>
  A maker of a suite on Linux with the certificates left out, libraries that always answer,
  and a world in which both lifecycles were built.
\<close>

definition plain_ssl :: SSLConfig where
  "plain_ssl = \<lparr>ServerCert = ''s.crt'', ServerKey = ''s.key'', ClientCert = ''c.crt'', ClientKey = ''c.key'', CACert = ''/depot/ca.crt''\<rparr>"

definition plain_store :: GrootFSConfig where
  "plain_store = \<lparr>StorePath = ''/store'', DraxBin = ''drax'', grootfs_LogLevel = ''debug'',
     Create = \<lparr>JSON = True, UidMappings = [], GidMappings = [], SkipLayerValidation = True\<rparr>\<rparr>"

definition plain_addresses :: ComponentAddresses where
  "plain_addresses = demo_addresses\<lparr>NATS_addr := ''127.0.0.1:42'', Rep_addr := ''0.0.0.0:18'', Router_addr := ''127.0.0.1:80'',
     RouterStatus_addr := ''127.0.0.1:82'', RouterRoutes_addr := ''127.0.0.1:83'', RouterRouteServices_addr := ''127.0.0.1:84'',
     Garden_addr := ''127.0.0.1:77''\<rparr>"

definition plain_maker :: commonComponentMaker where
  "plain_maker = \<lparr>artifacts = \<lparr>Executables = [''rep'' \<mapsto> ''/bin/rep''],
       Lifecycles = [''buildpackapplifecycle'' \<mapsto> ''/b.tgz'', ''dockerapplifecycle'' \<mapsto> ''/d.tgz''], Healthcheck = ''/hc''\<rparr>,
     addresses = plain_addresses, rootFSes = [\<lparr>RootFS_Name = ''red-stack'', RootFS_Path = ''/rootfs''\<rparr>],
     gardenConfig = \<lparr>GrootFSBinPath = ''/groot'', GrootFSStorePath = [], GardenBinPath = ''/garden'', GardenGraphPath = ''/graph'',
       UnprivilegedGrootfsConfig = plain_store, PrivilegedGrootfsConfig = plain_store,
       networkPluginConfig = \<lparr>NetworkName = ''n'', SubnetRange = ''r'', GatewayAddress = ''g''\<rparr>\<rparr>,
     sshConfig = \<lparr>HostKey = ''h'', HostKeyPem = ''p'', PrivateKeyPem = ''u'', AuthorizedKey = ''a''\<rparr>,
     bbsSSL = plain_ssl, locketSSL = plain_ssl, repSSL = plain_ssl, auctioneerSSL = plain_ssl, routingAPISSL = plain_ssl,
     sqlCACertFile = ''sql.crt'', volmanDriverConfigDir = ''/tmp/component-maker0/guid1'', dbDriverName = ''mysql'',
     dbBaseConnectionString = ''diego:diego_password@tcp(localhost:3306)/'', startCheckTimeout = 10000000000,
     tmpDir = ''/tmp/component-maker0''\<rparr>"

definition plain_lib :: lib where
  "plain_lib = \<lparr>StackPathMap = (\<lambda>rs. map_of (map (\<lambda>r. (RootFS_Name r, RootFS_Path r)) rs)),
     RootFS_Names = map RootFS_Name, DefaultSessionTTL = 15, RetryInterval = 5, FormatRFC3339 = ''rfc3339''\<rparr>"

definition plain_world :: world where
  "plain_world = demo_world\<lparr>fs := (fs demo_world)(''/tmp/component-maker0'' \<mapsto> Dir 493, ''/b.tgz'' \<mapsto> File 420 ''b'', ''/d.tgz'' \<mapsto> File 420 ''d'')\<rparr>"

definition any_json :: "'a \<Rightarrow> go_error + string" where
  "any_json x = Inr ''{}''"

text \<open>A run that did not stop early is a result and a state.\<close>

lemma succeeded: "\<not> isl (fst r) \<Longrightarrow> r = (Inr (projr (fst r)), snd r)"
  by (cases "fst r") (simp_all add: prod_eq_iff)

definition routed_apis :: "(failure + int \<times> APIConfig) \<times> world" where
  "routed_apis = RoutingAPI demo_platform
     (\<lambda>bin sqlPort sql ms. Inr (sqlPort, API (modified ms \<lparr>routing_Locket = locketClientConfig plain_maker,
        API = \<lparr>ListenPort = 0, HTTPEnabled = False, MTLSListenPort = 0, MTLSClientCAPath = [], MTLSServerCertPath = [],
          MTLSServerKeyPath = []\<rparr>\<rparr>))) plain_maker [] plain_world"

theorem routing_api_unclaimed_port_witness:
  "\<exists>api. fst routed_apis = Inr (20001, api) \<and> ListenPort api = 20000
     \<and> fst (claim_ports 1 (snd routed_apis)) = Inr (Inr (MTLSListenPort api))"
proof -
  have "\<not> isl (fst routed_apis)" by code_simp
  then obtain p api where run: "routed_apis = (Inr (p, api), snd routed_apis)"
    using succeeded by (metis prod.collapse)
  have "fst (claim_ports 1 (snd routed_apis)) = Inr (Inr 20002)" by code_simp
  then have next_claim: "claim_ports 1 (snd routed_apis) = (Inr (Inr 20002), snd (claim_ports 1 (snd routed_apis)))"
    by (metis prod.collapse)
  have inv: "port_inv (allocator plain_world)" "next_no (allocator plain_world) = 20000" "last_no (allocator plain_world) = 20100"
    by (simp_all add: port_inv_def next_no_def last_no_def plain_world_def demo_world_def)
  from routing_api_unclaimed_port [OF run [unfolded routed_apis_def] inv(1) _ next_claim [unfolded routed_apis_def]] inv
  have "ListenPort api = 20000 \<and> p = 20001 \<and> MTLSListenPort api = 20002" by simp
  with run next_claim show ?thesis by (metis fst_conv)
qed

definition routed_sql :: "(failure + SQLConfig) \<times> world" where
  "routed_sql = RoutingAPI demo_platform (\<lambda>bin sqlPort sql ms. Inr sql) plain_maker [] plain_world"

theorem routing_api_credentials_witness:
  "dbBaseConnectionString plain_maker = sql_Username (projr (fst routed_sql)) @ '':'' @ sql_Password (projr (fst routed_sql))
     @ ''@tcp(localhost:'' @ Itoa (sql_Port (projr (fst routed_sql))) @ '')/''"
proof -
  have "\<not> isl (fst routed_sql)" by code_simp
  from succeeded [OF this] have run: "RoutingAPI demo_platform (\<lambda>bin sqlPort sql ms. Inr sql) plain_maker [] plain_world
      = (Inr (projr (fst routed_sql)), snd routed_sql)" by (simp flip: routed_sql_def)
  have db: "DBInfo demo_maker_lib plain_world = (Inr (dbDriverName plain_maker, dbBaseConnectionString plain_maker), plain_world)"
    "\<not> UsePostgres demo_maker_lib"
    by (simp_all add: DBInfo_def andThen_def LookupEnv_def plain_world_def demo_world_def plain_maker_def demo_maker_lib_def)
  from routing_api_credentials [OF db(1) refl run] db(2) show ?thesis by simp
qed

text \<open>Garden on the plain world, with empty defaults of its package.\<close>

definition plain_defaults :: "string \<Rightarrow> GdnRunnerConfig" where
  "plain_defaults tardis = \<lparr>Tardis = tardis, GdnBin = [], TarBin = [], InitBin = [], ExecRunnerBin = [], RuntimePluginBin = [],
     NSTarBin = [], ImagePluginBin = [], PrivilegedImagePluginBin = [], ImagePluginExtraArgs = [],
     PrivilegedImagePluginExtraArgs = [], NetworkPluginBin = [], NetworkPluginExtraArgs = [], MaxContainers = None,
     DenyNetworks = [], AllowHostAccess = None, PortPoolSize = None, PortPoolStart = None, DefaultRootFS = [],
     BindSocket = [], BindIP = [], BindPort = None\<rparr>"

definition plain_garden :: "(failure + GardenRunner) \<times> world" where
  "plain_garden = Garden demo_platform plain_lib plain_defaults demo_yaml any_json plain_maker [] plain_world"

lemma demo_linux: "\<not> windows demo_platform" "well_behaved demo_platform" "sep demo_platform = CHR ''/''"
  by (simp_all add: windows_def sep_def demo_platform_def well_behaved_def)

theorem garden_port_pool_witness:
  "PortPoolStart (garden_Config (projr (fst plain_garden))) = Some 20000
     \<and> set (ports_of (fst (claim_run ClaimPorts [2, 3] (allocator (snd plain_garden))))) \<inter> {20000 ..< 20010} = {}"
proof -
  have "\<not> isl (fst plain_garden)" by code_simp
  from succeeded [OF this] have run: "Garden demo_platform plain_lib plain_defaults demo_yaml any_json plain_maker [] plain_world
      = (Inr (projr (fst plain_garden)), snd plain_garden)" by (simp flip: plain_garden_def)
  have inv: "port_inv (allocator plain_world)" "next_no (allocator plain_world) = 20000" "last_no (allocator plain_world) = 20100"
    by (simp_all add: port_inv_def next_no_def last_no_def plain_world_def demo_world_def)
  from garden_port_pool [OF run demo_linux(1) inv(1), of "[2, 3]"] inv show ?thesis by simp
qed

definition plain_files :: "(failure + unit runner \<times> string) \<times> world" where
  "plain_files = FileServer demo_platform plain_lib any_json plain_maker plain_world"


lemma plain_dir: "tmpDir plain_maker \<noteq> []" "last (tmpDir plain_maker) \<noteq> sep demo_platform"
  "tmpDir plain_maker = joinPath demo_platform (os_TempDir demo_platform plain_world) ''component-maker'' @ ''0''"
  by (simp_all add: plain_maker_def demo_linux joinPath_def os_TempDir_def plain_world_def demo_world_def)

definition plain_emitter :: "(failure + unit runner) \<times> world" where
  "plain_emitter = RouteEmitterN demo_platform plain_lib any_json plain_maker 1 [] plain_world"

theorem route_emitter_config_witness:
  "\<exists>f. snd (Command (projr (fst plain_emitter))) = [''-config'', f] \<and> inside demo_platform ''/tmp/component-maker0'' f
     \<and> fs plain_world f = None \<and> fs (snd plain_emitter) f \<noteq> None"
proof -
  have "\<not> isl (fst plain_emitter)" by code_simp
  from succeeded [OF this] have run: "RouteEmitterN demo_platform plain_lib any_json plain_maker 1 [] plain_world
      = (Inr (projr (fst plain_emitter)), snd plain_emitter)" by (simp flip: plain_emitter_def)
  have "tmpDir plain_maker = ''/tmp/component-maker0''" by (simp add: plain_maker_def)
  with route_emitter_config [OF run plain_dir(1,2)] show ?thesis by auto
qed

definition plain_proxy :: "(failure + unit runner) \<times> world" where
  "plain_proxy = SSHProxy demo_platform plain_lib any_json plain_maker [] plain_world"

theorem ssh_proxy_config_left_witness:
  "\<exists>f. snd (Command (projr (fst plain_proxy))) = [''-config'', f] \<and> \<not> inside demo_platform (tmpDir plain_maker) f
     \<and> fs (snd (Cleanup (projr (fst plain_proxy)) (snd plain_proxy))) f \<noteq> None"
proof -
  have "\<not> isl (fst plain_proxy)" by code_simp
  from succeeded [OF this] have run: "SSHProxy demo_platform plain_lib any_json plain_maker [] plain_world
      = (Inr (projr (fst plain_proxy)), snd plain_proxy)" by (simp flip: plain_proxy_def)
  from ssh_proxy_config_left [OF run plain_dir(3)] show ?thesis by auto
qed

definition plain_router :: "(failure + unit runner) \<times> world" where
  "plain_router = Router demo_platform plain_maker plain_world"

lemma demo_ports:
  "Itoa 80 = ''80''" "Itoa 82 = ''82''" "Itoa 83 = ''83''" "Itoa 84 = ''84''" "Itoa 42 = ''42''"
  by code_simp+

lemma demo_router_addresses:
  "Router_addr (addresses plain_maker) = ''127.0.0.1'' @ '':'' @ Itoa 80"
  "RouterStatus_addr (addresses plain_maker) = ''127.0.0.1'' @ '':'' @ Itoa 82"
  "RouterRoutes_addr (addresses plain_maker) = ''127.0.0.1'' @ '':'' @ Itoa 83"
  "RouterRouteServices_addr (addresses plain_maker) = ''127.0.0.1'' @ '':'' @ Itoa 84"
  "NATS_addr (addresses plain_maker) = ''127.0.0.1'' @ '':'' @ Itoa 42"
  by (simp_all add: plain_maker_def plain_addresses_def demo_ports)

theorem router_config_ports_witness:
  "\<exists>f m lines. snd (Command (projr (fst plain_router))) = [''-c'', f]
     \<and> fs (snd plain_router) f = Some (File m (newline @ concat (map (\<lambda>l. l @ newline) lines)))
     \<and> lines ! 18 = ''port: '' @ Itoa 80"
proof -
  have "\<not> isl (fst plain_router)" by code_simp
  from succeeded [OF this] have run: "Router demo_platform plain_maker plain_world
      = (Inr (projr (fst plain_router)), snd plain_router)" by (simp flip: plain_router_def)
  have "plain_host ''127.0.0.1''" by code_simp
  with router_config_ports [OF run demo_router_addresses] show ?thesis by (auto simp del: append.simps)
qed

end
