(* ===== verification/World_SQL.thy ===== *)
theory World_SQL
  imports World_Configs
begin

text \<open>
  The runner \<open>SQL\<close> of \<open>world/components.go\<close>, which makes the database of a Ginkgo process and
  drops it again: its connections, its statements and the points where it becomes ready and
  waits for a signal.
\<close>

section \<open>The database server\<close>

text \<open>
  The database packages are parameters: whether opening a handle, \<open>Ping\<close>, \<open>Exec\<close> and \<open>Close\<close> fail
  in a state of the server, and the state afterwards. The handles are numbered in the order
  they are opened.
\<close>

record 'd sql_lib =
  Connect :: "string \<Rightarrow> string \<Rightarrow> 'd \<Rightarrow> go_error option \<times> 'd"
  Ping :: "nat \<Rightarrow> 'd \<Rightarrow> go_error option \<times> 'd"
  Exec :: "nat \<Rightarrow> string \<Rightarrow> 'd \<Rightarrow> go_error option \<times> 'd"
  CloseDB :: "nat \<Rightarrow> 'd \<Rightarrow> go_error option \<times> 'd"

text \<open>What happens at a handle, with whether the call succeeded.\<close>

datatype sql_event =
    Opened nat string
  | Pinged nat bool
  | Executed nat string bool
  | Closed nat bool
  | Ready
  | Signalled

record 'd sql_run =
  server :: 'd
  handles :: nat
  trace :: "sql_event list"

definition db_call :: "('d \<Rightarrow> go_error option \<times> 'd) \<Rightarrow> (bool \<Rightarrow> sql_event) \<Rightarrow> (go_error, 'd sql_run, unit) comp" where
  "db_call f event = (\<lambda>s. case f (server s) of
     (None, d) \<Rightarrow> (Inr (), s\<lparr>server := d, trace := trace s @ [event True]\<rparr>)
   | (Some e, d) \<Rightarrow> (Inl e, s\<lparr>server := d, trace := trace s @ [event False]\<rparr>))"

definition connect :: "'d sql_lib \<Rightarrow> string \<Rightarrow> string \<Rightarrow> (go_error, 'd sql_run, nat) comp" where
  "connect Q driver conn = (\<lambda>s. case Connect Q driver conn (server s) of
     (None, d) \<Rightarrow> (Inr (handles s), s\<lparr>server := d, handles := Suc (handles s), trace := trace s @ [Opened (handles s) conn]\<rparr>)
   | (Some e, d) \<Rightarrow> (Inl e, s\<lparr>server := d\<rparr>))"

definition ping :: "'d sql_lib \<Rightarrow> nat \<Rightarrow> (go_error, 'd sql_run, unit) comp" where
  "ping Q h = db_call (Ping Q h) (Pinged h)"

definition exec_sql :: "'d sql_lib \<Rightarrow> nat \<Rightarrow> string \<Rightarrow> (go_error, 'd sql_run, unit) comp" where
  "exec_sql Q h stmt = db_call (Exec Q h stmt) (Executed h stmt)"

definition close_db :: "'d sql_lib \<Rightarrow> nat \<Rightarrow> (go_error, 'd sql_run, unit) comp" where
  "close_db Q h = db_call (CloseDB Q h) (Closed h)"

text \<open>A statement whose error is ignored.\<close>

definition ignored :: "(go_error, 's, unit) comp \<Rightarrow> (failure, 's, unit) comp" where
  "ignored m = (\<lambda>s. (Inr (), snd (m s)))"

definition mark :: "sql_event \<Rightarrow> (failure, 'd sql_run, unit) comp" where
  "mark e = modify (\<lambda>s. s\<lparr>trace := trace s @ [e]\<rparr>)"

section \<open>The runner\<close>

definition sqlDBName :: "platform \<Rightarrow> string" where
  "sqlDBName P = ''diego_'' @ Itoa (GinkgoParallelProcess P)"

text \<open>
  The function from after its \<open>defer db.Close()\<close> on, where \<open>db\<close> is the first handle. \<open>polls\<close> is
  the number of further pings that fit into the time of an \<open>Eventually\<close>. The wait for a
  signal ends when one comes: the process is told to stop at the end of every spec.
\<close>

definition sql_body :: "platform \<Rightarrow> 'd sql_lib \<Rightarrow> nat \<Rightarrow> commonComponentMaker \<Rightarrow> nat \<Rightarrow> (failure, 'd sql_run, unit) comp" where
  "sql_body P Q polls maker db =
     andThen (eventually polls (ping Q db)) (\<lambda>_.
     andThen (ignored (exec_sql Q db (''DROP DATABASE '' @ sqlDBName P))) (\<lambda>_.
     andThen (expect_ok (exec_sql Q db (''CREATE DATABASE '' @ sqlDBName P))) (\<lambda>_.
     andThen (expect_ok (connect Q (dbDriverName maker) (dbBaseConnectionString maker @ sqlDBName P))) (\<lambda>db.
     andThen (eventually polls (ping Q db)) (\<lambda>_.
     andThen (expect_ok (close_db Q db)) (\<lambda>_.
     andThen (mark Ready) (\<lambda>_.
     andThen (mark Signalled) (\<lambda>_.
     andThen (expect_ok (connect Q (dbDriverName maker) (dbBaseConnectionString maker))) (\<lambda>db.
     andThen (eventually polls (ping Q db)) (\<lambda>_.
     expect_ok (exec_sql Q db (''DROP DATABASE '' @ sqlDBName P))))))))))))"

text \<open>
  The whole function. A failure is recovered by \<open>GinkgoRecover\<close>, after the deferred \<open>Close\<close> of
  the handle that \<open>db\<close> was when it was deferred: the failure Ginkgo records, if any, is the
  result, and the runner itself always returns nil.
\<close>

definition SQL :: "platform \<Rightarrow> 'd sql_lib \<Rightarrow> nat \<Rightarrow> commonComponentMaker \<Rightarrow> 'd sql_run \<Rightarrow> failure option \<times> 'd sql_run" where
  "SQL P Q polls maker s =
     (case expect_ok (connect Q (dbDriverName maker) (dbBaseConnectionString maker)) s of
        (Inl f, t) \<Rightarrow> (Some f, t)
      | (Inr db, t) \<Rightarrow>
          (case sql_body P Q polls maker db t of
             (Inl f, u) \<Rightarrow> (Some f, snd (close_db Q db u))
           | (Inr _, u) \<Rightarrow> (None, snd (close_db Q db u))))"

section \<open>Properties\<close>

text \<open>What a call adds to the trace.\<close>

lemma db_call_run: "db_call f event s = (r, t) \<Longrightarrow> trace t = trace s @ [event (\<not> isl r)] \<and> handles t = handles s"
  by (auto simp: db_call_def split: prod.splits option.splits)

lemma db_calls:
  "ping Q h s = (r, t) \<Longrightarrow> trace t = trace s @ [Pinged h (\<not> isl r)] \<and> handles t = handles s"
  "exec_sql Q h stmt s = (r, t) \<Longrightarrow> trace t = trace s @ [Executed h stmt (\<not> isl r)] \<and> handles t = handles s"
  "close_db Q h s = (r, t) \<Longrightarrow> trace t = trace s @ [Closed h (\<not> isl r)] \<and> handles t = handles s"
  by (auto simp: ping_def exec_sql_def close_db_def dest: db_call_run)

lemma connect_Inr: "connect Q driver conn s = (Inr h, t) \<Longrightarrow>
    h = handles s \<and> trace t = trace s @ [Opened h conn] \<and> handles t = Suc (handles s)"
  by (auto simp: connect_def split: prod.splits option.splits)

lemma connect_Inl: "connect Q driver conn s = (Inl e, t) \<Longrightarrow> trace t = trace s"
  by (auto simp: connect_def split: prod.splits option.splits)

lemma ignored_exec: "ignored (exec_sql Q h stmt) s = (r, t) \<Longrightarrow>
    r = Inr () \<and> (\<exists>b. trace t = trace s @ [Executed h stmt b]) \<and> handles t = handles s"
  using db_calls(2) [of Q h stmt s "fst (exec_sql Q h stmt s)" "snd (exec_sql Q h stmt s)"] by (auto simp: ignored_def)

text \<open>The pings of an \<open>Eventually\<close> that succeeds: some that fail, at most as many as there is time for, and one that does not.\<close>

definition reached :: "nat \<Rightarrow> nat \<Rightarrow> sql_event list \<Rightarrow> bool" where
  "reached polls h es \<longleftrightarrow> (\<exists>k \<le> polls. es = replicate k (Pinged h False) @ [Pinged h True])"

lemma eventually_ping: "eventually n (ping Q h) s = (Inr u, t) \<Longrightarrow>
    \<exists>es. reached n h es \<and> trace t = trace s @ es \<and> handles t = handles s"
proof (induction n arbitrary: s)
  case 0
  then show ?case by (auto simp: expect_ok_Inr_iff reached_def dest!: db_calls(1))
next
  case (Suc n)
  obtain r v where p: "ping Q h s = (r, v)" by fastforce
  note tr = db_calls(1) [OF p]
  show ?case
  proof (cases r)
    case (Inl e)
    with Suc p obtain k where "k \<le> n" "trace t = trace v @ replicate k (Pinged h False) @ [Pinged h True]" "handles t = handles v"
      by (fastforce simp: reached_def)
    with tr Inl have "reached (Suc n) h (replicate (Suc k) (Pinged h False) @ [Pinged h True])"
      "trace t = trace s @ replicate (Suc k) (Pinged h False) @ [Pinged h True]" "handles t = handles s"
      by (auto simp: reached_def intro!: exI [of _ "Suc k"])
    then show ?thesis by blast
  next
    case (Inr x)
    with Suc p tr show ?thesis by (auto simp: reached_def)
  qed
qed

text \<open>The function up to where it becomes ready, and from there on.\<close>

definition sql_before :: "platform \<Rightarrow> 'd sql_lib \<Rightarrow> nat \<Rightarrow> commonComponentMaker \<Rightarrow> nat \<Rightarrow> (failure, 'd sql_run, unit) comp" where
  "sql_before P Q polls maker db =
     andThen (eventually polls (ping Q db)) (\<lambda>_.
     andThen (ignored (exec_sql Q db (''DROP DATABASE '' @ sqlDBName P))) (\<lambda>_.
     andThen (expect_ok (exec_sql Q db (''CREATE DATABASE '' @ sqlDBName P))) (\<lambda>_.
     andThen (expect_ok (connect Q (dbDriverName maker) (dbBaseConnectionString maker @ sqlDBName P))) (\<lambda>db.
     andThen (eventually polls (ping Q db)) (\<lambda>_.
     expect_ok (close_db Q db))))))"

definition sql_down :: "platform \<Rightarrow> 'd sql_lib \<Rightarrow> nat \<Rightarrow> commonComponentMaker \<Rightarrow> (failure, 'd sql_run, unit) comp" where
  "sql_down P Q polls maker =
     andThen (mark Signalled) (\<lambda>_.
     andThen (expect_ok (connect Q (dbDriverName maker) (dbBaseConnectionString maker))) (\<lambda>db.
     andThen (eventually polls (ping Q db)) (\<lambda>_.
     expect_ok (exec_sql Q db (''DROP DATABASE '' @ sqlDBName P)))))"

lemma sql_body_split: "sql_body P Q polls maker db =
    andThen (sql_before P Q polls maker db) (\<lambda>_. andThen (mark Ready) (\<lambda>_. sql_down P Q polls maker))"
  by (rule ext) (simp add: sql_body_def sql_before_def sql_down_def andThen_assoc)

definition prepared :: "platform \<Rightarrow> nat \<Rightarrow> commonComponentMaker \<Rightarrow> nat \<Rightarrow> nat \<Rightarrow> sql_event list \<Rightarrow> bool" where
  "prepared P polls maker h h' es \<longleftrightarrow> (\<exists>ps ps' b. reached polls h ps \<and> reached polls h' ps' \<and>
     es = ps @ [Executed h (''DROP DATABASE '' @ sqlDBName P) b, Executed h (''CREATE DATABASE '' @ sqlDBName P) True,
       Opened h' (dbBaseConnectionString maker @ sqlDBName P)] @ ps' @ [Closed h' True])"

lemma sql_before_Inr:
  assumes "sql_before P Q polls maker db s = (Inr u, t)"
  shows "\<exists>es. prepared P polls maker db (handles s) es \<and> trace t = trace s @ es \<and> handles t = Suc (handles s)"
proof -
  from assms obtain s1 s2 s3 h s4 s5 where
    1: "eventually polls (ping Q db) s = (Inr (), s1)"
    and 2: "ignored (exec_sql Q db (''DROP DATABASE '' @ sqlDBName P)) s1 = (Inr (), s2)"
    and 3: "exec_sql Q db (''CREATE DATABASE '' @ sqlDBName P) s2 = (Inr (), s3)"
    and 4: "connect Q (dbDriverName maker) (dbBaseConnectionString maker @ sqlDBName P) s3 = (Inr h, s4)"
    and 5: "eventually polls (ping Q h) s4 = (Inr (), s5)" and 6: "close_db Q h s5 = (Inr (), t)"
    by (auto simp: sql_before_def andThen_Inr_iff expect_ok_Inr_iff)
  from eventually_ping [OF 1] obtain ps where ps: "reached polls db ps" "trace s1 = trace s @ ps" "handles s1 = handles s" by blast
  from eventually_ping [OF 5] obtain ps' where ps': "reached polls h ps'" "trace s5 = trace s4 @ ps'" "handles s5 = handles s4" by blast
  from ignored_exec [OF 2] obtain b where b: "trace s2 = trace s1 @ [Executed db (''DROP DATABASE '' @ sqlDBName P) b]"
    "handles s2 = handles s1" by blast
  let ?es = "ps @ [Executed db (''DROP DATABASE '' @ sqlDBName P) b, Executed db (''CREATE DATABASE '' @ sqlDBName P) True,
       Opened h (dbBaseConnectionString maker @ sqlDBName P)] @ ps' @ [Closed h True]"
  have h: "h = handles s" using ps(3) b(2) db_calls(2) [OF 3] connect_Inr [OF 4] by simp
  have "prepared P polls maker db (handles s) ?es" unfolding prepared_def h [symmetric] using ps(1) ps'(1) by blast
  moreover have "trace t = trace s @ ?es \<and> handles t = Suc (handles s)"
    using ps ps' b db_calls(2) [OF 3] connect_Inr [OF 4] db_calls(3) [OF 6] by simp
  ultimately show ?thesis by blast
qed

lemma sql_down_Inr:
  assumes "sql_down P Q polls maker s = (Inr u, t)"
  shows "\<exists>ps. reached polls (handles s) ps
    \<and> trace t = trace s @ [Signalled, Opened (handles s) (dbBaseConnectionString maker)] @ ps
        @ [Executed (handles s) (''DROP DATABASE '' @ sqlDBName P) True]"
proof -
  define s1 where "s1 = s\<lparr>trace := trace s @ [Signalled]\<rparr>"
  have s1: "trace s1 = trace s @ [Signalled]" "handles s1 = handles s" by (simp_all add: s1_def)
  from assms obtain h s2 s3 where 1: "connect Q (dbDriverName maker) (dbBaseConnectionString maker) s1 = (Inr h, s2)"
    and 2: "eventually polls (ping Q h) s2 = (Inr (), s3)" and 3: "exec_sql Q h (''DROP DATABASE '' @ sqlDBName P) s3 = (Inr (), t)"
    by (auto simp: sql_down_def andThen_Inr_iff expect_ok_Inr_iff mark_def modify_def simp flip: s1_def)
  from eventually_ping [OF 2] s1 connect_Inr [OF 1] db_calls(2) [OF 3] show ?thesis by auto
qed

text \<open>What no event but \<open>Ready\<close> can change.\<close>

definition unready :: "(sql_event list \<Rightarrow> bool) \<Rightarrow> bool" where
  "unready I \<longleftrightarrow> (\<forall>es e. I es \<longrightarrow> e \<noteq> Ready \<longrightarrow> I (es @ [e]))"

lemma unready_kinds: "unready (\<lambda>es. Ready \<notin> set es)" "unready (prefix xs)"
  by (simp_all add: unready_def)

lemma unready_calls:
  assumes "unready I"
  shows "keeps (\<lambda>s. I (trace s)) (ping Q h)" "keeps (\<lambda>s. I (trace s)) (exec_sql Q h stmt)" "keeps (\<lambda>s. I (trace s)) (close_db Q h)"
    "keeps (\<lambda>s. I (trace s)) (connect Q driver conn)" "keeps (\<lambda>s. I (trace s)) (mark Signalled)"
  using assms
  by (auto simp: keeps_def unready_def ping_def exec_sql_def close_db_def db_call_def connect_def mark_def split: prod.split option.split)

lemma unready_pings: "unready I \<Longrightarrow> keeps (\<lambda>s. I (trace s)) (eventually n (ping Q h))"
proof (induction n)
  case 0
  then show ?case by (simp add: keeps_expect_ok unready_calls)
next
  case (Suc n)
  then show ?case using unready_calls(1) [of I Q h] by (force simp: keeps_def split: prod.splits sum.splits)
qed

lemma keeps_ignored: "keeps I m \<Longrightarrow> keeps I (ignored m)"
  by (simp add: keeps_def ignored_def)

lemma unready_parts:
  assumes "unready I"
  shows "keeps (\<lambda>s. I (trace s)) (sql_before P Q polls maker db)" "keeps (\<lambda>s. I (trace s)) (sql_down P Q polls maker)"
  unfolding sql_before_def sql_down_def
  by (intro keeps_andThen keeps_expect_ok keeps_ignored unready_calls unready_pings assms)+

text \<open>
  Property C25. The runner becomes ready only when it has reached the server, tried to drop the
  database, created it without an error, reached it through a second handle and closed that
  handle. A run without a failure is then told to stop, reaches the server through a third
  handle, drops the database without an error and closes the first handle: the third one
  is never closed. In every run that opened a handle the last event is the closing of the
  first.
\<close>

theorem sql_handle_left_open:
  assumes "SQL P Q polls maker s = (r, t)" and "handles s = 0" and "trace s = []"
  shows "(Ready \<in> set (trace t) \<longrightarrow> (\<exists>es rest. prepared P polls maker 0 1 es
        \<and> trace t = [Opened 0 (dbBaseConnectionString maker)] @ es @ [Ready] @ rest))
    \<and> (r = None \<longrightarrow> (\<exists>es ps b. prepared P polls maker 0 1 es \<and> reached polls 2 ps
        \<and> trace t = [Opened 0 (dbBaseConnectionString maker)] @ es
            @ [Ready, Signalled, Opened 2 (dbBaseConnectionString maker)] @ ps
            @ [Executed 2 (''DROP DATABASE '' @ sqlDBName P) True, Closed 0 b]))
    \<and> (trace t \<noteq> [] \<longrightarrow> (\<exists>b. last (trace t) = Closed 0 b))"
proof (cases "connect Q (dbDriverName maker) (dbBaseConnectionString maker) s")
  case con: (Pair c s1)
  show ?thesis
  proof (cases c)
    case (Inl e)
    with con assms have "r \<noteq> None" "trace t = []" by (auto simp: SQL_def expect_ok_def dest: connect_Inl)
    then show ?thesis by simp
  next
    case (Inr db)
    with con assms(2,3) connect_Inr [of Q _ _ s db s1] have s1: "db = 0" "trace s1 = [Opened 0 (dbBaseConnectionString maker)]" "handles s1 = 1"
      by auto
    obtain x u where body: "sql_body P Q polls maker 0 s1 = (x, u)" by fastforce
    from assms(1) con Inr s1(1) body have r: "r = (case x of Inl f \<Rightarrow> Some f | Inr _ \<Rightarrow> None)" and t: "t = snd (close_db Q 0 u)"
      by (auto simp: SQL_def expect_ok_def split: sum.splits)
    from t db_calls(3) [of Q 0 u "fst (close_db Q 0 u)" t] obtain b where fin: "trace t = trace u @ [Closed 0 b]" by auto
    obtain y v where before: "sql_before P Q polls maker 0 s1 = (y, v)" by fastforce
    show ?thesis
    proof (cases y)
      case (Inl f)
      with before body have "x = Inl f" "u = v" by (auto simp: sql_body_split andThen_def)
      moreover have "Ready \<notin> set (trace v)"
        using keeps_run [OF unready_parts(1) [OF unready_kinds(1)] before] s1(2) by simp
      ultimately show ?thesis using fin r by simp
    next
      case (Inr w)
      with sql_before_Inr [OF before [unfolded Inr]] s1 obtain es where es: "prepared P polls maker 0 1 es"
        "trace v = [Opened 0 (dbBaseConnectionString maker)] @ es" "handles v = 2" by (auto simp: numeral_2_eq_2)
      define v' where "v' = v\<lparr>trace := trace v @ [Ready]\<rparr>"
      have v': "trace v' = trace v @ [Ready]" "handles v' = 2" by (simp_all add: v'_def es(3))
      from body before Inr have down: "sql_down P Q polls maker v' = (x, u)"
        by (simp add: sql_body_split andThen_def mark_def modify_def v'_def)
      have "prefix (trace v @ [Ready]) (trace u)"
        using keeps_run [OF unready_parts(2) [OF unready_kinds(2)] down] v'(1) by simp
      then obtain rest where "trace u = trace v @ [Ready] @ rest" by (auto simp: prefix_def)
      then have "\<exists>es rest. prepared P polls maker 0 1 es \<and> trace t = [Opened 0 (dbBaseConnectionString maker)] @ es @ [Ready] @ rest"
        using es(1,2) fin by auto
      moreover have "\<exists>es ps b. prepared P polls maker 0 1 es \<and> reached polls 2 ps
        \<and> trace t = [Opened 0 (dbBaseConnectionString maker)] @ es
            @ [Ready, Signalled, Opened 2 (dbBaseConnectionString maker)] @ ps
            @ [Executed 2 (''DROP DATABASE '' @ sqlDBName P) True, Closed 0 b]" if "r = None"
      proof -
        from that r obtain z where "x = Inr z" by (cases x) auto
        from sql_down_Inr [OF down [unfolded this]] v' es(1,2) fin show ?thesis by auto
      qed
      ultimately show ?thesis using fin by auto
    qed
  qed
qed

text \<open>A server with the names of its databases, on which a database of an earlier run was left.\<close>

definition demo_exec :: "nat \<Rightarrow> string \<Rightarrow> string list \<Rightarrow> go_error option \<times> string list" where
  "demo_exec h stmt dbs =
     (if prefix ''DROP DATABASE '' stmt
      then (let db = drop 14 stmt in if db \<in> set dbs then (None, removeAll db dbs) else (Some (Msg ''unknown database''), dbs))
      else (let db = drop 16 stmt in if db \<in> set dbs then (Some (Msg ''database exists''), dbs) else (None, db # dbs)))"

definition demo_sql :: "string list sql_lib" where
  "demo_sql = \<lparr>Connect = (\<lambda>_ _ dbs. (None, dbs)), Ping = (\<lambda>_ dbs. (None, dbs)), Exec = demo_exec,
     CloseDB = (\<lambda>_ dbs. (None, dbs))\<rparr>"

definition demo_sql_start :: "string list sql_run" where
  "demo_sql_start = \<lparr>server = [''diego_1'', ''other''], handles = 0, trace = []\<rparr>"

definition demo_sql_run :: "failure option \<times> string list sql_run" where
  "demo_sql_run = SQL demo_platform demo_sql 0 plain_maker demo_sql_start"

lemma demo_name: "sqlDBName demo_platform = ''diego_1''"
  by code_simp

theorem sql_handle_left_open_witness:
  "Opened 2 (dbBaseConnectionString plain_maker) \<in> set (trace (snd demo_sql_run)) \<and> (\<forall>b. Closed 2 b \<notin> set (trace (snd demo_sql_run)))
     \<and> trace (snd demo_sql_run) ! 3 = Executed 0 ''CREATE DATABASE diego_1'' True \<and> server (snd demo_sql_run) = [''other'']"
proof -
  have run: "SQL demo_platform demo_sql 0 plain_maker demo_sql_start = (fst demo_sql_run, snd demo_sql_run)"
    by (simp add: demo_sql_run_def)
  have ok: "fst demo_sql_run = None" "server (snd demo_sql_run) = [''other'']"
    by (simp_all add: demo_sql_run_def SQL_def sql_body_def andThen_def expect_ok_def connect_def ping_def exec_sql_def
        close_db_def db_call_def ignored_def mark_def demo_sql_def demo_sql_start_def demo_exec_def demo_name Let_def)
  from sql_handle_left_open [OF run] ok(1) obtain es ps b where "prepared demo_platform 0 plain_maker 0 1 es" "reached 0 2 ps"
    "trace (snd demo_sql_run) = [Opened 0 (dbBaseConnectionString plain_maker)] @ es
       @ [Ready, Signalled, Opened 2 (dbBaseConnectionString plain_maker)] @ ps
       @ [Executed 2 (''DROP DATABASE '' @ sqlDBName demo_platform) True, Closed 0 b]" by (auto simp: demo_sql_start_def)
  with ok(2) show ?thesis by (auto simp: prepared_def reached_def demo_name)
qed

end
