(* ===== verification/Go_Float.thy ===== *)
theory Go_Float
  imports Go_Time
begin

text \<open>
  \<open>strconv.FormatFloat(x, 'f', -1, 64)\<close> for a \<open>float64\<close> that is not negative: the decimal with the
  fewest digits after the point that is read as the same number again. The numbers are
  those of theory \<open>Go_Time\<close>, a mantissa and a binary exponent.
\<close>

text \<open>The nearest multiple of \<open>1 / 10 ^ k\<close>, as a number of such parts.\<close>

definition decimal_parts :: "nat \<times> int \<Rightarrow> nat \<Rightarrow> nat" where
  "decimal_parts x k =
     (if 0 \<le> snd x then fst x * 2 ^ nat (snd x) * 10 ^ k else round_even (fst x * 10 ^ k) (2 ^ nat (- snd x)))"

definition decimal_text :: "nat \<Rightarrow> nat \<Rightarrow> string" where
  "decimal_text c k = nat_text (c div 10 ^ k) @ (if k = 0 then [] else CHR ''.'' # last_digits c k)"

text \<open>With as many digits as the exponent has bits the decimal is exact, so that the search ends there.\<close>

definition FormatFloat :: "nat \<times> int \<Rightarrow> string" where
  "FormatFloat x =
     (if fst x = 0 then ''0''
      else case find (\<lambda>k. float_of (decimal_parts x k) (10 ^ k) = x) [0 ..< Suc (nat (- snd x))] of
             None \<Rightarrow> []
           | Some k \<Rightarrow> decimal_text (decimal_parts x k) k)"

lemma FormatFloat_33: "FormatFloat (float_of 33 100) = ''0.33''"
proof -
  let ?x = "(5944751508129055, - 54)"
  have f: "float_of 0 1 = (0, - 54)" "float_of 3 10 = (5404319552844595, - 54)" "float_of 33 100 = ?x"
    by (simp_all add: float_of_def bit_len.simps round_even_def Let_def)
  have d: "decimal_parts ?x 0 = 0" "decimal_parts ?x 1 = 3" "decimal_parts ?x 2 = 33"
    by (simp_all add: decimal_parts_def round_even_def Let_def)
  have "[0 ..< Suc (nat (- (- 54 :: int)))] = [0, 1, 2] @ [3 ..< 55]"
    by (simp add: upt_rec)
  then have "find (\<lambda>k. float_of (decimal_parts ?x k) (10 ^ k) = ?x) [0 ..< Suc (nat (- (- 54 :: int)))] = Some 2"
    using f d by simp
  moreover have "decimal_text 33 2 = ''0.33''"
    by (simp add: decimal_text_def nat_text.simps digit_char_def numeral_2_eq_2)
  ultimately show ?thesis using f d by (simp add: FormatFloat_def)
qed

end
