(* ===== verification/World_Agents.thy ===== *)
theory World_Agents
  imports World_Configs Go_Float
begin

text \<open>
  The configurations of the BBS, the auctioneer, the rep and its executor: the structs of the
  packages of these components, with the fields \<open>world/components.go\<close> sets or reads. All other
  fields keep their zero value and are left out. Durations are in nanoseconds.
\<close>

section \<open>Structs and their zero values\<close>

record EncryptionConfig =
  encryption_ActiveKeyLabel :: string
  encryption_EncryptionKeys :: string_map

definition no_EncryptionConfig :: EncryptionConfig where
  "no_EncryptionConfig =
     \<lparr>encryption_ActiveKeyLabel = [], encryption_EncryptionKeys = Map.empty\<rparr>"

record BBSConfig =
  bbs_CommunicationTimeout :: int
  bbs_DesiredLRPCreationTimeout :: int
  bbs_ExpireCompletedTaskDuration :: int
  bbs_ExpirePendingTaskDuration :: int
  bbs_ConvergeRepeatInterval :: int
  bbs_KickTaskDuration :: int
  bbs_LockTTL :: int
  bbs_LockRetryInterval :: int
  bbs_ReportInterval :: int
  bbs_ConvergenceWorkers :: int
  bbs_UpdateWorkers :: int
  bbs_TaskCallbackWorkers :: int
  bbs_MaxOpenDatabaseConnections :: int
  bbs_MaxIdleDatabaseConnections :: int
  bbs_RepClientSessionCacheSize :: int
  bbs_SessionName :: string
  bbs_AdvertiseURL :: string
  bbs_AuctioneerAddress :: string
  bbs_ListenAddress :: string
  bbs_HealthAddress :: string
  bbs_CertFile :: string
  bbs_KeyFile :: string
  bbs_CaFile :: string
  bbs_RepCACert :: string
  bbs_RepClientCert :: string
  bbs_RepClientKey :: string
  bbs_AuctioneerCACert :: string
  bbs_AuctioneerClientCert :: string
  bbs_AuctioneerClientKey :: string
  bbs_DatabaseConnectionString :: string
  bbs_DatabaseDriver :: string
  bbs_SQLCACertFile :: string
  bbs_UUID :: string
  bbs_RequireSSL :: bool
  bbs_AuctioneerRequireTLS :: bool
  bbs_Encryption :: EncryptionConfig
  bbs_LagerConfig :: LagerConfig
  bbs_ClientLocketConfig :: ClientLocketConfig

definition no_BBSConfig :: BBSConfig where
  "no_BBSConfig =
     \<lparr>bbs_CommunicationTimeout = 0, bbs_DesiredLRPCreationTimeout = 0, bbs_ExpireCompletedTaskDuration = 0,
      bbs_ExpirePendingTaskDuration = 0, bbs_ConvergeRepeatInterval = 0, bbs_KickTaskDuration = 0, bbs_LockTTL = 0,
      bbs_LockRetryInterval = 0, bbs_ReportInterval = 0, bbs_ConvergenceWorkers = 0, bbs_UpdateWorkers = 0,
      bbs_TaskCallbackWorkers = 0, bbs_MaxOpenDatabaseConnections = 0, bbs_MaxIdleDatabaseConnections = 0,
      bbs_RepClientSessionCacheSize = 0, bbs_SessionName = [], bbs_AdvertiseURL = [], bbs_AuctioneerAddress = [],
      bbs_ListenAddress = [], bbs_HealthAddress = [], bbs_CertFile = [], bbs_KeyFile = [], bbs_CaFile = [],
      bbs_RepCACert = [], bbs_RepClientCert = [], bbs_RepClientKey = [], bbs_AuctioneerCACert = [],
      bbs_AuctioneerClientCert = [], bbs_AuctioneerClientKey = [], bbs_DatabaseConnectionString = [], bbs_DatabaseDriver = [],
      bbs_SQLCACertFile = [], bbs_UUID = [], bbs_RequireSSL = False, bbs_AuctioneerRequireTLS = False,
      bbs_Encryption = no_EncryptionConfig, bbs_LagerConfig = \<lparr>LogLevel = [], TimeFormat = []\<rparr>,
      bbs_ClientLocketConfig = \<lparr>LocketAddress = [], LocketCACertFile = [], LocketClientCertFile = [], LocketClientKeyFile = []\<rparr>\<rparr>"

record AuctioneerConfig =
  auctioneer_AuctionRunnerWorkers :: int
  auctioneer_CellStateTimeout :: int
  auctioneer_CommunicationTimeout :: int
  auctioneer_LockTTL :: int
  auctioneer_LockRetryInterval :: int
  auctioneer_ReportInterval :: int
  auctioneer_StartingContainerCountMaximum :: int
  auctioneer_BBSAddress :: string
  auctioneer_ListenAddress :: string
  auctioneer_BBSClientCertFile :: string
  auctioneer_BBSClientKeyFile :: string
  auctioneer_BBSCACertFile :: string
  auctioneer_RepCACert :: string
  auctioneer_RepClientCert :: string
  auctioneer_RepClientKey :: string
  auctioneer_CACertFile :: string
  auctioneer_ServerCertFile :: string
  auctioneer_ServerKeyFile :: string
  auctioneer_UUID :: string
  auctioneer_StartingContainerWeight :: "nat \<times> int"
  auctioneer_LagerConfig :: LagerConfig
  auctioneer_ClientLocketConfig :: ClientLocketConfig

definition no_AuctioneerConfig :: AuctioneerConfig where
  "no_AuctioneerConfig =
     \<lparr>auctioneer_AuctionRunnerWorkers = 0, auctioneer_CellStateTimeout = 0, auctioneer_CommunicationTimeout = 0,
      auctioneer_LockTTL = 0, auctioneer_LockRetryInterval = 0, auctioneer_ReportInterval = 0,
      auctioneer_StartingContainerCountMaximum = 0, auctioneer_BBSAddress = [], auctioneer_ListenAddress = [],
      auctioneer_BBSClientCertFile = [], auctioneer_BBSClientKeyFile = [], auctioneer_BBSCACertFile = [],
      auctioneer_RepCACert = [], auctioneer_RepClientCert = [], auctioneer_RepClientKey = [], auctioneer_CACertFile = [],
      auctioneer_ServerCertFile = [], auctioneer_ServerKeyFile = [], auctioneer_UUID = [],
      auctioneer_StartingContainerWeight = (0, 0), auctioneer_LagerConfig = \<lparr>LogLevel = [], TimeFormat = []\<rparr>,
      auctioneer_ClientLocketConfig = \<lparr>LocketAddress = [], LocketCACertFile = [], LocketClientCertFile = [], LocketClientKeyFile = []\<rparr>\<rparr>"

record ExecutorConfig =
  executor_ReservedExpirationTime :: int
  executor_ContainerReapInterval :: int
  executor_ContainerInodeLimit :: int
  executor_DeclarativeHealthCheckDefaultTimeout :: int
  executor_MaxCacheSizeInBytes :: int
  executor_HealthyMonitoringInterval :: int
  executor_UnhealthyMonitoringInterval :: int
  executor_CreateWorkPoolSize :: int
  executor_DeleteWorkPoolSize :: int
  executor_ReadWorkPoolSize :: int
  executor_MetricsWorkPoolSize :: int
  executor_HealthCheckWorkPoolSize :: int
  executor_MaxConcurrentDownloads :: int
  executor_GardenHealthcheckInterval :: int
  executor_GardenHealthcheckEmissionInterval :: int
  executor_GardenHealthcheckTimeout :: int
  executor_GardenHealthcheckCommandRetryPause :: int
  executor_GracefulShutdownInterval :: int
  executor_ContainerMetricsReportInterval :: int
  executor_EnvoyConfigRefreshDelay :: int
  executor_EnvoyDrainTimeout :: int
  executor_ContainerMaxCpuShares :: nat
  executor_MemoryMB :: string
  executor_DiskMB :: string
  executor_DeclarativeHealthcheckPath :: string
  executor_GardenNetwork :: string
  executor_GardenAddr :: string
  executor_CachePath :: string
  executor_TempDir :: string
  executor_GardenHealthcheckProcessUser :: string
  executor_GardenHealthcheckProcessPath :: string
  executor_VolmanDriverPaths :: string
  executor_ContainerOwnerName :: string
  executor_HealthCheckContainerOwnerName :: string
  executor_PathToTLSCert :: string
  executor_PathToTLSKey :: string
  executor_PathToTLSCACert :: string
  executor_GardenHealthcheckProcessArgs :: "string list"
  executor_GardenHealthcheckProcessEnv :: "string list"
  executor_SkipCertVerify :: bool
  executor_EnableUnproxiedPortMappings :: bool
  executor_ExportNetworkEnvVars :: bool

definition no_ExecutorConfig :: ExecutorConfig where
  "no_ExecutorConfig =
     \<lparr>executor_ReservedExpirationTime = 0, executor_ContainerReapInterval = 0, executor_ContainerInodeLimit = 0,
      executor_DeclarativeHealthCheckDefaultTimeout = 0, executor_MaxCacheSizeInBytes = 0,
      executor_HealthyMonitoringInterval = 0, executor_UnhealthyMonitoringInterval = 0, executor_CreateWorkPoolSize = 0,
      executor_DeleteWorkPoolSize = 0, executor_ReadWorkPoolSize = 0, executor_MetricsWorkPoolSize = 0,
      executor_HealthCheckWorkPoolSize = 0, executor_MaxConcurrentDownloads = 0, executor_GardenHealthcheckInterval = 0,
      executor_GardenHealthcheckEmissionInterval = 0, executor_GardenHealthcheckTimeout = 0,
      executor_GardenHealthcheckCommandRetryPause = 0, executor_GracefulShutdownInterval = 0,
      executor_ContainerMetricsReportInterval = 0, executor_EnvoyConfigRefreshDelay = 0, executor_EnvoyDrainTimeout = 0,
      executor_ContainerMaxCpuShares = 0, executor_MemoryMB = [], executor_DiskMB = [],
      executor_DeclarativeHealthcheckPath = [], executor_GardenNetwork = [], executor_GardenAddr = [],
      executor_CachePath = [], executor_TempDir = [], executor_GardenHealthcheckProcessUser = [],
      executor_GardenHealthcheckProcessPath = [], executor_VolmanDriverPaths = [], executor_ContainerOwnerName = [],
      executor_HealthCheckContainerOwnerName = [], executor_PathToTLSCert = [], executor_PathToTLSKey = [],
      executor_PathToTLSCACert = [], executor_GardenHealthcheckProcessArgs = [], executor_GardenHealthcheckProcessEnv = [],
      executor_SkipCertVerify = False, executor_EnableUnproxiedPortMappings = False, executor_ExportNetworkEnvVars = False\<rparr>"

record RepConfig =
  rep_BBSClientSessionCacheSize :: int
  rep_BBSMaxIdleConnsPerHost :: int
  rep_CommunicationTimeout :: int
  rep_PollingInterval :: int
  rep_ReportInterval :: int
  rep_EvacuationPollingInterval :: int
  rep_EvacuationTimeout :: int
  rep_LockTTL :: int
  rep_LockRetryInterval :: int
  rep_AdvertiseDomain :: string
  rep_SessionName :: string
  rep_BBSAddress :: string
  rep_BBSClientCertFile :: string
  rep_BBSClientKeyFile :: string
  rep_BBSCACertFile :: string
  rep_ListenAddr :: string
  rep_ListenAddrSecurable :: string
  rep_CellID :: string
  rep_Zone :: string
  rep_ServerCertFile :: string
  rep_ServerKeyFile :: string
  rep_CertFile :: string
  rep_KeyFile :: string
  rep_CaCertFile :: string
  rep_ExtraRootfsDir :: string
  rep_SupportedProviders :: "string list"
  rep_PreloadedRootFS :: "RootFS list"
  rep_Executor :: ExecutorConfig
  rep_LagerConfig :: LagerConfig
  rep_ClientLocketConfig :: ClientLocketConfig

definition no_RepConfig :: RepConfig where
  "no_RepConfig =
     \<lparr>rep_BBSClientSessionCacheSize = 0, rep_BBSMaxIdleConnsPerHost = 0, rep_CommunicationTimeout = 0,
      rep_PollingInterval = 0, rep_ReportInterval = 0, rep_EvacuationPollingInterval = 0, rep_EvacuationTimeout = 0,
      rep_LockTTL = 0, rep_LockRetryInterval = 0, rep_AdvertiseDomain = [], rep_SessionName = [], rep_BBSAddress = [],
      rep_BBSClientCertFile = [], rep_BBSClientKeyFile = [], rep_BBSCACertFile = [], rep_ListenAddr = [],
      rep_ListenAddrSecurable = [], rep_CellID = [], rep_Zone = [], rep_ServerCertFile = [], rep_ServerKeyFile = [],
      rep_CertFile = [], rep_KeyFile = [], rep_CaCertFile = [], rep_ExtraRootfsDir = [], rep_SupportedProviders = [],
      rep_PreloadedRootFS = [], rep_Executor = no_ExecutorConfig,
      rep_LagerConfig = \<lparr>LogLevel = [], TimeFormat = []\<rparr>,
      rep_ClientLocketConfig = \<lparr>LocketAddress = [], LocketCACertFile = [], LocketClientCertFile = [], LocketClientKeyFile = []\<rparr>\<rparr>"

section \<open>What both makers share\<close>

text \<open>The constants of the locket, lager and configuration packages.\<close>

record agent_lib = lib +
  Automatic :: string

definition encryption_keys :: EncryptionConfig where
  "encryption_keys = \<lparr>encryption_ActiveKeyLabel = ''secure-key-1'',
     encryption_EncryptionKeys = [''secure-key-1'' \<mapsto> ''secure-passphrase'']\<rparr>"

definition host_port :: "string \<Rightarrow> int \<Rightarrow> string" where
  "host_port host port = host @ '':'' @ Itoa port"

end
