(* ===== verification/World_V0.thy ===== *)
theory World_V0
  imports World_Agents
begin

text \<open>
  The methods of \<open>v0ComponentMaker\<close> in \<open>world/components.go\<close>: the components of the first
  version take their configuration as flags on the command line.
\<close>

section \<open>The auctioneer, the route emitter and the file server\<close>

definition v0_auctioneer_args :: "AuctioneerConfig \<Rightarrow> string list" where
  "v0_auctioneer_args cfg =
     [''-bbsAddress'', auctioneer_BBSAddress cfg,
      ''-bbsCACert'', auctioneer_BBSCACertFile cfg,
      ''-bbsClientCert'', auctioneer_BBSClientCertFile cfg,
      ''-bbsClientKey'', auctioneer_BBSClientKeyFile cfg,
      ''-listenAddr'', auctioneer_ListenAddress cfg,
      ''-lockRetryInterval'', Duration_String (auctioneer_LockRetryInterval cfg),
      ''-logLevel'', LogLevel (auctioneer_LagerConfig cfg),
      ''-repCACert'', auctioneer_RepCACert cfg,
      ''-repClientCert'', auctioneer_RepClientCert cfg,
      ''-repClientKey'', auctioneer_RepClientKey cfg,
      ''-startingContainerWeight'', FormatFloat (auctioneer_StartingContainerWeight cfg)]"

definition v0_auctioneer_config :: "'l lib_scheme \<Rightarrow> commonComponentMaker \<Rightarrow> AuctioneerConfig" where
  "v0_auctioneer_config L maker = no_AuctioneerConfig
     \<lparr>auctioneer_BBSAddress := BBSURL maker,
      auctioneer_BBSCACertFile := CACert (bbsSSL maker),
      auctioneer_BBSClientCertFile := ClientCert (bbsSSL maker),
      auctioneer_BBSClientKeyFile := ClientKey (bbsSSL maker),
      auctioneer_ListenAddress := Auctioneer_addr (addresses maker),
      auctioneer_LockRetryInterval := 1 * Second,
      auctioneer_LagerConfig := debug_lager L,
      auctioneer_RepCACert := CACert (repSSL maker),
      auctioneer_RepClientCert := ClientCert (repSSL maker),
      auctioneer_RepClientKey := ClientKey (repSSL maker),
      auctioneer_StartingContainerWeight := float_of 33 100\<rparr>"

definition v0_Auctioneer :: "'l lib_scheme \<Rightarrow> commonComponentMaker \<Rightarrow> (AuctioneerConfig \<Rightarrow> AuctioneerConfig) list
    \<Rightarrow> ('s, 's runner) op" where
  "v0_Auctioneer L maker ms =
     (let cfg = modified ms (v0_auctioneer_config L maker) in
      ret \<lparr>Name = ''auctioneer'', AnsiColorCode = ''35m'', StartCheck = quoted ''auctioneer.started'',
        StartCheckTimeout = startCheckTimeout maker,
        Command = (executable maker ''auctioneer'', v0_auctioneer_args cfg), Cleanup = no_cleanup\<rparr>)"

definition no_RouteEmitterConfig :: RouteEmitterConfig where
  "no_RouteEmitterConfig =
     \<lparr>emitter_LocketSessionName = [], emitter_NATSAddresses = [], emitter_BBSAddress = [], emitter_LockRetryInterval = 0,
      emitter_LagerConfig = \<lparr>LogLevel = [], TimeFormat = []\<rparr>, emitter_BBSClientCertFile = [],
      emitter_BBSClientKeyFile = [], emitter_BBSCACertFile = [], emitter_CommunicationTimeout = 0, emitter_LockTTL = 0,
      emitter_NATSUsername = [], emitter_NATSPassword = [], emitter_RouteEmittingWorkers = 0, emitter_SyncInterval = 0,
      emitter_TCPRouteTTL = 0, emitter_UnregistrationInterval = 0, emitter_UnregistrationSendCount = 0,
      emitter_EnableTCPEmitter = False, emitter_EnableInternalEmitter = False,
      emitter_RegisterDirectInstanceRoutes = False, emitter_ClientLocketConfig = None, emitter_UUID = []\<rparr>"

definition v0_emitter_args :: "RouteEmitterConfig \<Rightarrow> string list" where
  "v0_emitter_args cfg =
     [''-natsAddresses'', emitter_NATSAddresses cfg,
      ''-bbsAddress'', emitter_BBSAddress cfg,
      ''-lockRetryInterval'', Duration_String (emitter_LockRetryInterval cfg),
      ''-logLevel'', LogLevel (emitter_LagerConfig cfg),
      ''-bbsClientCert'', emitter_BBSClientCertFile cfg,
      ''-bbsClientKey'', emitter_BBSClientKeyFile cfg,
      ''-bbsCACert'', emitter_BBSCACertFile cfg]"

definition v0_RouteEmitter :: "'l lib_scheme \<Rightarrow> commonComponentMaker
    \<Rightarrow> (RouteEmitterConfig \<Rightarrow> RouteEmitterConfig) list \<Rightarrow> ('s, 's runner) op" where
  "v0_RouteEmitter L maker ms =
     (let cfg = modified ms (no_RouteEmitterConfig
            \<lparr>emitter_NATSAddresses := NATS_addr (addresses maker),
             emitter_BBSAddress := BBSURL maker,
             emitter_BBSClientCertFile := ClientCert (bbsSSL maker),
             emitter_BBSClientKeyFile := ClientKey (bbsSSL maker),
             emitter_BBSCACertFile := CACert (bbsSSL maker),
             emitter_LockRetryInterval := 1 * Second,
             emitter_LagerConfig := debug_lager L,
             emitter_UUID := ''route-emitter-inigo-lock-owner''\<rparr>) in
      ret \<lparr>Name = ''route-emitter'', AnsiColorCode = ''36m'', StartCheck = quoted ''route-emitter.started'',
        StartCheckTimeout = startCheckTimeout maker,
        Command = (executable maker ''route-emitter'', v0_emitter_args cfg), Cleanup = no_cleanup\<rparr>)"

definition v0_FileServer :: "platform \<Rightarrow> commonComponentMaker \<Rightarrow> ('s, 's runner \<times> string) op" where
  "v0_FileServer P maker =
     andThen (TempDirWithParent P (tmpDir maker) (''file-server-files-'' @ Itoa (GinkgoParallelProcess P) @ ''-'')) (\<lambda>servedFilesDir.
     ret (\<lparr>Name = ''file-server'', AnsiColorCode = ''92m'', StartCheck = quoted ''file-server.ready'',
        StartCheckTimeout = startCheckTimeout maker,
        Command = (executable maker ''file-server'',
          [''-address'', FileServer_addr (addresses maker),
           ''-logLevel'', ''debug'',
           ''-staticDirectory'', servedFilesDir]),
        Cleanup = expect_ok (RemoveAll P servedFilesDir)\<rparr>, servedFilesDir))"

section \<open>The BBS\<close>

definition v0_bbs_config :: "'l lib_scheme \<Rightarrow> commonComponentMaker \<Rightarrow> BBSConfig" where
  "v0_bbs_config L maker = no_BBSConfig
     \<lparr>bbs_AdvertiseURL := BBSURL maker,
      bbs_AuctioneerAddress := ''http://'' @ Auctioneer_addr (addresses maker),
      bbs_CaFile := CACert (bbsSSL maker),
      bbs_CertFile := ServerCert (bbsSSL maker),
      bbs_KeyFile := ServerKey (bbsSSL maker),
      bbs_DatabaseConnectionString := SQL_addr (addresses maker),
      bbs_DatabaseDriver := dbDriverName maker,
      bbs_Encryption := encryption_keys,
      bbs_HealthAddress := Health_addr (addresses maker),
      bbs_ListenAddress := BBS_addr (addresses maker),
      bbs_LagerConfig := debug_lager L,
      bbs_RepCACert := CACert (repSSL maker),
      bbs_RepClientCert := ClientCert (repSSL maker),
      bbs_RepClientKey := ClientKey (repSSL maker)\<rparr>"

definition v0_bbs_args :: "BBSConfig \<Rightarrow> string list" where
  "v0_bbs_args cfg =
     (let akl = encryption_ActiveKeyLabel (bbs_Encryption cfg);
          encryptionKey = akl @ '':'' @ at_key (encryption_EncryptionKeys (bbs_Encryption cfg)) akl in
      [''-activeKeyLabel'', akl,
       ''-advertiseURL'', bbs_AdvertiseURL cfg,
       ''-auctioneerAddress'', bbs_AuctioneerAddress cfg,
       ''-caFile'', bbs_CaFile cfg,
       ''-certFile'', bbs_CertFile cfg,
       ''-keyFile'', bbs_KeyFile cfg,
       ''-databaseConnectionString'', bbs_DatabaseConnectionString cfg,
       ''-databaseDriver'', bbs_DatabaseDriver cfg,
       ''-encryptionKey'', encryptionKey,
       ''-healthAddress'', bbs_HealthAddress cfg,
       ''-listenAddress'', bbs_ListenAddress cfg,
       ''-logLevel'', LogLevel (bbs_LagerConfig cfg),
       ''-repCACert'', bbs_RepCACert cfg,
       ''-repClientCert'', bbs_RepClientCert cfg,
       ''-repClientKey'', bbs_RepClientKey cfg,
       ''-requireSSL''])"

definition v0_BBS :: "'l lib_scheme \<Rightarrow> commonComponentMaker \<Rightarrow> (BBSConfig \<Rightarrow> BBSConfig) list \<Rightarrow> ('s, 's runner) op" where
  "v0_BBS L maker ms =
     (let cfg = modified ms (v0_bbs_config L maker) in
      ret \<lparr>Name = ''bbs'', AnsiColorCode = ''32m'', StartCheck = ''bbs.started'',
        StartCheckTimeout = startCheckTimeout maker,
        Command = (executable maker ''bbs'', v0_bbs_args cfg), Cleanup = no_cleanup\<rparr>)"

section \<open>The rep\<close>

text \<open>The check Garden runs in a container to see whether it is healthy.\<close>

definition healthcheck_process :: "platform \<Rightarrow> string \<times> string list" where
  "healthcheck_process P =
     (if windows P then (''C:'' @ [CHR 0x5C] @ ''windows'' @ [CHR 0x5C] @ ''system32'' @ [CHR 0x5C] @ ''cmd.exe'', [''/c'', ''dir''])
      else (''/bin/sh'', [''-c'', ''echo'', ''foo'']))"

definition v0_rep_config :: "platform \<Rightarrow> 'l lib_scheme \<Rightarrow> commonComponentMaker \<Rightarrow> int \<Rightarrow> string \<Rightarrow> int
    \<Rightarrow> string \<Rightarrow> string \<Rightarrow> RepConfig" where
  "v0_rep_config P L maker n host port executorTempDir cachePath = no_RepConfig
     \<lparr>rep_SessionName := ''rep-'' @ Itoa n,
      rep_BBSAddress := BBSURL maker,
      rep_BBSCACertFile := CACert (bbsSSL maker),
      rep_BBSClientCertFile := ClientCert (bbsSSL maker),
      rep_BBSClientKeyFile := ClientKey (bbsSSL maker),
      rep_CaCertFile := CACert (repSSL maker),
      rep_ServerCertFile := ServerCert (repSSL maker),
      rep_ServerKeyFile := ServerKey (repSSL maker),
      rep_CellID := ''cell_z1'' @ ''-'' @ Itoa n @ ''-'' @ Itoa (GinkgoParallelProcess P),
      rep_Zone := ''z1'',
      rep_EvacuationPollingInterval := 1 * Second,
      rep_EvacuationTimeout := 10 * Second,
      rep_Executor := no_ExecutorConfig
        \<lparr>executor_CachePath := cachePath,
         executor_ContainerMaxCpuShares := 1024,
         executor_ExportNetworkEnvVars := True,
         executor_GardenAddr := Garden_addr (addresses maker),
         executor_GardenHealthcheckProcessUser := ''vcap'',
         executor_GardenNetwork := ''tcp'',
         executor_TempDir := executorTempDir,
         executor_VolmanDriverPaths := node_drivers P maker,
         executor_GardenHealthcheckProcessPath := fst (healthcheck_process P),
         executor_GardenHealthcheckProcessArgs := snd (healthcheck_process P)\<rparr>,
      rep_ListenAddr := host_port host (offsetPort port n),
      rep_ListenAddrSecurable := host_port host (offsetPort (wrap64 (port + 100)) n),
      rep_LockRetryInterval := 1 * Second,
      rep_LockTTL := 10 * Second,
      rep_LagerConfig := debug_lager L,
      rep_PollingInterval := 1 * Second,
      rep_ReportInterval := 1 * Minute,
      rep_SupportedProviders := [''docker'']\<rparr>"

definition bool_text :: "bool \<Rightarrow> string" where
  "bool_text b = (if b then ''true'' else ''false'')"

text \<open>The value of \<open>cfg.SupportedProviders[0]\<close> is the argument \<open>provider\<close>.\<close>

definition v0_rep_args :: "RootFS list \<Rightarrow> RepConfig \<Rightarrow> string \<Rightarrow> string list" where
  "v0_rep_args rootfses cfg provider =
     (let ex = rep_Executor cfg in
     [''-sessionName'', rep_SessionName cfg,
      ''-bbsAddress'', rep_BBSAddress cfg,
      ''-bbsCACert'', rep_BBSCACertFile cfg,
      ''-bbsClientCert'', rep_BBSClientCertFile cfg,
      ''-bbsClientKey'', rep_BBSClientKeyFile cfg,
      ''-caFile'', rep_CaCertFile cfg,
      ''-certFile'', rep_ServerCertFile cfg,
      ''-keyFile'', rep_ServerKeyFile cfg,
      ''-cachePath'', executor_CachePath ex,
      ''-cellID'', rep_CellID cfg,
      ''--zone'', rep_Zone cfg,
      ''-containerMaxCpuShares'', nat_text (executor_ContainerMaxCpuShares ex),
      ''-enableLegacyApiServer=false'',
      ''-evacuationPollingInterval'', Duration_String (rep_EvacuationPollingInterval cfg),
      ''-evacuationTimeout'', Duration_String (rep_EvacuationTimeout cfg),
      ''-exportNetworkEnvVars='' @ bool_text (executor_ExportNetworkEnvVars ex),
      ''-gardenAddr'', executor_GardenAddr ex,
      ''-gardenHealthcheckProcessPath'', executor_GardenHealthcheckProcessPath ex,
      ''-gardenHealthcheckProcessArgs'', join (executor_GardenHealthcheckProcessArgs ex) '','',
      ''-gardenHealthcheckProcessUser'', executor_GardenHealthcheckProcessUser ex,
      ''-gardenNetwork'', executor_GardenNetwork ex,
      ''-listenAddr'', rep_ListenAddr cfg,
      ''-listenAddrSecurable'', rep_ListenAddrSecurable cfg,
      ''-lockRetryInterval'', Duration_String (rep_LockRetryInterval cfg),
      ''-lockTTL'', Duration_String (rep_LockTTL cfg),
      ''-logLevel'', LogLevel (rep_LagerConfig cfg),
      ''-pollingInterval'', Duration_String (rep_PollingInterval cfg),
      ''-requireTLS=true'',
      ''-rootFSProvider'', provider,
      ''-tempDir'', executor_TempDir ex,
      ''-volmanDriverPaths'', executor_VolmanDriverPaths ex]
     @ concat (map (\<lambda>r. [''-preloadedRootFS'', RootFS_Name r @ '':'' @ RootFS_Path r]) rootfses))"

text \<open>The address of the rep, and the directories of its executor, before anything else is set.\<close>

definition rep_setup :: "platform \<Rightarrow> commonComponentMaker \<Rightarrow> ('s, string \<times> int \<times> string \<times> string) op" where
  "rep_setup P maker =
     andThen (expect_val (SplitHostPort (Rep_addr (addresses maker)))) (\<lambda>(host, portString).
     andThen (expect_val (Atoi portString)) (\<lambda>port.
     andThen (TempDirWithParent P (tmpDir maker) ''executor'') (\<lambda>executorTempDir.
     andThen (TempDirWithParent P executorTempDir ''cache'') (\<lambda>cachePath.
     ret (host, port, executorTempDir, cachePath)))))"

definition v0_RepN :: "platform \<Rightarrow> 'l lib_scheme \<Rightarrow> commonComponentMaker \<Rightarrow> int \<Rightarrow> (RepConfig \<Rightarrow> RepConfig) list
    \<Rightarrow> ('s, 's runner) op" where
  "v0_RepN P L maker n ms =
     andThen (rep_setup P maker) (\<lambda>(host, port, executorTempDir, cachePath).
     let name = ''rep-'' @ Itoa n;
         cfg = modified ms (v0_rep_config P L maker n host port executorTempDir cachePath) in
     case rep_SupportedProviders cfg of
       [] \<Rightarrow> fail (Panic ''index out of range [0] with length 0'')
     | provider # _ \<Rightarrow>
         ret \<lparr>Name = name, AnsiColorCode = ''33m'', StartCheck = quoted (name @ ''.started''),
           StartCheckTimeout = 2 * Minute,
           Command = (executable maker ''rep'', v0_rep_args (rootFSes maker) cfg provider), Cleanup = no_cleanup\<rparr>)"

definition v0_Rep :: "platform \<Rightarrow> 'l lib_scheme \<Rightarrow> commonComponentMaker \<Rightarrow> (RepConfig \<Rightarrow> RepConfig) list
    \<Rightarrow> ('s, 's runner) op" where
  "v0_Rep P L maker ms = v0_RepN P L maker 0 ms"

end
