(* ===== verification/World_V1.thy ===== *)
theory World_V1
  imports World_V0
begin

text \<open>
  The methods of \<open>v1ComponentMaker\<close> in \<open>world/components.go\<close>: the components of the second
  version read their configuration from a file.
\<close>

section \<open>The BBS\<close>

definition v1_bbs_config :: "'l agent_lib_scheme \<Rightarrow> commonComponentMaker \<Rightarrow> BBSConfig" where
  "v1_bbs_config L maker =
     \<lparr>bbs_CommunicationTimeout = 10 * Second,
      bbs_DesiredLRPCreationTimeout = 1 * Minute,
      bbs_ExpireCompletedTaskDuration = 2 * Minute,
      bbs_ExpirePendingTaskDuration = 30 * Minute,
      bbs_ConvergeRepeatInterval = 30 * Second,
      bbs_KickTaskDuration = 30 * Second,
      bbs_LockTTL = DefaultSessionTTL L,
      bbs_LockRetryInterval = RetryInterval L,
      bbs_ReportInterval = 1 * Minute,
      bbs_ConvergenceWorkers = 20,
      bbs_UpdateWorkers = 1000,
      bbs_TaskCallbackWorkers = 1000,
      bbs_MaxOpenDatabaseConnections = 200,
      bbs_MaxIdleDatabaseConnections = 200,
      bbs_RepClientSessionCacheSize = 0,
      bbs_SessionName = ''bbs'',
      bbs_AdvertiseURL = BBSURL maker,
      bbs_AuctioneerAddress = ''https://'' @ Auctioneer_addr (addresses maker),
      bbs_ListenAddress = BBS_addr (addresses maker),
      bbs_HealthAddress = Health_addr (addresses maker),
      bbs_CertFile = ServerCert (bbsSSL maker),
      bbs_KeyFile = ServerKey (bbsSSL maker),
      bbs_CaFile = CACert (bbsSSL maker),
      bbs_RepCACert = CACert (repSSL maker),
      bbs_RepClientCert = ClientCert (repSSL maker),
      bbs_RepClientKey = ClientKey (repSSL maker),
      bbs_AuctioneerCACert = CACert (auctioneerSSL maker),
      bbs_AuctioneerClientCert = ClientCert (auctioneerSSL maker),
      bbs_AuctioneerClientKey = ClientKey (auctioneerSSL maker),
      bbs_DatabaseConnectionString = SQL_addr (addresses maker),
      bbs_DatabaseDriver = dbDriverName maker,
      bbs_SQLCACertFile = sqlCACertFile maker,
      bbs_UUID = ''bbs-inigo-lock-owner'',
      bbs_RequireSSL = True,
      bbs_AuctioneerRequireTLS = True,
      bbs_Encryption = encryption_keys,
      bbs_LagerConfig = debug_lager L,
      bbs_ClientLocketConfig = locketClientConfig maker\<rparr>"

text \<open>The runner is made by the BBS's own package: the parameter \<open>NewRunner\<close>.\<close>

definition v1_BBS :: "'l agent_lib_scheme \<Rightarrow> (string \<Rightarrow> BBSConfig \<Rightarrow> 's runner) \<Rightarrow> commonComponentMaker
    \<Rightarrow> (BBSConfig \<Rightarrow> BBSConfig) list \<Rightarrow> ('s, 's runner) op" where
  "v1_BBS L NewRunner maker ms =
     (let config = modified ms (v1_bbs_config L maker);
          runner = NewRunner (executable maker ''bbs'') config in
      ret (runner\<lparr>AnsiColorCode := ''32m'', StartCheckTimeout := startCheckTimeout maker\<rparr>))"

section \<open>The rep\<close>

definition v1_executor_config :: "platform \<Rightarrow> 'l agent_lib_scheme \<Rightarrow> commonComponentMaker \<Rightarrow> int
    \<Rightarrow> string \<Rightarrow> string \<Rightarrow> ExecutorConfig" where
  "v1_executor_config P L maker n executorTempDir cachePath =
     \<lparr>executor_ReservedExpirationTime = Minute,
      executor_ContainerReapInterval = Minute,
      executor_ContainerInodeLimit = 200000,
      executor_DeclarativeHealthCheckDefaultTimeout = 1 * Second,
      executor_MaxCacheSizeInBytes = 10 * 1024 * 1024 * 1024,
      executor_HealthyMonitoringInterval = 30 * Second,
      executor_UnhealthyMonitoringInterval = 500 * Millisecond,
      executor_CreateWorkPoolSize = 32,
      executor_DeleteWorkPoolSize = 32,
      executor_ReadWorkPoolSize = 64,
      executor_MetricsWorkPoolSize = 8,
      executor_HealthCheckWorkPoolSize = 64,
      executor_MaxConcurrentDownloads = 5,
      executor_GardenHealthcheckInterval = 10 * Minute,
      executor_GardenHealthcheckEmissionInterval = 30 * Second,
      executor_GardenHealthcheckTimeout = 10 * Minute,
      executor_GardenHealthcheckCommandRetryPause = Second,
      executor_GracefulShutdownInterval = 10 * Second,
      executor_ContainerMetricsReportInterval = 15 * Second,
      executor_EnvoyConfigRefreshDelay = Second,
      executor_EnvoyDrainTimeout = 15 * Minute,
      executor_ContainerMaxCpuShares = 1024,
      executor_MemoryMB = Automatic L,
      executor_DiskMB = Automatic L,
      executor_DeclarativeHealthcheckPath = Healthcheck (Artifacts maker),
      executor_GardenNetwork = ''tcp'',
      executor_GardenAddr = Garden_addr (addresses maker),
      executor_CachePath = cachePath,
      executor_TempDir = executorTempDir,
      executor_GardenHealthcheckProcessUser = ''vcap'',
      executor_GardenHealthcheckProcessPath = fst (healthcheck_process P),
      executor_VolmanDriverPaths = node_drivers P maker,
      executor_ContainerOwnerName = ''executor-'' @ Itoa n,
      executor_HealthCheckContainerOwnerName = ''executor-health-check-'' @ Itoa n,
      executor_PathToTLSCert = ServerCert (repSSL maker),
      executor_PathToTLSKey = ServerKey (repSSL maker),
      executor_PathToTLSCACert = CACert (repSSL maker),
      executor_GardenHealthcheckProcessArgs = snd (healthcheck_process P),
      executor_GardenHealthcheckProcessEnv = [],
      executor_SkipCertVerify = False,
      executor_EnableUnproxiedPortMappings = True,
      executor_ExportNetworkEnvVars = False\<rparr>"

definition v1_rep_config :: "platform \<Rightarrow> 'l agent_lib_scheme \<Rightarrow> commonComponentMaker \<Rightarrow> int \<Rightarrow> string \<Rightarrow> int
    \<Rightarrow> string \<Rightarrow> string \<Rightarrow> RepConfig" where
  "v1_rep_config P L maker n host port executorTempDir cachePath =
     \<lparr>rep_BBSClientSessionCacheSize = 0,
      rep_BBSMaxIdleConnsPerHost = 0,
      rep_CommunicationTimeout = 10 * Second,
      rep_PollingInterval = 1 * Second,
      rep_ReportInterval = 1 * Minute,
      rep_EvacuationPollingInterval = 1 * Second,
      rep_EvacuationTimeout = 1 * Second,
      rep_LockTTL = 10 * Second,
      rep_LockRetryInterval = 1 * Second,
      rep_AdvertiseDomain = ''cell.service.cf.internal'',
      rep_SessionName = ''rep-'' @ Itoa n,
      rep_BBSAddress = BBSURL maker,
      rep_BBSClientCertFile = ClientCert (bbsSSL maker),
      rep_BBSClientKeyFile = ClientKey (bbsSSL maker),
      rep_BBSCACertFile = CACert (bbsSSL maker),
      rep_ListenAddr = host_port host (offsetPort port n),
      rep_ListenAddrSecurable = host_port host (offsetPort (wrap64 (port + 100)) n),
      rep_CellID = ''the-cell-id-'' @ Itoa (GinkgoParallelProcess P) @ ''-'' @ Itoa n,
      rep_Zone = [],
      rep_ServerCertFile = ServerCert (repSSL maker),
      rep_ServerKeyFile = ServerKey (repSSL maker),
      rep_CertFile = ServerCert (repSSL maker),
      rep_KeyFile = ServerKey (repSSL maker),
      rep_CaCertFile = CACert (repSSL maker),
      rep_ExtraRootfsDir = (if windows P then [] else filepath_Join P [''..'', ''fixtures'']),
      rep_SupportedProviders = [''docker''],
      rep_PreloadedRootFS = rootFSes maker,
      rep_Executor = v1_executor_config P L maker n executorTempDir cachePath,
      rep_LagerConfig = debug_lager L,
      rep_ClientLocketConfig = locketClientConfig maker\<rparr>"

definition v1_RepN :: "platform \<Rightarrow> 'l agent_lib_scheme \<Rightarrow> (RepConfig \<Rightarrow> go_error + string) \<Rightarrow> commonComponentMaker \<Rightarrow> int
    \<Rightarrow> (RepConfig \<Rightarrow> RepConfig) list \<Rightarrow> ('s, 's runner) op" where
  "v1_RepN P L json maker n ms =
     andThen (rep_setup P maker) (\<lambda>(host, port, executorTempDir, cachePath).
     let name = ''rep-'' @ Itoa n;
         repConfig = modified ms (v1_rep_config P L maker n host port executorTempDir cachePath) in
     andThen (TempDirWithParent P (tmpDir maker) ''rep-config'') (\<lambda>dir.
     andThen (expect_ok (CreateTemp P dir ''rep-config'')) (\<lambda>configFile.
     andThen (write_encoded P configFile (json repConfig)) (\<lambda>_.
     ret \<lparr>Name = name, AnsiColorCode = ''33m'', StartCheck = quoted (name @ ''.started''),
       StartCheckTimeout = 2 * Minute,
       Command = (executable maker ''rep'', [''-config'', configFile]), Cleanup = no_cleanup\<rparr>))))"

definition v1_Rep :: "platform \<Rightarrow> 'l agent_lib_scheme \<Rightarrow> (RepConfig \<Rightarrow> go_error + string) \<Rightarrow> commonComponentMaker
    \<Rightarrow> (RepConfig \<Rightarrow> RepConfig) list \<Rightarrow> ('s, 's runner) op" where
  "v1_Rep P L json maker ms = v1_RepN P L json maker 0 ms"

section \<open>The auctioneer and the route emitter\<close>

definition v1_auctioneer_config :: "'l agent_lib_scheme \<Rightarrow> commonComponentMaker \<Rightarrow> AuctioneerConfig" where
  "v1_auctioneer_config L maker =
     \<lparr>auctioneer_AuctionRunnerWorkers = 1000,
      auctioneer_CellStateTimeout = 1 * Second,
      auctioneer_CommunicationTimeout = 10 * Second,
      auctioneer_LockTTL = DefaultSessionTTL L,
      auctioneer_LockRetryInterval = Second,
      auctioneer_ReportInterval = 1 * Minute,
      auctioneer_StartingContainerCountMaximum = 0,
      auctioneer_BBSAddress = BBSURL maker,
      auctioneer_ListenAddress = Auctioneer_addr (addresses maker),
      auctioneer_BBSClientCertFile = ClientCert (bbsSSL maker),
      auctioneer_BBSClientKeyFile = ClientKey (bbsSSL maker),
      auctioneer_BBSCACertFile = CACert (bbsSSL maker),
      auctioneer_RepCACert = CACert (repSSL maker),
      auctioneer_RepClientCert = ClientCert (repSSL maker),
      auctioneer_RepClientKey = ClientKey (repSSL maker),
      auctioneer_CACertFile = CACert (auctioneerSSL maker),
      auctioneer_ServerCertFile = ServerCert (auctioneerSSL maker),
      auctioneer_ServerKeyFile = ServerKey (auctioneerSSL maker),
      auctioneer_UUID = ''auctioneer-inigo-lock-owner'',
      auctioneer_StartingContainerWeight = float_of 33 100,
      auctioneer_LagerConfig = debug_lager L,
      auctioneer_ClientLocketConfig = locketClientConfig maker\<rparr>"

definition v1_Auctioneer :: "platform \<Rightarrow> 'l agent_lib_scheme \<Rightarrow> (AuctioneerConfig \<Rightarrow> go_error + string)
    \<Rightarrow> commonComponentMaker \<Rightarrow> (AuctioneerConfig \<Rightarrow> AuctioneerConfig) list \<Rightarrow> ('s, 's runner) op" where
  "v1_Auctioneer P L json maker ms =
     (let auctioneerConfig = modified ms (v1_auctioneer_config L maker) in
     andThen (TempDirWithParent P (tmpDir maker) ''auctioneer-'') (\<lambda>dir.
     andThen (expect_ok (CreateTemp P dir ''auctioneer-config-'')) (\<lambda>configFile.
     andThen (write_encoded P configFile (json auctioneerConfig)) (\<lambda>_.
     ret \<lparr>Name = ''auctioneer'', AnsiColorCode = ''35m'', StartCheck = quoted ''auctioneer.started'',
       StartCheckTimeout = startCheckTimeout maker,
       Command = (executable maker ''auctioneer'', [''-config'', configFile]), Cleanup = no_cleanup\<rparr>))))"

definition v1_RouteEmitter :: "platform \<Rightarrow> 'l agent_lib_scheme \<Rightarrow> (RouteEmitterConfig \<Rightarrow> go_error + string)
    \<Rightarrow> commonComponentMaker \<Rightarrow> (RouteEmitterConfig \<Rightarrow> RouteEmitterConfig) list \<Rightarrow> ('s, 's runner) op" where
  "v1_RouteEmitter P L json maker ms = RouteEmitterN P L json maker 0 ms"

end
