(* ===== verification/World_Cells.thy ===== *)
theory World_Cells
  imports World_V1
begin

text \<open>
  What distinguishes the cells of a suite: the ports and the names of the reps that the two
  makers start, over \<open>offsetPort\<close>; and the command lines of the first version, read back the
  way Go's \<open>flag\<close> package reads them.
\<close>

section \<open>Reading a command line\<close>

text \<open>
  \<open>flag.Parse\<close>: one or two dashes, a name, and a value after an equals sign or, unless the flag
  is a boolean, in the next argument. The first argument that is no flag ends the flags; a
  missing value or a bad name is an error.
\<close>

definition flag_text :: "string \<Rightarrow> string option" where
  "flag_text a = (case a of
     CHR ''-'' # b # c \<Rightarrow>
       if b = CHR ''-'' then (if c = [] then None else Some c) else Some (b # c)
   | _ \<Rightarrow> None)"

definition name_and_value :: "string \<Rightarrow> string \<times> string option" where
  "name_and_value s = (case index_of (CHR ''='') s of
     None \<Rightarrow> (s, None)
   | Some i \<Rightarrow> (take i s, Some (drop (Suc i) s)))"

fun parse_flags :: "string list \<Rightarrow> string list \<Rightarrow> (string \<times> string) list option" where
  "parse_flags bools [] = Some []"
| "parse_flags bools (a # as) =
     (case flag_text a of
        None \<Rightarrow> Some []
      | Some t \<Rightarrow>
          (case name_and_value t of
             (name, Some v) \<Rightarrow> if name = [] then None else map_option (Cons (name, v)) (parse_flags bools as)
           | (name, None) \<Rightarrow>
               if name \<in> set bools then map_option (Cons (name, ''true'')) (parse_flags bools as)
               else (case as of
                       [] \<Rightarrow> None
                     | v # rest \<Rightarrow> map_option (Cons (name, v)) (parse_flags bools rest))))"

lemma parse_flag_value:
  assumes "flag_text a = Some t" and "name_and_value t = (name, None)" and "name \<notin> set bools"
  shows "parse_flags bools (a # v # rest) = map_option (Cons (name, v)) (parse_flags bools rest)"
  using assms by simp

lemma parse_flag_equals:
  assumes "flag_text a = Some t" and "name_and_value t = (name, Some v)" and "name \<noteq> []"
  shows "parse_flags bools (a # rest) = map_option (Cons (name, v)) (parse_flags bools rest)"
  using assms by simp

lemma parse_flag_bool:
  assumes "flag_text a = Some t" and "name_and_value t = (name, None)" and "name \<in> set bools"
  shows "parse_flags bools (a # rest) = map_option (Cons (name, ''true'')) (parse_flags bools rest)"
  using assms by simp

declare parse_flags.simps(2) [simp del]

lemma parse_repeated:
  assumes "flag_text a = Some t" and "name_and_value t = (name, None)" and "name \<notin> set bools"
  shows "parse_flags bools (concat (map (\<lambda>r. [a, f r]) rs)) = Some (map (\<lambda>r. (name, f r)) rs)"
  by (induction rs) (simp_all add: parse_flag_value [OF assms])

definition rep_bools :: "string list" where
  "rep_bools = [''enableLegacyApiServer'', ''exportNetworkEnvVars'', ''requireTLS'']"

lemma v0_rep_parse: "parse_flags rep_bools (v0_rep_args rs cfg provider) = Some
     ([(''sessionName'', rep_SessionName cfg), (''bbsAddress'', rep_BBSAddress cfg), (''bbsCACert'', rep_BBSCACertFile cfg),
       (''bbsClientCert'', rep_BBSClientCertFile cfg), (''bbsClientKey'', rep_BBSClientKeyFile cfg),
       (''caFile'', rep_CaCertFile cfg), (''certFile'', rep_ServerCertFile cfg), (''keyFile'', rep_ServerKeyFile cfg),
       (''cachePath'', executor_CachePath (rep_Executor cfg)), (''cellID'', rep_CellID cfg), (''zone'', rep_Zone cfg),
       (''containerMaxCpuShares'', nat_text (executor_ContainerMaxCpuShares (rep_Executor cfg))),
       (''enableLegacyApiServer'', ''false''),
       (''evacuationPollingInterval'', Duration_String (rep_EvacuationPollingInterval cfg)),
       (''evacuationTimeout'', Duration_String (rep_EvacuationTimeout cfg)),
       (''exportNetworkEnvVars'', bool_text (executor_ExportNetworkEnvVars (rep_Executor cfg))),
       (''gardenAddr'', executor_GardenAddr (rep_Executor cfg)),
       (''gardenHealthcheckProcessPath'', executor_GardenHealthcheckProcessPath (rep_Executor cfg)),
       (''gardenHealthcheckProcessArgs'', join (executor_GardenHealthcheckProcessArgs (rep_Executor cfg)) '',''),
       (''gardenHealthcheckProcessUser'', executor_GardenHealthcheckProcessUser (rep_Executor cfg)),
       (''gardenNetwork'', executor_GardenNetwork (rep_Executor cfg)),
       (''listenAddr'', rep_ListenAddr cfg), (''listenAddrSecurable'', rep_ListenAddrSecurable cfg),
       (''lockRetryInterval'', Duration_String (rep_LockRetryInterval cfg)), (''lockTTL'', Duration_String (rep_LockTTL cfg)),
       (''logLevel'', LogLevel (rep_LagerConfig cfg)),
       (''pollingInterval'', Duration_String (rep_PollingInterval cfg)),
       (''requireTLS'', ''true''), (''rootFSProvider'', provider),
       (''tempDir'', executor_TempDir (rep_Executor cfg)), (''volmanDriverPaths'', executor_VolmanDriverPaths (rep_Executor cfg))]
      @ map (\<lambda>r. (''preloadedRootFS'', RootFS_Name r @ '':'' @ RootFS_Path r)) rs)"
proof -
  have p: "parse_flags [''enableLegacyApiServer'', ''exportNetworkEnvVars'', ''requireTLS'']
      (concat (map (\<lambda>r. [''-preloadedRootFS'', f r]) rs)) = Some (map (\<lambda>r. (''preloadedRootFS'', f r)) rs)" for f
    by (rule parse_repeated [where t = "''preloadedRootFS''"]) (simp_all add: flag_text_def name_and_value_def index_of.simps)
  show ?thesis
    by (simp add: v0_rep_args_def Let_def parse_flags.simps(2) flag_text_def name_and_value_def rep_bools_def
        index_of.simps p)
qed

text \<open>The flags of a rep in the order of the command line.\<close>

definition rep_flag_names :: "string list" where
  "rep_flag_names = [''sessionName'', ''bbsAddress'', ''bbsCACert'', ''bbsClientCert'', ''bbsClientKey'', ''caFile'', ''certFile'',
     ''keyFile'', ''cachePath'', ''cellID'', ''zone'', ''containerMaxCpuShares'', ''enableLegacyApiServer'',
     ''evacuationPollingInterval'', ''evacuationTimeout'', ''exportNetworkEnvVars'', ''gardenAddr'', ''gardenHealthcheckProcessPath'',
     ''gardenHealthcheckProcessArgs'', ''gardenHealthcheckProcessUser'', ''gardenNetwork'', ''listenAddr'', ''listenAddrSecurable'',
     ''lockRetryInterval'', ''lockTTL'', ''logLevel'', ''pollingInterval'', ''requireTLS'', ''rootFSProvider'', ''tempDir'',
     ''volmanDriverPaths'']"

lemma tail_names: "map fst (map (\<lambda>r. (x, g r)) rs) = replicate (length rs) x"
  by (induction rs) simp_all

lemma Atoi_nat_text: "n < 2 ^ 63 \<Longrightarrow> Atoi (nat_text n) = Inr (int n)"
  using Atoi_Itoa [of "int n"] by (simp add: int64_ok_def Itoa_def)

text \<open>
  Property C17. Read with Go's flag rules, with the three boolean flags of the rep, the command
  line of a rep gives back every setting of its configuration that it passes on: each of the
  31 flags is there once, in order, followed by one flag for each root file system and nothing
  else; each text flag has the text of its field, the two fixed flags have their constants, the
  list of arguments is joined with commas, the number of shares is read as the number set if
  it fits 63 bits, and a duration of whole seconds is read as the one set. The configuration is
  that of the maker with the address and the directories of this call, as the caller's
  functions changed it.
\<close>

theorem v0_rep_flags_read_back:
  assumes "v0_RepN P L maker n ms s = (Inr r, t)"
  shows "\<exists>cfg host port tmp cache flags. rep_setup P maker s = (Inr (host, port, tmp, cache), t)
    \<and> cfg = modified ms (v0_rep_config P L maker n host port tmp cache)
    \<and> fst (Command r) = executable maker ''rep''
    \<and> parse_flags rep_bools (snd (Command r)) = Some flags
    \<and> map fst flags = rep_flag_names @ replicate (length (rootFSes maker)) ''preloadedRootFS''
    \<and> (\<forall>(f, v) \<in> set [(''sessionName'', rep_SessionName cfg), (''bbsAddress'', rep_BBSAddress cfg),
          (''bbsCACert'', rep_BBSCACertFile cfg), (''bbsClientCert'', rep_BBSClientCertFile cfg),
          (''bbsClientKey'', rep_BBSClientKeyFile cfg), (''caFile'', rep_CaCertFile cfg),
          (''certFile'', rep_ServerCertFile cfg), (''keyFile'', rep_ServerKeyFile cfg),
          (''cachePath'', executor_CachePath (rep_Executor cfg)), (''cellID'', rep_CellID cfg), (''zone'', rep_Zone cfg),
          (''enableLegacyApiServer'', ''false''),
          (''exportNetworkEnvVars'', bool_text (executor_ExportNetworkEnvVars (rep_Executor cfg))),
          (''gardenAddr'', executor_GardenAddr (rep_Executor cfg)),
          (''gardenHealthcheckProcessPath'', executor_GardenHealthcheckProcessPath (rep_Executor cfg)),
          (''gardenHealthcheckProcessArgs'', join (executor_GardenHealthcheckProcessArgs (rep_Executor cfg)) '',''),
          (''gardenHealthcheckProcessUser'', executor_GardenHealthcheckProcessUser (rep_Executor cfg)),
          (''gardenNetwork'', executor_GardenNetwork (rep_Executor cfg)),
          (''listenAddr'', rep_ListenAddr cfg), (''listenAddrSecurable'', rep_ListenAddrSecurable cfg),
          (''logLevel'', LogLevel (rep_LagerConfig cfg)), (''requireTLS'', ''true''),
          (''rootFSProvider'', hd (rep_SupportedProviders cfg)),
          (''tempDir'', executor_TempDir (rep_Executor cfg)),
          (''volmanDriverPaths'', executor_VolmanDriverPaths (rep_Executor cfg))]. map_of flags f = Some v)
    \<and> [v. (f, v) \<leftarrow> flags, f = ''preloadedRootFS''] = map (\<lambda>r. RootFS_Name r @ '':'' @ RootFS_Path r) (rootFSes maker)
    \<and> (executor_ContainerMaxCpuShares (rep_Executor cfg) < 2 ^ 63 \<longrightarrow>
         (\<exists>v. map_of flags ''containerMaxCpuShares'' = Some v
            \<and> Atoi v = Inr (int (executor_ContainerMaxCpuShares (rep_Executor cfg)))))
    \<and> (\<forall>(f, d) \<in> set [(''evacuationPollingInterval'', rep_EvacuationPollingInterval cfg),
          (''evacuationTimeout'', rep_EvacuationTimeout cfg), (''lockRetryInterval'', rep_LockRetryInterval cfg),
          (''lockTTL'', rep_LockTTL cfg), (''pollingInterval'', rep_PollingInterval cfg)].
         \<forall>k \<le> 9223372036. d = int k * Second \<longrightarrow> (\<exists>v. map_of flags f = Some v \<and> ParseDuration v = Inr d))"
proof -
  from assms obtain host port tmp cache u where "rep_setup P maker s = (Inr (host, port, tmp, cache), u)"
    and run: "(case rep_SupportedProviders (modified ms (v0_rep_config P L maker n host port tmp cache)) of
       [] \<Rightarrow> fail (Panic ''index out of range [0] with length 0'')
     | provider # _ \<Rightarrow>
         ret \<lparr>Name = ''rep-'' @ Itoa n, AnsiColorCode = ''33m'', StartCheck = quoted ((''rep-'' @ Itoa n) @ ''.started''),
           StartCheckTimeout = 2 * Minute,
           Command = (executable maker ''rep'', v0_rep_args (rootFSes maker)
             (modified ms (v0_rep_config P L maker n host port tmp cache)) provider), Cleanup = no_cleanup\<rparr>) u = (Inr r, t)"
    by (auto simp only: v0_RepN_def andThen_Inr_iff Let_def prod.case split_paired_Ex)
  define cfg where "cfg = modified ms (v0_rep_config P L maker n host port tmp cache)"
  note run = run [folded cfg_def]
  obtain provider others where p: "rep_SupportedProviders cfg = provider # others"
    using run by (cases "rep_SupportedProviders cfg") auto
  have r: "snd (Command r) = v0_rep_args (rootFSes maker) cfg provider" "fst (Command r) = executable maker ''rep''" "u = t"
    using run by (auto simp: p)
  with \<open>rep_setup P maker s = (Inr (host, port, tmp, cache), u)\<close> have start: "rep_setup P maker s = (Inr (host, port, tmp, cache), t)" by simp
  have tail: "concat (map (\<lambda>(f, v). if f = ''preloadedRootFS'' then [v] else []) (map (\<lambda>r. (''preloadedRootFS'', g r)) rs)) = map g rs"
    for g :: "RootFS \<Rightarrow> string" and rs
    by (induction rs) simp_all
  have read: "\<exists>v. Some (Duration_String d) = Some v \<and> ParseDuration v = Inr d"
    if "k \<le> 9223372036" "d = int k * Second" for k d
    using ParseDuration_String_seconds [OF that(1)] that(2) by simp
  show ?thesis
    apply (rule exI [of _ cfg], rule exI [of _ host], rule exI [of _ port], rule exI [of _ tmp], rule exI [of _ cache])
    apply (unfold r v0_rep_parse)
    apply (rule exI, rule conjI, rule start, rule conjI, rule cfg_def, rule conjI, rule refl, rule conjI, rule refl)
    using read by (simp add: p tail tail_names rep_flag_names_def Atoi_nat_text del: map_map)
qed

text \<open>The command line of the BBS ends with its only boolean flag.\<close>

lemma v0_bbs_flags_read_back:
  "parse_flags [''requireSSL''] (v0_bbs_args cfg) = Some
     [(''activeKeyLabel'', encryption_ActiveKeyLabel (bbs_Encryption cfg)), (''advertiseURL'', bbs_AdvertiseURL cfg),
      (''auctioneerAddress'', bbs_AuctioneerAddress cfg), (''caFile'', bbs_CaFile cfg), (''certFile'', bbs_CertFile cfg),
      (''keyFile'', bbs_KeyFile cfg), (''databaseConnectionString'', bbs_DatabaseConnectionString cfg),
      (''databaseDriver'', bbs_DatabaseDriver cfg),
      (''encryptionKey'', encryption_ActiveKeyLabel (bbs_Encryption cfg) @ '':''
         @ at_key (encryption_EncryptionKeys (bbs_Encryption cfg)) (encryption_ActiveKeyLabel (bbs_Encryption cfg))),
      (''healthAddress'', bbs_HealthAddress cfg), (''listenAddress'', bbs_ListenAddress cfg),
      (''logLevel'', LogLevel (bbs_LagerConfig cfg)), (''repCACert'', bbs_RepCACert cfg),
      (''repClientCert'', bbs_RepClientCert cfg), (''repClientKey'', bbs_RepClientKey cfg), (''requireSSL'', ''true'')]"
  by (simp add: v0_bbs_args_def Let_def parse_flags.simps(2) flag_text_def name_and_value_def index_of.simps)

section \<open>The ports of the reps\<close>

lemma host_port_inj: "host_port h p = host_port h q \<longleftrightarrow> p = q"
  by (simp add: host_port_def Itoa_inj)

lemma offsetPort_small: "0 \<le> p \<Longrightarrow> p \<le> 1000000 \<Longrightarrow> 0 \<le> n \<Longrightarrow> n \<le> 1000 \<Longrightarrow> offsetPort p n = p + 10 * n"
  by (simp add: offsetPort_def wrap64_id int64_ok_def)

lemma wrap64_small: "0 \<le> p \<Longrightarrow> p \<le> 1000000 \<Longrightarrow> wrap64 (p + 100) = p + 100"
  by (simp add: wrap64_id int64_ok_def)

text \<open>
  What both makers promise of the configuration of a rep with number \<open>n\<close>, on a host and a
  port: its two addresses are offset by the number. The tests start reps with either.
\<close>

locale rep_maker =
  fixes config :: "int \<Rightarrow> string \<Rightarrow> int \<Rightarrow> RepConfig"
  assumes plain: "rep_ListenAddr (config n host port) = host_port host (offsetPort port n)"
    and secure: "rep_ListenAddrSecurable (config n host port) = host_port host (offsetPort (wrap64 (port + 100)) n)"
begin

lemma plain_port: "0 \<le> p \<Longrightarrow> p \<le> 100000 \<Longrightarrow> 0 \<le> n \<Longrightarrow> n \<le> 20 \<Longrightarrow>
    rep_ListenAddr (config n host p) = host_port host (p + 10 * n)"
  by (simp add: plain offsetPort_small)

lemma secure_port: "0 \<le> p \<Longrightarrow> p \<le> 100000 \<Longrightarrow> 0 \<le> n \<Longrightarrow> n \<le> 20 \<Longrightarrow>
    rep_ListenAddrSecurable (config n host p) = host_port host (p + 100 + 10 * n)"
  by (simp add: secure offsetPort_small wrap64_small)

lemmas ports = plain_port secure_port host_port_inj

lemma ports_distinct:
  assumes "0 \<le> base" and "base \<le> 60000" and "1 \<le> a" and "a \<le> 10" and "1 \<le> b" and "b \<le> 10"
    and "0 \<le> n" and "n < 10" and "0 \<le> m" and "m < 10"
  shows "rep_ListenAddr (config n host (base + a)) = rep_ListenAddr (config m host (base + b)) \<longleftrightarrow> a = b \<and> n = m"
    and "rep_ListenAddrSecurable (config n host (base + a)) = rep_ListenAddrSecurable (config m host (base + b)) \<longleftrightarrow> a = b \<and> n = m"
    and "rep_ListenAddr (config n host (base + a)) \<noteq> rep_ListenAddrSecurable (config m host (base + b))"
proof -
  have "a = b \<and> n = m" if "a + 10 * n = b + 10 * m" using that assms(3-10) by presburger
  then show "rep_ListenAddr (config n host (base + a)) = rep_ListenAddr (config m host (base + b)) \<longleftrightarrow> a = b \<and> n = m"
    "rep_ListenAddrSecurable (config n host (base + a)) = rep_ListenAddrSecurable (config m host (base + b)) \<longleftrightarrow> a = b \<and> n = m"
    using assms by (auto simp: ports)
  show "rep_ListenAddr (config n host (base + a)) \<noteq> rep_ListenAddrSecurable (config m host (base + b))"
    using assms by (auto simp: ports)
qed

lemma ports_meet:
  assumes "0 \<le> p" and "p \<le> 60000" and "0 \<le> n" and "n < 10"
  shows "rep_ListenAddrSecurable (config n host p) = rep_ListenAddr (config (n + 10) host p)"
    and "rep_ListenAddr (config n host (p + 10)) = rep_ListenAddr (config (n + 1) host p)"
  using assms by (simp_all add: ports)

end

interpretation v0: rep_maker "\<lambda>n host port. v0_rep_config P L maker n host port tmp cache" for P L maker tmp cache
  by unfold_locales (simp_all add: v0_rep_config_def)

interpretation v1: rep_maker "\<lambda>n host port. v1_rep_config P L maker n host port tmp cache" for P L maker tmp cache
  by unfold_locales (simp_all add: v1_rep_config_def)

text \<open>
  Property C18. On the ports of the suites, a base number plus the number of the node, up to
  ten reps on each of up to ten nodes listen on different ports, plain and secure, as the
  comment of \<open>offsetPort\<close> claims, and both makers agree on them. Beyond that they meet: the
  secure port of a rep is the plain port of the one ten numbers further, and the plain port
  of a rep on the node ten numbers further is that of the next rep of the node.
\<close>

theorem rep_ports_distinct:
  assumes "0 \<le> base" and "base \<le> 50000" and "1 \<le> a" and "a \<le> 10" and "1 \<le> b" and "b \<le> 10"
    and "0 \<le> n" and "n < 10" and "0 \<le> m" and "m < 10"
    and "plain = (\<lambda>a n. rep_ListenAddr (v1_rep_config P L maker n host (base + a) tmp cache))"
    and "secure = (\<lambda>a n. rep_ListenAddrSecurable (v1_rep_config P L maker n host (base + a) tmp cache))"
  shows "(plain a n = plain b m \<longleftrightarrow> a = b \<and> n = m) \<and> (secure a n = secure b m \<longleftrightarrow> a = b \<and> n = m)
    \<and> plain a n \<noteq> secure b m
    \<and> plain a n = rep_ListenAddr (v0_rep_config P L maker n host (base + a) tmp cache)
    \<and> secure a n = rep_ListenAddrSecurable (v0_rep_config P L maker n host (base + a) tmp cache)
    \<and> secure a n = plain a (n + 10) \<and> plain (a + 10) n = plain a (n + 1)"
proof -
  have base: "base \<le> 60000" "0 \<le> base + a" "base + a \<le> 60000" using assms(1-4) by simp_all
  show ?thesis
    unfolding assms(11,12)
    using v1.ports_distinct [OF assms(1) base(1) assms(3-10)] v1.ports_meet [OF base(2,3) assms(7,8)]
    by (simp add: v0.plain v0.secure v1.plain v1.secure add.assoc)
qed

section \<open>The names of the cells\<close>

lemma split_at_dash: "CHR ''-'' \<notin> set x \<Longrightarrow> CHR ''-'' \<notin> set y \<Longrightarrow>
    x @ CHR ''-'' # u = y @ CHR ''-'' # v \<longleftrightarrow> x = y \<and> u = v"
proof (induction x arbitrary: y)
  case Nil
  then show ?case by (cases y) auto
next
  case (Cons c x)
  then show ?case by (cases y) auto
qed

lemma Itoa_no_dash: "0 \<le> i \<Longrightarrow> CHR ''-'' \<notin> set (Itoa i)"
  using nat_text_digits [of "nat i"] not_digit(2) by (auto simp: Itoa_def)

text \<open>
  The name of a cell tells it from all others: two reps have the same one only
  if they were made by the same kind of maker, on the same node and with the same number.
\<close>

theorem cell_ids_distinct:
  assumes "0 \<le> n" and "0 \<le> m" and "0 \<le> GinkgoParallelProcess P" and "0 \<le> GinkgoParallelProcess Q"
  shows "(rep_CellID (v1_rep_config P L maker n host port tmp cache) = rep_CellID (v1_rep_config Q L' maker' m host' port' tmp' cache')
      \<longleftrightarrow> n = m \<and> GinkgoParallelProcess P = GinkgoParallelProcess Q)
    \<and> (rep_CellID (v0_rep_config P K maker n host port tmp cache) = rep_CellID (v0_rep_config Q K' maker' m host' port' tmp' cache')
      \<longleftrightarrow> n = m \<and> GinkgoParallelProcess P = GinkgoParallelProcess Q)
    \<and> rep_CellID (v0_rep_config P K maker n host port tmp cache) \<noteq> rep_CellID (v1_rep_config Q L' maker' m host' port' tmp' cache')"
  using assms by (auto simp: v0_rep_config_def v1_rep_config_def split_at_dash Itoa_no_dash Itoa_inj)

section \<open>Runs of a suite\<close>

definition plain_agents :: agent_lib where
  "plain_agents = \<lparr>StackPathMap = StackPathMap plain_lib, RootFS_Names = RootFS_Names plain_lib, DefaultSessionTTL = 15,
     RetryInterval = 5, FormatRFC3339 = ''rfc3339'', Automatic = ''auto''\<rparr>"

definition second_node :: platform where
  "second_node = demo_platform\<lparr>GinkgoParallelProcess := 2\<rparr>"

theorem cell_ids_distinct_witness:
  "rep_CellID (v1_rep_config demo_platform plain_agents plain_maker 1 ''127.0.0.1'' 14001 ''/t'' ''/c'')
     \<noteq> rep_CellID (v1_rep_config second_node plain_agents plain_maker 1 ''127.0.0.1'' 14001 ''/t'' ''/c'')"
proof -
  have p: "GinkgoParallelProcess demo_platform = 1" "GinkgoParallelProcess second_node = 2"
    by (simp_all add: demo_platform_def second_node_def)
  then have "(0::int) \<le> 1" "0 \<le> GinkgoParallelProcess demo_platform" "0 \<le> GinkgoParallelProcess second_node" by simp_all
  from conjunct1 [OF cell_ids_distinct [OF this(1,1,2,3)]] p show ?thesis by simp
qed

theorem rep_ports_distinct_witness:
  "rep_ListenAddr (v1_rep_config demo_platform plain_agents plain_maker 1 ''127.0.0.1'' (14000 + 1) ''/t'' ''/c'')
     \<noteq> rep_ListenAddr (v1_rep_config demo_platform plain_agents plain_maker 0 ''127.0.0.1'' (14000 + 10) ''/t'' ''/c'')"
proof -
  have "(0::int) \<le> 14000" "(14000::int) \<le> 50000" "(1::int) \<le> 1" "(1::int) \<le> 10" "(1::int) \<le> 10"
    "(0::int) \<le> 1" "(1::int) < 10" "(0::int) \<le> 0" "(0::int) < 10" by simp_all
  from conjunct1 [OF rep_ports_distinct [OF this(1-4) this(5) _ this(6-9) refl refl, where P = demo_platform and L = plain_agents and maker = plain_maker and host = "''127.0.0.1''" and tmp = "''/t''" and cache = "''/c''"]]
  show ?thesis by simp
qed

definition plain_rep :: "(failure + unit runner) \<times> world" where
  "plain_rep = v0_RepN demo_platform plain_lib plain_maker 3 [] plain_world"

theorem v0_rep_flags_read_back_witness:
  "\<exists>flags. parse_flags rep_bools (snd (Command (projr (fst plain_rep)))) = Some flags
     \<and> [v. (f, v) \<leftarrow> flags, f = ''preloadedRootFS''] = [''red-stack:/rootfs'']
     \<and> (\<exists>v. map_of flags ''evacuationTimeout'' = Some v \<and> ParseDuration v = Inr (10 * Second))"
proof -
  have "\<not> isl (fst (rep_setup demo_platform plain_maker plain_world))" by code_simp
  from succeeded [OF this] obtain h p d c u where "rep_setup demo_platform plain_maker plain_world = (Inr (h, p, d, c), u)"
    by (metis prod.collapse)
  then have "\<not> isl (fst plain_rep)"
    by (simp add: plain_rep_def v0_RepN_def andThen_def v0_rep_config_def Let_def)
  from succeeded [OF this] have run: "v0_RepN demo_platform plain_lib plain_maker 3 [] plain_world
      = (Inr (projr (fst plain_rep)), snd plain_rep)" by (simp flip: plain_rep_def)
  have roots: "map (\<lambda>r. RootFS_Name r @ '':'' @ RootFS_Path r) (rootFSes plain_maker) = [''red-stack:/rootfs'']"
    by (simp add: plain_maker_def)
  have d: "rep_EvacuationTimeout (modified [] (v0_rep_config demo_platform plain_lib plain_maker 3 host port tmp cache))
      = int 10 * Second" for host port tmp cache
    by (simp add: v0_rep_config_def)
  from v0_rep_flags_read_back [OF run] obtain host port tmp cache flags where
    "parse_flags rep_bools (snd (Command (projr (fst plain_rep)))) = Some flags"
    "[v. (f, v) \<leftarrow> flags, f = ''preloadedRootFS''] = map (\<lambda>r. RootFS_Name r @ '':'' @ RootFS_Path r) (rootFSes plain_maker)"
    "\<forall>k \<le> 9223372036. rep_EvacuationTimeout (modified [] (v0_rep_config demo_platform plain_lib plain_maker 3 host port tmp cache))
        = int k * Second \<longrightarrow> (\<exists>v. map_of flags ''evacuationTimeout'' = Some v \<and> ParseDuration v = Inr
          (rep_EvacuationTimeout (modified [] (v0_rep_config demo_platform plain_lib plain_maker 3 host port tmp cache))))"
    by auto
  moreover from this(3) [rule_format, of 10] d
  have "\<exists>v. map_of flags ''evacuationTimeout'' = Some v \<and> ParseDuration v = Inr (10 * Second)" by simp
  ultimately show ?thesis using roots by simp
qed

end
