(* ===== verification/World_Suite.thy ===== *)
theory World_Suite
  imports World_Cells
begin

text \<open>
  How the suites put the parts together, in \<open>SynchronizedBeforeSuite\<close> and \<open>AfterSuite\<close> of
  \<open>cell/cell_suite_test.go\<close>, which \<open>executor/executor_suite_test.go\<close> repeats: the addresses
  and the allocator of a parallel process, its certificate authority and component maker,
  and what is removed at the end.
\<close>

section \<open>Addresses and allocator\<close>

definition suite_addresses :: "platform \<Rightarrow> string \<Rightarrow> string \<Rightarrow> ComponentAddresses" where
  "suite_addresses P localIP dbBase =
     (let n = GinkgoParallelProcess P; local = host_port ''127.0.0.1'' in
      \<lparr>NATS_addr = local (11000 + n),
       BBS_addr = local (20500 + n * 2),
       Health_addr = local (20500 + n * 2 + 1),
       Rep_addr = local (14000 + n),
       FileServer_addr = host_port localIP (17000 + n),
       Router_addr = local (18000 + n),
       RouterStatus_addr = local (18100 + n),
       RouterRoutes_addr = local (18200 + n),
       RouterRouteServices_addr = local (18300 + n),
       Garden_addr = local (10000 + n),
       Auctioneer_addr = local (23000 + n),
       SSHProxy_addr = local (23500 + n),
       SSHProxyHealthCheck_addr = local (24500 + n),
       FakeVolmanDriver_addr = local (25500 + n),
       Locket_addr = local (26500 + n),
       SQL_addr = dbBase @ ''diego_'' @ Itoa n\<rparr>)"

definition suite_allocator :: "platform \<Rightarrow> string + portAllocator" where
  "suite_allocator P =
     (let startPort = 1000 * GinkgoParallelProcess P;
          portRange = 950;
          endPort = startPort + portRange
      in New startPort endPort)"

section \<open>The suite\<close>

text \<open>The common maker inside either kind, whose methods the suites call.\<close>

fun embedded :: "ComponentMaker \<Rightarrow> commonComponentMaker" where
  "embedded (v0ComponentMaker m) = m"
| "embedded (v1ComponentMaker m) = m"

text \<open>
  The function that runs on every process. The artifacts come decoded from the first process
  and the address of the machine from a library, each with its error; \<open>suiteTempDir\<close> is the
  package variable, which only the function of the first process sets.
\<close>

definition suite_start :: "platform \<Rightarrow> maker_lib \<Rightarrow> ('key, 'csr, 'crt) pkix \<Rightarrow> (GrootFSConfig \<Rightarrow> go_error + string)
    \<Rightarrow> go_error + BuiltArtifacts \<Rightarrow> go_error + string \<Rightarrow> string \<Rightarrow> ('s, ComponentMaker) op" where
  "suite_start P L X yaml decoded ip suiteTempDir =
     andThen (expect_val decoded) (\<lambda>builtArtifacts.
     andThen (DBInfo L) (\<lambda>(_, dbBaseConnectionString).
     andThen (expect_val ip) (\<lambda>localIP.
     andThen (expect_val (case suite_allocator P of Inl e \<Rightarrow> Inl (Msg e) | Inr a \<Rightarrow> Inr a)) (\<lambda>a.
     andThen (modify (\<lambda>s. s\<lparr>allocator := a\<rparr>)) (\<lambda>_.
     andThen (TempDirWithParent P suiteTempDir ''cert-depot'') (\<lambda>certDepot.
     andThen (expect_cert (NewCertAuthority P X certDepot ''ca'')) (\<lambda>certAuthority.
     andThen (MakeComponentMaker P L (authority_of P X certAuthority) builtArtifacts
       (suite_addresses P localIP dbBaseConnectionString)) (\<lambda>componentMaker.
     andThen (Setup P yaml (embedded componentMaker)) (\<lambda>_.
     ret componentMaker)))))))))"

text \<open>\<open>AfterSuite\<close>: the error of the removal is not looked at.\<close>

definition suite_end :: "platform \<Rightarrow> nat \<Rightarrow> (GrootFSConfig \<Rightarrow> go_error + string) \<Rightarrow> ComponentMaker option \<Rightarrow> string
    \<Rightarrow> ('s, unit) op" where
  "suite_end P polls yaml componentMaker suiteTempDir =
     andThen (case componentMaker of None \<Rightarrow> ret () | Some maker \<Rightarrow> Teardown P polls yaml (embedded maker)) (\<lambda>_.
     andThen (attempt (RemoveAll P suiteTempDir)) (\<lambda>_. ret ()))"

section \<open>The ports of the nodes\<close>

definition listens :: "ComponentAddresses \<Rightarrow> string list" where
  "listens a = [NATS_addr a, BBS_addr a, Health_addr a, Rep_addr a, FileServer_addr a, Router_addr a, RouterStatus_addr a,
     RouterRoutes_addr a, RouterRouteServices_addr a, Garden_addr a, Auctioneer_addr a, SSHProxy_addr a,
     SSHProxyHealthCheck_addr a, FakeVolmanDriver_addr a, Locket_addr a]"

definition fixed_ports :: "int \<Rightarrow> int list" where
  "fixed_ports n = [11000 + n, 20500 + n * 2, 20500 + n * 2 + 1, 14000 + n, 17000 + n, 18000 + n, 18100 + n, 18200 + n,
     18300 + n, 10000 + n, 23000 + n, 23500 + n, 24500 + n, 25500 + n, 26500 + n]"

text \<open>The port of an address is what follows the last colon.\<close>

definition after_colon :: "string \<Rightarrow> string" where
  "after_colon a = rev (takeWhile (\<lambda>c. c \<noteq> CHR '':'') (rev a))"

lemma Itoa_no_colon: "CHR '':'' \<notin> set (Itoa i)"
  using nat_text_digits [of "nat i"] nat_text_digits [of "nat (- i)"] not_digit by (auto simp: Itoa_def)

lemma after_colon_host_port: "after_colon (host_port h p) = Itoa p"
proof -
  have "takeWhile (\<lambda>c. c \<noteq> CHR '':'') (rev (Itoa p) @ CHR '':'' # rev h) = rev (Itoa p)"
    using Itoa_no_colon [of p] by (subst takeWhile_append2) auto
  then show ?thesis by (simp add: after_colon_def host_port_def)
qed

lemma host_port_same: "host_port h p = host_port g q \<Longrightarrow> p = q"
  using after_colon_host_port [of h p] after_colon_host_port [of g q] by (simp add: Itoa_inj)

lemma listens_ports: "map after_colon (listens (suite_addresses P ip db)) = map Itoa (fixed_ports (GinkgoParallelProcess P))"
  by (simp add: listens_def suite_addresses_def Let_def after_colon_host_port fixed_ports_def)

lemma fixed_ports_distinct:
  assumes "1 \<le> j" and "j < 100" and "1 \<le> k" and "k < 100"
  shows "distinct (fixed_ports j)" and "j \<noteq> k \<Longrightarrow> set (fixed_ports j) \<inter> set (fixed_ports k) = {}"
  using assms by (simp_all add: fixed_ports_def)

lemma suite_claims:
  assumes "suite_allocator P = Inr p" and "1 \<le> GinkgoParallelProcess P" and "GinkgoParallelProcess P \<le> 10"
  shows "next_no p = nat (1000 * GinkgoParallelProcess P)" and "last_no p = nat (1000 * GinkgoParallelProcess P + 950)"
    and "port_inv p"
  using New_fields [OF assms(1) [unfolded suite_allocator_def Let_def]] assms(2,3) by simp_all

lemma suite_run:
  assumes "suite_allocator P = Inr p" and "1 \<le> GinkgoParallelProcess P" and "GinkgoParallelProcess P \<le> 10"
    and "\<forall>n \<in> set ns. 1 \<le> n \<and> n \<le> 50000"
  shows "distinct (ports_of (fst (claim_run ClaimPorts ns p)))"
    and "set (ports_of (fst (claim_run ClaimPorts ns p)))
      \<subseteq> {nat (1000 * GinkgoParallelProcess P) .. nat (1000 * GinkgoParallelProcess P + 950)}"
proof -
  note f = suite_claims [OF assms(1-3)]
  have "\<forall>n \<in> set ns. 1 \<le> n \<and> nat n + last_no p \<le> 65535" using assms(3,4) f(2) by fastforce
  from alloc.run_disjoint [OF f(3) this]
  show "distinct (ports_of (fst (claim_run ClaimPorts ns p)))"
    "set (ports_of (fst (claim_run ClaimPorts ns p)))
      \<subseteq> {nat (1000 * GinkgoParallelProcess P) .. nat (1000 * GinkgoParallelProcess P + 950)}"
    by (simp_all add: f)
qed

lemma listens_distinct:
  assumes "1 \<le> GinkgoParallelProcess P" and "GinkgoParallelProcess P < 100" and "1 \<le> GinkgoParallelProcess Q"
    and "GinkgoParallelProcess Q < 100" and "GinkgoParallelProcess P \<noteq> GinkgoParallelProcess Q"
  shows "distinct (listens (suite_addresses P ip db) @ listens (suite_addresses Q ip db))"
proof -
  have "distinct (fixed_ports (GinkgoParallelProcess P) @ fixed_ports (GinkgoParallelProcess Q))"
    using fixed_ports_distinct [OF assms(1-4)] fixed_ports_distinct(1) [OF assms(3,4,1,2)] assms(5) by simp
  moreover have "inj Itoa" by (simp add: inj_def Itoa_inj)
  ultimately have "distinct (map Itoa (fixed_ports (GinkgoParallelProcess P) @ fixed_ports (GinkgoParallelProcess Q)))"
    by (simp only: distinct_map inj_on_subset [OF _ subset_UNIV])
  then have "distinct (map after_colon (listens (suite_addresses P ip db) @ listens (suite_addresses Q ip db)))"
    by (simp only: map_append listens_ports)
  then show ?thesis by (simp only: distinct_map)
qed

lemma claimed_not_fixed:
  assumes "host_port h i \<in> set (listens (suite_addresses P ip db))" and "1 \<le> GinkgoParallelProcess P"
  shows "10000 < i"
proof -
  from imageI [OF assms(1), of after_colon] have "Itoa i \<in> set (map after_colon (listens (suite_addresses P ip db)))"
    by (simp only: after_colon_host_port set_map)
  then have "i \<in> set (fixed_ports (GinkgoParallelProcess P))" by (auto simp: listens_ports Itoa_inj)
  with assms(2) show ?thesis by (auto simp: fixed_ports_def)
qed

text \<open>
  Property C20. Two of the first nine parallel processes never get in each other's way: their
  fixed addresses are all different, the ports their allocators hand out are different, and
  no port that is handed out is one of a fixed address of either process.
\<close>

theorem suite_ports_apart:
  assumes "1 \<le> GinkgoParallelProcess P" and "GinkgoParallelProcess P \<le> 9" and "1 \<le> GinkgoParallelProcess Q"
    and "GinkgoParallelProcess Q \<le> 9" and "GinkgoParallelProcess P \<noteq> GinkgoParallelProcess Q"
    and "suite_allocator P = Inr p" and "suite_allocator Q = Inr q"
    and "\<forall>n \<in> set ns \<union> set ms. 1 \<le> n \<and> n \<le> 50000"
    and "given = ports_of (fst (claim_run ClaimPorts ns p)) @ ports_of (fst (claim_run ClaimPorts ms q))"
    and "fixed = listens (suite_addresses P ip db) @ listens (suite_addresses Q ip db)"
  shows "distinct fixed \<and> distinct given \<and> (\<forall>w \<in> set given. \<forall>h. host_port h (int w) \<notin> set fixed)"
proof -
  note a = suite_run [OF assms(6,1), of ns] and b = suite_run [OF assms(7,3), of ms]
  have ab: "set (ports_of (fst (claim_run ClaimPorts ns p)))
      \<subseteq> {nat (1000 * GinkgoParallelProcess P) .. nat (1000 * GinkgoParallelProcess P + 950)}"
    "set (ports_of (fst (claim_run ClaimPorts ms q)))
      \<subseteq> {nat (1000 * GinkgoParallelProcess Q) .. nat (1000 * GinkgoParallelProcess Q + 950)}"
    "distinct (ports_of (fst (claim_run ClaimPorts ns p)))" "distinct (ports_of (fst (claim_run ClaimPorts ms q)))"
    using a b assms(2,4,8) by simp_all
  have "{nat (1000 * GinkgoParallelProcess P) .. nat (1000 * GinkgoParallelProcess P + 950)}
      \<inter> {nat (1000 * GinkgoParallelProcess Q) .. nat (1000 * GinkgoParallelProcess Q + 950)} = {}"
    using assms(1-5) by auto
  with ab have given: "distinct given" unfolding assms(9) distinct_append by blast
  have "int w \<le> 9950" if w: "w \<in> set given" for w
    using w ab(1,2) assms(1-4) unfolding assms(9) set_append by fastforce
  moreover have "10000 < i" if "host_port h i \<in> set fixed" for h i
    using that claimed_not_fixed [OF _ assms(1)] claimed_not_fixed [OF _ assms(3)] unfolding assms(10) by auto
  ultimately have "\<forall>w \<in> set given. \<forall>h. host_port h (int w) \<notin> set fixed" by force
  moreover have "distinct fixed" unfolding assms(10) using assms(1-5) by (intro listens_distinct) simp_all
  ultimately show ?thesis using given by blast
qed

definition node :: "int \<Rightarrow> platform" where
  "node n = demo_platform\<lparr>GinkgoParallelProcess := n\<rparr>"

lemma node_process [simp]: "GinkgoParallelProcess (node n) = n"
  by (simp add: node_def)

theorem suite_ports_apart_witness:
  "distinct (listens (suite_addresses (node 1) ''10.0.0.7'' ''db/'') @ listens (suite_addresses (node 9) ''10.0.0.7'' ''db/''))
     \<and> (\<forall>h. host_port h 1001 \<notin> set (listens (suite_addresses (node 9) ''10.0.0.7'' ''db/'')))"
proof -
  have alloc: "suite_allocator (node 1) = Inr \<lparr>nextPort = 1000, endingPort = 1950\<rparr>"
    "suite_allocator (node 9) = Inr \<lparr>nextPort = 9000, endingPort = 9950\<rparr>"
    by (simp_all add: suite_allocator_def New_def)
  have sizes: "\<forall>n \<in> set [2] \<union> set []. 1 \<le> n \<and> n \<le> (50000 :: int)" by simp
  have given: "1001 \<in> set (ports_of (fst (claim_run ClaimPorts [2] \<lparr>nextPort = 1000, endingPort = 1950\<rparr>)))"
    by (simp add: ClaimPorts_def Let_def)
  let ?fixed = "listens (suite_addresses (node 1) ''10.0.0.7'' ''db/'') @ listens (suite_addresses (node 9) ''10.0.0.7'' ''db/'')"
  let ?given = "ports_of (fst (claim_run ClaimPorts [2] \<lparr>nextPort = 1000, endingPort = 1950\<rparr>))
    @ ports_of (fst (claim_run ClaimPorts [] \<lparr>nextPort = 9000, endingPort = 9950\<rparr>))"
  have all: "distinct ?fixed \<and> distinct ?given \<and> (\<forall>w \<in> set ?given. \<forall>h. host_port h (int w) \<notin> set ?fixed)"
    by (rule suite_ports_apart [OF _ _ _ _ _ alloc sizes refl refl]) simp_all
  have "1001 \<in> set ?given" using given by (simp only: set_append Un_iff simp_thms)
  with all have "\<forall>h. host_port h (int 1001) \<notin> set ?fixed" by blast
  then have "\<forall>h. host_port h 1001 \<notin> set (listens (suite_addresses (node 9) ''10.0.0.7'' ''db/''))"
    by (simp only: set_append Un_iff of_nat_numeral simp_thms de_Morgan_disj)
  with all show ?thesis by blast
qed

text \<open>
  Property C40. The tenth process does: the ports from 10000 on, which its allocator hands out,
  are the fixed addresses of Garden on the other processes. After claims for \<open>k\<close> ports the
  next claim gets the port on which Garden of process \<open>k\<close> listens.
\<close>

theorem tenth_node_meets_garden:
  assumes "GinkgoParallelProcess P = 10" and "suite_allocator P = Inr p" and "GinkgoParallelProcess Q = k"
    and "1 \<le> k" and "k \<le> 950"
  shows "\<exists>w. fst (ClaimPorts 1 (snd (ClaimPorts k p))) = Inr w
    \<and> Garden_addr (suite_addresses Q ip db) = host_port ''127.0.0.1'' (uint w)"
proof -
  have f: "next_no p = 10000" "last_no p = 10950" using suite_claims [OF assms(2)] assms(1) by simp_all
  have "next_no p + nat k \<le> last_no p + 1" "last_no p < 65535" using f assms(4,5) by simp_all
  note c = ClaimPorts_granted [OF assms(4) this]
  let ?p = "snd (ClaimPorts k p)"
  have n: "next_no ?p = 10000 + nat k" using c(2) f by simp
  have l: "last_no ?p = 10950" using f(2) by (simp add: last_no_def ClaimPorts_ending)
  have "next_no ?p + nat 1 \<le> last_no ?p + 1" "last_no ?p < 65535" using n l assms(4,5) by simp_all
  then have "fst (ClaimPorts 1 ?p) = Inr (nextPort ?p)" by (simp add: ClaimPorts_granted(1))
  moreover have "uint (nextPort ?p) = int (next_no ?p)" unfolding next_no_def by (rule uint_nat)
  then have "uint (nextPort ?p) = 10000 + k" using n assms(4) by simp
  ultimately show ?thesis using assms(3) by (simp add: suite_addresses_def Let_def)
qed

theorem tenth_node_meets_garden_witness:
  "\<exists>w. fst (ClaimPorts 1 (snd (ClaimPorts 3 \<lparr>nextPort = 10000, endingPort = 10950\<rparr>))) = Inr w
     \<and> Garden_addr (suite_addresses (node 3) ''10.0.0.7'' ''db/'') = host_port ''127.0.0.1'' (uint w)"
proof -
  have "suite_allocator (node 10) = Inr \<lparr>nextPort = 10000, endingPort = 10950\<rparr>"
    by (simp add: suite_allocator_def New_def)
  from tenth_node_meets_garden [OF node_process this node_process] show ?thesis by simp
qed

section \<open>What the suite leaves behind\<close>

lemma attempt_Inr_iff: "attempt m s = (Inr r, t) \<longleftrightarrow> m s = (r, t)"
  by (cases "m s") (simp add: attempt_def)

text \<open>Directories are never overwritten, and the authority does not touch the environment.\<close>

definition at_rest :: "(string \<rightharpoonup> string) \<Rightarrow> (string \<rightharpoonup> node) \<Rightarrow> 's os_scheme \<Rightarrow> bool" where
  "at_rest e f s \<longleftrightarrow> env s = e \<and> extends f s"

lemma at_rest_history [simp]: "at_rest e f (s\<lparr>history := h\<rparr>) = at_rest e f s"
  by (simp add: at_rest_def extends_def)

lemma at_rest_cert_calls:
  fixes e :: "string \<rightharpoonup> string" and f :: "string \<rightharpoonup> node"
  shows "keeps (at_rest e f) (pk_call q g)" "keeps (at_rest e f) (acquire l)" "keeps (at_rest e f) (release l)"
  by (auto simp: keeps_def pk_call_def acquire_def release_def Let_def at_rest_def extends_def split: sum.split)

lemma at_rest_or_unlock: "keeps (at_rest e f) m \<Longrightarrow> keeps (at_rest e f) (or_unlock l m)"
  using at_rest_cert_calls(3) [of e f l]
  by (force simp: keeps_def or_unlock_def split: sum.splits prod.splits)

lemma at_rest_os_call:
  fixes m :: "(go_error, 's cert_os_scheme, 'a) comp"
  assumes "keeps (at_rest e f) m"
  shows "keeps (at_rest e f) (os_call m)"
proof (rule keepsI)
  fix s :: "'s cert_os_scheme" assume "at_rest e f s"
  then have "at_rest e f (snd (m (s\<lparr>history := history s @ [Op FileOp]\<rparr>)))"
    by (intro keepsD [OF assms]) simp
  then show "at_rest e f (snd (os_call m s))" by (auto simp: os_call_def split: sum.split prod.split)
qed

lemma at_rest_WriteFile:
  assumes "\<And>p n. f p = Some n \<Longrightarrow> \<exists>m. n = Dir m"
  shows "keeps (at_rest e f) (WriteFile P name data perm)"
proof (rule keepsI)
  fix s :: "'a os_scheme" assume "at_rest e f s"
  then have s: "env s = e" "f \<subseteq>\<^sub>m fs s" by (simp_all add: at_rest_def extends_def)
  have "f name = None" if "fs s name = None \<or> fs s name = Some (File m d)" for m d
    using that s(2) assms [of name] by (cases "f name") (force simp: map_le_def dom_def)+
  with s show "at_rest e f (snd (WriteFile P name data perm s))"
    by (auto simp: WriteFile_def sys_def Let_def create_new_def at_rest_def extends_def map_le_def
        split: option.split node.split)
qed

lemma at_rest_NewCertAuthority:
  assumes "\<And>p n. f p = Some n \<Longrightarrow> \<exists>m. n = Dir m"
  shows "keeps (at_rest e f) (NewCertAuthority P X depot cn)"
  unfolding NewCertAuthority_def generateCAAndKey_def Let_def
  by (intro keeps_andThen keeps_prod keeps_ret at_rest_cert_calls at_rest_or_unlock at_rest_os_call at_rest_WriteFile [OF assms])

text \<open>The stores are set up and deleted with files of their own.\<close>

lemma extends_grootfsConfigPath: "keeps (extends f) (grootfsConfigPath P yaml cfg)"
  unfolding grootfsConfigPath_def write_encoded_def
proof (rule keeps_andThen_post)
  show "keeps (extends f) (expect_ok (CreateTemp P [] ''grootfs-config''))"
    by (rule keeps_expect_ok [OF extends_CreateTemp])
  fix s :: "'a world_scheme" and name t
  assume s: "extends f s" and "expect_ok (CreateTemp P [] ''grootfs-config'') s = (Inr name, t)"
  then have "f name = None" using CreateTemp_Inr(1) by (fastforce simp: expect_ok_Inr_iff intro: extends_fresh [OF s])
  then have "keeps (extends f) (file_Write P name data)" for data
    by (auto simp: keeps_def file_Write_def sys_def Let_def extends_def map_le_def split: option.split node.split)
  then show "keeps (extends f) (andThen (andThen (expect_val (yaml cfg)) (\<lambda>data. expect_ok (file_Write P name data))) (\<lambda>_. ret name))"
    by (intro keeps_andThen keeps_expect_val keeps_expect_ok keeps_ret)
qed

lemma extends_Run: "well_behaved P \<Longrightarrow> keeps (extends f) (Run P prog args d)"
proof (rule keepsI)
  fix s :: "'a os_scheme" assume w: "well_behaved P" and f: "extends f s"
  obtain r t where run: "Run P prog args d s = (r, t)" by fastforce
  from Run_mono [OF w run] f run show "extends f (snd (Run P prog args d s))"
    unfolding extends_def by (metis map_le_trans snd_conv)
qed

lemma extends_stores:
  assumes "well_behaved P"
  shows "keeps (extends f) (Setup P yaml maker)" "keeps (extends f) (GrootFSDeleteStore P yaml maker)"
  unfolding Setup_def GrootFSInitStore_def grootfsInitStore_def GrootFSDeleteStore_def grootfsDeleteStore_def grootfsRunner_def Let_def
  by (intro keeps_if keeps_andThen keeps_ret keeps_expect_ok extends_grootfsConfigPath extends_Run [OF assms])+

lemma Teardown_keeps_outside:
  assumes "Teardown P polls yaml maker s = (Inr (), t)" and "well_behaved P" and "\<not> windows P"
    and "\<not> inside P (tmpDir maker) p" and "fs s p = Some n"
  shows "fs t p = Some n"
proof -
  from assms(1,3) obtain u where del: "GrootFSDeleteStore P yaml maker s = (Inr (), u)"
    and rm: "eventually polls (RemoveAll P (tmpDir maker)) u = (Inr (), t)"
    by (auto simp: Teardown_def Let_def comp_iffs)
  have "extends [p \<mapsto> n] s" using assms(5) by (simp add: extends_def map_le_def)
  from keeps_run [OF extends_stores(2) [OF assms(2)] del this] have u: "fs u p = Some n"
    by (rule extends_file) simp
  have "fs (snd (eventually k (RemoveAll P (tmpDir maker)) v)) p = fs v p" for k v
  proof (induction k arbitrary: v)
    case 0
    then show ?case using RemoveAll_keeps_outside [OF assms(4), of v]
      by (auto simp: expect_ok_def split: sum.split prod.split)
  next
    case (Suc k)
    obtain r w where run: "RemoveAll P (tmpDir maker) v = (r, w)" by fastforce
    with RemoveAll_keeps_outside [OF assms(4), of v] Suc.IH [of w] show ?case by (cases r) simp_all
  qed
  from this [of polls u] rm u show ?thesis by simp
qed

text \<open>A temporary name is the pattern with what the generator gave.\<close>

lemma temp_loop_name:
  "temp_loop P mk x pre suf k s = (Inr name, t) \<Longrightarrow> \<exists>n. name = pre @ rand P n @ suf"
proof (induction P mk x pre suf k s rule: temp_loop.induct)
  case (1 P mk x pre suf k s)
  show ?case
  proof (cases "\<exists>e s'. mk (pre @ rand P (calls s) @ suf) s = (Inl e, s') \<and> is_exist e \<and> k < 9999")
    case True
    then obtain e s' where m: "mk (pre @ rand P (calls s) @ suf) s = (Inl e, s')" "is_exist e" "k < 9999" by blast
    with 1(2) have "temp_loop P mk x pre suf (Suc k) s' = (Inr name, t)" by (subst (asm) temp_loop.simps) (simp add: Let_def)
    with 1(1) [OF refl m(1) [symmetric] refl] m show ?thesis by simp
  next
    case False
    with 1(2) show ?thesis
      by (subst (asm) temp_loop.simps) (auto simp: Let_def split: prod.splits sum.splits if_splits)
  qed
qed

lemma MkdirTemp_name:
  assumes "MkdirTemp P d pre s = (Inr name, t)" and "sep P \<notin> set pre" and "CHR ''*'' \<notin> set pre"
  shows "\<exists>n. name = joinPath P (if d = [] then os_TempDir P s else d) pre @ rand P n"
proof -
  have "last_index_of (CHR ''*'') pre = None"
    using assms(3) index_of_none [of "CHR ''*''" "rev pre"] by (simp add: last_index_of_def)
  with assms(1,2) obtain x where
    "temp_loop P (\<lambda>n. Mkdir P n 448) x (joinPath P (if d = [] then os_TempDir P s else d) pre) [] 0 s = (Inr name, t)"
    by (auto simp: MkdirTemp_def Let_def prefixAndSuffix_def split: sum.splits prod.splits if_splits)
  from temp_loop_name [OF this] show ?thesis by simp
qed

lemma TempDirWithParent_name:
  assumes "TempDirWithParent P d pre s = (Inr name, t)" and "sep P \<notin> set pre" and "CHR ''*'' \<notin> set pre"
  shows "\<exists>n. name = joinPath P (if d = [] then os_TempDir P s else d) pre @ rand P n"
proof -
  from assms(1) obtain u where "MkdirTemp P d pre s = (Inr name, u)" by (auto simp: TempDirWithParent_def comp_iffs)
  from MkdirTemp_name [OF this assms(2,3)] show ?thesis .
qed

lemma TempDir_as_child: "TempDir P pre s = TempDirWithParent P (os_TempDir P s) pre s"
  by (simp add: TempDir_def TempDirWithParent_def andThen_def)

lemma depot_beside_maker: "\<not> inside P (joinPath P d ''component-maker'' @ x) (joinPath P d ''cert-depot'' @ y)"
  by (auto simp: inside_def joinPath_def prefix_def split: if_splits)

text \<open>The first steps of a process and what they did to its state.\<close>

lemma suite_start_Inr:
  fixes s t :: "'s world_scheme"
  assumes "suite_start P L X yaml decoded ip dir s = (Inr maker, t)"
  shows "\<exists>m depot c art addr a. \<exists>s2 s3 s4 :: 's world_scheme.
    embedded maker = m \<and> TempDirWithParent P dir ''cert-depot'' (s\<lparr>allocator := a\<rparr>) = (Inr depot, s2) \<and> NewCertAuthority P X depot ''ca'' s2 = (Inr c, s3)
    \<and> makeCommonComponentMaker P L (authority_of P X c) art addr s3 = (Inr m, s4) \<and> Setup P yaml m s4 = (Inr (), t)"
  using assms
  by (auto simp: suite_start_def MakeComponentMaker_def andThen_Inr_iff expect_val_Inr_iff expect_cert_Inr_iff modify_def split: prod.splits
      dest!: DBInfo_state) blast


text \<open>The second process of a run on Linux, whose \<open>suiteTempDir\<close> is empty.\<close>

definition suite_made :: "ComponentAddresses \<Rightarrow> (failure, world, ComponentMaker) comp" where
  "suite_made addr =
     andThen (TempDirWithParent second_node [] ''cert-depot'') (\<lambda>d.
     andThen (expect_cert (NewCertAuthority second_node demo_pkix d ''ca'')) (\<lambda>c.
     andThen (MakeComponentMaker second_node demo_maker_lib (authority_of second_node demo_pkix c) demo_artifacts addr) (\<lambda>m.
     andThen (Setup second_node demo_yaml (embedded m)) (\<lambda>_. ret m))))"

definition second_start :: "(failure + ComponentMaker) \<times> world" where
  "second_start = suite_start second_node demo_maker_lib demo_pkix demo_yaml (Inr demo_artifacts) (Inr ''10.0.0.7'') [] demo_world"

text \<open>For the evaluation: a computation is unfolded only when its state is there.\<close>

lemmas unfolded_with_state [code] =
  andThen_def [THEN fun_cong] sys_def [THEN fun_cong] os_call_def [THEN fun_cong]
  or_unlock_def [THEN fun_cong] pk_call_def [THEN fun_cong] acquire_def [THEN fun_cong]
  release_def [THEN fun_cong] expect_ok_def [THEN fun_cong] expect_cert_def [THEN fun_cong]
  expect_val_def [THEN fun_cong] CreateTemp_def [THEN fun_cong] MkdirTemp_def [THEN fun_cong]
  Mkdir_def [THEN fun_cong] Chmod_def [THEN fun_cong] WriteFile_def [THEN fun_cong]
  ReadFile_def [THEN fun_cong] OpenExcl_def [THEN fun_cong] file_Write_def [THEN fun_cong]
  gets_def [THEN fun_cong] modify_def [THEN fun_cong] ret_def [THEN fun_cong] fail_def [THEN fun_cong]
  Getenv_def [THEN fun_cong] Run_def [THEN fun_cong] RemoveAll_def [THEN fun_cong] TempDir_def [THEN fun_cong]
  TempDirWithParent_def [THEN fun_cong] GenerateSelfSignedCertAndKey_def [THEN fun_cong]
  generateCAAndKey_def [THEN fun_cong] NewCertAuthority_def [THEN fun_cong]
  makeCommonComponentMaker_def [THEN fun_cong]

lemma suite_made_and_ended:
  "\<not> isl (fst (andThen (suite_made addr) (\<lambda>m. suite_end second_node 0 demo_yaml (Some m) []) (demo_world\<lparr>allocator := a\<rparr>)))"
  by code_simp

lemma andThen_not_isl: "\<not> isl (fst (andThen m k s)) \<Longrightarrow> \<exists>a t. m s = (Inr a, t) \<and> \<not> isl (fst (k a t))"
  by (cases "m s"; cases "fst (m s)") (auto simp: andThen_def)

lemma second_start_made: "\<exists>addr a. second_start = suite_made addr (demo_world\<lparr>allocator := a\<rparr>)"
proof -
  have alloc: "suite_allocator second_node = Inr \<lparr>nextPort = 2000, endingPort = 2950\<rparr>"
    by (simp add: suite_allocator_def New_def second_node_def)
  have "\<exists>x b. (DBInfo demo_maker_lib :: (unit, string \<times> string) op) demo_world = (Inr (x, b), demo_world)"
    by (simp add: DBInfo_def Let_def LookupEnv_def andThen_def)
  then obtain x b where "(DBInfo demo_maker_lib :: (unit, string \<times> string) op) demo_world = (Inr (x, b), demo_world)" by blast
  then have "second_start = suite_made (suite_addresses second_node ''10.0.0.7'' b)
      (demo_world\<lparr>allocator := \<lparr>nextPort = 2000, endingPort = 2950\<rparr>\<rparr>)"
    by (simp add: second_start_def suite_start_def suite_made_def andThen_def expect_val_def alloc modify_def)
  then show ?thesis by blast
qed

lemma second_run:
  "\<exists>m t v. second_start = (Inr m, t) \<and> suite_end second_node 0 demo_yaml (Some m) [] t = (Inr (), v)"
proof -
  from second_start_made obtain addr a where "second_start = suite_made addr (demo_world\<lparr>allocator := a\<rparr>)" by blast
  with andThen_not_isl [OF suite_made_and_ended [of addr a]] obtain m t where run: "second_start = (Inr m, t)"
    and stop: "\<not> isl (fst (suite_end second_node 0 demo_yaml (Some m) [] t))" by auto
  from succeeded [OF stop] run show ?thesis by (metis old.unit.exhaust)
qed


end
