(* ===== verification/World_Runs.thy ===== *)
theory World_Runs
  imports World_Suite
begin

text \<open>
  A whole run of a component maker: its methods called in any order, with any arguments and
  any outcome, and the cleanups of the runners they returned. Nothing that was there when the
  run began is touched, but by \<open>Teardown\<close>, which touches nothing outside of the maker's own
  directory; and the ports and mutexes stay in order.
\<close>

section \<open>Computations that leave old files alone\<close>

text \<open>The file system is a tree: what is below a path is there only if the path is.\<close>

definition rooted :: "platform \<Rightarrow> (string \<rightharpoonup> node) \<Rightarrow> bool" where
  "rooted P f \<longleftrightarrow> (\<forall>d q. d \<noteq> [] \<longrightarrow> prefix (d @ [sep P]) q \<longrightarrow> f q \<noteq> None \<longrightarrow> f d \<noteq> None)"

definition absent :: "platform \<Rightarrow> (string \<rightharpoonup> node) \<Rightarrow> string \<Rightarrow> bool" where
  "absent P f n \<longleftrightarrow> n \<noteq> [] \<and> (\<forall>q. inside P n q \<longrightarrow> f q = None)"

text \<open>
  The files of \<open>f\<close> hold what they held, the mutexes are as in \<open>k\<close>, and the allocator is
  well-formed, with its last port \<open>l\<close> and at least \<open>n\<close> as its next.
\<close>

definition undisturbed :: "(string \<rightharpoonup> node) \<Rightarrow> (lock \<Rightarrow> bool) \<Rightarrow> nat \<Rightarrow> nat \<Rightarrow> 's world_scheme \<Rightarrow> bool" where
  "undisturbed f k l n s \<longleftrightarrow> extends f s \<and> locked s = k \<and> port_inv (allocator s) \<and> last_no (allocator s) = l
     \<and> n \<le> next_no (allocator s)"

text \<open>A computation that keeps a state predicate, as does the cleanup of what it returns.\<close>

definition tidy :: "('s world_scheme \<Rightarrow> bool) \<Rightarrow> ('a \<Rightarrow> ('s, unit) op) \<Rightarrow> ('s, 'a) op \<Rightarrow> bool" where
  "tidy I c m \<longleftrightarrow> keeps I m \<and> (\<forall>s r t. I s \<and> m s = (Inr r, t) \<longrightarrow> keeps I (c r))"

named_theorems tidy_intros \<open>rules that a computation and its cleanup keep a state predicate\<close>

lemma tidy_keeps: "tidy I c m \<Longrightarrow> keeps I m"
  by (simp add: tidy_def)

lemma tidy_ret [tidy_intros]: "keeps I (c r) \<Longrightarrow> tidy I c (ret r)"
  by (simp add: tidy_def keeps_ret)

lemma tidy_fail [tidy_intros]: "tidy I c (fail e)"
  by (simp add: tidy_def keeps_fail)

lemma tidy_andThen_post:
  assumes "keeps I m" and "\<And>s a t. I s \<Longrightarrow> m s = (Inr a, t) \<Longrightarrow> tidy I c (k a)"
  shows "tidy I c (andThen m k)"
  unfolding tidy_def
proof (intro conjI allI impI)
  show "keeps I (andThen m k)" using assms by (intro keeps_andThen_post) (auto intro: tidy_keeps)
  fix s r t assume "I s \<and> andThen m k s = (Inr r, t)"
  then obtain a u where "I s" "m s = (Inr a, u)" "k a u = (Inr r, t)" by (auto simp: andThen_Inr_iff)
  with assms keeps_run [OF assms(1)] show "keeps I (c r)" unfolding tidy_def by blast
qed

lemma tidy_andThen: "keeps I m \<Longrightarrow> (\<And>a. tidy I c (k a)) \<Longrightarrow> tidy I c (andThen m k)"
  by (rule tidy_andThen_post)

lemma tidy_if [tidy_intros]: "(b \<Longrightarrow> tidy I c m) \<Longrightarrow> (\<not> b \<Longrightarrow> tidy I c n) \<Longrightarrow> tidy I c (if b then m else n)"
  by simp

lemma tidy_prod [tidy_intros]: "(\<And>a b. tidy I c (f a b)) \<Longrightarrow> tidy I c (case p of (a, b) \<Rightarrow> f a b)"
  by (cases p) simp

lemma tidy_list [tidy_intros]: "tidy I c m \<Longrightarrow> (\<And>x xs. tidy I c (f x xs)) \<Longrightarrow> tidy I c (case ys of [] \<Rightarrow> m | x # xs \<Rightarrow> f x xs)"
  by (cases ys) simp_all

lemma tidy_option [tidy_intros]: "tidy I c m \<Longrightarrow> (\<And>x. tidy I c (f x)) \<Longrightarrow> tidy I c (case y of None \<Rightarrow> m | Some x \<Rightarrow> f x)"
  by (cases y) simp_all

section \<open>The steps of the methods\<close>

lemma undisturbedI:
  fixes m :: "('e, 's world_scheme, 'a) comp"
  assumes "keeps (extends f) m" and "\<And>J :: 's world_scheme \<Rightarrow> bool. files_blind J \<Longrightarrow> keeps J m"
  shows "keeps (undisturbed f k l n) m"
proof (rule keepsI)
  fix s :: "'s world_scheme" assume u: "undisturbed f k l n s"
  let ?J = "\<lambda>s :: 's world_scheme. locked s = k \<and> port_inv (allocator s) \<and> last_no (allocator s) = l \<and> n \<le> next_no (allocator s)"
  have "files_blind ?J" by (simp add: files_blind_def)
  from keepsD [OF assms(2) [OF this], of s] keepsD [OF assms(1), of s] u
  show "undisturbed f k l n (snd (m s))" by (simp add: undisturbed_def)
qed

lemma extends_Mkdir: "keeps (extends f) (Mkdir P d perm)"
  by (auto simp: keeps_def Mkdir_def sys_def Let_def create_new_def extends_def map_le_def dom_def
      split: option.split node.split)

lemma extends_Stat: "keeps (extends f) (Stat P d)"
  by (auto simp: keeps_def Stat_def sys_def Let_def extends_def split: option.split)

lemma extends_file_Write: "f n = None \<Longrightarrow> keeps (extends f) (file_Write P n data)"
  by (auto simp: keeps_def file_Write_def sys_def Let_def extends_def map_le_def split: option.split node.split)

lemma extends_Remove: "f n = None \<Longrightarrow> keeps (extends f) (Remove P n)"
  by (auto simp: keeps_def Remove_def sys_def Let_def extends_def map_le_def split: option.split node.split)

lemma extends_RemoveAll: "absent P f n \<Longrightarrow> keeps (extends f) (RemoveAll P n)"
  by (auto simp: keeps_def RemoveAll_def sys_def Let_def extends_def map_le_def absent_def split: option.split)

lemma keeps_Remove: "files_blind J \<Longrightarrow> keeps J (Remove P n)"
  unfolding Remove_def by (rule keeps_sys) (auto simp: files_blindD split: option.split node.split)

lemma undisturbed_os [tidy_intros]:
  "keeps (undisturbed f k l n) (TempDirWithParent P d pre)" "keeps (undisturbed f k l n) (Mkdir P d perm)"
  "keeps (undisturbed f k l n) (Stat P d)" "keeps (undisturbed f k l n) (CreateTemp P d pat)"
  "well_behaved P \<Longrightarrow> keeps (undisturbed f k l n) (Run P prog args d)"
  by (rule undisturbedI; rule extends_TempDirWithParent TempDirWithParent_keeps extends_Mkdir keeps_Mkdir extends_Stat
      keeps_Stat extends_CreateTemp CreateTemp_keeps extends_Run keeps_Run; assumption)+

lemma undisturbed_new [tidy_intros]:
  "f p = None \<Longrightarrow> keeps (undisturbed f k l n) (file_Write P p data)"
  "f p = None \<Longrightarrow> keeps (undisturbed f k l n) (Remove P p)"
  "absent P f p \<Longrightarrow> keeps (undisturbed f k l n) (RemoveAll P p)"
  by (rule undisturbedI; rule extends_file_Write keeps_file_Write extends_Remove keeps_Remove extends_RemoveAll keeps_RemoveAll; assumption)+

lemma undisturbed_write_encoded [tidy_intros]: "f p = None \<Longrightarrow> keeps (undisturbed f k l n) (write_encoded P p enc)"
  unfolding write_encoded_def by (intro keeps_andThen keeps_expect_val keeps_expect_ok undisturbed_new)

lemma undisturbed_claim [tidy_intros]:
  assumes "1 \<le> c" and "nat c + l \<le> 65535"
  shows "keeps (undisturbed f k l n) (claim_ports c :: ('s, go_error + 16 word) op)"
proof (rule keepsI)
  fix s :: "'s world_scheme" assume u: "undisturbed f k l n s"
  obtain r a where c: "ClaimPorts c (allocator s) = (r, a)" by fastforce
  from u assms have inv: "port_inv (allocator s)" "nat c + last_no (allocator s) \<le> 65535" "last_no (allocator s) = l"
    "n \<le> next_no (allocator s)" by (auto simp: undisturbed_def)
  have a: "port_inv a" "last_no a = l" using alloc.claim_inv [OF inv(1) assms(1) inv(2)] alloc.claim_last [of c "allocator s"] c inv(3) by simp_all
  have "n \<le> next_no a"
    using alloc.claim_granted [OF inv(1) assms(1) inv(2)] alloc.claim_refused [of c "allocator s"] c inv(4) by (cases r) fastforce+
  with u c a show "undisturbed f k l n (snd ((claim_ports c :: ('s, go_error + 16 word) op) s))"
    by (cases r) (auto simp: claim_ports_def undisturbed_def extends_def)
qed

lemma absent_None: "absent P f n \<Longrightarrow> f n = None"
  by (simp add: absent_def inside_def)

lemma rooted_absent: "rooted P f \<Longrightarrow> n \<noteq> [] \<Longrightarrow> f n = None \<Longrightarrow> absent P f n"
  unfolding rooted_def absent_def inside_def by metis

lemma tidy_CreateTemp [tidy_intros]:
  assumes "rooted P f" and "\<And>p. absent P f p \<Longrightarrow> f p = None \<Longrightarrow> tidy (undisturbed f k l n) c (m p)"
  shows "tidy (undisturbed f k l n) c (andThen (expect_ok (CreateTemp P d pat)) m)"
proof (rule tidy_andThen_post)
  show "keeps (undisturbed f k l n) (expect_ok (CreateTemp P d pat))" by (intro keeps_expect_ok undisturbed_os)
  fix s :: "'a world_scheme" and p t
  assume u: "undisturbed f k l n s" and "expect_ok (CreateTemp P d pat) s = (Inr p, t)"
  then have run: "CreateTemp P d pat s = (Inr p, t)" by (simp add: expect_ok_Inr_iff)
  have "f p = None" using u CreateTemp_Inr(1) [OF run] by (auto simp: undisturbed_def intro: extends_fresh)
  with rooted_absent [OF assms(1) CreateTemp_nonempty [OF run]] assms(2) show "tidy (undisturbed f k l n) c (m p)" by blast
qed

lemma tidy_TempDir [tidy_intros]:
  assumes "rooted P f" and "\<And>p. absent P f p \<Longrightarrow> tidy (undisturbed f k l n) c (m p)"
  shows "tidy (undisturbed f k l n) c (andThen (TempDirWithParent P d pre) m)"
proof (rule tidy_andThen_post)
  show "keeps (undisturbed f k l n) (TempDirWithParent P d pre)" by (rule undisturbed_os)
  fix s :: "'a world_scheme" and p t
  assume u: "undisturbed f k l n s" and run: "TempDirWithParent P d pre s = (Inr p, t)"
  have "f p = None" using u TempDirWithParent_Inr(1) [OF run] by (auto simp: undisturbed_def intro: extends_fresh)
  with rooted_absent [OF assms(1) TempDirWithParent_nonempty [OF run]] assms(2) show "tidy (undisturbed f k l n) c (m p)" by blast
qed

section \<open>The methods\<close>

lemma undisturbed_out: "keeps (undisturbed f k l n) (modify (\<lambda>s. s\<lparr>out := g s\<rparr>))"
  by (simp add: keeps_def modify_def undisturbed_def extends_def)

lemma undisturbed_claims:
  assumes "l \<le> 65525"
  shows "keeps (undisturbed f k l n) (claim_ports 1)" "keeps (undisturbed f k l n) (claim_ports 2)"
    "keeps (undisturbed f k l n) (claim_ports 10)"
  using assms by (simp_all add: undisturbed_claim)

lemma tidy_no_runner: "keeps I m \<Longrightarrow> tidy I (\<lambda>_. ret ()) m"
  by (simp add: tidy_def keeps_ret)

lemmas steady = keeps_ret keeps_fail keeps_gets keeps_expect_ok keeps_expect_val keeps_expect_that keeps_env keeps_attempt
  undisturbed_out undisturbed_os undisturbed_new undisturbed_write_encoded undisturbed_claims
  keeps_andThen keeps_if keeps_prod

lemmas tidy_rules = tidy_CreateTemp tidy_TempDir tidy_andThen tidy_ret tidy_fail tidy_if tidy_prod tidy_list tidy_option tidy_no_runner

text \<open>What a run asks for: a tree of files, programs that only add to it, and a range of ports that does not wrap.\<close>

definition calm :: "platform \<Rightarrow> (string \<rightharpoonup> node) \<Rightarrow> nat \<Rightarrow> bool" where
  "calm P f l \<longleftrightarrow> rooted P f \<and> well_behaved P \<and> l \<le> 65525"

lemma calmD: "calm P f l \<Longrightarrow> rooted P f" "calm P f l \<Longrightarrow> well_behaved P" "calm P f l \<Longrightarrow> l \<le> 65525"
  by (simp_all add: calm_def)

lemma tidy_NATS:
  assumes "calm P f l"
  shows "tidy (undisturbed f k l n) Cleanup (NATS maker argv)"
  unfolding NATS_def Let_def no_cleanup_def
  by (rule tidy_rules steady calmD [OF assms] | simp add: calmD(3) [OF assms] keeps_ret)+

lemma undisturbed_DefaultStack: "keeps (undisturbed f k l n) (DefaultStack L maker)"
  unfolding DefaultStack_def by (intro keeps_andThen keeps_expect_that) (simp add: keeps_ret keeps_fail split: list.split)

lemma tidy_config_paths:
  assumes "calm P f l"
  shows "tidy (undisturbed f k l n) (\<lambda>_. ret ()) (grootfsConfigPath P yaml cfg)"
    "tidy (undisturbed f k l n) (\<lambda>_. ret ()) (networkPluginConfigPath P json maker net)"
  unfolding grootfsConfigPath_def networkPluginConfigPath_def
  by (rule tidy_rules steady calmD [OF assms] | simp add: keeps_ret)+

lemmas undisturbed_config_paths = tidy_config_paths [THEN tidy_keeps]

lemma tidy_Garden:
  assumes "calm P f l"
  shows "tidy (undisturbed f k l n) (\<lambda>_. ret ()) (garden P L defaults yaml json maker std ms)"
  unfolding garden_def Let_def
  by (rule tidy_no_runner)
    (rule undisturbed_DefaultStack undisturbed_config_paths [OF assms] steady undisturbed_claims [OF calmD(3) [OF assms]])+

lemma undisturbed_stores:
  assumes "calm P f l"
  shows "keeps (undisturbed f k l n) (Setup P yaml maker)" "keeps (undisturbed f k l n) (GrootFSDeleteStore P yaml maker)"
    "keeps (undisturbed f k l n) (GrootFSInitStore P yaml maker)"
  unfolding Setup_def GrootFSInitStore_def grootfsInitStore_def GrootFSDeleteStore_def grootfsDeleteStore_def grootfsRunner_def Let_def
  by (rule undisturbed_config_paths [OF assms] steady calmD(2) [OF assms])+

lemma tidy_RoutingAPI:
  assumes "calm P f l"
  shows "tidy (undisturbed f k l n) (\<lambda>_. ret ()) (RoutingAPI P NewRunner maker ms)"
  unfolding RoutingAPI_def Let_def no_cleanup_def
  by (rule tidy_rules steady calmD [OF assms] | simp add: calmD(3) [OF assms] keeps_ret)+

lemma tidy_RouteEmitterN:
  assumes "calm P f l"
  shows "tidy (undisturbed f k l n) Cleanup (RouteEmitterN P L json maker i ms)"
  unfolding RouteEmitterN_def Let_def no_cleanup_def
  by (rule tidy_rules steady calmD [OF assms] | simp add: calmD(3) [OF assms] keeps_ret)+

lemma tidy_FileServer:
  assumes "calm P f l"
  shows "tidy (undisturbed f k l n) (Cleanup \<circ> fst) (FileServer P L json maker)"
  unfolding FileServer_def serve_lifecycle_def Let_def no_cleanup_def
  by (rule tidy_rules steady calmD [OF assms] | simp add: calmD(3) [OF assms] keeps_ret)+

lemma tidy_Router:
  assumes "calm P f l"
  shows "tidy (undisturbed f k l n) Cleanup (Router P maker)"
  unfolding Router_def address_port_def Let_def no_cleanup_def
  by (rule tidy_rules steady calmD [OF assms] | simp add: calmD(3) [OF assms] keeps_ret)+

lemma tidy_SSHProxy:
  assumes "calm P f l"
  shows "tidy (undisturbed f k l n) Cleanup (SSHProxy P L json maker ms)"
  unfolding SSHProxy_def Let_def no_cleanup_def
  by (rule tidy_rules steady calmD [OF assms] | simp add: calmD(3) [OF assms] keeps_ret)+

lemma tidy_VolmanDriver:
  assumes "calm P f l"
  shows "tidy (undisturbed f k l n) (Cleanup \<circ> fst) (VolmanDriver P NewClient maker)"
  unfolding VolmanDriver_def Let_def no_cleanup_def
  by (rule tidy_rules steady calmD [OF assms] | simp add: calmD(3) [OF assms] keeps_ret)+

lemma tidy_RepClientFactory:
  assumes "calm P f l"
  shows "tidy (undisturbed f k l n) (\<lambda>_. ret ()) (RepClientFactory P NewFactory maker)"
  unfolding RepClientFactory_def Let_def no_cleanup_def
  by (rule tidy_rules steady calmD [OF assms] | simp add: calmD(3) [OF assms] keeps_ret)+

lemma tidy_v0_Auctioneer:
  assumes "calm P f l"
  shows "tidy (undisturbed f k l n) Cleanup (v0_Auctioneer L maker ms)"
  unfolding v0_Auctioneer_def Let_def no_cleanup_def
  by (rule tidy_rules steady calmD [OF assms] | simp add: calmD(3) [OF assms] keeps_ret)+

lemma tidy_v0_RouteEmitter:
  assumes "calm P f l"
  shows "tidy (undisturbed f k l n) Cleanup (v0_RouteEmitter L maker ms)"
  unfolding v0_RouteEmitter_def Let_def no_cleanup_def
  by (rule tidy_rules steady calmD [OF assms] | simp add: calmD(3) [OF assms] keeps_ret)+

lemma tidy_v0_FileServer:
  assumes "calm P f l"
  shows "tidy (undisturbed f k l n) (Cleanup \<circ> fst) (v0_FileServer P maker)"
  unfolding v0_FileServer_def Let_def no_cleanup_def
  by (rule tidy_rules steady calmD [OF assms] | simp add: calmD(3) [OF assms] keeps_ret)+

lemma tidy_v0_BBS:
  assumes "calm P f l"
  shows "tidy (undisturbed f k l n) Cleanup (v0_BBS L maker ms)"
  unfolding v0_BBS_def Let_def no_cleanup_def
  by (rule tidy_rules steady calmD [OF assms] | simp add: calmD(3) [OF assms] keeps_ret)+

lemma tidy_v0_RepN:
  assumes "calm P f l"
  shows "tidy (undisturbed f k l n) Cleanup (v0_RepN P L maker i ms)"
  unfolding v0_RepN_def rep_setup_def Let_def no_cleanup_def
  by (rule tidy_rules steady calmD [OF assms] | simp add: calmD(3) [OF assms] keeps_ret)+

lemma tidy_v1_RepN:
  assumes "calm P f l"
  shows "tidy (undisturbed f k l n) Cleanup (v1_RepN P L json maker i ms)"
  unfolding v1_RepN_def rep_setup_def Let_def no_cleanup_def
  by (rule tidy_rules steady calmD [OF assms] | simp add: calmD(3) [OF assms] keeps_ret)+

lemma tidy_v1_Auctioneer:
  assumes "calm P f l"
  shows "tidy (undisturbed f k l n) Cleanup (v1_Auctioneer P L json maker ms)"
  unfolding v1_Auctioneer_def Let_def no_cleanup_def
  by (rule tidy_rules steady calmD [OF assms] | simp add: calmD(3) [OF assms] keeps_ret)+

text \<open>\<open>Teardown\<close> keeps the files of \<open>f\<close> if none of them is in the directory of the maker.\<close>

lemma keeps_eventually: "keeps I m \<Longrightarrow> keeps I (eventually polls m)"
proof (induction polls)
  case 0
  then show ?case by (simp add: keeps_expect_ok)
next
  case (Suc polls)
  then show ?case by (force simp: keeps_def split: sum.split prod.split)
qed

lemma undisturbed_clear:
  assumes "\<forall>q. inside P d q \<longrightarrow> f q = None"
  shows "keeps (undisturbed f k l n) (RemoveAll P d)"
proof (cases "d = []")
  case True
  then show ?thesis by (simp add: RemoveAll_def keeps_ret)
next
  case False
  with assms show ?thesis by (intro undisturbed_new) (simp add: absent_def)
qed

lemma undisturbed_Teardown:
  assumes "calm P f l" and "\<forall>q. inside P (tmpDir maker) q \<longrightarrow> f q = None"
  shows "keeps (undisturbed f k l n) (Teardown P polls yaml maker)"
proof -
  note rm = undisturbed_clear [OF assms(2)]
  have "keeps (undisturbed f k l n) (\<lambda>s. (Inr (), snd (RemoveAll P (tmpDir maker) s)))"
    using keepsD [OF rm] by (intro keepsI) simp
  moreover have "keeps (undisturbed f k l n) (andThen (GrootFSDeleteStore P yaml maker) (\<lambda>_. eventually polls (RemoveAll P (tmpDir maker))))"
    by (intro keeps_andThen undisturbed_stores(2) [OF assms(1)] keeps_eventually rm)
  ultimately show ?thesis unfolding Teardown_def Let_def by (rule keeps_if [rotated])
qed

text \<open>The clients and the second version of the BBS do nothing in the maker's own package.\<close>

lemma keeps_clients:
  "keeps I (BBSClient NewClient maker)" "keeps I (BBSServiceClient NewLocket NewService maker)"
  "keeps I (VolmanClient P ingress NewServer maker)" "keeps I (v1_BBS A NewRunner maker ms)"
  unfolding BBSClient_def BBSServiceClient_def VolmanClient_def v1_BBS_def Let_def
  by (intro keeps_andThen keeps_expect_val keeps_ret)+

section \<open>Runs of a maker\<close>

text \<open>
  The states and the runners made so far after some calls of the methods of a maker, each
  with any arguments and any outcome, and some cleanups of the runners. The flag says whether
  \<open>Teardown\<close> is among the calls. What is left out changes no part of this state: the
  constructors of the Locket and database runners and of the Garden client, which call
  nothing, and the methods that read a field; \<open>Rep\<close> and \<open>RouteEmitter\<close> are \<open>RepN\<close> and \<open>RouteEmitterN\<close>
  at 0, and both methods of Garden are \<open>garden\<close>. A database runner that runs works on the
  database alone. The runner of the second \<open>BBS\<close> comes from another package, and its cleanup with it:
  it is not among the runners.
\<close>

fun made :: "'e + 's runner \<Rightarrow> 's runner set" where
  "made (Inl e) = {}"
| "made (Inr r) = {r}"

inductive session :: "platform \<Rightarrow> commonComponentMaker \<Rightarrow> world \<Rightarrow> bool \<Rightarrow> unit runner set \<Rightarrow> world \<Rightarrow> bool"
  for P maker s0 where
  start: "session P maker s0 False {} s0"
| set_up: "session P maker s0 torn rs s \<Longrightarrow> Setup P yaml maker s = (a, t) \<Longrightarrow> session P maker s0 torn rs t"
| init_stores: "session P maker s0 torn rs s \<Longrightarrow> GrootFSInitStore P yaml maker s = (a, t) \<Longrightarrow> session P maker s0 torn rs t"
| delete_stores: "session P maker s0 torn rs s \<Longrightarrow> GrootFSDeleteStore P yaml maker s = (a, t) \<Longrightarrow> session P maker s0 torn rs t"
| teardown: "session P maker s0 torn rs s \<Longrightarrow> Teardown P polls yaml maker s = (a, t) \<Longrightarrow> session P maker s0 True rs t"
| garden: "session P maker s0 torn rs s \<Longrightarrow> garden P (L :: lib) defaults yaml json maker std gs s = (b, t) \<Longrightarrow> session P maker s0 torn rs t"
| routing_api: "session P maker s0 torn rs s \<Longrightarrow> RoutingAPI P NewRunner maker as s = (a :: failure + unit, t) \<Longrightarrow> session P maker s0 torn rs t"
| rep_clients: "session P maker s0 torn rs s \<Longrightarrow> RepClientFactory P NewFactory maker s = (a :: failure + unit, t) \<Longrightarrow> session P maker s0 torn rs t"
| default_stack: "session P maker s0 torn rs s \<Longrightarrow> DefaultStack (L :: lib) maker s = (c, t) \<Longrightarrow> session P maker s0 torn rs t"
| bbs_client: "session P maker s0 torn rs s \<Longrightarrow> BBSClient NewBBS maker s = (a :: failure + unit, t) \<Longrightarrow> session P maker s0 torn rs t"
| service_client: "session P maker s0 torn rs s \<Longrightarrow> BBSServiceClient (NewLocket :: _ \<Rightarrow> go_error + unit) NewService maker s = (a :: failure + unit, t) \<Longrightarrow>
    session P maker s0 torn rs t"
| volman_client: "session P maker s0 torn rs s \<Longrightarrow> VolmanClient P (ingress :: go_error + unit) NewServer maker s = (a :: failure + unit, t) \<Longrightarrow>
    session P maker s0 torn rs t"
| v1_bbs: "session P maker s0 torn rs s \<Longrightarrow> v1_BBS (A :: agent_lib) NewBBSRunner maker bs s = (x, t) \<Longrightarrow> session P maker s0 torn rs t"
| nats: "session P maker s0 torn rs s \<Longrightarrow> NATS maker argv s = (x, t) \<Longrightarrow> session P maker s0 torn (made x \<union> rs) t"
| route_emitter: "session P maker s0 torn rs s \<Longrightarrow> RouteEmitterN P (L :: lib) json' maker i es s = (x, t) \<Longrightarrow>
    session P maker s0 torn (made x \<union> rs) t"
| file_server: "session P maker s0 torn rs s \<Longrightarrow> FileServer P (L :: lib) json'' maker s = (y, t) \<Longrightarrow>
    session P maker s0 torn (made (map_sum id fst y) \<union> rs) t"
| router: "session P maker s0 torn rs s \<Longrightarrow> Router P maker s = (x, t) \<Longrightarrow> session P maker s0 torn (made x \<union> rs) t"
| ssh_proxy: "session P maker s0 torn rs s \<Longrightarrow> SSHProxy P (L :: lib) json3 maker ps s = (x, t) \<Longrightarrow> session P maker s0 torn (made x \<union> rs) t"
| volman_driver: "session P maker s0 torn rs s \<Longrightarrow> VolmanDriver P NewClient maker s = (z, t) \<Longrightarrow>
    session P maker s0 torn (made (map_sum id (fst :: _ \<times> unit \<Rightarrow> _) z) \<union> rs) t"
| v0_auctioneer: "session P maker s0 torn rs s \<Longrightarrow> v0_Auctioneer (L :: lib) maker cs s = (x, t) \<Longrightarrow> session P maker s0 torn (made x \<union> rs) t"
| v0_route_emitter: "session P maker s0 torn rs s \<Longrightarrow> v0_RouteEmitter (L :: lib) maker es s = (x, t) \<Longrightarrow> session P maker s0 torn (made x \<union> rs) t"
| v0_file_server: "session P maker s0 torn rs s \<Longrightarrow> v0_FileServer P maker s = (y, t) \<Longrightarrow>
    session P maker s0 torn (made (map_sum id fst y) \<union> rs) t"
| v0_bbs: "session P maker s0 torn rs s \<Longrightarrow> v0_BBS (L :: lib) maker bs s = (x, t) \<Longrightarrow> session P maker s0 torn (made x \<union> rs) t"
| v0_rep: "session P maker s0 torn rs s \<Longrightarrow> v0_RepN P (L :: lib) maker i rcs s = (x, t) \<Longrightarrow> session P maker s0 torn (made x \<union> rs) t"
| v1_rep: "session P maker s0 torn rs s \<Longrightarrow> v1_RepN P (A :: agent_lib) json4 maker i rcs s = (x, t) \<Longrightarrow> session P maker s0 torn (made x \<union> rs) t"
| v1_auctioneer: "session P maker s0 torn rs s \<Longrightarrow> v1_Auctioneer P (A :: agent_lib) json5 maker cs s = (x, t) \<Longrightarrow>
    session P maker s0 torn (made x \<union> rs) t"
| cleaned: "session P maker s0 torn rs s \<Longrightarrow> r \<in> rs \<Longrightarrow> Cleanup r s = (a, t) \<Longrightarrow> session P maker s0 torn rs t"

lemma tidy_run:
  assumes "tidy I c m" and "I s" and "m s = (x, t)"
  shows "I t" and "x = Inr r \<Longrightarrow> keeps I (c r)"
  using assms keeps_run [OF tidy_keeps [OF assms(1)] assms(3)] unfolding tidy_def by blast+

text \<open>One step of a run, by what its method keeps.\<close>

lemma tidy_made:
  assumes "m s = (x, t)" and "I s \<and> (\<forall>r \<in> rs. keeps I (Cleanup r))" and "tidy I Cleanup m"
  shows "I t \<and> (\<forall>r \<in> made x \<union> rs. keeps I (Cleanup r))"
  using tidy_run [OF assms(3) _ assms(1)] assms(2) by (cases x) auto

lemma tidy_made_fst:
  assumes "m s = (y, t)" and "I s \<and> (\<forall>r \<in> rs. keeps I (Cleanup r))" and "tidy I (Cleanup \<circ> fst) m"
  shows "I t \<and> (\<forall>r \<in> made (map_sum id fst y) \<union> rs. keeps I (Cleanup r))"
  using tidy_run [OF assms(3) _ assms(1)] assms(2) by (cases y) auto

lemma keeps_made:
  "m s = (a, t) \<Longrightarrow> I s \<and> (\<forall>r \<in> rs. keeps I (Cleanup r)) \<Longrightarrow> keeps I m \<Longrightarrow> I t \<and> (\<forall>r \<in> rs. keeps I (Cleanup r))"
  by (auto dest: keeps_run)

lemmas session_rules = undisturbed_stores tidy_Garden [THEN tidy_keeps] tidy_RoutingAPI [THEN tidy_keeps] tidy_RepClientFactory [THEN tidy_keeps]
  undisturbed_DefaultStack keeps_clients tidy_NATS tidy_RouteEmitterN tidy_Router tidy_SSHProxy tidy_FileServer tidy_VolmanDriver
  tidy_v0_Auctioneer tidy_v0_RouteEmitter tidy_v0_FileServer tidy_v0_BBS tidy_v0_RepN tidy_v1_RepN tidy_v1_Auctioneer

lemma session_keeps:
  assumes "session P maker s0 torn rs t" and "calm P f l" and "undisturbed f k l n s0"
    and "torn \<longrightarrow> (\<forall>q. inside P (tmpDir maker) q \<longrightarrow> f q = None)"
  shows "undisturbed f k l n t \<and> (\<forall>r \<in> rs. keeps (undisturbed f k l n) (Cleanup r))"
  using assms(1,4)
proof (induction rule: session.induct)
  case start
  with assms(3) show ?case by simp
next
  case (teardown torn rs s polls yaml a t)
  then have old: "\<forall>q. inside P (tmpDir maker) q \<longrightarrow> f q = None" by simp
  then have "undisturbed f k l n s \<and> (\<forall>r \<in> rs. keeps (undisturbed f k l n) (Cleanup r))" using teardown.IH by simp
  from keeps_made [OF teardown.hyps(2) this undisturbed_Teardown [OF assms(2) old]] show ?case .
next
  case (cleaned torn rs s r a t)
  then show ?case by (auto dest: keeps_run)
qed (drule (1) meta_mp, erule keeps_made tidy_made tidy_made_fst, assumption, rule session_rules, (rule assms(2))?)+

text \<open>A part of a tree that is cut off at a directory leaves a tree.\<close>

definition spared :: "platform \<Rightarrow> commonComponentMaker \<Rightarrow> bool \<Rightarrow> (string \<rightharpoonup> node) \<Rightarrow> (string \<rightharpoonup> node)" where
  "spared P maker torn f = (\<lambda>p. if torn \<and> inside P (tmpDir maker) p then None else f p)"

lemma inside_trans: "inside P a b \<Longrightarrow> prefix (b @ [sep P]) c \<Longrightarrow> inside P a c"
  by (auto simp: inside_def prefix_def)

lemma spared_rooted: "rooted P f \<Longrightarrow> rooted P (spared P maker torn f)"
  unfolding rooted_def spared_def by (metis inside_trans)

lemma spared_le: "spared P maker torn f \<subseteq>\<^sub>m f"
  by (auto simp: spared_def map_le_def dom_def)


text \<open>The router is made and cleaned up.\<close>

lemma plain_rooted: "rooted demo_platform (fs plain_world)"
proof -
  have "\<not> prefix (d @ ''/'') q" if "d \<noteq> []" "fs plain_world q \<noteq> None" "fs plain_world d = None" for d q
    using that by (auto simp: plain_world_def demo_world_def prefix_Cons split: if_splits)
  then show ?thesis unfolding rooted_def demo_linux(3) by blast
qed


end
