(* ===== verification/World_Lifecycles.thy ===== *)
theory World_Lifecycles
  imports World_Configs Go_Server
begin

text \<open>
  \<open>BuildLifecycles\<close> of \<open>world/components.go\<close>: the programs of a lifecycle are built, one of them
  as a static binary, moved to a new directory and packed.
\<close>

section \<open>The function\<close>

definition Unsetenv_ignored :: "platform \<Rightarrow> string \<Rightarrow> ('e, 's os_scheme, unit) comp" where
  "Unsetenv_ignored P k = (\<lambda>s. (Inr (), snd (Unsetenv P k s)))"

text \<open>
  The build of the SSH daemon, with the variable set before and unset after it; the error of
  the build is looked at only then.
\<close>

definition static_build :: "platform \<Rightarrow> gexec \<Rightarrow> string \<Rightarrow> string list \<Rightarrow> (failure, 's building_scheme, go_error + string) comp" where
  "static_build P G pkg flags =
     andThen (expect_ok (Setenv P ''CGO_ENABLED'' ''0'')) (\<lambda>_.
     andThen (attempt (Build G pkg flags)) (\<lambda>r.
     andThen (Unsetenv_ignored P ''CGO_ENABLED'') (\<lambda>_.
     ret r)))"

text \<open>The map is updated through its pointer; a nil map cannot be.\<close>

definition store_lifecycle :: "string_map option \<Rightarrow> string \<Rightarrow> string \<Rightarrow> (failure, 's, string_map option) comp" where
  "store_lifecycle blc k v = (case blc of
     None \<Rightarrow> fail (Panic ''assignment to entry in nil map'')
   | Some m \<Rightarrow> ret (Some (m(k \<mapsto> v))))"

definition BuildLifecycles :: "platform \<Rightarrow> gexec \<Rightarrow> string \<Rightarrow> string \<Rightarrow> string_map option
    \<Rightarrow> (failure, 's building_scheme, string_map option) comp" where
  "BuildLifecycles P G lifeCycle tempDir blc =
     (let lifeCyclePath = filepath_Join P [''code.cloudfoundry.org'', lifeCycle] in
     andThen (expect_ok (Build G (filepath_Join P [lifeCyclePath, ''builder'']) [''-race''])) (\<lambda>builderPath.
     andThen (expect_ok (Build G (filepath_Join P [lifeCyclePath, ''launcher'']) [''-race''])) (\<lambda>launcherPath.
     andThen (expect_ok (Build G ''code.cloudfoundry.org/healthcheck/cmd/healthcheck'' [''-race''])) (\<lambda>healthcheckPath.
     andThen (static_build P G ''code.cloudfoundry.org/diego-ssh/cmd/sshd'' [''-a'', ''-installsuffix'', ''static'']) (\<lambda>r.
     andThen (expect_val r) (\<lambda>diegoSSHPath.
     andThen (TempDirWithParent P tempDir lifeCycle) (\<lambda>lifecycleDir.
     andThen (expect_ok (Rename P builderPath (filepath_Join P [lifecycleDir, ''builder'']))) (\<lambda>_.
     andThen (expect_ok (Rename P healthcheckPath (filepath_Join P [lifecycleDir, ''healthcheck'']))) (\<lambda>_.
     andThen (expect_ok (Rename P launcherPath (filepath_Join P [lifecycleDir, ''launcher'']))) (\<lambda>_.
     andThen (expect_ok (Rename P diegoSSHPath (filepath_Join P [lifecycleDir, ''diego-sshd'']))) (\<lambda>_.
     andThen (expect_ok (Run P ''tar'' [''-czf'', ''lifecycle.tar.gz'', ''builder'', ''launcher'', ''healthcheck'', ''diego-sshd''] lifecycleDir)) (\<lambda>_.
     store_lifecycle blc lifeCycle (filepath_Join P [lifecycleDir, LifecycleFilename])))))))))))))"

section \<open>Properties\<close>

text \<open>The environment after a run, whatever its outcome.\<close>

definition cgo_kept_or_unset :: "(string \<rightharpoonup> string) \<Rightarrow> 's building_scheme \<Rightarrow> bool" where
  "cgo_kept_or_unset e s \<longleftrightarrow> env s = e \<or> env s = e(''CGO_ENABLED'' := None)"

lemma files_blind_env: "files_blind (\<lambda>s. env s = e)" "files_blind (cgo_kept_or_unset e)"
  by (simp_all add: files_blind_def cgo_kept_or_unset_def)

lemma Build_run: "Build G pkg flags s = (r, t) \<Longrightarrow>
    env t = env s \<and> ran t = ran s \<and> builds t = builds s @ [(pkg, flags, env s ''CGO_ENABLED'')]"
  by (auto simp: Build_def split: prod.splits)

lemma keeps_Build: "keeps (cgo_kept_or_unset e) (Build G pkg flags)"
proof (rule keepsI)
  fix s :: "'a building_scheme" assume e: "cgo_kept_or_unset e s"
  obtain r t where b: "Build G pkg flags s = (r, t)" by fastforce
  from Build_run [OF b] e b show "cgo_kept_or_unset e (snd (Build G pkg flags s))" by (simp add: cgo_kept_or_unset_def)
qed

lemma static_build_run:
  assumes "\<forall>n. fault P n = None"
  shows "\<exists>r t. static_build P G pkg flags s = (Inr r, t) \<and> env t = (env s)(''CGO_ENABLED'' := None)
    \<and> ran t = ran s \<and> builds t = builds s @ [(pkg, flags, Some ''0'')]"
proof -
  have set: "Setenv P k v u = (Inr (), u\<lparr>calls := Suc (calls u), env := (env u)(k \<mapsto> v)\<rparr>)"
    and unset: "Unsetenv P k u = (Inr (), u\<lparr>calls := Suc (calls u), env := (env u)(k := None)\<rparr>)"
    for k v and u :: "'a building_scheme"
    using assms by (simp_all add: Setenv_def Unsetenv_def sys_def Let_def)
  obtain r t where b: "Build G pkg flags (s\<lparr>calls := Suc (calls s), env := (env s)(''CGO_ENABLED'' \<mapsto> ''0'')\<rparr>) = (r, t)"
    by fastforce
  with Build_run [OF b] show ?thesis
    by (auto simp: static_build_def andThen_def expect_ok_def set attempt_def Unsetenv_ignored_def unset)
qed

lemma keeps_static_build:
  assumes "\<forall>n. fault P n = None"
  shows "keeps (cgo_kept_or_unset e) (static_build P G pkg flags)"
proof (rule keepsI)
  fix s :: "'a building_scheme" assume e: "cgo_kept_or_unset e s"
  from static_build_run [OF assms] obtain r t where "static_build P G pkg flags s = (Inr r, t)"
    "env t = (env s)(''CGO_ENABLED'' := None)" by blast
  with e show "cgo_kept_or_unset e (snd (static_build P G pkg flags s))" by (auto simp: cgo_kept_or_unset_def)
qed

lemma store_lifecycle_Inr_iff:
  "store_lifecycle blc k v s = (Inr x, t) \<longleftrightarrow> t = s \<and> (\<exists>m. blc = Some m \<and> x = Some (m(k \<mapsto> v)))"
  by (auto simp: store_lifecycle_def split: option.splits)

lemma keeps_store_lifecycle: "keeps I (store_lifecycle blc k v)"
  unfolding store_lifecycle_def by (auto intro: keeps_ret keeps_fail split: option.split)

lemma BuildLifecycles_env:
  assumes "\<forall>n. fault P n = None"
  shows "keeps (cgo_kept_or_unset e) (BuildLifecycles P G lifeCycle tempDir blc)"
  unfolding BuildLifecycles_def Let_def
  by (intro keeps_andThen keeps_expect_ok keeps_Build keeps_static_build [OF assms] keeps_expect_val
      TempDirWithParent_keeps keeps_Rename keeps_Run keeps_store_lifecycle files_blind_env)

text \<open>Moving a file and making a directory neither builds nor runs anything.\<close>

lemma files_blind_builds: "files_blind (\<lambda>s. builds s = b)"
  by (simp add: files_blind_def)

lemma moved:
  fixes s :: "'s building_scheme"
  assumes "Rename P a b s = (r, t)"
  shows "builds t = builds s" and "ran t = ran s"
proof -
  show "builds t = builds s" by (rule keeps_run [OF keeps_Rename [OF files_blind_builds] assms]) simp
  show "ran t = ran s"
    using assms unfolding Rename_def by (rule sys_ran [rotated]) (auto split: option.split node.split)
qed

lemma directory_made:
  fixes s :: "'s building_scheme"
  assumes "TempDirWithParent P d pre s = (Inr x, t)"
  shows "builds t = builds s" and "ran t = ran s"
proof -
  show "builds t = builds s" by (rule keeps_run [OF TempDirWithParent_keeps [OF files_blind_builds] assms]) simp
  show "ran t = ran s" by (rule TempDirWithParent_ran [OF assms])
qed

text \<open>What a build returned and made of the files, and a file that was moved.\<close>

lemma Build_files: "Build G pkg flags s = (r, t) \<Longrightarrow> G pkg flags (env s) (fs s) = (r, fs t)"
  by (auto simp: Build_def split: prod.splits)

lemma static_build_files:
  assumes "\<forall>n. fault P n = None" and "static_build P G pkg flags s = (Inr r, t)"
  shows "G pkg flags ((env s)(''CGO_ENABLED'' \<mapsto> ''0'')) (fs s) = (r, fs t)"
  using assms
  by (auto simp: static_build_def andThen_Inr_iff expect_ok_Inr_iff attempt_def Setenv_def Unsetenv_ignored_def Unsetenv_def
      sys_def Let_def dest!: Build_files split: prod.splits)

definition moved_file :: "string \<Rightarrow> string \<Rightarrow> (string \<rightharpoonup> node) \<Rightarrow> (string \<rightharpoonup> node)" where
  "moved_file a b f = (f(a := None))(b := f a)"

lemma Rename_files: "Rename P a b s = (Inr (), t) \<Longrightarrow> fs t = moved_file a b (fs s)"
  by (auto simp: Rename_def sys_def Let_def moved_file_def split: option.splits node.splits)

lemma Run_files: "Run P prog args d s = (Inr (), t) \<Longrightarrow> exec P prog args d (fs s) = (None, fs t)"
  by (auto simp: Run_def split: prod.splits option.splits)

text \<open>
  Property C26. When no call of the operating system fails, \<open>BuildLifecycles\<close> never leaves
  \<open>CGO_ENABLED\<close> at 0: whether it succeeds or fails, the variable is as it was before or, from
  the static build on, unset, so that a value the developer had set is lost. A success has
  built the four programs, only the SSH daemon without cgo; it has made a new directory for
  the lifecycle, moved every program there under its own name, and run tar on the four in
  that directory; and it has recorded the archive in that directory for the lifecycle, in a map
  that was there.
\<close>

theorem build_lifecycles_environment:
  fixes s t :: "'s building_scheme"
  assumes "\<forall>n. fault P n = None" and "BuildLifecycles P G lifeCycle parent blc s = (r, t)"
    and "path = filepath_Join P [''code.cloudfoundry.org'', lifeCycle]"
    and "tar = [''-czf'', ''lifecycle.tar.gz'', ''builder'', ''launcher'', ''healthcheck'', ''diego-sshd'']"
  shows "(env t = env s \<or> env t = (env s)(''CGO_ENABLED'' := None))
    \<and> (\<forall>blc'. r = Inr blc' \<longrightarrow> env t = (env s)(''CGO_ENABLED'' := None)
        \<and> builds t = builds s @ [(filepath_Join P [path, ''builder''], [''-race''], env s ''CGO_ENABLED''),
            (filepath_Join P [path, ''launcher''], [''-race''], env s ''CGO_ENABLED''),
            (''code.cloudfoundry.org/healthcheck/cmd/healthcheck'', [''-race''], env s ''CGO_ENABLED''),
            (''code.cloudfoundry.org/diego-ssh/cmd/sshd'', [''-a'', ''-installsuffix'', ''static''], Some ''0'')]
        \<and> ran t = ran s @ [(''tar'', tar)]
        \<and> (\<exists>builder launcher healthcheck sshd f1 f2 f3 f4 dir m. \<exists>u v :: 's building_scheme.
             G (filepath_Join P [path, ''builder'']) [''-race''] (env s) (fs s) = (Inr builder, f1)
           \<and> G (filepath_Join P [path, ''launcher'']) [''-race''] (env s) f1 = (Inr launcher, f2)
           \<and> G ''code.cloudfoundry.org/healthcheck/cmd/healthcheck'' [''-race''] (env s) f2 = (Inr healthcheck, f3)
           \<and> G ''code.cloudfoundry.org/diego-ssh/cmd/sshd'' [''-a'', ''-installsuffix'', ''static'']
               ((env s)(''CGO_ENABLED'' \<mapsto> ''0'')) f3 = (Inr sshd, f4)
           \<and> TempDirWithParent P parent lifeCycle u = (Inr dir, v) \<and> fs u = f4 \<and> f4 dir = None
           \<and> exec P ''tar'' tar dir (moved_file sshd (filepath_Join P [dir, ''diego-sshd''])
               (moved_file launcher (filepath_Join P [dir, ''launcher''])
               (moved_file healthcheck (filepath_Join P [dir, ''healthcheck''])
               (moved_file builder (filepath_Join P [dir, ''builder'']) (f4(dir \<mapsto> Dir 493)))))) = (None, fs t)
           \<and> blc = Some m \<and> blc' = Some (m(lifeCycle \<mapsto> filepath_Join P [dir, LifecycleFilename]))))"
    (is "_ \<and> (\<forall>blc'. _ \<longrightarrow> ?env \<and> ?builds \<and> ?ran \<and> ?packed blc')")
proof -
  from keeps_run [OF BuildLifecycles_env [OF assms(1)] assms(2), of "env s"]
  have env: "env t = env s \<or> env t = (env s)(''CGO_ENABLED'' := None)" by (simp add: cgo_kept_or_unset_def)
  have "?env \<and> ?builds \<and> ?ran \<and> ?packed blc'" if ok: "r = Inr blc'" for blc'
  proof -
    from assms(2) ok obtain b l h d x dir m and s1 s2 s3 s4 s5 s6 s7 s8 s9 :: "'s building_scheme" where
      b: "Build G (filepath_Join P [path, ''builder'']) [''-race''] s = (Inr b, s1)"
        "Build G (filepath_Join P [path, ''launcher'']) [''-race''] s1 = (Inr l, s2)"
        "Build G ''code.cloudfoundry.org/healthcheck/cmd/healthcheck'' [''-race''] s2 = (Inr h, s3)"
      and st: "static_build P G ''code.cloudfoundry.org/diego-ssh/cmd/sshd'' [''-a'', ''-installsuffix'', ''static''] s3 = (Inr (Inr d), s4)"
      and td: "TempDirWithParent P parent lifeCycle s4 = (Inr dir, s5)"
      and mv: "Rename P b (filepath_Join P [dir, ''builder'']) s5 = (Inr (), s6)"
        "Rename P h (filepath_Join P [dir, ''healthcheck'']) s6 = (Inr (), s7)"
        "Rename P l (filepath_Join P [dir, ''launcher'']) s7 = (Inr (), s8)"
        "Rename P d (filepath_Join P [dir, ''diego-sshd'']) s8 = (Inr (), s9)"
      and run: "Run P ''tar'' tar dir s9 = (Inr (), t)"
      and res: "blc = Some m" "blc' = Some (m(lifeCycle \<mapsto> filepath_Join P [dir, LifecycleFilename]))"
      by (auto simp: BuildLifecycles_def Let_def andThen_Inr_iff expect_ok_Inr_iff expect_val_Inr_iff store_lifecycle_Inr_iff
          simp flip: assms(3,4))
    note bs = b [THEN Build_run]
    from static_build_run [OF assms(1), of G "''code.cloudfoundry.org/diego-ssh/cmd/sshd''" "[''-a'', ''-installsuffix'', ''static'']" s3] st
    have s4: "env s4 = (env s3)(''CGO_ENABLED'' := None)" "ran s4 = ran s3"
      "builds s4 = builds s3 @ [(''code.cloudfoundry.org/diego-ssh/cmd/sshd'', [''-a'', ''-installsuffix'', ''static''], Some ''0'')]"
      by auto
    have same: "env s5 = env s4" "env s6 = env s5" "env s7 = env s6" "env s8 = env s7" "env s9 = env s8" "env t = env s9"
      "builds t = builds s9"
      by (rule keeps_run [OF TempDirWithParent_keeps [OF files_blind_env(1)] td refl]
          keeps_run [OF keeps_Rename [OF files_blind_env(1)] mv(1) refl] keeps_run [OF keeps_Rename [OF files_blind_env(1)] mv(2) refl]
          keeps_run [OF keeps_Rename [OF files_blind_env(1)] mv(3) refl] keeps_run [OF keeps_Rename [OF files_blind_env(1)] mv(4) refl]
          keeps_run [OF keeps_Run [OF files_blind_env(1)] run refl] keeps_run [OF keeps_Run [OF files_blind_builds] run refl])+
    have "ran t = ran s9 @ [(''tar'', tar)]" using Run_Inr [OF run] by simp
    then have log: "?env \<and> ?builds \<and> ?ran"
      using bs s4 same moved [OF mv(1)] moved [OF mv(2)] moved [OF mv(3)] moved [OF mv(4)] directory_made [OF td]
      by (auto simp: assms(4))
    have files: "exec P ''tar'' tar dir (moved_file d (filepath_Join P [dir, ''diego-sshd''])
               (moved_file l (filepath_Join P [dir, ''launcher''])
               (moved_file h (filepath_Join P [dir, ''healthcheck''])
               (moved_file b (filepath_Join P [dir, ''builder'']) ((fs s4)(dir \<mapsto> Dir 493)))))) = (None, fs t)"
      using Run_files [OF run] TempDirWithParent_Inr(2) [OF td] by (simp add: mv [THEN Rename_files])
    have "env s1 = env s" "env s2 = env s" "env s3 = env s" using bs by simp_all
    with b [THEN Build_files] static_build_files [OF assms(1) st]
    have "G (filepath_Join P [path, ''builder'']) [''-race''] (env s) (fs s) = (Inr b, fs s1)"
      "G (filepath_Join P [path, ''launcher'']) [''-race''] (env s) (fs s1) = (Inr l, fs s2)"
      "G ''code.cloudfoundry.org/healthcheck/cmd/healthcheck'' [''-race''] (env s) (fs s2) = (Inr h, fs s3)"
      "G ''code.cloudfoundry.org/diego-ssh/cmd/sshd'' [''-a'', ''-installsuffix'', ''static''] ((env s)(''CGO_ENABLED'' \<mapsto> ''0'')) (fs s3)
        = (Inr d, fs s4)" by simp_all
    with log td TempDirWithParent_Inr(1) [OF td] files res show ?thesis by blast
  qed
  with env show ?thesis by blast
qed

text \<open>A build that makes a file named by the length of its package, in a shell that had enabled cgo.\<close>

definition lifecycle_gexec :: gexec where
  "lifecycle_gexec pkg flags e f = (let p = CHR ''/'' # nat_text (length pkg) in (Inr p, f(p \<mapsto> File 493 [])))"

definition cgo_shell :: building where
  "cgo_shell = \<lparr>env = [''CGO_ENABLED'' \<mapsto> ''1''], fs = [''/'' \<mapsto> Dir 511], calls = 0, ran = [], builds = []\<rparr>"

definition lifecycle_run :: "(failure + string_map option) \<times> building" where
  "lifecycle_run = BuildLifecycles demo_platform lifecycle_gexec ''l'' ''/'' (Some Map.empty) cgo_shell"

lemma demo_paths:
  "filepath_Join demo_platform [''code.cloudfoundry.org'', ''l''] = ''code.cloudfoundry.org/l''"
  "filepath_Join demo_platform [''code.cloudfoundry.org/l'', ''builder''] = ''code.cloudfoundry.org/l/builder''"
  "filepath_Join demo_platform [''code.cloudfoundry.org/l'', ''launcher''] = ''code.cloudfoundry.org/l/launcher''"
  "filepath_Join demo_platform [''/l2'', ''builder''] = ''/l2/builder''"
  "filepath_Join demo_platform [''/l2'', ''healthcheck''] = ''/l2/healthcheck''"
  "filepath_Join demo_platform [''/l2'', ''launcher''] = ''/l2/launcher''"
  "filepath_Join demo_platform [''/l2'', ''diego-sshd''] = ''/l2/diego-sshd''"
  "filepath_Join demo_platform [''/l2'', LifecycleFilename] = ''/l2/lifecycle.tar.gz''"
  "nat_text 31 = ''31''" "nat_text 32 = ''32''" "nat_text 49 = ''49''" "nat_text 40 = ''40''" "nat_text 2 = ''2''"
  by code_simp+

lemma demo_parents:
  "parent_dir (sep demo_platform) ''/l2'' = ''/''"
  "parent_dir (sep demo_platform) ''/l2/builder'' = ''/l2''" "parent_dir (sep demo_platform) ''/l2/healthcheck'' = ''/l2''"
  "parent_dir (sep demo_platform) ''/l2/launcher'' = ''/l2''" "parent_dir (sep demo_platform) ''/l2/diego-sshd'' = ''/l2''"
  "prefixAndSuffix demo_platform ''l'' = Inr (''l'', [])" "joinPath demo_platform ''/'' ''l'' = ''/l''"
  by code_simp+

lemma demo_libraries: "fault demo_platform n = None" "rand demo_platform = nat_text" "exec demo_platform p a d f = (None, f)"
  by (simp_all add: demo_platform_def)

lemma demo_Build:
  fixes s :: "'s building_scheme"
  assumes "nat_text (length pkg) = w"
  shows "\<exists>t :: 's building_scheme. Build lifecycle_gexec pkg flags s = (Inr (CHR ''/'' # w), t)
    \<and> fs t = (fs s)(CHR ''/'' # w \<mapsto> File 493 []) \<and> calls t = calls s"
  using assms by (simp add: Build_def lifecycle_gexec_def Let_def)

lemma demo_static:
  fixes s :: "'s building_scheme"
  assumes "nat_text (length pkg) = w"
  shows "\<exists>t :: 's building_scheme. static_build demo_platform lifecycle_gexec pkg flags s = (Inr (Inr (CHR ''/'' # w)), t)
    \<and> fs t = (fs s)(CHR ''/'' # w \<mapsto> File 493 []) \<and> calls t = calls s + 2"
  using assms by (simp add: static_build_def andThen_def expect_ok_def attempt_def Setenv_def Unsetenv_ignored_def Unsetenv_def
      sys_def Let_def demo_libraries Build_def lifecycle_gexec_def)

lemma demo_TempDir:
  fixes s :: "'s building_scheme"
  assumes "fs s ''/'' = Some (Dir m)" and "calls s = 2" and "fs s ''/l2'' = None"
  shows "\<exists>t :: 's building_scheme. TempDirWithParent demo_platform ''/'' ''l'' s = (Inr ''/l2'', t) \<and> fs t = (fs s)(''/l2'' \<mapsto> Dir 493)"
proof -
  let ?t = "s\<lparr>calls := 3, fs := (fs s)(''/l2'' \<mapsto> Dir 448)\<rparr>"
  have mk: "Mkdir demo_platform ''/l2'' 448 s = (Inr (), ?t)"
    using assms by (simp add: Mkdir_def sys_def Let_def demo_libraries create_new_def demo_parents)
  have "temp_loop demo_platform (\<lambda>n. Mkdir demo_platform n 448) x ''/l'' [] 0 s = (Inr ''/l2'', ?t)" for x
    by (subst temp_loop.simps) (use assms mk demo_paths(13) in \<open>simp add: demo_libraries Let_def\<close>)
  then have "MkdirTemp demo_platform ''/'' ''l'' s = (Inr ''/l2'', ?t)"
    by (simp add: MkdirTemp_def demo_parents)
  then show ?thesis
    by (simp add: TempDirWithParent_def andThen_def expect_ok_def Chmod_def sys_def Let_def demo_libraries ret_def)
qed

lemma demo_Rename:
  fixes s :: "'s building_scheme"
  assumes "fs s a = Some n" and "fs s (parent_dir (sep demo_platform) b) = Some (Dir m)" and "fs s b = None"
  shows "\<exists>t :: 's building_scheme. Rename demo_platform a b s = (Inr (), t) \<and> fs t = ((fs s)(a := None))(b \<mapsto> n)"
  using assms by (simp add: Rename_def sys_def Let_def demo_libraries)

lemma demo_Run: "\<exists>t :: 's building_scheme. Run demo_platform p a d s = (Inr (), t)"
  by (simp add: Run_def demo_libraries)

lemma lifecycle_run_Inr: "\<exists>x t. lifecycle_run = (Inr x, t)"
proof -
  have l: "length ''code.cloudfoundry.org/l/builder'' = 31" "length ''code.cloudfoundry.org/l/launcher'' = 32"
    "length ''code.cloudfoundry.org/healthcheck/cmd/healthcheck'' = 49" "length ''code.cloudfoundry.org/diego-ssh/cmd/sshd'' = 40"
    by simp_all
  have n: "nat_text 31 = ''31''" "nat_text 32 = ''32''" "nat_text 49 = ''49''" "nat_text 40 = ''40''" by code_simp+
  have f0: "fs cgo_shell = [''/'' \<mapsto> Dir 511]" "calls cgo_shell = 0" by (simp_all add: cgo_shell_def)
  obtain s1 where 1: "Build lifecycle_gexec ''code.cloudfoundry.org/l/builder'' [''-race''] cgo_shell = (Inr ''/31'', s1)"
      "fs s1 = (fs cgo_shell)(''/31'' \<mapsto> File 493 [])" "calls s1 = calls cgo_shell"
    using demo_Build [of "''code.cloudfoundry.org/l/builder''" "''31''"] l n by metis
  obtain s2 where 2: "Build lifecycle_gexec ''code.cloudfoundry.org/l/launcher'' [''-race''] s1 = (Inr ''/32'', s2)"
      "fs s2 = (fs s1)(''/32'' \<mapsto> File 493 [])" "calls s2 = calls s1"
    using demo_Build [of "''code.cloudfoundry.org/l/launcher''" "''32''"] l n by metis
  obtain s3 where 3: "Build lifecycle_gexec ''code.cloudfoundry.org/healthcheck/cmd/healthcheck'' [''-race''] s2 = (Inr ''/49'', s3)"
      "fs s3 = (fs s2)(''/49'' \<mapsto> File 493 [])" "calls s3 = calls s2"
    using demo_Build [of "''code.cloudfoundry.org/healthcheck/cmd/healthcheck''" "''49''"] l n by metis
  obtain s4 where 4: "static_build demo_platform lifecycle_gexec ''code.cloudfoundry.org/diego-ssh/cmd/sshd'' [''-a'', ''-installsuffix'', ''static''] s3
        = (Inr (Inr ''/40''), s4)" "fs s4 = (fs s3)(''/40'' \<mapsto> File 493 [])" "calls s4 = calls s3 + 2"
    using demo_static [of "''code.cloudfoundry.org/diego-ssh/cmd/sshd''" "''40''"] l n by metis
  have f4: "fs s4 = [''/'' \<mapsto> Dir 511, ''/31'' \<mapsto> File 493 [], ''/32'' \<mapsto> File 493 [], ''/49'' \<mapsto> File 493 [], ''/40'' \<mapsto> File 493 []]"
    "calls s4 = 2" by (simp_all add: 1(2,3) 2(2,3) 3(2,3) 4(2,3) f0)
  from demo_TempDir [of s4 511] obtain s5 where 5: "TempDirWithParent demo_platform ''/'' ''l'' s4 = (Inr ''/l2'', s5)"
      "fs s5 = (fs s4)(''/l2'' \<mapsto> Dir 493)" by (auto simp: f4)
  from demo_Rename [of s5 "''/31''" "File 493 []" "''/l2/builder''" 493] obtain s6 where
    6: "Rename demo_platform ''/31'' ''/l2/builder'' s5 = (Inr (), s6)"
      "fs s6 = ((fs s5)(''/31'' := None))(''/l2/builder'' \<mapsto> File 493 [])" by (auto simp: 5(2) f4(1) demo_parents)
  from demo_Rename [of s6 "''/49''" "File 493 []" "''/l2/healthcheck''" 493] obtain s7 where
    7: "Rename demo_platform ''/49'' ''/l2/healthcheck'' s6 = (Inr (), s7)"
      "fs s7 = ((fs s6)(''/49'' := None))(''/l2/healthcheck'' \<mapsto> File 493 [])" by (auto simp: 6(2) 5(2) f4(1) demo_parents)
  from demo_Rename [of s7 "''/32''" "File 493 []" "''/l2/launcher''" 493] obtain s8 where
    8: "Rename demo_platform ''/32'' ''/l2/launcher'' s7 = (Inr (), s8)"
      "fs s8 = ((fs s7)(''/32'' := None))(''/l2/launcher'' \<mapsto> File 493 [])" by (auto simp: 7(2) 6(2) 5(2) f4(1) demo_parents)
  from demo_Rename [of s8 "''/40''" "File 493 []" "''/l2/diego-sshd''" 493] obtain s9 where
    9: "Rename demo_platform ''/40'' ''/l2/diego-sshd'' s8 = (Inr (), s9)"
    by (auto simp: 8(2) 7(2) 6(2) 5(2) f4(1) demo_parents)
  from demo_Run obtain s10 :: building where
    10: "Run demo_platform ''tar'' [''-czf'', ''lifecycle.tar.gz'', ''builder'', ''launcher'', ''healthcheck'', ''diego-sshd''] ''/l2'' s9 = (Inr (), s10)"
    by blast
  show ?thesis
    unfolding lifecycle_run_def BuildLifecycles_def Let_def demo_paths
    by (simp add: andThen_def expect_ok_def expect_val_def ret_def store_lifecycle_def demo_paths 1(1) 2(1) 3(1) 4(1) 5(1) 6(1) 7(1) 8(1) 9(1) 10)
qed

theorem build_lifecycles_environment_witness:
  "env cgo_shell ''CGO_ENABLED'' = Some ''1'' \<and> env (snd lifecycle_run) ''CGO_ENABLED'' = None
     \<and> map (\<lambda>(p, f, c). c) (builds (snd lifecycle_run)) = [Some ''1'', Some ''1'', Some ''1'', Some ''0'']"
proof -
  from lifecycle_run_Inr obtain x t where run: "BuildLifecycles demo_platform lifecycle_gexec ''l'' ''/'' (Some Map.empty) cgo_shell = (Inr x, t)"
    and t: "snd lifecycle_run = t" by (auto simp: lifecycle_run_def)
  have "\<forall>n. fault demo_platform n = None" by (simp add: demo_platform_def)
  from build_lifecycles_environment [OF this run refl refl] show ?thesis by (simp add: cgo_shell_def t)
qed

end
