(* ===== verification/Suite_Build.thy ===== *)
theory Suite_Build
  imports World_Lifecycles World_Suite
begin

text \<open>
  What the first parallel process does before all others: the first function of
  \<open>SynchronizedBeforeSuite\<close> in \<open>cell/cell_suite_test.go\<close>, with \<open>CompileTestedExecutables\<close> and
  \<open>CompileHealthcheckExecutable\<close>, and what its \<open>AfterSuite\<close> leaves of that.
\<close>

section \<open>The working directory\<close>

text \<open>
  The state has the working directory and the package variable \<open>suiteTempDir\<close>. Paths are not
  cleaned and there are no symbolic links. A build may depend on the working directory.
\<close>

record compiling = building +
  cwd :: string
  suite_dir :: string

definition is_abs :: "platform \<Rightarrow> string \<Rightarrow> bool" where
  "is_abs P d \<longleftrightarrow> (if windows P then take 1 (drop 1 d) = '':'' else take 1 d = ''/'')"

definition Getwd :: "platform \<Rightarrow> (go_error, 's compiling_scheme, string) comp" where
  "Getwd P = sys P ''getwd'' [] (\<lambda>s. (Inr (cwd s), s))"

definition Chdir :: "platform \<Rightarrow> string \<Rightarrow> (go_error, 's compiling_scheme, unit) comp" where
  "Chdir P dir = sys P ''chdir'' dir (\<lambda>s.
     let d = (if is_abs P dir then dir else joinPath P (cwd s) dir) in
     if dir = [] then (Inl ENOENT, s)
     else case fs s d of
            Some (Dir _) \<Rightarrow> (Inr (), s\<lparr>cwd := d\<rparr>)
          | Some (File _ _) \<Rightarrow> (Inl ENOTDIR, s)
          | None \<Rightarrow> (Inl ENOENT, s))"

type_synonym builder = "string \<Rightarrow> gexec"

definition Build_here :: "builder \<Rightarrow> string \<Rightarrow> string list \<Rightarrow> (go_error, 's compiling_scheme, string) comp" where
  "Build_here G pkg flags = andThen (gets cwd) (\<lambda>w. Build (G w) pkg flags)"

section \<open>The builds\<close>

text \<open>One assignment to the map, with the expectation on its error.\<close>

definition compile_into :: "builder \<Rightarrow> string \<Rightarrow> string \<Rightarrow> string list \<Rightarrow> string_map \<Rightarrow> (failure, 's compiling_scheme, string_map) comp" where
  "compile_into G key pkg flags m = andThen (expect_ok (Build_here G pkg flags)) (\<lambda>p. ret (m(key \<mapsto> p)))"

text \<open>A build in the directory that a variable of the environment names.\<close>

definition compile_in_gopath :: "platform \<Rightarrow> builder \<Rightarrow> string \<Rightarrow> string \<Rightarrow> string \<Rightarrow> string \<Rightarrow> string list \<Rightarrow> string_map
    \<Rightarrow> (failure, 's compiling_scheme, string_map) comp" where
  "compile_in_gopath P G cwd0 gopath key pkg flags m =
     andThen (Getenv gopath) (\<lambda>d.
     andThen (expect_ok (Chdir P d)) (\<lambda>_.
     andThen (compile_into G key pkg flags m) (\<lambda>m.
     andThen (expect_ok (Chdir P cwd0)) (\<lambda>_.
     ret m))))"

text \<open>The SSH daemon is built without cgo; the errors of the two settings are not looked at.\<close>

definition compile_static :: "platform \<Rightarrow> builder \<Rightarrow> string \<Rightarrow> string \<Rightarrow> string list \<Rightarrow> string_map
    \<Rightarrow> (failure, 's compiling_scheme, string_map) comp" where
  "compile_static P G key pkg flags m =
     andThen (attempt (Setenv P ''CGO_ENABLED'' ''0'')) (\<lambda>_.
     andThen (attempt (Build_here G pkg flags)) (\<lambda>r.
     andThen (Unsetenv_ignored P ''CGO_ENABLED'') (\<lambda>_.
     andThen (expect_val r) (\<lambda>p.
     ret (m(key \<mapsto> p))))))"

definition CompileTestedExecutables :: "platform \<Rightarrow> builder \<Rightarrow> (failure, 's compiling_scheme, string_map) comp" where
  "CompileTestedExecutables P G =
     andThen (expect_ok (Getwd P)) (\<lambda>cwd0.
     andThen (compile_in_gopath P G cwd0 ''GARDEN_GOPATH'' ''garden'' ''./cmd/gdn'' [''-race'', ''-a'', ''-tags'', ''daemon''] Map.empty) (\<lambda>m.
     andThen (compile_into G ''auctioneer'' ''code.cloudfoundry.org/auctioneer/cmd/auctioneer'' [''-race''] m) (\<lambda>m.
     andThen (compile_into G ''rep'' ''code.cloudfoundry.org/rep/cmd/rep'' [''-race''] m) (\<lambda>m.
     andThen (compile_into G ''bbs'' ''code.cloudfoundry.org/bbs/cmd/bbs'' [''-race''] m) (\<lambda>m.
     andThen (compile_into G ''locket'' ''code.cloudfoundry.org/locket/cmd/locket'' [''-race''] m) (\<lambda>m.
     andThen (compile_into G ''file-server'' ''code.cloudfoundry.org/fileserver/cmd/file-server'' [''-race''] m) (\<lambda>m.
     andThen (compile_into G ''route-emitter'' ''code.cloudfoundry.org/route-emitter/cmd/route-emitter'' [''-race''] m) (\<lambda>m.
     andThen (if \<not> windows P
       then compile_in_gopath P G cwd0 ''ROUTER_GOPATH'' ''router'' ''code.cloudfoundry.org/gorouter/cmd/gorouter'' [''-race''] m
       else ret m) (\<lambda>m.
     andThen (compile_into G ''routing-api'' ''code.cloudfoundry.org/routing-api/cmd/routing-api'' [''-race''] m) (\<lambda>m.
     andThen (compile_into G ''ssh-proxy'' ''code.cloudfoundry.org/diego-ssh/cmd/ssh-proxy'' [''-race''] m) (\<lambda>m.
     compile_static P G ''sshd'' ''code.cloudfoundry.org/diego-ssh/cmd/sshd'' [''-a'', ''-installsuffix'', ''static''] m)))))))))))"

definition CompileHealthcheckExecutable :: "platform \<Rightarrow> builder \<Rightarrow> string \<Rightarrow> (failure, 's compiling_scheme, string) comp" where
  "CompileHealthcheckExecutable P G tmp =
     andThen (TempDirWithParent P tmp ''healthcheck'') (\<lambda>healthcheckDir.
     andThen (expect_ok (Build_here G ''code.cloudfoundry.org/healthcheck/cmd/healthcheck'' [''-race''])) (\<lambda>healthcheckPath.
     andThen (if windows P
       then expect_ok (Rename P healthcheckPath (filepath_Join P [healthcheckDir, ''healthcheck.exe'']))
       else expect_ok (Rename P healthcheckPath (filepath_Join P [healthcheckDir, ''healthcheck'']))) (\<lambda>_.
     ret healthcheckDir)))"

text \<open>The JSON encoder of the artifacts is a parameter.\<close>

definition suite_build :: "platform \<Rightarrow> builder \<Rightarrow> (BuiltArtifacts \<Rightarrow> go_error + string) \<Rightarrow> (failure, 's compiling_scheme, string) comp" where
  "suite_build P G encode =
     andThen (TempDir P ''before-suite'') (\<lambda>suiteTempDir.
     andThen (modify (\<lambda>s. s\<lparr>suite_dir := suiteTempDir\<rparr>)) (\<lambda>_.
     andThen (andThen (gets cwd) (\<lambda>w. BuildLifecycles P (G w) ''dockerapplifecycle'' suiteTempDir (Some Map.empty))) (\<lambda>lifecycles.
     andThen (CompileTestedExecutables P G) (\<lambda>executables.
     andThen (CompileHealthcheckExecutable P G suiteTempDir) (\<lambda>healthcheck.
     expect_val (encode \<lparr>Executables = executables,
       Lifecycles = (case lifecycles of None \<Rightarrow> Map.empty | Some m \<Rightarrow> m), Healthcheck = healthcheck\<rparr>))))))"

section \<open>The executables\<close>

text \<open>The keys the component makers ask for, but for the volume driver, which the suite in \<open>volman/\<close> builds.\<close>

definition component_keys :: "platform \<Rightarrow> string set" where
  "component_keys P = {''garden'', ''auctioneer'', ''rep'', ''bbs'', ''locket'', ''file-server'', ''route-emitter'',
     ''routing-api'', ''ssh-proxy'', ''sshd''} \<union> (if windows P then {} else {''router''})"

text \<open>What a step of the build adds: a package, built with a value of \<open>CGO_ENABLED\<close>.\<close>

definition adds_build :: "string \<Rightarrow> string list \<Rightarrow> 's compiling_scheme \<Rightarrow> 's compiling_scheme \<Rightarrow> bool" where
  "adds_build pkg flags s t \<longleftrightarrow> builds t = builds s @ [(pkg, flags, env s ''CGO_ENABLED'')] \<and> env t = env s"

lemma Build_here_Inr:
  "Build_here G pkg flags s = (r, t) \<Longrightarrow> adds_build pkg flags s t \<and> cwd t = cwd s"
  by (auto simp: Build_here_def Build_def andThen_def adds_build_def split: prod.splits)

lemma compile_into_Inr:
  "compile_into G key pkg flags m s = (Inr m', t) \<Longrightarrow>
     adds_build pkg flags s t \<and> cwd t = cwd s \<and> dom m' = insert key (dom m)"
  by (auto simp: compile_into_def andThen_Inr_iff expect_ok_Inr_iff dest!: Build_here_Inr)

lemma Chdir_Inr: "Chdir P d s = (Inr (), t) \<Longrightarrow> is_abs P d \<Longrightarrow>
    cwd t = d \<and> env t = env s \<and> builds t = builds s"
  by (auto simp: Chdir_def sys_def Let_def split: option.splits node.splits if_splits)

lemma Chdir_state: "Chdir P d s = (r, t) \<Longrightarrow> env t = env s \<and> builds t = builds s"
  by (auto simp: Chdir_def sys_def Let_def split: option.splits node.splits if_splits)

lemma compile_in_gopath_Inr:
  assumes "compile_in_gopath P G cwd0 gopath key pkg flags m s = (Inr m', t)" and "is_abs P cwd0"
  shows "adds_build pkg flags s t \<and> cwd t = cwd0 \<and> dom m' = insert key (dom m)"
proof -
  from assms(1) obtain s1 s2 where 1: "Chdir P (getenv s gopath) s = (Inr (), s1)"
    and 2: "compile_into G key pkg flags m s1 = (Inr m', s2)" and 3: "Chdir P cwd0 s2 = (Inr (), t)"
    by (auto simp: compile_in_gopath_def andThen_Inr_iff expect_ok_Inr_iff Getenv_Inr_iff)
  from Chdir_state [OF 1] compile_into_Inr [OF 2] Chdir_Inr [OF 3 assms(2)] show ?thesis
    by (simp add: adds_build_def)
qed

lemma compile_static_Inr:
  assumes "compile_static P G key pkg flags m s = (Inr m', t)" and "\<forall>n. fault P n = None"
  shows "builds t = builds s @ [(pkg, flags, Some ''0'')] \<and> env t = (env s)(''CGO_ENABLED'' := None) \<and> cwd t = cwd s
    \<and> dom m' = insert key (dom m)"
  using assms
  by (auto simp: compile_static_def andThen_Inr_iff attempt_Inr_iff expect_val_Inr_iff Setenv_def Unsetenv_ignored_def Unsetenv_def
      sys_def Let_def adds_build_def dest!: Build_here_Inr)

text \<open>Whatever happens, the environment is as it was or has lost \<open>CGO_ENABLED\<close>.\<close>

lemma kept_Getwd: "keeps (cgo_kept_or_unset e) (Getwd P)"
  by (auto simp: keeps_def Getwd_def sys_def Let_def cgo_kept_or_unset_def split: option.split)

lemma kept_Chdir: "keeps (cgo_kept_or_unset e) (Chdir P d)"
  by (auto simp: keeps_def Chdir_def sys_def Let_def cgo_kept_or_unset_def split: option.split node.split)

lemma kept_compile_into: "keeps (cgo_kept_or_unset e) (compile_into G key pkg flags m)"
  unfolding compile_into_def Build_here_def by (intro keeps_andThen keeps_gets keeps_Build keeps_ret keeps_expect_ok)

lemma kept_compile_in_gopath: "keeps (cgo_kept_or_unset e) (compile_in_gopath P G cwd0 gopath key pkg flags m)"
  unfolding compile_in_gopath_def Getenv_def
  by (intro keeps_andThen keeps_gets keeps_expect_ok kept_Chdir kept_compile_into keeps_ret)

lemma kept_compile_static:
  assumes "\<forall>n. fault P n = None"
  shows "keeps (cgo_kept_or_unset e) (compile_static P G key pkg flags m)"
proof (rule keepsI)
  fix s :: "'s compiling_scheme" assume e: "cgo_kept_or_unset e s"
  let ?m = "andThen (attempt (Setenv P ''CGO_ENABLED'' ''0'')) (\<lambda>_. andThen (attempt (Build_here G pkg flags)) (\<lambda>r.
     andThen (Unsetenv_ignored P ''CGO_ENABLED'') (\<lambda>_. ret r)))"
  obtain r u where b: "Build_here G pkg flags (s\<lparr>calls := Suc (calls s), env := (env s)(''CGO_ENABLED'' \<mapsto> ''0'')\<rparr>) = (r, u)"
    by fastforce
  have "\<exists>t. snd (compile_static P G key pkg flags m s) = t \<and> env t = (env s)(''CGO_ENABLED'' := None)"
    using assms Build_here_Inr [OF b]
    by (cases r) (simp_all add: compile_static_def andThen_def attempt_def Setenv_def sys_def Let_def b Unsetenv_ignored_def
        Unsetenv_def adds_build_def)
  with e show "cgo_kept_or_unset e (snd (compile_static P G key pkg flags m s))"
    by (auto simp: cgo_kept_or_unset_def)
qed

lemma kept_executables:
  assumes "\<forall>n. fault P n = None"
  shows "keeps (cgo_kept_or_unset e) (CompileTestedExecutables P G)"
  unfolding CompileTestedExecutables_def
  by (intro keeps_andThen keeps_if keeps_ret keeps_expect_ok kept_Getwd kept_compile_into kept_compile_in_gopath
      kept_compile_static [OF assms])

text \<open>The packages with the flags they are built with, the last one without cgo.\<close>

definition packages :: "platform \<Rightarrow> (string \<times> string list) list" where
  "packages P =
     [(''./cmd/gdn'', [''-race'', ''-a'', ''-tags'', ''daemon''])]
     @ map (\<lambda>p. (''code.cloudfoundry.org/'' @ p, [''-race'']))
         ([''auctioneer/cmd/auctioneer'', ''rep/cmd/rep'', ''bbs/cmd/bbs'', ''locket/cmd/locket'', ''fileserver/cmd/file-server'',
           ''route-emitter/cmd/route-emitter''] @ (if windows P then [] else [''gorouter/cmd/gorouter''])
          @ [''routing-api/cmd/routing-api'', ''diego-ssh/cmd/ssh-proxy''])"

definition compiled :: "platform \<Rightarrow> 's compiling_scheme \<Rightarrow> string_map \<Rightarrow> 's compiling_scheme \<Rightarrow> bool" where
  "compiled P s m t \<longleftrightarrow> dom m = component_keys P \<and> cwd t = cwd s \<and> env t = (env s)(''CGO_ENABLED'' := None)
     \<and> builds t = builds s @ map (\<lambda>(p, f). (p, f, env s ''CGO_ENABLED'')) (packages P)
         @ [(''code.cloudfoundry.org/diego-ssh/cmd/sshd'', [''-a'', ''-installsuffix'', ''static''], Some ''0'')]"

lemma executables_compiled:
  assumes "CompileTestedExecutables P G s = (Inr m, t)" and "\<forall>n. fault P n = None" and "is_abs P (cwd s)"
  shows "compiled P s m t"
proof -
  from assms(1) obtain s1 m2 s2 m3 s3 m4 s4 m5 s5 m6 s6 m7 s7 m8 s8 m9 s9 m10 s10 m11 s11 where
    0: "Getwd P s = (Inr (cwd s), s1)"
    and 1: "compile_in_gopath P G (cwd s) ''GARDEN_GOPATH'' ''garden'' ''./cmd/gdn'' [''-race'', ''-a'', ''-tags'', ''daemon''] Map.empty s1 = (Inr m2, s2)"
    and c: "compile_into G ''auctioneer'' ''code.cloudfoundry.org/auctioneer/cmd/auctioneer'' [''-race''] m2 s2 = (Inr m3, s3)"
      "compile_into G ''rep'' ''code.cloudfoundry.org/rep/cmd/rep'' [''-race''] m3 s3 = (Inr m4, s4)"
      "compile_into G ''bbs'' ''code.cloudfoundry.org/bbs/cmd/bbs'' [''-race''] m4 s4 = (Inr m5, s5)"
      "compile_into G ''locket'' ''code.cloudfoundry.org/locket/cmd/locket'' [''-race''] m5 s5 = (Inr m6, s6)"
      "compile_into G ''file-server'' ''code.cloudfoundry.org/fileserver/cmd/file-server'' [''-race''] m6 s6 = (Inr m7, s7)"
      "compile_into G ''route-emitter'' ''code.cloudfoundry.org/route-emitter/cmd/route-emitter'' [''-race''] m7 s7 = (Inr m8, s8)"
    and r: "(if \<not> windows P
       then compile_in_gopath P G (cwd s) ''ROUTER_GOPATH'' ''router'' ''code.cloudfoundry.org/gorouter/cmd/gorouter'' [''-race''] m8
       else ret m8) s8 = (Inr m9, s9)"
    and d: "compile_into G ''routing-api'' ''code.cloudfoundry.org/routing-api/cmd/routing-api'' [''-race''] m9 s9 = (Inr m10, s10)"
      "compile_into G ''ssh-proxy'' ''code.cloudfoundry.org/diego-ssh/cmd/ssh-proxy'' [''-race''] m10 s10 = (Inr m11, s11)"
    and e: "compile_static P G ''sshd'' ''code.cloudfoundry.org/diego-ssh/cmd/sshd'' [''-a'', ''-installsuffix'', ''static''] m11 s11 = (Inr m, t)"
    unfolding CompileTestedExecutables_def andThen_Inr_iff expect_ok_Inr_iff
    by (auto simp: Getwd_def sys_def Let_def split: option.splits)
  have s1: "env s1 = env s" "builds s1 = builds s" "cwd s1 = cwd s"
    using 0 by (auto simp: Getwd_def sys_def Let_def split: option.splits)
  have s9: "env s9 = env s8" "cwd s9 = cwd s8" "dom m9 = (if windows P then dom m8 else insert ''router'' (dom m8))"
    "builds s9 = builds s8 @ (if windows P then [] else [(''code.cloudfoundry.org/gorouter/cmd/gorouter'', [''-race''], env s8 ''CGO_ENABLED'')])"
    if "cwd s8 = cwd s"
    using r compile_in_gopath_Inr [OF _ assms(3), of G "''ROUTER_GOPATH''" "''router''" "''code.cloudfoundry.org/gorouter/cmd/gorouter''"
        "[''-race'']" m8 s8 m9 s9] that by (auto simp: adds_build_def split: if_splits)
  note steps = compile_in_gopath_Inr [OF 1 assms(3)] c [THEN compile_into_Inr]
  have m8: "cwd s8 = cwd s" "env s8 = env s" using steps s1 by (simp_all add: adds_build_def)
  note steps = steps s9 [OF m8(1)] d [THEN compile_into_Inr] compile_static_Inr [OF e assms(2)]
  have "builds t = builds s @ map (\<lambda>(p, f). (p, f, env s ''CGO_ENABLED'')) (packages P)
         @ [(''code.cloudfoundry.org/diego-ssh/cmd/sshd'', [''-a'', ''-installsuffix'', ''static''], Some ''0'')]"
    using steps s1 by (cases "windows P") (simp_all add: adds_build_def packages_def)
  moreover have "dom m = component_keys P" using steps by (auto simp: component_keys_def)
  moreover have "cwd t = cwd s" "env t = (env s)(''CGO_ENABLED'' := None)" using steps m8 by (simp_all add: adds_build_def)
  ultimately show ?thesis by (simp add: compiled_def)
qed

text \<open>
  \<open>CompileTestedExecutables\<close> never leaves \<open>CGO_ENABLED\<close> at 0. When it succeeds, it
  has built every program the component makers start from the map (the router not on
  Windows), from the packages of the list, in order, with the value of \<open>CGO_ENABLED\<close> it found,
  but the SSH daemon without cgo; the working directory is the one it started in, and
  \<open>CGO_ENABLED\<close> is unset, whatever it was before.
\<close>

theorem executables_built:
  assumes "\<forall>n. fault P n = None" and "is_abs P (cwd s)" and "CompileTestedExecutables P G s = (r, t)"
  shows "(env t = env s \<or> env t = (env s)(''CGO_ENABLED'' := None)) \<and> (\<forall>m. r = Inr m \<longrightarrow> compiled P s m t)"
  using executables_compiled [OF _ assms(1,2), of G _ t] assms(3)
    keeps_run [OF kept_executables [OF assms(1)] assms(3), of "env s"]
  by (auto simp: cgo_kept_or_unset_def)

text \<open>A run that succeeds and ends in a state of the same kind, whatever came of it.\<close>

definition succeeds :: "('s \<Rightarrow> bool) \<Rightarrow> ('e, 's, 'a) comp \<Rightarrow> bool" where
  "succeeds I m \<longleftrightarrow> (\<forall>s. I s \<longrightarrow> (\<exists>a t. m s = (Inr a, t) \<and> I t))"

lemma succeeds_andThen: "succeeds I m \<Longrightarrow> (\<And>a. succeeds I (k a)) \<Longrightarrow> succeeds I (andThen m k)"
  unfolding succeeds_def andThen_Inr_iff by blast

lemma succeeds_ret: "succeeds I (ret a)"
  by (simp add: succeeds_def)

lemma succeeds_Inr: "succeeds I m \<Longrightarrow> I s \<Longrightarrow> \<exists>a t. m s = (Inr a, t) \<and> I t"
  by (simp add: succeeds_def)

text \<open>The first process on Linux, with a generator of temporary names that always says 7.\<close>

definition first_process :: platform where
  "first_process = demo_platform\<lparr>rand := (\<lambda>_. ''7'')\<rparr>"

lemma first_process_facts:
  "\<not> windows first_process" "sep first_process = CHR ''/''" "fault first_process n = None" "rand first_process n = ''7''"
  "exec first_process p a d f = (None, f)"
  by (simp_all add: first_process_def demo_platform_def windows_def sep_def)

text \<open>
  A cache that has every package built already, of which only the last letters of the path
  matter, in a shell that had enabled cgo.
\<close>

definition demo_builder :: builder where
  "demo_builder w pkg flags e f =
     (let p = CHR ''/'' # drop (length pkg - 4) pkg in (Inr (if f p = None then ''/spare'' else p), f))"

definition demo_checkout :: compiling where
  "demo_checkout = \<lparr>env = [''GARDEN_GOPATH'' \<mapsto> ''/g'', ''ROUTER_GOPATH'' \<mapsto> ''/r'', ''CGO_ENABLED'' \<mapsto> ''1''],
     fs = [''/tmp'' \<mapsto> Dir 511, ''/g'' \<mapsto> Dir 493, ''/r'' \<mapsto> Dir 493, ''/src'' \<mapsto> Dir 493, ''/lder'' \<mapsto> File 493 ''b'',
       ''/cher'' \<mapsto> File 493 ''l'', ''/heck'' \<mapsto> File 493 ''h'', ''/sshd'' \<mapsto> File 493 ''s'', ''/spare'' \<mapsto> File 493 ''x''],
     calls = 0, ran = [], builds = [], cwd = ''/src'', suite_dir = []\<rparr>"

text \<open>The directories of the sources are there, and the files are those of \<open>f\<close>.\<close>

definition checked_out :: "(string \<rightharpoonup> node) \<Rightarrow> compiling \<Rightarrow> bool" where
  "checked_out f s \<longleftrightarrow> fs s = f \<and> env s ''GARDEN_GOPATH'' = Some ''/g'' \<and> env s ''ROUTER_GOPATH'' = Some ''/r'' \<and> cwd s \<noteq> []
     \<and> (\<forall>d \<in> {''/g'', ''/r'', ''/src''}. \<exists>m. f d = Some (Dir m))"

lemma demo_compile_into: "succeeds (checked_out f) (compile_into demo_builder key pkg flags m)"
  by (auto simp: succeeds_def compile_into_def Build_here_def Build_def andThen_def expect_ok_def demo_builder_def Let_def
      checked_out_def)

lemma demo_Chdir:
  assumes "d \<in> {''/g'', ''/r'', ''/src''}"
  shows "succeeds (checked_out f) (expect_ok (Chdir first_process d))"
proof -
  have "is_abs first_process d" "d \<noteq> []" using assms by (auto simp: is_abs_def first_process_facts)
  with assms show ?thesis
    by (fastforce simp: succeeds_def expect_ok_def Chdir_def sys_def Let_def first_process_facts checked_out_def)
qed

lemma demo_compile_in_gopath:
  assumes "gopath \<in> {''GARDEN_GOPATH'', ''ROUTER_GOPATH''}"
  shows "succeeds (checked_out f) (compile_in_gopath first_process demo_builder ''/src'' gopath key pkg flags m)"
  unfolding succeeds_def
proof (intro allI impI)
  fix s assume s: "checked_out f s"
  then have "env s ''GARDEN_GOPATH'' = Some ''/g''" "env s ''ROUTER_GOPATH'' = Some ''/r''" by (simp_all add: checked_out_def)
  then have get: "Getenv gopath s = (Inr (if gopath = ''GARDEN_GOPATH'' then ''/g'' else ''/r''), s)"
    using assms by (elim insertE emptyE) (simp_all add: Getenv_def)
  define d where "d = (if gopath = ''GARDEN_GOPATH'' then ''/g'' else ''/r'')"
  have d: "d \<in> {''/g'', ''/r'', ''/src''}" "Getenv gopath s = (Inr d, s)" using get by (simp_all add: d_def)
  have "succeeds (checked_out f) (andThen (expect_ok (Chdir first_process d)) (\<lambda>_.
      andThen (compile_into demo_builder key pkg flags m) (\<lambda>m. andThen (expect_ok (Chdir first_process ''/src'')) (\<lambda>_. ret m))))"
    using d(1) by (intro succeeds_andThen demo_Chdir demo_compile_into succeeds_ret) simp_all
  from succeeds_Inr [OF this s] show "\<exists>a t. compile_in_gopath first_process demo_builder ''/src'' gopath key pkg flags m s = (Inr a, t) \<and> checked_out f t"
    unfolding compile_in_gopath_def by (subst andThen_run_Inr [where m = "Getenv gopath", OF d(2)])
qed

lemma demo_compile_static: "succeeds (checked_out f) (compile_static first_process demo_builder key pkg flags m)"
  by (auto simp: succeeds_def compile_static_def andThen_def attempt_def Setenv_def Unsetenv_ignored_def Unsetenv_def sys_def Let_def
      first_process_facts Build_here_def Build_def demo_builder_def checked_out_def)

lemma demo_executables:
  assumes "checked_out f s" and "cwd s = ''/src''"
  shows "\<exists>m t. CompileTestedExecutables first_process demo_builder s = (Inr m, t) \<and> checked_out f t"
proof -
  obtain t where "Getwd first_process s = (Inr ''/src'', t)" "checked_out f t"
    using assms by (simp add: Getwd_def sys_def Let_def first_process_facts checked_out_def)
  moreover have "succeeds (checked_out f) (compile_in_gopath first_process demo_builder ''/src'' ''GARDEN_GOPATH'' key pkg flags m)"
    "succeeds (checked_out f) (compile_in_gopath first_process demo_builder ''/src'' ''ROUTER_GOPATH'' key pkg flags m)" for key pkg flags m
    by (simp_all add: demo_compile_in_gopath)
  ultimately show ?thesis
    unfolding CompileTestedExecutables_def first_process_facts(1) andThen_def [of "expect_ok (Getwd first_process)"]
    by (simp add: expect_ok_def first_process_facts) (erule succeeds_Inr [rotated],
        intro succeeds_andThen demo_compile_into demo_compile_static succeeds_ret)
qed

theorem executables_built_witness:
  "\<exists>m t. CompileTestedExecutables first_process demo_builder demo_checkout = (Inr m, t) \<and> dom m = component_keys first_process
     \<and> cwd t = ''/src'' \<and> env t ''CGO_ENABLED'' = None"
proof -
  have "checked_out (fs demo_checkout) demo_checkout" "cwd demo_checkout = ''/src''"
    by (simp_all add: checked_out_def demo_checkout_def)
  from demo_executables [OF this] obtain m t where run: "CompileTestedExecutables first_process demo_builder demo_checkout = (Inr m, t)" by blast
  have "is_abs first_process (cwd demo_checkout)" by (simp add: is_abs_def first_process_facts demo_checkout_def)
  from executables_built [OF _ this run] run show ?thesis by (auto simp: compiled_def first_process_facts demo_checkout_def)
qed

section \<open>What the first process shares, and removes\<close>

text \<open>Only the function itself sets the package variable.\<close>

definition dir_blind :: "string \<Rightarrow> 's compiling_scheme \<Rightarrow> bool" where
  "dir_blind d s \<longleftrightarrow> suite_dir s = d"

lemma dir_blind_os: "os_blind (dir_blind d)"
  by (simp add: os_blind_def dir_blind_def)

lemmas dir_blind_files = os_blind_files [OF dir_blind_os]

lemma dir_kept:
  "keeps (dir_blind d) (Build G pkg flags)" "keeps (dir_blind d) (Build_here G' pkg flags)"
  "keeps (dir_blind d) (Getwd P)" "keeps (dir_blind d) (Chdir P w)" "keeps (dir_blind d) (Unsetenv_ignored P k)"
  by (auto simp: keeps_def Build_def Build_here_def Getwd_def Chdir_def Unsetenv_ignored_def Unsetenv_def sys_def Let_def andThen_def
      dir_blind_def split: prod.split option.split node.split)

lemma dir_kept_lifecycles: "keeps (dir_blind d) (BuildLifecycles P G lc dir blc)"
  unfolding BuildLifecycles_def static_build_def Let_def
  by (intro keeps_andThen keeps_expect_ok dir_kept keeps_Setenv [OF dir_blind_os] keeps_attempt keeps_ret keeps_expect_val
      TempDirWithParent_keeps [OF dir_blind_files] keeps_Rename [OF dir_blind_files] keeps_Run [OF dir_blind_files] keeps_store_lifecycle)

lemma dir_kept_executables: "keeps (dir_blind d) (CompileTestedExecutables P G)"
  unfolding CompileTestedExecutables_def compile_into_def compile_in_gopath_def compile_static_def Getenv_def
  by (intro keeps_andThen keeps_expect_ok dir_kept keeps_Setenv [OF dir_blind_os] keeps_attempt keeps_ret keeps_expect_val keeps_gets keeps_if)

lemma cwd_kept_lifecycles: "keeps (\<lambda>s. cwd s = w) (BuildLifecycles P G lc dir blc)"
proof -
  have os: "os_blind (\<lambda>s. cwd s = w)" by (simp add: os_blind_def)
  have "keeps (\<lambda>s. cwd s = w) (Build G pkg flags)" "keeps (\<lambda>s. cwd s = w) (Unsetenv_ignored P k)" for pkg flags k
    by (auto simp: keeps_def Build_def Unsetenv_ignored_def Unsetenv_def sys_def Let_def split: prod.split option.split)
  then show ?thesis
    unfolding BuildLifecycles_def static_build_def Let_def
    by (intro keeps_andThen keeps_expect_ok keeps_Setenv [OF os] keeps_attempt keeps_ret keeps_expect_val
        TempDirWithParent_keeps [OF os_blind_files [OF os]] keeps_Rename [OF os_blind_files [OF os]]
        keeps_Run [OF os_blind_files [OF os]] keeps_store_lifecycle)
qed

lemma BuildLifecycles_dir:
  fixes s t :: "'s building_scheme"
  assumes "BuildLifecycles P G lc tmp blc s = (Inr m, t)"
  shows "\<exists>dir b. \<exists>u v :: 's building_scheme. TempDirWithParent P tmp lc u = (Inr dir, v) \<and> blc = Some b \<and> m = Some (b(lc \<mapsto> filepath_Join P [dir, LifecycleFilename]))"
  using assms
  by (auto simp: BuildLifecycles_def Let_def andThen_Inr_iff store_lifecycle_Inr_iff)

lemma Healthcheck_dir:
  assumes "CompileHealthcheckExecutable P G tmp s = (Inr dir, t)"
  shows "\<exists>v. TempDirWithParent P tmp ''healthcheck'' s = (Inr dir, v)" and "suite_dir t = suite_dir s"
proof -
  show "\<exists>v. TempDirWithParent P tmp ''healthcheck'' s = (Inr dir, v)"
    using assms by (auto simp: CompileHealthcheckExecutable_def andThen_Inr_iff)
  have "keeps (dir_blind d) (CompileHealthcheckExecutable P G tmp)" for d
    unfolding CompileHealthcheckExecutable_def
    by (intro keeps_andThen keeps_expect_ok dir_kept keeps_if keeps_ret TempDirWithParent_keeps [OF dir_blind_files] keeps_Rename [OF dir_blind_files])
  from keeps_run [OF this assms, of "suite_dir s"] show "suite_dir t = suite_dir s" by (simp add: dir_blind_def)
qed

lemma suite_build_Inr:
  assumes "suite_build P G encode s = (Inr payload, t)"
  shows "\<exists>dir lcs s1 s2 m s3 h. TempDir P ''before-suite'' s = (Inr dir, s1)
    \<and> BuildLifecycles P (G (cwd s1)) ''dockerapplifecycle'' dir (Some Map.empty) (s1\<lparr>suite_dir := dir\<rparr>) = (Inr lcs, s2)
    \<and> CompileTestedExecutables P G s2 = (Inr m, s3) \<and> CompileHealthcheckExecutable P G dir s3 = (Inr h, t)
    \<and> encode \<lparr>Executables = m, Lifecycles = (case lcs of None \<Rightarrow> Map.empty | Some m \<Rightarrow> m), Healthcheck = h\<rparr> = Inr payload"
  using assms by (auto simp: suite_build_def andThen_Inr_iff modify_def gets_def expect_val_Inr_iff)

text \<open>
  Property C9. What the first process hands to all others has every program the makers start,
  one lifecycle and the health check; the archive of the lifecycle and the health check lie in
  directories that are made below the directory of the suite. The end of the suite on the
  first process removes that directory with all that is in it, at a time when other
  processes, which were given those very paths, may still run their specs.
\<close>

theorem shared_artifacts_removed:
  fixes s t :: "'s compiling_scheme" and u v :: "'w world_scheme"
  assumes "\<forall>n. fault P n = None" and "is_abs P (cwd s)" and "suite_build P G encode s = (Inr payload, t)"
    and "last (suite_dir t) \<noteq> sep P" and "suite_end P polls yaml maker (suite_dir t) u = (Inr (), v)"
  shows "\<exists>a dir. encode a = Inr payload \<and> dom (Executables a) = component_keys P
    \<and> Lifecycles a = [''dockerapplifecycle'' \<mapsto> filepath_Join P [dir, LifecycleFilename]]
    \<and> fs s (suite_dir t) = None \<and> inside P (suite_dir t) dir \<and> inside P (suite_dir t) (Healthcheck a)
    \<and> (\<forall>p. inside P (suite_dir t) p \<longrightarrow> fs v p = None)"
proof -
  from suite_build_Inr [OF assms(3)] obtain dir lcs s1 s2 m s3 h where
    td: "TempDir P ''before-suite'' s = (Inr dir, s1)"
    and bl: "BuildLifecycles P (G (cwd s1)) ''dockerapplifecycle'' dir (Some Map.empty) (s1\<lparr>suite_dir := dir\<rparr>) = (Inr lcs, s2)"
    and ex: "CompileTestedExecutables P G s2 = (Inr m, s3)" and hc: "CompileHealthcheckExecutable P G dir s3 = (Inr h, t)"
    and enc: "encode \<lparr>Executables = m, Lifecycles = (case lcs of None \<Rightarrow> Map.empty | Some m \<Rightarrow> m), Healthcheck = h\<rparr> = Inr payload"
    by blast
  have "files_blind (\<lambda>x :: 's compiling_scheme. cwd x = cwd s)" by (simp add: files_blind_def)
  from keeps_run [OF TempDir_keeps [OF this] td refl] have "cwd s1 = cwd s" .
  then have cwd: "cwd s2 = cwd s" using keeps_run [OF cwd_kept_lifecycles bl] by simp
  have "suite_dir s3 = dir"
    using keeps_run [OF dir_kept_executables ex] keeps_run [OF dir_kept_lifecycles bl] by (simp add: dir_blind_def)
  then have t: "suite_dir t = dir" using Healthcheck_dir(2) [OF hc] by simp
  have dir: "dir \<noteq> []" "last dir \<noteq> sep P"
    using TempDirWithParent_nonempty [OF td [unfolded TempDir_as_child]] assms(4) t by simp_all
  from BuildLifecycles_dir [OF bl] obtain lc and x y :: "'s compiling_scheme" where
    lc: "TempDirWithParent P dir ''dockerapplifecycle'' x = (Inr lc, y)"
      "lcs = Some [''dockerapplifecycle'' \<mapsto> filepath_Join P [lc, LifecycleFilename]]" by auto
  have "dom m = component_keys P" using executables_compiled [OF ex assms(1)] cwd assms(2) by (simp add: compiled_def)
  moreover have "inside P dir lc" "inside P dir h"
    using TempDirWithParent_inside [OF lc(1) dir] Healthcheck_dir(1) [OF hc] TempDirWithParent_inside [OF _ dir] by blast+
  moreover have "fs s dir = None" using TempDir_Inr(1) [OF td] .
  moreover have "fs v p = None" if "inside P dir p" for p
  proof -
    from assms(5) t obtain r w x where "RemoveAll P dir w = (r, x)" "v = x"
      by (auto simp: suite_end_def andThen_Inr_iff attempt_Inr_iff)
    then have "v = snd (RemoveAll P dir w)" by simp
    moreover have "fst (RemoveAll P dir w) = Inr ()" using assms(1) by (intro RemoveAll_fault_free) simp
    ultimately have "RemoveAll P dir w = (Inr (), v)" by (metis prod.collapse)
    from RemoveAll_removes(1) [OF this dir(1) that] show ?thesis .
  qed
  ultimately show ?thesis using enc lc(2) t by (intro exI [of _ "\<lparr>Executables = m, Lifecycles = (case lcs of None \<Rightarrow> Map.empty | Some m \<Rightarrow> m), Healthcheck = h\<rparr>"] exI [of _ lc]) simp
qed

lemma first_process_paths:
  "filepath_Join first_process [''code.cloudfoundry.org'', ''dockerapplifecycle''] = ''code.cloudfoundry.org/dockerapplifecycle''"
  "filepath_Join first_process [''code.cloudfoundry.org/dockerapplifecycle'', ''builder''] = ''code.cloudfoundry.org/dockerapplifecycle/builder''"
  "filepath_Join first_process [''code.cloudfoundry.org/dockerapplifecycle'', ''launcher''] = ''code.cloudfoundry.org/dockerapplifecycle/launcher''"
  "filepath_Join first_process [''/tmp/before-suite7/dockerapplifecycle7'', ''builder''] = ''/tmp/before-suite7/dockerapplifecycle7/builder''"
  "filepath_Join first_process [''/tmp/before-suite7/dockerapplifecycle7'', ''healthcheck''] = ''/tmp/before-suite7/dockerapplifecycle7/healthcheck''"
  "filepath_Join first_process [''/tmp/before-suite7/dockerapplifecycle7'', ''launcher''] = ''/tmp/before-suite7/dockerapplifecycle7/launcher''"
  "filepath_Join first_process [''/tmp/before-suite7/dockerapplifecycle7'', ''diego-sshd''] = ''/tmp/before-suite7/dockerapplifecycle7/diego-sshd''"
  "filepath_Join first_process [''/tmp/before-suite7/dockerapplifecycle7'', LifecycleFilename] = ''/tmp/before-suite7/dockerapplifecycle7/lifecycle.tar.gz''"
  "filepath_Join first_process [''/tmp/before-suite7/healthcheck7'', ''healthcheck''] = ''/tmp/before-suite7/healthcheck7/healthcheck''"
  by code_simp+

lemma first_process_parents:
  "parent_dir (CHR ''/'') ''/tmp/before-suite7'' = ''/tmp''"
  "parent_dir (CHR ''/'') ''/tmp/before-suite7/dockerapplifecycle7'' = ''/tmp/before-suite7''"
  "parent_dir (CHR ''/'') ''/tmp/before-suite7/healthcheck7'' = ''/tmp/before-suite7''"
  "parent_dir (CHR ''/'') ''/tmp/before-suite7/dockerapplifecycle7/builder'' = ''/tmp/before-suite7/dockerapplifecycle7''"
  "parent_dir (CHR ''/'') ''/tmp/before-suite7/dockerapplifecycle7/healthcheck'' = ''/tmp/before-suite7/dockerapplifecycle7''"
  "parent_dir (CHR ''/'') ''/tmp/before-suite7/dockerapplifecycle7/launcher'' = ''/tmp/before-suite7/dockerapplifecycle7''"
  "parent_dir (CHR ''/'') ''/tmp/before-suite7/dockerapplifecycle7/diego-sshd'' = ''/tmp/before-suite7/dockerapplifecycle7''"
  "parent_dir (CHR ''/'') ''/tmp/before-suite7/healthcheck7/healthcheck'' = ''/tmp/before-suite7/healthcheck7''"
  by code_simp+

lemma first_process_names:
  "prefixAndSuffix first_process ''before-suite'' = Inr (''before-suite'', [])"
  "prefixAndSuffix first_process ''dockerapplifecycle'' = Inr (''dockerapplifecycle'', [])"
  "prefixAndSuffix first_process ''healthcheck'' = Inr (''healthcheck'', [])"
  "joinPath first_process ''/tmp'' ''before-suite'' = ''/tmp/before-suite''"
  "joinPath first_process ''/tmp/before-suite7'' ''dockerapplifecycle'' = ''/tmp/before-suite7/dockerapplifecycle''"
  "joinPath first_process ''/tmp/before-suite7'' ''healthcheck'' = ''/tmp/before-suite7/healthcheck''"
  by code_simp+

text \<open>What a step does to the files, when it leaves the environment of the sources alone.\<close>

definition moves_to :: "(string \<rightharpoonup> node) \<Rightarrow> compiling \<Rightarrow> compiling \<Rightarrow> bool" where
  "moves_to f s t \<longleftrightarrow> fs t = f \<and> cwd t = cwd s \<and> (\<forall>k. k \<noteq> ''CGO_ENABLED'' \<longrightarrow> env t k = env s k)"

lemma first_TempDir:
  assumes "fs s d = Some (Dir m)" and "d \<noteq> []" and "prefixAndSuffix first_process pre = Inr (pre, [])"
    and "joinPath first_process d pre @ ''7'' = name" and "fs s name = None" and "parent_dir (CHR ''/'') name = d"
  shows "\<exists>t. TempDirWithParent first_process d pre s = (Inr name, t) \<and> moves_to ((fs s)(name \<mapsto> Dir 493)) s t"
proof -
  let ?t = "s\<lparr>calls := Suc (calls s), fs := (fs s)(name \<mapsto> Dir 448)\<rparr>"
  have mk: "Mkdir first_process name 448 s = (Inr (), ?t)"
    using assms by (simp add: Mkdir_def sys_def Let_def first_process_facts create_new_def)
  have "temp_loop first_process (\<lambda>n. Mkdir first_process n 448) x (joinPath first_process d pre) [] 0 s = (Inr name, ?t)" for x
    by (subst temp_loop.simps) (use assms(4) mk in \<open>simp add: first_process_facts Let_def\<close>)
  then have "MkdirTemp first_process d pre s = (Inr name, ?t)"
    using assms(2,3) by (simp add: MkdirTemp_def)
  then show ?thesis
    by (simp add: TempDirWithParent_def andThen_def expect_ok_def Chmod_def sys_def Let_def first_process_facts ret_def moves_to_def)
qed

lemma first_Rename:
  assumes "fs s a = Some n" and "fs s (parent_dir (CHR ''/'') b) = Some (Dir m)" and "fs s b = None"
  shows "\<exists>t. Rename first_process a b s = (Inr (), t) \<and> moves_to (((fs s)(a := None))(b \<mapsto> n)) s t"
  using assms by (simp add: Rename_def sys_def Let_def first_process_facts moves_to_def)

lemma first_Build:
  assumes "CHR ''/'' # drop (length pkg - 4) pkg = p" and "fs s p \<noteq> None"
  shows "\<exists>t. Build (demo_builder w) pkg flags s = (Inr p, t) \<and> moves_to (fs s) s t"
  using assms by (auto simp: Build_def demo_builder_def Let_def moves_to_def)

lemma first_static:
  assumes "CHR ''/'' # drop (length pkg - 4) pkg = p" and "fs s p \<noteq> None"
  shows "\<exists>t. static_build first_process (demo_builder w) pkg flags s = (Inr (Inr p), t) \<and> moves_to (fs s) s t"
  using assms by (auto simp: static_build_def andThen_def expect_ok_def attempt_def Setenv_def Unsetenv_ignored_def Unsetenv_def
      sys_def Let_def first_process_facts Build_def demo_builder_def moves_to_def)

definition suite_files :: "string \<rightharpoonup> node" where
  "suite_files = (fs demo_checkout)(''/tmp/before-suite7'' \<mapsto> Dir 493)"

definition lifecycle_files :: "string \<rightharpoonup> node" where
  "lifecycle_files = suite_files(''/lder'' := None, ''/heck'' := None, ''/cher'' := None, ''/sshd'' := None,
     ''/tmp/before-suite7/dockerapplifecycle7'' \<mapsto> Dir 493,
     ''/tmp/before-suite7/dockerapplifecycle7/builder'' \<mapsto> File 493 ''b'', ''/tmp/before-suite7/dockerapplifecycle7/healthcheck'' \<mapsto> File 493 ''h'',
     ''/tmp/before-suite7/dockerapplifecycle7/launcher'' \<mapsto> File 493 ''l'', ''/tmp/before-suite7/dockerapplifecycle7/diego-sshd'' \<mapsto> File 493 ''s'')"

lemmas suite_files_eq = suite_files_def demo_checkout_def

lemma suite_lookup:
  "suite_files ''/lder'' = Some (File 493 ''b'')" "suite_files ''/cher'' = Some (File 493 ''l'')"
  "suite_files ''/heck'' = Some (File 493 ''h'')" "suite_files ''/sshd'' = Some (File 493 ''s'')"
  "suite_files ''/tmp/before-suite7'' = Some (Dir 493)"
  "suite_files ''/tmp/before-suite7/dockerapplifecycle7'' = None"
  "suite_files ''/tmp/before-suite7/dockerapplifecycle7/builder'' = None"
  "suite_files ''/tmp/before-suite7/dockerapplifecycle7/healthcheck'' = None"
  "suite_files ''/tmp/before-suite7/dockerapplifecycle7/launcher'' = None"
  "suite_files ''/tmp/before-suite7/dockerapplifecycle7/diego-sshd'' = None"
  by (simp_all add: suite_files_eq)

lemma first_lifecycles:
  assumes "fs s = suite_files"
  shows "\<exists>m t. BuildLifecycles first_process (demo_builder w) ''dockerapplifecycle'' ''/tmp/before-suite7'' (Some Map.empty) s = (Inr m, t)
    \<and> moves_to lifecycle_files s t"
proof -
  let ?d = "''/tmp/before-suite7/dockerapplifecycle7''" and ?l = "''code.cloudfoundry.org/dockerapplifecycle''"
  obtain s1 where 1: "Build (demo_builder w) (?l @ ''/builder'') [''-race''] s = (Inr ''/lder'', s1)" "moves_to suite_files s s1"
    using first_Build [where pkg = "?l @ ''/builder''" and p = "''/lder''" and s = s and w = w and flags = "[''-race'']"] assms
    by (auto simp: suite_lookup)
  obtain s2 where 2: "Build (demo_builder w) (?l @ ''/launcher'') [''-race''] s1 = (Inr ''/cher'', s2)" "moves_to suite_files s1 s2"
    using first_Build [where pkg = "?l @ ''/launcher''" and p = "''/cher''" and s = s1 and w = w and flags = "[''-race'']"] 1(2)
    by (auto simp: suite_lookup moves_to_def)
  obtain s3 where 3: "Build (demo_builder w) ''code.cloudfoundry.org/healthcheck/cmd/healthcheck'' [''-race''] s2 = (Inr ''/heck'', s3)"
      "moves_to suite_files s2 s3"
    using first_Build [where pkg = "''code.cloudfoundry.org/healthcheck/cmd/healthcheck''" and p = "''/heck''" and s = s2 and w = w
        and flags = "[''-race'']"] 2(2)
    by (auto simp: suite_lookup moves_to_def)
  obtain s4 where 4: "static_build first_process (demo_builder w) ''code.cloudfoundry.org/diego-ssh/cmd/sshd'' [''-a'', ''-installsuffix'', ''static''] s3
      = (Inr (Inr ''/sshd''), s4)" "moves_to suite_files s3 s4"
    using first_static [where pkg = "''code.cloudfoundry.org/diego-ssh/cmd/sshd''" and p = "''/sshd''" and s = s3 and w = w
        and flags = "[''-a'', ''-installsuffix'', ''static'']"] 3(2)
    by (auto simp: suite_lookup moves_to_def)
  obtain s5 where 5: "TempDirWithParent first_process ''/tmp/before-suite7'' ''dockerapplifecycle'' s4 = (Inr ?d, s5)"
      "moves_to (suite_files(?d \<mapsto> Dir 493)) s4 s5"
    using first_TempDir [of s4 "''/tmp/before-suite7''" 493 "''dockerapplifecycle''" ?d] 4(2)
    by (auto simp: suite_lookup moves_to_def first_process_names first_process_parents)
  obtain s6 where 6: "Rename first_process ''/lder'' (?d @ ''/builder'') s5 = (Inr (), s6)"
      "moves_to ((suite_files(?d \<mapsto> Dir 493))(''/lder'' := None, ?d @ ''/builder'' \<mapsto> File 493 ''b'')) s5 s6"
    using first_Rename [of s5 "''/lder''" "File 493 ''b''" "?d @ ''/builder''"] 5(2)
    by (auto simp: suite_lookup moves_to_def first_process_parents)
  obtain s7 where 7: "Rename first_process ''/heck'' (?d @ ''/healthcheck'') s6 = (Inr (), s7)"
      "moves_to ((fs s6)(''/heck'' := None, ?d @ ''/healthcheck'' \<mapsto> File 493 ''h'')) s6 s7"
    using first_Rename [of s6 "''/heck''" "File 493 ''h''" "?d @ ''/healthcheck''"] 6(2)
    by (auto simp: suite_lookup moves_to_def first_process_parents)
  obtain s8 where 8: "Rename first_process ''/cher'' (?d @ ''/launcher'') s7 = (Inr (), s8)"
      "moves_to ((fs s7)(''/cher'' := None, ?d @ ''/launcher'' \<mapsto> File 493 ''l'')) s7 s8"
    using first_Rename [of s7 "''/cher''" "File 493 ''l''" "?d @ ''/launcher''"] 6(2) 7(2)
    by (auto simp: suite_lookup moves_to_def first_process_parents)
  obtain s9 where 9: "Rename first_process ''/sshd'' (?d @ ''/diego-sshd'') s8 = (Inr (), s9)"
      "moves_to ((fs s8)(''/sshd'' := None, ?d @ ''/diego-sshd'' \<mapsto> File 493 ''s'')) s8 s9"
    using first_Rename [of s8 "''/sshd''" "File 493 ''s''" "?d @ ''/diego-sshd''"] 6(2) 7(2) 8(2)
    by (auto simp: suite_lookup moves_to_def first_process_parents)
  obtain t where t: "Run first_process ''tar'' [''-czf'', ''lifecycle.tar.gz'', ''builder'', ''launcher'', ''healthcheck'', ''diego-sshd''] ?d s9 = (Inr (), t)"
      "moves_to (fs s9) s9 t"
    by (simp add: Run_def first_process_facts moves_to_def)
  have "fs s9 = lifecycle_files"
    using 6(2) 7(2) 8(2) 9(2) by (auto simp: moves_to_def lifecycle_files_def fun_eq_iff)
  then have "moves_to lifecycle_files s t"
    using 1(2) 2(2) 3(2) 4(2) 5(2) 6(2) 7(2) 8(2) 9(2) t(2) by (simp add: moves_to_def)
  moreover have "\<exists>m. BuildLifecycles first_process (demo_builder w) ''dockerapplifecycle'' ''/tmp/before-suite7'' (Some Map.empty) s = (Inr m, t)"
    using 1(1) 2(1) 3(1) 4(1) 5(1) 6(1) 7(1) 8(1) 9(1) t(1)
    by (simp add: BuildLifecycles_def Let_def first_process_paths andThen_def expect_ok_def store_lifecycle_def)
  ultimately show ?thesis by blast
qed

definition demo_suite_build :: "(failure + string) \<times> compiling" where
  "demo_suite_build = suite_build first_process demo_builder (\<lambda>a. Inr (Healthcheck a)) demo_checkout"

lemma demo_suite_built: "\<exists>t. demo_suite_build = (Inr ''/tmp/before-suite7/healthcheck7'', t) \<and> suite_dir t = ''/tmp/before-suite7''"
proof -
  have tmp: "os_TempDir first_process demo_checkout = ''/tmp''" by (simp add: os_TempDir_def first_process_facts demo_checkout_def)
  obtain s1 where 1: "TempDir first_process ''before-suite'' demo_checkout = (Inr ''/tmp/before-suite7'', s1)"
      "moves_to suite_files demo_checkout s1"
    using first_TempDir [of demo_checkout "''/tmp''" 511 "''before-suite''" "''/tmp/before-suite7''"]
    by (auto simp: TempDir_as_child tmp first_process_names first_process_parents suite_files_def) (auto simp: demo_checkout_def)
  define s2 where "s2 = s1\<lparr>suite_dir := ''/tmp/before-suite7''\<rparr>"
  have s2: "moves_to suite_files demo_checkout s2" "suite_dir s2 = ''/tmp/before-suite7''" "cwd s1 = ''/src''"
    using 1(2) by (simp_all add: s2_def moves_to_def demo_checkout_def)
  obtain m s3 where 3: "BuildLifecycles first_process (demo_builder ''/src'') ''dockerapplifecycle'' ''/tmp/before-suite7'' (Some Map.empty) s2 = (Inr m, s3)"
      "moves_to lifecycle_files s2 s3" using first_lifecycles [of s2 "''/src''"] s2(1) by (auto simp: moves_to_def)
  have "checked_out lifecycle_files s3" "cwd s3 = ''/src''"
    using 3(2) s2(1) by (simp_all add: checked_out_def moves_to_def lifecycle_files_def suite_files_eq)
  from demo_executables [OF this] obtain x s4 where 4: "CompileTestedExecutables first_process demo_builder s3 = (Inr x, s4)"
    "fs s4 = lifecycle_files" by (auto simp: checked_out_def)
  have look: "lifecycle_files ''/tmp/before-suite7'' = Some (Dir 493)" "lifecycle_files ''/tmp/before-suite7/healthcheck7'' = None"
    "lifecycle_files ''/heck'' = None" "lifecycle_files ''/spare'' = Some (File 493 ''x'')"
    "lifecycle_files ''/tmp/before-suite7/healthcheck7/healthcheck'' = None"
    by (simp_all add: lifecycle_files_def suite_files_eq)
  obtain s5 where 5: "TempDirWithParent first_process ''/tmp/before-suite7'' ''healthcheck'' s4 = (Inr ''/tmp/before-suite7/healthcheck7'', s5)"
      "fs s5 = lifecycle_files(''/tmp/before-suite7/healthcheck7'' \<mapsto> Dir 493)"
    using first_TempDir [of s4 "''/tmp/before-suite7''" 493 "''healthcheck''" "''/tmp/before-suite7/healthcheck7''"] 4(2)
    by (auto simp: look moves_to_def first_process_names first_process_parents)
  obtain s6 where 6: "Build_here demo_builder ''code.cloudfoundry.org/healthcheck/cmd/healthcheck'' [''-race''] s5 = (Inr ''/spare'', s6)" "fs s6 = fs s5"
    using 5(2) look(3) by (simp add: Build_here_def Build_def andThen_def demo_builder_def Let_def)
  obtain s7 where 7: "Rename first_process ''/spare'' ''/tmp/before-suite7/healthcheck7/healthcheck'' s6 = (Inr (), s7)"
    using first_Rename [of s6 "''/spare''" "File 493 ''x''" "''/tmp/before-suite7/healthcheck7/healthcheck''" 493] 5(2) 6(2)
    by (auto simp: look first_process_parents)
  have h: "CompileHealthcheckExecutable first_process demo_builder ''/tmp/before-suite7'' s4 = (Inr ''/tmp/before-suite7/healthcheck7'', s7)"
    using 5(1) 6(1) 7 by (simp add: CompileHealthcheckExecutable_def andThen_def expect_ok_def first_process_facts first_process_paths)
  have run: "demo_suite_build = (Inr ''/tmp/before-suite7/healthcheck7'', s7)"
    using 1(1) 3(1) 4(1) h s2(3) by (simp add: demo_suite_build_def suite_build_def andThen_def s2_def)
  have "suite_dir s7 = ''/tmp/before-suite7''"
    using Healthcheck_dir(2) [OF h] keeps_run [OF dir_kept_executables 4(1)] keeps_run [OF dir_kept_lifecycles 3(1)] s2(2)
    by (simp add: dir_blind_def)
  with run show ?thesis by blast
qed

theorem shared_artifacts_removed_witness:
  "\<exists>t v. demo_suite_build = (Inr ''/tmp/before-suite7/healthcheck7'', t)
     \<and> suite_end first_process 0 demo_yaml None (suite_dir t) (demo_world\<lparr>fs := fs t\<rparr>) = (Inr (), v)
     \<and> inside first_process (suite_dir t) ''/tmp/before-suite7/healthcheck7'' \<and> fs v ''/tmp/before-suite7/healthcheck7'' = None"
proof -
  from demo_suite_built obtain t where run: "demo_suite_build = (Inr ''/tmp/before-suite7/healthcheck7'', t)"
    and t: "suite_dir t = ''/tmp/before-suite7''" by blast
  obtain v where v: "suite_end first_process 0 demo_yaml None (suite_dir t) (demo_world\<lparr>fs := fs t\<rparr>) = (Inr (), v)"
    by (cases "RemoveAll first_process (suite_dir t) (demo_world\<lparr>fs := fs t\<rparr>)")
      (simp add: suite_end_def andThen_def attempt_def)
  have "is_abs first_process (cwd demo_checkout)" by (simp add: is_abs_def first_process_facts demo_checkout_def)
  from shared_artifacts_removed [OF _ this run [unfolded demo_suite_build_def] _ v]
  have "inside first_process (suite_dir t) ''/tmp/before-suite7/healthcheck7'' \<and> (\<forall>p. inside first_process (suite_dir t) p \<longrightarrow> fs v p = None)"
    by (auto simp: first_process_facts t)
  with run v show ?thesis by auto
qed

end
