(* ===== verification/Suite_Specs.thy ===== *)
theory Suite_Specs
  imports World_Suite Garden_Cleanup Suite_Helpers Announcement_Server
begin

text \<open>
  What happens around every spec: \<open>BeforeEach\<close> and \<open>AfterEach\<close> of \<open>cell/cell_suite_test.go\<close>,
  composed of the component makers, the announcement server, \<open>CleanupGarden\<close> and
  \<open>StopProcesses\<close>.
\<close>

section \<open>The state of a suite\<close>

text \<open>
  The package variables of the suite that the two functions share, whether the variable
  \<open>server\<close> of the announcement server has been assigned, the states of the helpers, and the
  number of processes invoked so far, which is the name of the next.
\<close>

record 'g suite = world +
  plumbing :: "nat option"
  gardenProcess :: "nat option"
  bbsProcess :: "nat option"
  gardenClient :: "'g garden_client option"
  invoked :: nat
  server_made :: bool
  announcing :: announcer
  cleaning :: "'g cleanup"
  ending :: stopping

definition on_announcer :: "(failure, announcer, 'a) comp \<Rightarrow> (failure, ('g, 's) suite_scheme, 'a) comp" where
  "on_announcer m = (\<lambda>s. case m (announcing s) of (r, a) \<Rightarrow> (r, s\<lparr>announcing := a\<rparr>))"

definition on_cleanup :: "(failure, 'g cleanup, 'a) comp \<Rightarrow> (failure, ('g, 's) suite_scheme, 'a) comp" where
  "on_cleanup m = (\<lambda>s. case m (cleaning s) of (r, c) \<Rightarrow> (r, s\<lparr>cleaning := c\<rparr>))"

definition on_ending :: "(failure, stopping, 'a) comp \<Rightarrow> (failure, ('g, 's) suite_scheme, 'a) comp" where
  "on_ending m = (\<lambda>s. case m (ending s) of (r, e) \<Rightarrow> (r, s\<lparr>ending := e\<rparr>))"

section \<open>Before a spec\<close>

text \<open>
  \<open>ginkgomon.Invoke\<close> is third-party code: it starts the processes of a runner and fails the
  spec if they do not become ready. The parameter says, for what is invoked and how many were
  invoked before, whether it fails. The member \<open>sql\<close> of the first group is \<open>SQL\<close> of the maker.
\<close>

datatype ('r, 'l) invocation = Plumbing 'r 'l | GardenServer GardenRunner | BBSServer 'r

type_synonym 'x invoke = "'x \<Rightarrow> nat \<Rightarrow> failure option"

definition Invoke :: "'x invoke \<Rightarrow> 'x \<Rightarrow> (failure, ('g, 's) suite_scheme, nat) comp" where
  "Invoke I x = (\<lambda>s. case I x (invoked s) of
     Some f \<Rightarrow> (Inl f, s\<lparr>invoked := Suc (invoked s)\<rparr>)
   | None \<Rightarrow> (Inr (invoked s), s\<lparr>invoked := Suc (invoked s)\<rparr>))"

text \<open>The method \<open>BBS\<close> of either kind of maker.\<close>

fun maker_BBS :: "'l agent_lib_scheme \<Rightarrow> (string \<Rightarrow> BBSConfig \<Rightarrow> 's runner) \<Rightarrow> ComponentMaker \<Rightarrow> ('s, 's runner) op" where
  "maker_BBS L NewBBS (v0ComponentMaker m) = v0_BBS L m []"
| "maker_BBS L NewBBS (v1ComponentMaker m) = v1_BBS L NewBBS m []"

text \<open>What the set-up of a spec uses of other packages.\<close>

record ('r, 'k, 'g, 'b, 'c, 'd) spec_lib =
  NewLocketRunner :: "string \<Rightarrow> (LocketConfig \<Rightarrow> LocketConfig) \<Rightarrow> 'k"
  GdnDefaults :: "string \<Rightarrow> GdnRunnerConfig"
  NewBBSRunner :: "string \<Rightarrow> BBSConfig \<Rightarrow> 'r"
  NewGardenClient :: "string \<Rightarrow> string \<Rightarrow> 'g garden_client"
  NewBBSClient :: "string \<Rightarrow> string \<Rightarrow> string \<Rightarrow> string \<Rightarrow> int \<Rightarrow> int \<Rightarrow> go_error + 'b"
  NewLocketClient :: "ClientLocketConfig \<Rightarrow> go_error + 'c"
  NewServiceClient :: "'c \<Rightarrow> 'd"
  InvokeRunner :: "('r, 'k) invocation invoke"
  Listen :: "string \<Rightarrow> go_error + string"

definition BeforeEach :: "platform \<Rightarrow> 'l agent_lib_scheme \<Rightarrow> (('g, 's) suite_ext runner, 'k, 'g, 'b, 'c, 'd) spec_lib
    \<Rightarrow> (GrootFSConfig \<Rightarrow> go_error + string) \<Rightarrow> (NetworkPluginConfig \<Rightarrow> go_error + string) \<Rightarrow> ComponentMaker
    \<Rightarrow> (failure, ('g, 's) suite_scheme, unit) comp" where
  "BeforeEach P L X yaml json componentMaker =
     (let maker = embedded componentMaker in
     andThen (NATS maker []) (\<lambda>nats.
     andThen (Invoke (InvokeRunner X) (Plumbing nats (Locket L (NewLocketRunner X) maker []))) (\<lambda>p.
     andThen (modify (\<lambda>s. s\<lparr>plumbing := Some p\<rparr>)) (\<lambda>_.
     andThen (Garden P L (GdnDefaults X) yaml json maker []) (\<lambda>gardenRunner.
     andThen (Invoke (InvokeRunner X) (GardenServer gardenRunner)) (\<lambda>p.
     andThen (modify (\<lambda>s. s\<lparr>gardenProcess := Some p\<rparr>)) (\<lambda>_.
     andThen (maker_BBS L (NewBBSRunner X) componentMaker) (\<lambda>bbsRunner.
     andThen (Invoke (InvokeRunner X) (BBSServer bbsRunner)) (\<lambda>p.
     andThen (modify (\<lambda>s. s\<lparr>bbsProcess := Some p\<rparr>)) (\<lambda>_.
     andThen (modify (\<lambda>s. s\<lparr>gardenClient := Some (GardenClient (NewGardenClient X) maker)\<rparr>)) (\<lambda>_.
     andThen (BBSClient (NewBBSClient X) maker) (\<lambda>bbsClient.
     andThen (BBSServiceClient (NewLocketClient X) (NewServiceClient X) maker) (\<lambda>bbsServiceClient.
     andThen (Getenv ''EXTERNAL_ADDRESS'') (\<lambda>externalAddress.
     andThen (on_announcer (Start (Listen X) externalAddress)) (\<lambda>_.
     modify (\<lambda>s. s\<lparr>server_made := True\<rparr>))))))))))))))))"

section \<open>After a spec\<close>

text \<open>The variable \<open>gardenClient\<close> is nil until a spec has set it.\<close>

definition destroy_containers :: "(failure, ('g, 's) suite_scheme, go_error list) comp" where
  "destroy_containers =
     andThen (gets gardenClient) (\<lambda>client.
     case client of
       None \<Rightarrow> fail (Panic ''invalid memory address or nil pointer dereference'')
     | Some C \<Rightarrow> on_cleanup (CleanupGarden C))"

definition expect_destroyed :: "go_error list \<Rightarrow> (failure, 's, unit) comp" where
  "expect_destroyed destroyContainerErrors =
     expect_that (destroyContainerErrors = [])
       (Itoa (int (length destroyContainerErrors)) @ '' containers failed to be destroyed!'')"

definition AfterEach :: "platform \<Rightarrow> exits \<Rightarrow> (failure, ('g, 's) suite_scheme, unit) comp" where
  "AfterEach P E =
     andThen (gets server_made) (\<lambda>started.
     andThen (on_announcer (Stop started)) (\<lambda>_.
     andThen destroy_containers (\<lambda>destroyContainerErrors.
     andThen (gets bbsProcess) (\<lambda>p.
     andThen (on_ending (StopProcesses P E [p])) (\<lambda>_.
     andThen (gets gardenProcess) (\<lambda>p.
     andThen (on_ending (StopProcesses P E [p])) (\<lambda>_.
     andThen (gets plumbing) (\<lambda>p.
     andThen (on_ending (StopProcesses P E [p])) (\<lambda>_.
     expect_destroyed destroyContainerErrors)))))))))"

section \<open>What the parts leave alone\<close>

text \<open>The methods of the makers do not touch the variables of the suite.\<close>

definition suite_vars :: "('g, 's) suite_scheme \<Rightarrow> _" where
  "suite_vars s = (plumbing s, gardenProcess s, bbsProcess s, gardenClient s, invoked s, server_made s, announcing s, cleaning s, ending s)"

definition vars_are :: "_ \<Rightarrow> ('g, 's) suite_scheme \<Rightarrow> bool" where
  "vars_are x s \<longleftrightarrow> suite_vars s = x"

lemma vars_are_blind: "files_blind (vars_are x)"
  by (simp add: files_blind_def vars_are_def suite_vars_def)

lemma vars_kept_claims: "keeps (vars_are x) (claim_ports n)" "keeps (vars_are x) (modify (\<lambda>s. s\<lparr>out := f s\<rparr>))"
  by (auto simp: keeps_def claim_ports_def modify_def vars_are_def suite_vars_def split: sum.split prod.split)

lemma vars_kept_NATS: "keeps (vars_are x) (NATS maker argv)"
  unfolding NATS_def LookupEnv_def
  by (intro keeps_andThen keeps_expect_val keeps_prod keeps_gets)
    (auto split: option.split intro!: keeps_ret keeps_andThen keeps_fail vars_kept_claims)

lemma vars_kept_write_encoded: "keeps (vars_are x) (write_encoded P p enc)"
  unfolding write_encoded_def by (intro keeps_andThen keeps_expect_val keeps_expect_ok keeps_file_Write vars_are_blind)

lemma vars_kept_Garden: "keeps (vars_are x) (Garden P L defaults yaml json maker ms)"
  unfolding Garden_def World_Common.garden_def DefaultStack_def grootfsConfigPath_def networkPluginConfigPath_def Let_def
  by (intro keeps_andThen keeps_if keeps_prod keeps_expect_val keeps_expect_ok keeps_expect_that keeps_ret keeps_fail keeps_gets
      vars_kept_claims vars_kept_write_encoded CreateTemp_keeps vars_are_blind TempDirWithParent_keeps)
    (simp add: keeps_ret keeps_fail split: list.split)

lemma BBS_state: "maker_BBS L NewBBS maker s = (r, t) \<Longrightarrow> t = s"
  by (cases maker) (auto simp: v0_BBS_def v1_BBS_def Let_def)

lemma BBSClient_state: "BBSClient NewClient maker s = (r, t) \<Longrightarrow> t = s"
  by (auto simp: BBSClient_def expect_val_def split: sum.splits)

lemma BBSServiceClient_state: "BBSServiceClient NewClient NewService maker s = (r, t) \<Longrightarrow> t = s"
  by (auto simp: BBSServiceClient_def expect_val_def andThen_def split: sum.splits)

lemma Invoke_Inr_iff:
  "Invoke I x s = (Inr p, t) \<longleftrightarrow> I x (invoked s) = None \<and> p = invoked s \<and> t = s\<lparr>invoked := Suc (invoked s)\<rparr>"
  by (auto simp: Invoke_def split: option.splits)

lemma vars_kept_run:
  assumes "keeps (vars_are (suite_vars s)) m" and "m s = (r, t)"
  shows "suite_vars t = suite_vars s"
  using keeps_run [OF assms] by (simp add: vars_are_def)

lemma BeforeEach_Inr:
  assumes "BeforeEach P L X yaml json maker s = (Inr u, t)"
  shows "plumbing t = Some (invoked s) \<and> gardenProcess t = Some (invoked s + 1) \<and> bbsProcess t = Some (invoked s + 2)
    \<and> invoked t = invoked s + 3 \<and> gardenClient t = Some (GardenClient (NewGardenClient X) (embedded maker)) \<and> server_made t
    \<and> running (announcing t) \<and> cleaning t = cleaning s \<and> ending t = ending s"
  using assms unfolding BeforeEach_def Let_def
  by (elim andThen_InrE)
    (drule vars_kept_run [OF vars_kept_NATS], drule vars_kept_run [OF vars_kept_Garden], drule BBS_state, drule BBSClient_state,
      drule BBSServiceClient_state,
      auto simp: Invoke_Inr_iff Getenv_Inr_iff modify_def suite_vars_def on_announcer_def Start_def andThen_Inr_iff split: prod.splits)

text \<open>The server is made last.\<close>

definition no_server :: "('g, 's) suite_scheme \<Rightarrow> bool" where
  "no_server s \<longleftrightarrow> \<not> server_made s"

lemma no_server_kept:
  fixes m :: "(failure, ('g, 's) suite_scheme, 'a) comp"
  assumes "\<And>x. keeps (vars_are x) m"
  shows "keeps no_server m"
proof (rule keepsI)
  fix s :: "('g, 's) suite_scheme" assume "no_server s"
  moreover obtain r t where run: "m s = (r, t)" by fastforce
  ultimately show "no_server (snd (m s))" using vars_kept_run [OF assms run] by (simp add: no_server_def suite_vars_def)
qed

text \<open>A predicate that holds unless the computation comes to its end.\<close>

definition kept_on_failure :: "('s \<Rightarrow> bool) \<Rightarrow> ('e, 's, 'a) comp \<Rightarrow> bool" where
  "kept_on_failure I m \<longleftrightarrow> (\<forall>s e t. I s \<and> m s = (Inl e, t) \<longrightarrow> I t)"

lemma kept_on_failure_andThen: "keeps I m \<Longrightarrow> (\<And>a. kept_on_failure I (k a)) \<Longrightarrow> kept_on_failure I (andThen m k)"
  unfolding kept_on_failure_def andThen_Inl_iff
  by (intro allI impI, elim conjE disjE exE) (erule (2) keeps_run, metis keeps_run)

lemma kept_on_failure_modify: "kept_on_failure I (modify f)"
  by (simp add: kept_on_failure_def)

lemma keeps_if_same: "(\<And>s r t. m s = (r, t) \<Longrightarrow> t = s) \<Longrightarrow> keeps J m"
  unfolding keeps_def by (metis prod.collapse)

lemma keeps_same:
  "keeps J (maker_BBS L NewBBS maker)" "keeps J (BBSClient NewClient m)" "keeps J (BBSServiceClient NewLocket NewService m)"
  by (rule keeps_if_same, erule BBS_state BBSClient_state BBSServiceClient_state)+

lemma no_server_steps:
  "keeps no_server (Invoke I x)" "keeps no_server (on_announcer a)"
  "keeps no_server (modify (\<lambda>s. s\<lparr>plumbing := p\<rparr>))" "keeps no_server (modify (\<lambda>s. s\<lparr>gardenProcess := p\<rparr>))"
  "keeps no_server (modify (\<lambda>s. s\<lparr>bbsProcess := p\<rparr>))" "keeps no_server (modify (\<lambda>s. s\<lparr>gardenClient := c\<rparr>))"
  by (auto simp: keeps_def no_server_def Invoke_def on_announcer_def modify_def split: option.split prod.split)

lemma no_server_makers: "keeps no_server (NATS maker argv)" "keeps no_server (Garden P L defaults yaml json maker ms)"
  by (rule no_server_kept, rule vars_kept_NATS vars_kept_Garden)+

lemma BeforeEach_Inl:
  assumes "BeforeEach P L X yaml json maker s = (Inl f, t)" and "\<not> server_made s"
  shows "\<not> server_made t"
proof -
  have "kept_on_failure no_server (BeforeEach P L X yaml json maker)"
    unfolding BeforeEach_def Let_def
    by (rule kept_on_failure_andThen kept_on_failure_modify no_server_steps keeps_same keeps_env no_server_makers)+
  with assms show ?thesis by (auto simp: kept_on_failure_def no_server_def)
qed

section \<open>Which processes are stopped\<close>

text \<open>The processes that are there, in order, up to and with the first one that is late.\<close>

primrec stopped_in_turn :: "platform \<Rightarrow> exits \<Rightarrow> (nat \<times> signal) list \<Rightarrow> nat option list \<Rightarrow> (nat \<times> bool) list" where
  "stopped_in_turn P E log [] = []"
| "stopped_in_turn P E log (p # ps) =
     (case p of
        None \<Rightarrow> stopped_in_turn P E log ps
      | Some q \<Rightarrow>
          (let late = \<not> E (log @ [(q, first_signal P)]) q
           in (q, late) # (if late then [] else stopped_in_turn P E (log @ signals_of P (q, late)) ps)))"

definition late_failure :: failure where
  "late_failure = Expectation ''at least one process failed to shut down cleanly''"

lemma stop_single:
  "\<exists>t. StopProcesses P E [p] s = ((case p of None \<Rightarrow> Inr () | Some q \<Rightarrow>
      if E (sent s @ [(q, first_signal P)]) q then Inr () else Inl late_failure), t)
    \<and> sent t = sent s @ concat (map (signals_of P) (stopped_in_turn P E (sent s) [p]))"
  using StopProcesses_run [of P E "[p]" s] by (cases p) (auto simp: present_def Let_def late_failure_def)

text \<open>The end of \<open>AfterEach\<close>: one call after the other.\<close>

definition container_failure :: "nat \<Rightarrow> failure" where
  "container_failure n = Expectation (Itoa (int n) @ '' containers failed to be destroyed!'')"

lemma AfterEach_run:
  assumes "server_made s" and "gardenClient s = Some C" and "CleanupGarden C (cleaning s) = (x, c)" and "AfterEach P E s = (r, t)"
  shows "case x of
      Inl f \<Rightarrow> r = Inl f \<and> ending t = ending s
    | Inr errs \<Rightarrow>
        (let plan = stopped_in_turn P E (sent (ending s)) [bbsProcess s, gardenProcess s, plumbing s] in
         sent (ending t) = sent (ending s) @ concat (map (signals_of P) plan)
         \<and> r = (if True \<in> snd ` set plan then Inl late_failure
                else if errs = [] then Inr () else Inl (container_failure (length errs))))"
proof -
  from stop_single obtain e1 where 1: "StopProcesses P E [bbsProcess s] (ending s) = ((case bbsProcess s of None \<Rightarrow> Inr () | Some q \<Rightarrow>
      if E (sent (ending s) @ [(q, first_signal P)]) q then Inr () else Inl late_failure), e1)"
    "sent e1 = sent (ending s) @ concat (map (signals_of P) (stopped_in_turn P E (sent (ending s)) [bbsProcess s]))" by blast
  from stop_single obtain e2 where 2: "StopProcesses P E [gardenProcess s] e1 = ((case gardenProcess s of None \<Rightarrow> Inr () | Some q \<Rightarrow>
      if E (sent e1 @ [(q, first_signal P)]) q then Inr () else Inl late_failure), e2)"
    "sent e2 = sent e1 @ concat (map (signals_of P) (stopped_in_turn P E (sent e1) [gardenProcess s]))" by blast
  from stop_single obtain e3 where 3: "StopProcesses P E [plumbing s] e2 = ((case plumbing s of None \<Rightarrow> Inr () | Some q \<Rightarrow>
      if E (sent e2 @ [(q, first_signal P)]) q then Inr () else Inl late_failure), e3)"
    "sent e3 = sent e2 @ concat (map (signals_of P) (stopped_in_turn P E (sent e2) [plumbing s]))" by blast
  note steps = AfterEach_def destroy_containers_def expect_destroyed_def andThen_def on_announcer_def Stop_def modify_def on_cleanup_def on_ending_def
  show ?thesis
  proof (cases x)
    case (Inl f)
    with assms show ?thesis by (auto simp: steps)
  next
    case (Inr errs)
    from Inr assms(2-4) show ?thesis
      using assms(1) 1 2 3
      by (cases "bbsProcess s"; cases "gardenProcess s"; cases "plumbing s")
        (auto simp: steps Let_def container_failure_def expect_that_def split: if_splits)
  qed
qed

section \<open>Properties\<close>

text \<open>
  Property C5. A \<open>BeforeEach\<close> that succeeds has invoked three groups of processes, and an
  \<open>AfterEach\<close> that can list the containers stops them in the opposite order, the BBS, Garden
  and then the database, NATS and Locket, each with one signal if it stops in time, whether or not containers
  could not be destroyed; the errors of the containers fail the spec only after that. But if
  one of the three does not stop in time it is sent a second signal, \<open>SIGQUIT\<close>, the spec fails there with
  that, and the groups after it are not signalled: neither Garden nor the rest after a late
  BBS, and not the rest after a late Garden.
\<close>

theorem spec_processes_stopped:
  fixes s t u v :: "('g, 's) suite_scheme"
  assumes "BeforeEach P L X yaml json maker s = (Inr (), t)"
    and "(plumbing u, gardenProcess u, bbsProcess u, gardenClient u, server_made u)
      = (plumbing t, gardenProcess t, bbsProcess t, gardenClient t, server_made t)"
    and "CleanupGarden (GardenClient (NewGardenClient X) (embedded maker)) (cleaning u) = (Inr errs, c)"
    and "AfterEach P E u = (r, v)"
    and "n = invoked s" and "sig = first_signal P" and "log = sent (ending u)"
  shows "invoked t = n + 3
    \<and> (E (log @ [(n + 2, sig)]) (n + 2) \<and> E (log @ [(n + 2, sig), (n + 1, sig)]) (n + 1)
         \<and> E (log @ [(n + 2, sig), (n + 1, sig), (n, sig)]) n
       \<longrightarrow> sent (ending v) = log @ [(n + 2, sig), (n + 1, sig), (n, sig)]
         \<and> r = (if errs = [] then Inr () else Inl (container_failure (length errs))))
    \<and> (\<not> E (log @ [(n + 2, sig)]) (n + 2)
       \<longrightarrow> sent (ending v) = log @ [(n + 2, sig), (n + 2, SIGQUIT)] \<and> r = Inl late_failure)
    \<and> (E (log @ [(n + 2, sig)]) (n + 2) \<and> \<not> E (log @ [(n + 2, sig), (n + 1, sig)]) (n + 1)
       \<longrightarrow> sent (ending v) = log @ [(n + 2, sig), (n + 1, sig), (n + 1, SIGQUIT)] \<and> r = Inl late_failure)
    \<and> (E (log @ [(n + 2, sig)]) (n + 2) \<and> E (log @ [(n + 2, sig), (n + 1, sig)]) (n + 1)
         \<and> \<not> E (log @ [(n + 2, sig), (n + 1, sig), (n, sig)]) n
       \<longrightarrow> sent (ending v) = log @ [(n + 2, sig), (n + 1, sig), (n, sig), (n, SIGQUIT)] \<and> r = Inl late_failure)"
proof -
  note b = BeforeEach_Inr [OF assms(1)]
  with assms(2) have "server_made u" "gardenClient u = Some (GardenClient (NewGardenClient X) (embedded maker))" by auto
  from AfterEach_run [OF this assms(3,4)] b assms(2) show ?thesis
    by (auto simp: Let_def assms(5-7) signals_of_def)
qed

text \<open>
  Property C12. If the first \<open>BeforeEach\<close> of a process fails, wherever it does, the
  announcement server was never started, and \<open>AfterEach\<close> panics on it at once: none of the
  processes that were invoked is sent a signal, and no container is destroyed.
\<close>

theorem first_spec_not_stopped:
  fixes s t u :: "('g, 's) suite_scheme"
  assumes "\<not> server_made s" and "BeforeEach P L X yaml json maker s = (Inl f, t)" and "AfterEach P E t = (r, u)"
  shows "r = Inl (Panic ''invalid memory address or nil pointer dereference'') \<and> ending u = ending t \<and> cleaning u = cleaning t"
  using BeforeEach_Inl [OF assms(2,1)] assms(3)
  by (auto simp: AfterEach_def andThen_def on_announcer_def Stop_def)

text \<open>A suite on Linux, before its first spec.\<close>

definition demo_agents :: agent_lib where
  "demo_agents = \<lparr>StackPathMap = (\<lambda>rs. map_of (map (\<lambda>r. (RootFS_Name r, RootFS_Path r)) rs)), RootFS_Names = map RootFS_Name,
     DefaultSessionTTL = 15, RetryInterval = 5, FormatRFC3339 = ''rfc3339'', Automatic = ''automatic''\<rparr>"

definition spec_start :: "(string list \<times> nat) suite" where
  "spec_start = \<lparr>env = [''NATS_SERVER_BINARY'' \<mapsto> ''/nats'', ''EXTERNAL_ADDRESS'' \<mapsto> ''10.0.0.1''],
     fs = fs plain_world, calls = 0, ran = [], locked = (\<lambda>_. False), pk_calls = 0, history = [],
     allocator = \<lparr>nextPort = 20000, endingPort = 20100\<rparr>, out = [],
     plumbing = None, gardenProcess = None, bbsProcess = None, gardenClient = None, invoked = 0, server_made = False,
     announcing = demo_announcer, cleaning = demo_cleanup, ending = \<lparr>sent = [], said = [], failures = []\<rparr>\<rparr>"

text \<open>The libraries, of which the processes numbered in \<open>bad\<close> do not become ready.\<close>

definition spec_libs :: "nat list \<Rightarrow> (((string list \<times> nat), unit) suite_ext runner, unit, string list \<times> nat, unit, unit, unit) spec_lib" where
  "spec_libs bad = \<lparr>NewLocketRunner = (\<lambda>_ _. ()), GdnDefaults = plain_defaults,
     NewBBSRunner = (\<lambda>bin cfg. \<lparr>Name = ''bbs'', AnsiColorCode = [], StartCheck = ''bbs.started'', StartCheckTimeout = 0, Command = (bin, []),
       Cleanup = no_cleanup\<rparr>),
     NewGardenClient = (\<lambda>_ _. demo_garden), NewBBSClient = (\<lambda>_ _ _ _ _ _. Inr ()), NewLocketClient = (\<lambda>_. Inr ()),
     NewServiceClient = (\<lambda>_. ()), InvokeRunner = (\<lambda>_ n. if List.member bad n then Some (Expectation ''exited'') else None),
     Listen = (\<lambda>a. Inr (a @ '':4567''))\<rparr>"

definition demo_before :: "nat list \<Rightarrow> (failure + unit) \<times> (string list \<times> nat) suite" where
  "demo_before bad = BeforeEach demo_platform demo_agents (spec_libs bad) demo_yaml any_json (v1ComponentMaker plain_maker) spec_start"

lemma demo_before_runs: "\<not> isl (fst (demo_before []))" "isl (fst (demo_before [2]))"
  by code_simp+

theorem spec_processes_stopped_witness:
  "sent (ending (snd (AfterEach demo_platform (\<lambda>log p. True) (snd (demo_before []))))) = [(2, SIGTERM), (1, SIGTERM), (0, SIGTERM)]
     \<and> sent (ending (snd (AfterEach demo_platform (\<lambda>log p. p \<noteq> 2) (snd (demo_before []))))) = [(2, SIGTERM), (2, SIGQUIT)]"
proof -
  let ?t = "snd (demo_before [])"
  have run: "BeforeEach demo_platform demo_agents (spec_libs []) demo_yaml any_json (v1ComponentMaker plain_maker) spec_start = (Inr (), ?t)"
    using succeeded [OF demo_before_runs(1)] by (simp add: demo_before_def)
  from BeforeEach_Inr [OF run] have t: "cleaning ?t = demo_cleanup" "sent (ending ?t) = []" by (simp_all add: spec_start_def)
  have "fst (CleanupGarden demo_garden demo_cleanup) = Inr []" by code_simp
  then obtain c where "CleanupGarden demo_garden demo_cleanup = (Inr [], c)" by (metis prod.collapse)
  then have clean: "CleanupGarden (GardenClient (NewGardenClient (spec_libs [])) (embedded (v1ComponentMaker plain_maker))) (cleaning ?t) = (Inr [], c)"
    by (simp add: GardenClient_def spec_libs_def t(1))
  have sig: "first_signal demo_platform = SIGTERM" "invoked spec_start = 0" by (simp_all add: first_signal_def demo_linux spec_start_def)
  have after: "AfterEach demo_platform E ?t = (fst (AfterEach demo_platform E ?t), snd (AfterEach demo_platform E ?t))" for E by simp
  from spec_processes_stopped [OF run refl clean after refl refl refl, of "\<lambda>log p. True"]
    spec_processes_stopped [OF run refl clean after refl refl refl, of "\<lambda>log p. p \<noteq> 2"]
  show ?thesis by (simp add: sig t(2))
qed

theorem first_spec_not_stopped_witness:
  "invoked (snd (demo_before [2])) = 3
     \<and> fst (AfterEach demo_platform (\<lambda>log p. True) (snd (demo_before [2]))) = Inl (Panic ''invalid memory address or nil pointer dereference'')
     \<and> sent (ending (snd (AfterEach demo_platform (\<lambda>log p. True) (snd (demo_before [2]))))) = sent (ending (snd (demo_before [2])))"
proof -
  have n: "invoked (snd (demo_before [2])) = 3" by code_simp
  obtain f where "demo_before [2] = (Inl f, snd (demo_before [2]))"
    using demo_before_runs(2) by (cases "demo_before [2]"; cases "fst (demo_before [2])") auto
  from first_spec_not_stopped [OF _ this [unfolded demo_before_def] prod.collapse [symmetric], of "\<lambda>log p. True"] n
  show ?thesis by (simp add: spec_start_def demo_before_def)
qed

end
