(* ===== verification/Suite_Runs.thy ===== *)
theory Suite_Runs
  imports World_Runs
begin

text \<open>
  A whole run of a suite on one parallel process: its set-up, any calls of the methods of its
  component maker, and its end. The older files are left alone and the maker's directory is
  emptied; what the suite made elsewhere may stay.
\<close>

section \<open>The certificate authority of a new depot\<close>

lemma clean_dir_child: "clean_dir d \<Longrightarrow> plain_name x \<Longrightarrow> clean_dir (d @ ''/'' @ x)"
proof -
  assume d: "clean_dir d" and x: "plain_name x"
  have "path_Join [d, x] = Clean (d @ ''/'' @ x)" using d x by (simp add: path_Join_def clean_dir_def plain_name_def)
  with path_Join_name [OF d x] d x show ?thesis
    by (cases d) (auto simp: clean_dir_def plain_name_def append_eq_Cons_conv)
qed

lemma at_rest_WriteFile_new: "f name = None \<Longrightarrow> keeps (at_rest e f) (WriteFile P name data perm)"
  by (auto simp: keeps_def WriteFile_def sys_def Let_def create_new_def at_rest_def extends_def map_le_def
      split: option.split node.split)

lemma at_rest_new_authority:
  assumes "f (filepath_Join P [depot, cn @ ''.key'']) = None" and "f (filepath_Join P [depot, cn @ ''.crt'']) = None"
  shows "keeps (at_rest e f) (NewCertAuthority P X depot cn)"
  unfolding NewCertAuthority_def generateCAAndKey_def Let_def
  by (intro keeps_andThen keeps_prod keeps_ret at_rest_cert_calls at_rest_or_unlock at_rest_os_call at_rest_WriteFile_new assms)

section \<open>What a set-up leaves alone\<close>

text \<open>A predicate on what is neither a file nor of the authority: the allocator, the variables of a suite.\<close>

definition aloof :: "('s world_scheme \<Rightarrow> bool) \<Rightarrow> bool" where
  "aloof J \<longleftrightarrow> files_blind J \<and> (\<forall>s h. J (s\<lparr>history := h\<rparr>) = J s) \<and> (\<forall>s k. J (s\<lparr>pk_calls := k\<rparr>) = J s)
     \<and> (\<forall>s l. J (s\<lparr>locked := l\<rparr>) = J s)"

lemma aloofD:
  assumes "aloof J"
  shows "files_blind J" and "J (s\<lparr>history := h\<rparr>) = J s" and "J (s\<lparr>pk_calls := k\<rparr>) = J s" and "J (s\<lparr>locked := l\<rparr>) = J s"
    and "J (s\<lparr>pk_calls := k, history := h\<rparr>) = J s" and "J (s\<lparr>locked := l, history := h\<rparr>) = J s"
  using assms by (simp_all add: aloof_def)

lemma keeps_or_unlock: "keeps I m \<Longrightarrow> keeps I (release l) \<Longrightarrow> keeps I (or_unlock l m)"
  by (force simp: keeps_def or_unlock_def split: sum.splits prod.splits)

lemma keeps_os_call:
  fixes m :: "(go_error, 's cert_os_scheme, 'a) comp"
  assumes "\<And>s h. I (s\<lparr>history := h\<rparr>) = I s" and "keeps I m"
  shows "keeps I (os_call m)"
proof (rule keepsI)
  fix s :: "'s cert_os_scheme" assume "I s"
  then have "I (snd (m (s\<lparr>history := history s @ [Op FileOp]\<rparr>)))" by (intro keepsD [OF assms(2)]) (simp add: assms(1))
  then show "I (snd (os_call m s))" by (auto simp: os_call_def split: sum.split prod.split)
qed

lemma aloof_cert_calls:
  assumes "aloof J"
  shows "keeps J (pk_call q g)" "keeps J (acquire l)" "keeps J (release l)"
    "keeps J m \<Longrightarrow> keeps J (or_unlock l m)" "keeps J m' \<Longrightarrow> keeps J (os_call m')"
proof -
  note blind = aloofD [OF assms]
  show "keeps J (pk_call q g)" "keeps J (acquire l)"
    by (auto simp: keeps_def pk_call_def acquire_def Let_def blind split: sum.split)
  show rel: "keeps J (release l)" for l
    by (auto simp: keeps_def release_def blind)
  show "keeps J m \<Longrightarrow> keeps J (or_unlock l m)" by (rule keeps_or_unlock [OF _ rel])
  show "keeps J m' \<Longrightarrow> keeps J (os_call m')" by (rule keeps_os_call) (simp_all add: blind)
qed

lemma aloof_authority:
  assumes "aloof J"
  shows "keeps J (NewCertAuthority P X depot cn)" "keeps J (GenerateSelfSignedCertAndKey P X c cn' sans ica)"
  unfolding NewCertAuthority_def generateCAAndKey_def GenerateSelfSignedCertAndKey_def Let_def
  by (intro keeps_andThen keeps_prod keeps_ret aloof_cert_calls [OF assms] keeps_WriteFile keeps_ReadFile CreateTemp_keeps aloofD(1) [OF assms])+

lemma aloof_maker: "aloof J \<Longrightarrow> keeps J (makeCommonComponentMaker P L (authority_of P X c) art addr)"
  by (rule maker_keeps) (simp_all add: authority_of_def aloof_authority TempDir_keeps TempDirWithParent_keeps aloofD(1))

lemma aloof_Setup: "aloof J \<Longrightarrow> keeps J (Setup P yaml maker)"
  unfolding Setup_def GrootFSInitStore_def grootfsInitStore_def grootfsRunner_def grootfsConfigPath_def write_encoded_def Let_def
  by (intro keeps_if keeps_andThen keeps_ret keeps_expect_ok keeps_expect_val keeps_file_Write CreateTemp_keeps keeps_Run aloofD(1))

text \<open>Nothing in the set-up claims a port.\<close>

lemma suite_start_allocator:
  fixes s t :: "'s world_scheme"
  assumes "suite_start P L X yaml decoded ip dir s = (Inr maker, t)"
  shows "suite_allocator P = Inr (allocator t)"
proof -
  from assms obtain m depot c art addr a and s2 s3 s4 :: "'s world_scheme" where a: "suite_allocator P = Inr a"
    and runs: "TempDirWithParent P dir ''cert-depot'' (s\<lparr>allocator := a\<rparr>) = (Inr depot, s2)" "NewCertAuthority P X depot ''ca'' s2 = (Inr c, s3)"
      "makeCommonComponentMaker P L (authority_of P X c) art addr s3 = (Inr m, s4)" "Setup P yaml m s4 = (Inr (), t)"
    by (auto simp: suite_start_def MakeComponentMaker_def andThen_Inr_iff expect_val_Inr_iff expect_cert_Inr_iff modify_def
        split: prod.splits sum.splits dest!: DBInfo_state)
  let ?J = "\<lambda>s :: 's world_scheme. allocator s = a"
  have J: "aloof ?J" by (simp add: aloof_def files_blind_def)
  have "?J s2" using keeps_run [OF TempDirWithParent_keeps [OF aloofD(1) [OF J]] runs(1)] by simp
  then have "?J t"
    by (intro keeps_run [OF aloof_Setup [OF J] runs(4)] keeps_run [OF aloof_maker [OF J] runs(3)] keeps_run [OF aloof_authority(1) [OF J] runs(2)])
  with a show ?thesis by simp
qed

section \<open>From the start to the end\<close>

text \<open>The depot is new and all that was there survives the set-up.\<close>

lemma depot_clean:
  assumes "\<not> windows P" and "\<forall>n. CHR ''/'' \<notin> set (rand P n)" and "clean_dir base" and "last base \<noteq> CHR ''/''"
  shows "clean_dir (joinPath P base ''cert-depot'' @ rand P n)"
proof -
  have "plain_name (''cert-depot'' @ rand P n)" using assms(2) by (simp add: plain_name_def)
  from clean_dir_child [OF assms(3) this] show ?thesis using assms(1,4) by (simp add: joinPath_def sep_def)
qed

lemma depot_run_keeps:
  fixes s s2 s3 s4 t :: "'s world_scheme"
  assumes "fs s depot = None" and "clean_dir depot" and "extends (fs s) s2" and "NewCertAuthority P X depot ''ca'' s2 = (Inr c, s3)"
    and "makeCommonComponentMaker P L (authority_of P X c) art addr s3 = (Inr m, s4)" and "Setup P yaml m s4 = (Inr (), t)"
    and "\<not> windows P" and "well_behaved P" and "rooted P (fs s)"
  shows "extends (fs s) t \<and> fs s (tmpDir m) = None \<and> tmpDir m \<noteq> []"
proof -
  have sep: "sep P = CHR ''/''" using assms(7) by (simp add: sep_def)
  have "depot \<noteq> []" using assms(2) by (simp add: clean_dir_def)
  from rooted_absent [OF assms(9) this assms(1)] have old: "fs s (depot @ ''/'' @ x) = None" for x
    by (simp add: absent_def inside_def sep)
  have "plain_name (''ca'' @ ''.key'')" "plain_name (''ca'' @ ''.crt'')" by (simp_all add: plain_name_def)
  with path_Join_name [OF assms(2)] old have new: "fs s (filepath_Join P [depot, ''ca'' @ ''.key'']) = None"
    "fs s (filepath_Join P [depot, ''ca'' @ ''.crt'']) = None" using assms(7) by (simp_all add: filepath_Join_def)
  have "at_rest (env s2) (fs s) s2" using assms(3) by (simp add: at_rest_def)
  from keeps_run [OF at_rest_new_authority [OF new] assms(4) this] have s3: "extends (fs s) s3" by (simp add: at_rest_def)
  from keeps_run [OF maker_extends assms(5) this] have "extends (fs s) s4" .
  from keeps_run [OF extends_stores(1) [OF assms(8)] assms(6) this] have t: "extends (fs s) t" .
  from maker_Inr [OF assms(5)] obtain s5 where mt: "TempDir P ''component-maker'' s3 = (Inr (tmpDir m), s5)" by blast
  have "fs s (tmpDir m) = None" using extends_fresh [OF s3 TempDir_Inr(1) [OF mt]] .
  moreover have "tmpDir m \<noteq> []" using TempDirWithParent_nonempty mt by (fastforce simp: TempDir_as_child)
  ultimately show ?thesis using t by simp
qed

lemma suite_start_keeps:
  fixes s t :: "'s world_scheme"
  assumes "suite_start P L X yaml decoded ip dir s = (Inr maker, t)"
    and "\<not> windows P" and "well_behaved P" and "rooted P (fs s)" and "\<forall>n. CHR ''/'' \<notin> set (rand P n)"
    and "clean_dir (if dir = [] then os_TempDir P s else dir)" and "last (if dir = [] then os_TempDir P s else dir) \<noteq> CHR ''/''"
  shows "extends (fs s) t \<and> fs s (tmpDir (embedded maker)) = None \<and> tmpDir (embedded maker) \<noteq> []"
proof -
  from suite_start_Inr [OF assms(1)] obtain m depot c art addr a and s2 s3 s4 :: "'s world_scheme" where
    m: "embedded maker = m" and td: "TempDirWithParent P dir ''cert-depot'' (s\<lparr>allocator := a\<rparr>) = (Inr depot, s2)"
    and run: "NewCertAuthority P X depot ''ca'' s2 = (Inr c, s3)" "makeCommonComponentMaker P L (authority_of P X c) art addr s3 = (Inr m, s4)"
      "Setup P yaml m s4 = (Inr (), t)" by blast
  obtain n where "depot = joinPath P (if dir = [] then os_TempDir P s else dir) ''cert-depot'' @ rand P n"
    using TempDirWithParent_name [OF td sep_not_in] by (auto simp: os_TempDir_def)
  then have clean: "clean_dir depot" using depot_clean [OF assms(2,5-7)] by simp
  have "fs s depot = None" "extends (fs s) s2"
    using TempDirWithParent_Inr(1) [OF td] keeps_run [OF extends_TempDirWithParent td, of "fs s"] by (simp_all add: extends_def)
  from depot_run_keeps [OF this(1) clean this(2) run assms(2-4)] m show ?thesis by simp
qed

lemma Teardown_Inr:
  assumes "Teardown P polls yaml maker s = (Inr (), t)" and "\<not> windows P"
  shows "\<exists>u. GrootFSDeleteStore P yaml maker s = (Inr (), u) \<and> eventually polls (RemoveAll P (tmpDir maker)) u = (Inr (), t)"
  using assms by (auto simp: Teardown_def Let_def comp_iffs)


text \<open>The second process of a run, on which a runner of the BBS is made.\<close>

lemma second_session_run:
  "\<exists>m t u v rs. second_start = (Inr m, t) \<and> session second_node (embedded m) t False rs u \<and> rs \<noteq> {}
     \<and> suite_end second_node 0 demo_yaml (Some m) [] u = (Inr (), v)"
proof -
  from second_run obtain m t v where run: "second_start = (Inr m, t)"
    and stop: "suite_end second_node 0 demo_yaml (Some m) [] t = (Inr (), v)" by blast
  obtain r where "v0_BBS plain_lib (embedded m) [] t = (Inr r, t)" by (simp add: v0_BBS_def Let_def)
  from session.v0_bbs [OF session.start this] have "session second_node (embedded m) t False {r} t" by simp
  with run stop show ?thesis by blast
qed

lemma demo_rooted: "rooted second_node (fs demo_world)"
proof -
  have "\<not> prefix (d @ ''/'') q" if "d \<noteq> []" "fs demo_world q \<noteq> None" "fs demo_world d = None" for d q
    using that by (auto simp: demo_world_def prefix_Cons split: if_splits)
  moreover have "sep second_node = CHR ''/''" by (simp add: sep_def windows_def second_node_def demo_platform_def)
  ultimately show ?thesis unfolding rooted_def by metis
qed


end
