(* ===== verification/Suite_Others.thy ===== *)
theory Suite_Others
  imports Suite_Specs Suite_Build Suite_Runs
begin

text \<open>
  The suites of \<open>executor/executor_suite_test.go\<close> and \<open>volman/volman_suite_test.go\<close>, where they
  differ from that of \<open>cell/\<close>: what their first process builds, what a process does before
  and after the specs, and what happens around every spec.
\<close>

section \<open>The builds\<close>

text \<open>The executor suite builds Garden and nothing else.\<close>

definition executor_executables :: "platform \<Rightarrow> builder \<Rightarrow> (failure, 's compiling_scheme, string_map) comp" where
  "executor_executables P G =
     andThen (expect_ok (Getwd P)) (\<lambda>cwd0.
     compile_in_gopath P G cwd0 ''GARDEN_GOPATH'' ''garden'' ''./cmd/gdn'' [''-race'', ''-a'', ''-tags'', ''daemon''] Map.empty)"

definition executor_build :: "platform \<Rightarrow> builder \<Rightarrow> (BuiltArtifacts \<Rightarrow> go_error + string) \<Rightarrow> (failure, 's compiling_scheme, string) comp" where
  "executor_build P G encode =
     andThen (TempDir P ''before-suite'') (\<lambda>suiteTempDir.
     andThen (modify (\<lambda>s. s\<lparr>suite_dir := suiteTempDir\<rparr>)) (\<lambda>_.
     andThen (executor_executables P G) (\<lambda>executables.
     expect_val (encode \<lparr>Executables = executables, Lifecycles = Map.empty, Healthcheck = []\<rparr>))))"

text \<open>The volman suite builds the router on Windows too, and has no directory of its own.\<close>

definition volman_executables :: "platform \<Rightarrow> builder \<Rightarrow> (failure, 's compiling_scheme, string_map) comp" where
  "volman_executables P G =
     andThen (expect_ok (Getwd P)) (\<lambda>cwd0.
     andThen (compile_in_gopath P G cwd0 ''GARDEN_GOPATH'' ''garden'' ''./cmd/gdn'' [''-race'', ''-a'', ''-tags'', ''daemon''] Map.empty) (\<lambda>m.
     andThen (compile_into G ''local-driver'' ''code.cloudfoundry.org/localdriver/cmd/localdriver'' [''-race''] m) (\<lambda>m.
     andThen (compile_into G ''auctioneer'' ''code.cloudfoundry.org/auctioneer/cmd/auctioneer'' [''-race''] m) (\<lambda>m.
     andThen (compile_into G ''rep'' ''code.cloudfoundry.org/rep/cmd/rep'' [''-race''] m) (\<lambda>m.
     andThen (compile_into G ''bbs'' ''code.cloudfoundry.org/bbs/cmd/bbs'' [''-race''] m) (\<lambda>m.
     andThen (compile_into G ''locket'' ''code.cloudfoundry.org/locket/cmd/locket'' [''-race''] m) (\<lambda>m.
     andThen (compile_into G ''file-server'' ''code.cloudfoundry.org/fileserver/cmd/file-server'' [''-race''] m) (\<lambda>m.
     andThen (compile_into G ''route-emitter'' ''code.cloudfoundry.org/route-emitter/cmd/route-emitter'' [''-race''] m) (\<lambda>m.
     andThen (compile_in_gopath P G cwd0 ''ROUTER_GOPATH'' ''router'' ''code.cloudfoundry.org/gorouter/cmd/gorouter'' [''-race''] m) (\<lambda>m.
     compile_into G ''ssh-proxy'' ''code.cloudfoundry.org/diego-ssh/cmd/ssh-proxy'' [''-race''] m))))))))))"

definition volman_build :: "platform \<Rightarrow> builder \<Rightarrow> (BuiltArtifacts \<Rightarrow> go_error + string) \<Rightarrow> (failure, 's compiling_scheme, string) comp" where
  "volman_build P G encode =
     andThen (volman_executables P G) (\<lambda>executables.
     expect_val (encode \<lparr>Executables = executables, Lifecycles = Map.empty, Healthcheck = []\<rparr>))"

section \<open>Before and after the specs\<close>

text \<open>
  The executor suite starts its processes with \<open>suite_start\<close>. Its end does not ask whether
  there is a component maker: a method of a nil interface panics.
\<close>

definition executor_suite_end :: "platform \<Rightarrow> nat \<Rightarrow> (GrootFSConfig \<Rightarrow> go_error + string) \<Rightarrow> ComponentMaker option \<Rightarrow> string
    \<Rightarrow> ('s, unit) op" where
  "executor_suite_end P polls yaml componentMaker suiteTempDir =
     andThen (case componentMaker of
         None \<Rightarrow> fail (Panic ''invalid memory address or nil pointer dereference'')
       | Some maker \<Rightarrow> Teardown P polls yaml (embedded maker)) (\<lambda>_.
     eventually polls (RemoveAll P suiteTempDir))"

text \<open>The volman suite keeps the depot of a process in a package variable.\<close>

record volman_world = world +
  certDepot :: string

definition volman_suite_start :: "platform \<Rightarrow> maker_lib \<Rightarrow> ('key, 'csr, 'crt) pkix \<Rightarrow> (GrootFSConfig \<Rightarrow> go_error + string)
    \<Rightarrow> go_error + BuiltArtifacts \<Rightarrow> go_error + string \<Rightarrow> (failure, 's volman_world_scheme, ComponentMaker) comp" where
  "volman_suite_start P L X yaml decoded ip =
     andThen (expect_val decoded) (\<lambda>builtArtifacts.
     andThen (DBInfo L) (\<lambda>(_, dbBaseConnectionString).
     andThen (expect_val ip) (\<lambda>localIP.
     andThen (expect_val (case suite_allocator P of Inl e \<Rightarrow> Inl (Msg e) | Inr a \<Rightarrow> Inr a)) (\<lambda>a.
     andThen (modify (\<lambda>s. s\<lparr>allocator := a\<rparr>)) (\<lambda>_.
     andThen (attempt (MkdirTemp P [] ''cert-depot'')) (\<lambda>r.
     andThen (modify (\<lambda>s. s\<lparr>certDepot := (case r of Inl _ \<Rightarrow> [] | Inr d \<Rightarrow> d)\<rparr>)) (\<lambda>_.
     andThen (expect_val r) (\<lambda>depot.
     andThen (expect_cert (NewCertAuthority P X depot ''ca'')) (\<lambda>certAuthority.
     andThen (MakeComponentMaker P L (authority_of P X certAuthority) builtArtifacts
       (suite_addresses P localIP dbBaseConnectionString)) (\<lambda>componentMaker.
     andThen (Setup P yaml (embedded componentMaker)) (\<lambda>_.
     ret componentMaker)))))))))))"

definition volman_suite_end :: "platform \<Rightarrow> nat \<Rightarrow> (GrootFSConfig \<Rightarrow> go_error + string) \<Rightarrow> ComponentMaker option
    \<Rightarrow> (failure, 's volman_world_scheme, unit) comp" where
  "volman_suite_end P polls yaml componentMaker =
     andThen (gets certDepot) (\<lambda>depot.
     andThen (expect_ok (RemoveAll P depot)) (\<lambda>_.
     case componentMaker of
       None \<Rightarrow> fail (Panic ''invalid memory address or nil pointer dereference'')
     | Some maker \<Rightarrow> Teardown P polls yaml (embedded maker)))"

section \<open>Around every spec\<close>

text \<open>The executor suite only has Garden.\<close>

definition executor_BeforeEach :: "platform \<Rightarrow> 'l agent_lib_scheme \<Rightarrow> (string \<Rightarrow> GdnRunnerConfig) \<Rightarrow> (string \<Rightarrow> string \<Rightarrow> 'g garden_client)
    \<Rightarrow> GardenRunner invoke \<Rightarrow> (GrootFSConfig \<Rightarrow> go_error + string) \<Rightarrow> (NetworkPluginConfig \<Rightarrow> go_error + string) \<Rightarrow> ComponentMaker
    \<Rightarrow> (failure, ('g, 's) suite_scheme, unit) comp" where
  "executor_BeforeEach P L defaults NewClient I yaml json componentMaker =
     (let maker = embedded componentMaker in
     andThen (Garden P L defaults yaml json maker []) (\<lambda>gardenRunner.
     andThen (Invoke I gardenRunner) (\<lambda>p.
     andThen (modify (\<lambda>s. s\<lparr>gardenProcess := Some p\<rparr>)) (\<lambda>_.
     modify (\<lambda>s. s\<lparr>gardenClient := Some (GardenClient NewClient maker)\<rparr>)))))"

definition executor_AfterEach :: "platform \<Rightarrow> exits \<Rightarrow> (failure, ('g, 's) suite_scheme, unit) comp" where
  "executor_AfterEach P E =
     andThen destroy_containers (\<lambda>destroyContainerErrors.
     andThen (gets gardenProcess) (\<lambda>p.
     andThen (on_ending (StopProcesses P E [p])) (\<lambda>_.
     expect_destroyed destroyContainerErrors)))"

text \<open>
  The volman suite has a volume driver and the process that looks for drivers. Writing the
  description of a driver is third-party code, of which only the change of the files is
  known; its error is not looked at.
\<close>

record 'g volman_suite = "'g suite" +
  localDriverProcess :: "nat option"
  driverSyncerProcess :: "nat option"
  driverPluginsPath :: string

datatype ('r, 'k) volman_invocation = VolmanGarden GardenRunner | LocalDriver 'r | DriverSyncer 'k

record ('r, 'k, 'g, 'd, 'm, 'v) volman_lib =
  VolmanDefaults :: "string \<Rightarrow> GdnRunnerConfig"
  VolmanGardenClient :: "string \<Rightarrow> string \<Rightarrow> 'g garden_client"
  NewDriverClient :: "string \<Rightarrow> go_error + 'd"
  NewIngressClient :: "go_error + 'm"
  NewVolmanServer :: "'m \<Rightarrow> string list \<Rightarrow> 'v \<times> 'k"
  InvokeVolman :: "('r, 'k) volman_invocation invoke"
  WriteDriverSpec :: "string \<Rightarrow> string \<Rightarrow> string \<Rightarrow> string \<Rightarrow> (string \<rightharpoonup> node) \<Rightarrow> (string \<rightharpoonup> node)"

definition dead_driver :: string where
  "dead_driver = ''{\"Name\":\"deaddriver\",\"Addr\":\"https://127.0.0.1:1111\"}''"

definition volman_BeforeEach :: "platform \<Rightarrow> 'l agent_lib_scheme
    \<Rightarrow> (('g, 's volman_suite_ext) suite_ext runner, 'k, 'g, 'd, 'm, 'v) volman_lib
    \<Rightarrow> (GrootFSConfig \<Rightarrow> go_error + string) \<Rightarrow> (NetworkPluginConfig \<Rightarrow> go_error + string) \<Rightarrow> ComponentMaker
    \<Rightarrow> (failure, ('g, 's) volman_suite_scheme, unit) comp" where
  "volman_BeforeEach P L X yaml json componentMaker =
     (let maker = embedded componentMaker in
     andThen (Garden P L (VolmanDefaults X) yaml json maker []) (\<lambda>gardenRunner.
     andThen (Invoke (InvokeVolman X) (VolmanGarden gardenRunner)) (\<lambda>p.
     andThen (modify (\<lambda>s. s\<lparr>gardenProcess := Some p\<rparr>)) (\<lambda>_.
     andThen (modify (\<lambda>s. s\<lparr>gardenClient := Some (GardenClient (VolmanGardenClient X) maker)\<rparr>)) (\<lambda>_.
     andThen (VolmanDriver P (NewDriverClient X) maker) (\<lambda>(localDriverRunner, driverClient).
     andThen (Invoke (InvokeVolman X) (LocalDriver localDriverRunner)) (\<lambda>p.
     andThen (modify (\<lambda>s. s\<lparr>localDriverProcess := Some p\<rparr>)) (\<lambda>_.
     let plugins = path_Join [VolmanDriverConfigDir maker, ''node-'' @ Itoa (GinkgoParallelProcess P)] in
     andThen (modify (\<lambda>s. s\<lparr>driverPluginsPath := plugins\<rparr>)) (\<lambda>_.
     andThen (modify (\<lambda>s. s\<lparr>fs := WriteDriverSpec X plugins ''deaddriver'' ''json'' dead_driver (fs s)\<rparr>)) (\<lambda>_.
     andThen (VolmanClient P (NewIngressClient X) (NewVolmanServer X) maker) (\<lambda>(volmanClient, driverSyncer).
     andThen (Invoke (InvokeVolman X) (DriverSyncer driverSyncer)) (\<lambda>p.
     modify (\<lambda>s. s\<lparr>driverSyncerProcess := Some p\<rparr>)))))))))))))"

definition volman_AfterEach :: "platform \<Rightarrow> exits \<Rightarrow> (failure, ('g, 's) volman_suite_scheme, unit) comp" where
  "volman_AfterEach P E =
     andThen destroy_containers (\<lambda>destroyContainerErrors.
     andThen (gets gardenProcess) (\<lambda>garden.
     andThen (gets driverSyncerProcess) (\<lambda>syncer.
     andThen (gets localDriverProcess) (\<lambda>driver.
     andThen (on_ending (StopProcesses P E [garden, syncer, driver])) (\<lambda>_.
     andThen (expect_destroyed destroyContainerErrors) (\<lambda>_.
     andThen (gets driverPluginsPath) (\<lambda>plugins.
     andThen (attempt (Remove P (filepath_Join P [plugins, ''deaddriver.json'']))) (\<lambda>_.
     ret ()))))))))"

section \<open>What is built\<close>

definition volman_keys :: "string set" where
  "volman_keys = {''garden'', ''local-driver'', ''auctioneer'', ''rep'', ''bbs'', ''locket'', ''file-server'', ''route-emitter'',
     ''router'', ''ssh-proxy''}"

lemma Getwd_Inr: "Getwd P s = (Inr w, t) \<Longrightarrow> w = cwd s \<and> cwd t = cwd s \<and> env t = env s \<and> builds t = builds s"
  by (auto simp: Getwd_def sys_def Let_def split: option.splits)

text \<open>
  Both suites end in the directory they started in, with the environment they found. The
  volman suite has the volume driver, which the cell suite lacks, and lacks the routing API and
  the SSH daemon.
\<close>

lemma executor_executables_built:
  assumes "executor_executables P G s = (Inr m, t)" and "is_abs P (cwd s)"
  shows "dom m = {''garden''} \<and> cwd t = cwd s \<and> env t = env s"
proof -
  from assms(1) obtain s1 where 0: "Getwd P s = (Inr (cwd s), s1)"
    and 1: "compile_in_gopath P G (cwd s) ''GARDEN_GOPATH'' ''garden'' ''./cmd/gdn'' [''-race'', ''-a'', ''-tags'', ''daemon''] Map.empty s1 = (Inr m, t)"
    by (auto simp: executor_executables_def andThen_Inr_iff expect_ok_Inr_iff dest: Getwd_Inr)
  from Getwd_Inr [OF 0] compile_in_gopath_Inr [OF 1 assms(2)] show ?thesis by (simp add: adds_build_def)
qed

lemma volman_executables_built:
  assumes "volman_executables P G s = (Inr m, t)" and "is_abs P (cwd s)"
  shows "dom m = volman_keys \<and> cwd t = cwd s \<and> env t = env s"
proof -
  from assms(1) obtain w s1 m2 s2 m3 s3 m4 s4 m5 s5 m6 s6 m7 s7 m8 s8 m9 s9 m10 s10 where
    0: "Getwd P s = (Inr w, s1)"
    and 1: "compile_in_gopath P G w ''GARDEN_GOPATH'' ''garden'' ''./cmd/gdn'' [''-race'', ''-a'', ''-tags'', ''daemon''] Map.empty s1 = (Inr m2, s2)"
    and c: "compile_into G ''local-driver'' ''code.cloudfoundry.org/localdriver/cmd/localdriver'' [''-race''] m2 s2 = (Inr m3, s3)"
      "compile_into G ''auctioneer'' ''code.cloudfoundry.org/auctioneer/cmd/auctioneer'' [''-race''] m3 s3 = (Inr m4, s4)"
      "compile_into G ''rep'' ''code.cloudfoundry.org/rep/cmd/rep'' [''-race''] m4 s4 = (Inr m5, s5)"
      "compile_into G ''bbs'' ''code.cloudfoundry.org/bbs/cmd/bbs'' [''-race''] m5 s5 = (Inr m6, s6)"
      "compile_into G ''locket'' ''code.cloudfoundry.org/locket/cmd/locket'' [''-race''] m6 s6 = (Inr m7, s7)"
      "compile_into G ''file-server'' ''code.cloudfoundry.org/fileserver/cmd/file-server'' [''-race''] m7 s7 = (Inr m8, s8)"
      "compile_into G ''route-emitter'' ''code.cloudfoundry.org/route-emitter/cmd/route-emitter'' [''-race''] m8 s8 = (Inr m9, s9)"
    and 2: "compile_in_gopath P G w ''ROUTER_GOPATH'' ''router'' ''code.cloudfoundry.org/gorouter/cmd/gorouter'' [''-race''] m9 s9 = (Inr m10, s10)"
    and 3: "compile_into G ''ssh-proxy'' ''code.cloudfoundry.org/diego-ssh/cmd/ssh-proxy'' [''-race''] m10 s10 = (Inr m, t)"
    unfolding volman_executables_def andThen_Inr_iff expect_ok_Inr_iff by blast
  note w = Getwd_Inr [OF 0]
  with assms(2) have "is_abs P w" by simp
  from w compile_in_gopath_Inr [OF 1 this] c [THEN compile_into_Inr] compile_in_gopath_Inr [OF 2 this] compile_into_Inr [OF 3]
  show ?thesis by (auto simp: volman_keys_def adds_build_def)
qed

lemma volman_keys_lacking:
  "component_keys P - volman_keys = {''routing-api'', ''sshd''}" "volman_keys - component_keys P \<subseteq> {''local-driver'', ''router''}"
  by (auto simp: component_keys_def volman_keys_def)

section \<open>An end without a component maker\<close>

text \<open>
  When the set-up of a process has failed there is no component maker. The cell suite then still
  removes its directory. The executor suite panics and leaves its directory where it is; the
  volman suite panics once it has removed its depot.
\<close>

lemma end_without_maker:
  "executor_suite_end P polls yaml None dir s = (Inl (Panic ''invalid memory address or nil pointer dereference''), s)"
  "suite_end P polls yaml None dir s = (Inr (), snd (RemoveAll P dir s))"
  "RemoveAll P (certDepot x) x = (Inr (), y) \<Longrightarrow>
     volman_suite_end P polls yaml None x = (Inl (Panic ''invalid memory address or nil pointer dereference''), y)"
  by (simp_all add: executor_suite_end_def volman_suite_end_def suite_end_def andThen_def attempt_def expect_ok_def split: prod.split)

text \<open>If its depot cannot be removed, the volman suite stops there and the stores are not deleted.\<close>

lemma volman_end_stuck:
  assumes "RemoveAll P (certDepot s) s = (Inl e, t)"
  shows "\<exists>f. volman_suite_end P polls yaml componentMaker s = (Inl f, t)"
  using assms by (simp add: volman_suite_end_def andThen_def expect_ok_def)

section \<open>Processes stopped one by one\<close>

text \<open>Each process of a list stopped with a call of its own.\<close>

definition stop_apart :: "platform \<Rightarrow> exits \<Rightarrow> nat option list \<Rightarrow> (failure, stopping, unit) comp" where
  "stop_apart P E ps = for_each ps (\<lambda>p. StopProcesses P E [p])"

lemma stop_apart_run:
  "\<exists>t. stop_apart P E ps s = (if True \<in> snd ` set (stopped_in_turn P E (sent s) ps) then Inl late_failure else Inr (), t)
    \<and> sent t = sent s @ concat (map (signals_of P) (stopped_in_turn P E (sent s) ps))"
proof (induction ps arbitrary: s)
  case Nil
  then show ?case by (simp add: stop_apart_def)
next
  case (Cons p ps)
  from stop_single obtain u where one: "StopProcesses P E [p] s = ((case p of None \<Rightarrow> Inr () | Some q \<Rightarrow>
      if E (sent s @ [(q, first_signal P)]) q then Inr () else Inl late_failure), u)"
    "sent u = sent s @ concat (map (signals_of P) (stopped_in_turn P E (sent s) [p]))" by blast
  from Cons.IH [of u] one show ?case
    by (cases p) (auto simp: stop_apart_def andThen_def Let_def, metis snd_conv)
qed

text \<open>The plan of one call for all, cut at the first process that is late.\<close>

lemma stopped_in_turn_plan:
  "prefix (stopped_in_turn P E log ps) (stop_plan P E log (present ps))
   \<and> (True \<in> snd ` set (stopped_in_turn P E log ps) \<longleftrightarrow> True \<in> snd ` set (stop_plan P E log (present ps)))
   \<and> (stopped_in_turn P E log ps = stop_plan P E log (present ps) \<or> True \<in> snd ` set (stop_plan P E log (present ps)))"
proof (induction ps arbitrary: log)
  case Nil
  then show ?case by (simp add: present_def)
next
  case (Cons p ps)
  show ?case
  proof (cases p)
    case None
    with Cons.IH [of log] show ?thesis by (simp add: present_def)
  next
    case (Some q)
    with Cons.IH [of "log @ signals_of P (q, False)"] show ?thesis by (auto simp: present_def Let_def)
  qed
qed

lemma prefix_concat_map: "prefix xs ys \<Longrightarrow> prefix (concat (map f xs)) (concat (map f ys))"
  by (auto simp: prefix_def)

text \<open>
  Property C10. Stopping processes each with a call of its own, as the cell suite does, and all
  with one call, as the volman suite does, end the same way, in success or with the same
  failure. The signals sent one by one are the first of those sent by the one call: up to and
  with those to the first process that is late; they are all of them if none is late.
\<close>

theorem stop_apart_or_together:
  "fst (stop_apart P E ps s) = fst (StopProcesses P E ps s)
   \<and> prefix (sent (snd (stop_apart P E ps s))) (sent (snd (StopProcesses P E ps s)))
   \<and> sent (snd (stop_apart P E ps s)) = sent s @ concat (map (signals_of P) (stopped_in_turn P E (sent s) ps))
   \<and> (fst (StopProcesses P E ps s) = Inl late_failure
      \<or> sent (snd (stop_apart P E ps s)) = sent (snd (StopProcesses P E ps s)))"
  using stop_apart_run [of P E ps s] StopProcesses_run [of P E ps s] stopped_in_turn_plan [of P E "sent s" ps]
  by (auto simp: late_failure_def prefix_concat_map split: if_splits)

section \<open>A spec of the volman suite\<close>

lemma vars_kept_VolmanDriver: "keeps (vars_are x) (VolmanDriver P NewClient maker)"
  unfolding VolmanDriver_def Let_def by (intro keeps_andThen keeps_expect_val keeps_ret vars_kept_claims)

lemma VolmanClient_state: "VolmanClient P NewIngress NewServer maker s = (r, t) \<Longrightarrow> t = s"
  by (auto simp: VolmanClient_def expect_val_def andThen_def split: sum.splits)

lemma volman_BeforeEach_Inr:
  assumes "volman_BeforeEach P L X yaml json maker s = (Inr u, t)"
  shows "gardenProcess t = Some (invoked s) \<and> localDriverProcess t = Some (invoked s + 1) \<and> driverSyncerProcess t = Some (invoked s + 2)
    \<and> invoked t = invoked s + 3 \<and> gardenClient t = Some (GardenClient (VolmanGardenClient X) (embedded maker))
    \<and> driverPluginsPath t = node_drivers P (embedded maker) \<and> cleaning t = cleaning s \<and> ending t = ending s"
  using assms unfolding volman_BeforeEach_def Let_def
  by (elim andThen_InrE)
    (drule vars_kept_run [OF vars_kept_Garden], clarsimp simp: andThen_Inr_iff split: prod.splits,
      drule vars_kept_run [OF vars_kept_VolmanDriver], drule VolmanClient_state,
      auto simp: Invoke_Inr_iff modify_def suite_vars_def node_drivers_def VolmanDriverConfigDir_def)

lemma volman_AfterEach_run:
  fixes s t :: "('g, 's) volman_suite_scheme"
  assumes "gardenClient s = Some C" and "CleanupGarden C (cleaning s) = (Inr errs, c)" and "volman_AfterEach P E s = (r, t)"
    and "plan = stop_plan P E (sent (ending s)) (present [gardenProcess s, driverSyncerProcess s, localDriverProcess s])"
    and "spec = filepath_Join P [driverPluginsPath s, ''deaddriver.json'']"
  shows "sent (ending t) = sent (ending s) @ concat (map (signals_of P) plan)
    \<and> r = (if True \<in> snd ` set plan then Inl late_failure
           else if errs = [] then Inr () else Inl (container_failure (length errs)))
    \<and> fs t = (if r = Inr () \<and> fault P (calls s) = None \<and> (\<exists>m d. fs s spec = Some (File m d)) then (fs s)(spec := None) else fs s)"
proof -
  let ?ps = "[gardenProcess s, driverSyncerProcess s, localDriverProcess s]"
  obtain e where stop: "StopProcesses P E ?ps (ending s) = (if True \<in> snd ` set plan then Inl late_failure else Inr (), e)"
    "sent e = sent (ending s) @ concat (map (signals_of P) plan)"
    using StopProcesses_run [of P E ?ps "ending s"] by (auto simp: assms(4) late_failure_def)
  note steps = volman_AfterEach_def destroy_containers_def expect_destroyed_def andThen_def on_cleanup_def on_ending_def
    attempt_def expect_that_def Remove_def sys_def Let_def container_failure_def
  show ?thesis using assms(1-3,5) stop
    by (cases "True \<in> snd ` set plan"; cases "errs = []") (auto simp: steps split: option.splits node.splits)
qed

text \<open>
  Property C27. A \<open>BeforeEach\<close> of the volman suite that succeeds has invoked Garden, the volume
  driver and the process that looks for drivers, and an \<open>AfterEach\<close> that can list the
  containers signals all three, Garden first and the driver last, whether or not one is late
  or containers could not be destroyed. The description of the dead driver is removed only
  if none of that failed the spec; otherwise it stays for the next one.
\<close>

theorem volman_spec_stopped:
  fixes s t u v :: "('g, 's) volman_suite_scheme"
  assumes "volman_BeforeEach P L X yaml json maker s = (Inr (), t)"
    and "(gardenProcess u, localDriverProcess u, driverSyncerProcess u, gardenClient u, driverPluginsPath u)
      = (gardenProcess t, localDriverProcess t, driverSyncerProcess t, gardenClient t, driverPluginsPath t)"
    and "CleanupGarden (GardenClient (VolmanGardenClient X) (embedded maker)) (cleaning u) = (Inr errs, c)"
    and "volman_AfterEach P E u = (r, v)"
    and "plan = stop_plan P E (sent (ending u)) [invoked s, invoked s + 2, invoked s + 1]"
    and "spec = filepath_Join P [node_drivers P (embedded maker), ''deaddriver.json'']"
  shows "map fst plan = [invoked s, invoked s + 2, invoked s + 1]
    \<and> sent (ending v) = sent (ending u) @ concat (map (signals_of P) plan)
    \<and> r = (if True \<in> snd ` set plan then Inl late_failure
           else if errs = [] then Inr () else Inl (container_failure (length errs)))
    \<and> fs v = (if r = Inr () \<and> fault P (calls u) = None \<and> (\<exists>m d. fs u spec = Some (File m d)) then (fs u)(spec := None) else fs u)"
proof -
  note b = volman_BeforeEach_Inr [OF assms(1)]
  with assms(2) have u: "gardenClient u = Some (GardenClient (VolmanGardenClient X) (embedded maker))"
    "driverPluginsPath u = node_drivers P (embedded maker)"
    "present [gardenProcess u, driverSyncerProcess u, localDriverProcess u] = [invoked s, invoked s + 2, invoked s + 1]"
    by (simp_all add: present_def)
  from volman_AfterEach_run [OF u(1) assms(3,4), of plan spec] show ?thesis
    by (simp only: assms(5,6) u stop_plan_processes simp_thms)
qed

definition volman_start :: "(string list \<times> nat) volman_suite" where
  "volman_start = \<lparr>env = env spec_start, fs = fs plain_world, calls = 0, ran = [], locked = (\<lambda>_. False), pk_calls = 0, history = [],
     allocator = \<lparr>nextPort = 20000, endingPort = 20100\<rparr>, out = [],
     plumbing = None, gardenProcess = None, bbsProcess = None, gardenClient = None, invoked = 0, server_made = False,
     announcing = demo_announcer, cleaning = demo_cleanup, ending = \<lparr>sent = [], said = [], failures = []\<rparr>,
     localDriverProcess = None, driverSyncerProcess = None, driverPluginsPath = []\<rparr>"

definition volman_libs :: "(((string list \<times> nat), unit volman_suite_ext) suite_ext runner, unit, string list \<times> nat, unit, unit, unit) volman_lib" where
  "volman_libs = \<lparr>VolmanDefaults = plain_defaults, VolmanGardenClient = (\<lambda>_ _. demo_garden), NewDriverClient = (\<lambda>_. Inr ()),
     NewIngressClient = Inr (), NewVolmanServer = (\<lambda>_ _. ((), ())), InvokeVolman = (\<lambda>_ _. None),
     WriteDriverSpec = (\<lambda>d n e data f. f(d @ ''/'' @ n @ ''.'' @ e \<mapsto> File 420 data))\<rparr>"

definition volman_before :: "(failure + unit) \<times> (string list \<times> nat) volman_suite" where
  "volman_before = volman_BeforeEach demo_platform demo_agents volman_libs demo_yaml any_json (v1ComponentMaker plain_maker) volman_start"

definition dead_spec :: string where
  "dead_spec = filepath_Join demo_platform [node_drivers demo_platform plain_maker, ''deaddriver.json'']"

lemma volman_before_runs: "\<not> isl (fst volman_before)" "fs (snd volman_before) dead_spec = Some (File 420 dead_driver)"
  by code_simp+

theorem volman_spec_stopped_witness:
  "sent (ending (snd (volman_AfterEach demo_platform (\<lambda>log p. p \<noteq> 0) (snd volman_before)))) = [(0, SIGTERM), (0, SIGQUIT), (2, SIGTERM), (1, SIGTERM)]
     \<and> fs (snd (volman_AfterEach demo_platform (\<lambda>log p. p \<noteq> 0) (snd volman_before))) dead_spec = Some (File 420 dead_driver)
     \<and> fs (snd (volman_AfterEach demo_platform (\<lambda>log p. True) (snd volman_before))) dead_spec = None"
proof -
  let ?t = "snd volman_before"
  have run: "volman_BeforeEach demo_platform demo_agents volman_libs demo_yaml any_json (v1ComponentMaker plain_maker) volman_start = (Inr (), ?t)"
    using succeeded [OF volman_before_runs(1)] by (simp add: volman_before_def)
  from volman_BeforeEach_Inr [OF run] have t: "cleaning ?t = demo_cleanup" "sent (ending ?t) = []" by (simp_all add: volman_start_def)
  have "fst (CleanupGarden demo_garden demo_cleanup) = Inr []" by code_simp
  then obtain c where "CleanupGarden demo_garden demo_cleanup = (Inr [], c)" by (metis prod.collapse)
  then have clean: "CleanupGarden (GardenClient (VolmanGardenClient volman_libs) (embedded (v1ComponentMaker plain_maker))) (cleaning ?t) = (Inr [], c)"
    by (simp add: GardenClient_def volman_libs_def t(1))
  have after: "volman_AfterEach demo_platform E ?t = (fst (volman_AfterEach demo_platform E ?t), snd (volman_AfterEach demo_platform E ?t))" for E
    by simp
  have sig: "first_signal demo_platform = SIGTERM" "invoked volman_start = 0" by (simp_all add: first_signal_def demo_linux volman_start_def)
  have faults: "fault demo_platform n = None" for n by (simp add: demo_platform_def)
  note spec = dead_spec_def [symmetric] volman_before_runs(2)
  from volman_spec_stopped [OF run refl clean after refl refl, of "\<lambda>log p. p \<noteq> 0"]
    volman_spec_stopped [OF run refl clean after refl refl, of "\<lambda>log p. True"]
  show ?thesis by (simp add: sig faults t(2) Let_def signals_of_def spec)
qed

section \<open>A run of the volman suite\<close>

text \<open>An assignment of a value and its error, and the expectation on the error.\<close>

definition assigned :: "(go_error, 's, 'a) comp \<Rightarrow> (go_error + 'a \<Rightarrow> 's \<Rightarrow> 's) \<Rightarrow> ('a \<Rightarrow> (failure, 's, 'b) comp) \<Rightarrow> (failure, 's, 'b) comp" where
  "assigned m g k = andThen (attempt m) (\<lambda>r. andThen (modify (g r)) (\<lambda>_. andThen (expect_val r) k))"

lemma assigned_Inr_iff: "assigned m g k s = (Inr x, t) \<longleftrightarrow> (\<exists>d u. m s = (Inr d, u) \<and> k d (g (Inr d) u) = (Inr x, t))"
  by (auto simp: assigned_def andThen_def attempt_def modify_def expect_val_def split: prod.splits sum.splits)

lemma volman_suite_start_Inr:
  fixes s t :: "'s volman_world_scheme"
  assumes "volman_suite_start P L X yaml decoded ip s = (Inr maker, t)"
  shows "\<exists>m depot c art addr a. \<exists>s1 s2 s3 s4 :: 's volman_world_scheme.
    embedded maker = m \<and> MkdirTemp P [] ''cert-depot'' (s\<lparr>allocator := a\<rparr>) = (Inr depot, s1) \<and> s2 = s1\<lparr>certDepot := depot\<rparr>
    \<and> NewCertAuthority P X depot ''ca'' s2 = (Inr c, s3)
    \<and> makeCommonComponentMaker P L (authority_of P X c) art addr s3 = (Inr m, s4) \<and> Setup P yaml m s4 = (Inr (), t)"
  using assms unfolding volman_suite_start_def assigned_def [symmetric]
  by (auto simp: MakeComponentMaker_def assigned_Inr_iff andThen_Inr_iff expect_val_Inr_iff expect_cert_Inr_iff
      modify_def split: prod.splits sum.splits dest!: DBInfo_state) blast

lemma volman_suite_start_keeps:
  fixes s t :: "'s volman_world_scheme"
  assumes "volman_suite_start P L X yaml decoded ip s = (Inr maker, t)"
    and "\<not> windows P" and "well_behaved P" and "rooted P (fs s)" and "\<forall>n. CHR ''/'' \<notin> set (rand P n)"
    and "clean_dir (os_TempDir P s)" and "last (os_TempDir P s) \<noteq> CHR ''/''"
  shows "extends (fs s) t" and "fs s (tmpDir (embedded maker)) = None" and "tmpDir (embedded maker) \<noteq> []"
    and "fs s (certDepot t) = None" and "certDepot t \<noteq> []" and "prefix (joinPath P (os_TempDir P s) ''cert-depot'') (certDepot t)"
proof -
  let ?m = "embedded maker"
  from volman_suite_start_Inr [OF assms(1)] obtain depot c art addr a and s1 s2 s3 s4 :: "'s volman_world_scheme" where
    mk: "MkdirTemp P [] ''cert-depot'' (s\<lparr>allocator := a\<rparr>) = (Inr depot, s1)" and s2: "s2 = s1\<lparr>certDepot := depot\<rparr>"
    and run: "NewCertAuthority P X depot ''ca'' s2 = (Inr c, s3)"
      "makeCommonComponentMaker P L (authority_of P X c) art addr s3 = (Inr ?m, s4)" "Setup P yaml ?m s4 = (Inr (), t)" by blast
  obtain n where name: "depot = joinPath P (os_TempDir P s) ''cert-depot'' @ rand P n"
    using MkdirTemp_name [OF mk sep_not_in] by (auto simp: os_TempDir_def)
  then have clean: "clean_dir depot" using depot_clean [OF assms(2,5-7)] by simp
  have new: "fs s depot = None" "extends (fs s) s2" using MkdirTemp_Inr [OF mk] by (auto simp: s2 extends_def map_le_def)
  let ?J = "\<lambda>s :: 's volman_world_scheme. certDepot s = depot"
  have J: "aloof ?J" by (simp add: aloof_def files_blind_def)
  have "?J s2" by (simp add: s2)
  then have "certDepot t = depot"
    by (intro keeps_run [OF aloof_Setup [OF J] run(3)] keeps_run [OF aloof_maker [OF J] run(2)] keeps_run [OF aloof_authority(1) [OF J] run(1)])
  then show "fs s (certDepot t) = None" "certDepot t \<noteq> []" "prefix (joinPath P (os_TempDir P s) ''cert-depot'') (certDepot t)"
    using new(1) clean by (simp_all add: name clean_dir_def)
  show "extends (fs s) t" "fs s (tmpDir ?m) = None" "tmpDir ?m \<noteq> []" using depot_run_keeps [OF new(1) clean new(2) run assms(2-4)] by blast+
qed


text \<open>The second process of a run of the volman suite.\<close>

definition volman_made :: "ComponentAddresses \<Rightarrow> (failure, volman_world, ComponentMaker) comp" where
  "volman_made addr =
     andThen (attempt (MkdirTemp second_node [] ''cert-depot'')) (\<lambda>r.
     andThen (modify (\<lambda>s. s\<lparr>certDepot := (case r of Inl _ \<Rightarrow> [] | Inr d \<Rightarrow> d)\<rparr>)) (\<lambda>_.
     andThen (expect_val r) (\<lambda>d.
     andThen (expect_cert (NewCertAuthority second_node demo_pkix d ''ca'')) (\<lambda>c.
     andThen (MakeComponentMaker second_node demo_maker_lib (authority_of second_node demo_pkix c) demo_artifacts addr) (\<lambda>m.
     andThen (Setup second_node demo_yaml (embedded m)) (\<lambda>_. ret m))))))"

definition volman_machine :: volman_world where
  "volman_machine = \<lparr>env = env demo_world, fs = fs demo_world, calls = 0, ran = [], locked = (\<lambda>_. False), pk_calls = 0, history = [],
     allocator = \<lparr>nextPort = 20000, endingPort = 20100\<rparr>, out = [], certDepot = []\<rparr>"

definition volman_second :: "(failure + ComponentMaker) \<times> volman_world" where
  "volman_second = volman_suite_start second_node demo_maker_lib demo_pkix demo_yaml (Inr demo_artifacts) (Inr ''10.0.0.7'') volman_machine"

lemma volman_made_and_ended:
  "\<not> isl (fst (andThen (volman_made addr) (\<lambda>m. volman_suite_end second_node 0 demo_yaml (Some m)) (volman_machine\<lparr>allocator := a\<rparr>)))"
  by code_simp

lemma volman_second_made: "\<exists>addr a. volman_second = volman_made addr (volman_machine\<lparr>allocator := a\<rparr>)"
proof -
  have alloc: "suite_allocator second_node = Inr \<lparr>nextPort = 2000, endingPort = 2950\<rparr>"
    by (simp add: suite_allocator_def New_def second_node_def)
  have "\<exists>x b. (DBInfo demo_maker_lib :: (failure, volman_world, string \<times> string) comp) volman_machine = (Inr (x, b), volman_machine)"
    by (simp add: DBInfo_def Let_def LookupEnv_def andThen_def)
  then obtain x b where "(DBInfo demo_maker_lib :: (failure, volman_world, string \<times> string) comp) volman_machine = (Inr (x, b), volman_machine)"
    by blast
  then have "volman_second = volman_made (suite_addresses second_node ''10.0.0.7'' b)
      (volman_machine\<lparr>allocator := \<lparr>nextPort = 2000, endingPort = 2950\<rparr>\<rparr>)"
    by (simp add: volman_second_def volman_suite_start_def volman_made_def andThen_def expect_val_def alloc modify_def)
  then show ?thesis by blast
qed


end
