(* ===== verification/Spec2Isabelle.thy ===== *)
theory Spec2Isabelle
  imports Port_Authority Cert_Locks Checksum Garden_Cleanup Suite_Helpers BBS_Helpers Route_Helpers
    BBS_Requests Announcement_Order Go_Server World_SQL World_Runs Suite_Build Suite_Specs
    Suite_Runs Suite_Others
begin

text \<open>
  Inigo is the integration test suite of Diego, the container scheduler of Cloud Foundry. Its
  specs start Diego's components as processes on one machine, several times in parallel, and
  watch them work. This development models the Go code that makes such a run possible: the
  component makers of \<open>world/\<close>, the helpers of \<open>helpers/\<close>, the announcement server the
  containers call back, the application they run, and the set-up of the suites.

  \<^bold>\<open>How Go is represented.\<close> A function with effects is a \<open>comp\<close> (theory \<open>Go_Prelude\<close>): from a
  state to a result, which is an error or failure on the left or a value on the right, and a
  new state. An \<open>error\<close> the code returns is a \<open>go_error\<close>; a failed expectation of Gomega, a
  panic, a deadlock and \<open>os.Exit\<close> are constructors of \<open>failure\<close>. \<open>andThen\<close> is sequencing,
  \<open>keeps I m\<close> says that the invariant \<open>I\<close> survives \<open>m\<close> on every path. Integers are \<open>16 word\<close>
  where the code has \<open>uint16\<close>, and \<open>int\<close> with \<open>wrap64\<close> where the width of \<open>int\<close> matters.
  The standard library is modelled as far as it is used: \<open>Go_Strings\<close> (conversions, paths,
  hosts and ports), \<open>Go_Time\<close> (durations and their notation), \<open>Go_Float\<close> (shortest decimals),
  \<open>Go_OS\<close> (files, environment, temporary names, commands; a \<open>platform\<close> says which system calls
  fail and what commands do). Code of other repositories is a parameter: a record of its
  functions, or a constructor or encoder that a definition takes as an argument.

  \<^bold>\<open>Ports.\<close> \<open>Port_Authority\<close> models \<open>helpers/portauthority/portauthority.go\<close>. The allocator
  refines an interval allocator, hands out consecutive ports of its range once, and, where
  the 16-bit sum wraps, grants what it should refuse. Clients use the locale \<open>port_source\<close>.

  \<^bold>\<open>Certificates.\<close> \<open>Cert_Authority\<close> models \<open>helpers/certauthority/certauthority.go\<close>: the
  files it writes, the chain of signatures, the mutexes on every path. Its functions follow
  the scripts \<open>gen_script\<close> and \<open>ca_script\<close>, from which \<open>Cert_Locks\<close> builds the system of any
  number of concurrent callers, with exclusion, the absence of deadlock, a bound on the
  length of every schedule, and the overlap the locks do not prevent. \<open>Cert_Source\<close> is the
  interface \<open>cert_source\<close> of the authority, interpreted by the model and used by the makers.

  \<^bold>\<open>Component makers.\<close> \<open>World_Types\<close> has the structs of \<open>world/components.go\<close> and the state of a
  process: operating system, mutexes, allocator. \<open>World_Maker\<close> models \<open>DBInfo\<close> and
  \<open>makeCommonComponentMaker\<close>; \<open>World_Stores\<close> the GrootFS stores, \<open>Setup\<close> and \<open>Teardown\<close>;
  \<open>World_Common\<close> the methods both makers share (NATS, Garden, routing API, Locket, route
  emitters, file server, router, SSH proxy, the clients and the volume driver);
  \<open>World_SQL\<close> the database runner, with a trace of its connections, pings and statements; \<open>World_Agents\<close> the configuration structs of the agents;
  \<open>World_V0\<close> and \<open>World_V1\<close> the methods of the two makers; \<open>World_Lifecycles\<close> the method
  \<open>BuildLifecycles\<close>. \<open>World_Configs\<close> and \<open>World_Cells\<close> state what these leave on disk, claim,
  and put on command lines: the flags of a rep are read back with a model of Go's flag
  parser, and both makers interpret the locale \<open>rep_maker\<close> that gives the ports of the reps.
  \<open>world/tmpdir.go\<close> is in \<open>Go_OS\<close>, over the locale \<open>exclusive_create\<close>, which the creation of
  directories and of files interpret. \<open>World_Runs\<close> has the whole run of a maker, its methods
  in any order with any outcome, \<open>Teardown\<close> among them, as the inductive predicate \<open>session\<close>, with
  the invariant that the older files, the mutexes and the allocator survive it; only a \<open>Teardown\<close>
  may remove older files, and only from the maker's own directory.

  \<^bold>\<open>Suites.\<close> \<open>World_Suite\<close> composes allocator, authority, maker and stores as the suites of
  \<open>cell/\<close> and \<open>executor/\<close> do for each parallel process, and shows that the ports of up to nine
  processes stay apart, that those of a tenth do not, and which directories remain.
  \<open>Suite_Build\<close> has what the first process of \<open>cell/cell_suite_test.go\<close> builds for all others,
  and that it removes it on its own; \<open>Suite_Specs\<close> has its \<open>BeforeEach\<close> and \<open>AfterEach\<close>, and
  which of the processes that a spec starts are stopped, in which order and when not.
  \<open>Suite_Runs\<close> puts the set-up of a process, a \<open>session\<close> of its maker and its end together: the
  older files are kept and the directory of the maker is emptied, but what is made elsewhere
  (the depot of the other processes, the configuration files of GrootFS) may stay. \<open>Suite_Others\<close> has what \<open>executor/executor_suite_test.go\<close> and
  \<open>volman/volman_suite_test.go\<close> do differently: their builds, the depot of the volman suite, which
  is removed on every process, their ends, which need a component maker, and the processes of
  their specs, which are stopped with one call; and how that compares with one call for each.

  \<^bold>\<open>Helpers.\<close> \<open>Checksum\<close> (\<open>checksum.go\<close>, with the three hashes written out), \<open>Garden_Cleanup\<close>
  (\<open>cleanup_garden.go\<close>), \<open>Suite_Helpers\<close> (\<open>stop_process.go\<close>, \<open>timeouts.go\<close>, \<open>copy.go\<close>,
  \<open>generate_guid.go\<close>), \<open>BBS_Helpers\<close> (\<open>pollers.go\<close>, \<open>match_bbs_event.go\<close>), \<open>Route_Helpers\<close>
  (\<open>route_helpers.go\<close>) and \<open>BBS_Requests\<close> (\<open>bbs_requests.go\<close>).

  \<^bold>\<open>Servers.\<close> \<open>Announcement_Server\<close> models the announcement server and \<open>helpers/callback.go\<close> for
  one request after the other, \<open>Announcement_Threads\<close> the same handlers interleaved under the
  read-write mutex, and \<open>Announcement_Order\<close> that the server is linearizable: the interleaved
  handlers refine the sequential one. \<open>Go_Server\<close> models \<open>fixtures/go-server/server.go\<close>, the application of the
  specs, and \<open>fixtures/app_fixtures.go\<close>, which builds it.

  \<^bold>\<open>Bounds and fuel.\<close> Every function is total. The loop over temporary names stops after the
  10000 attempts of the library. \<open>Eventually\<close> takes the number of polls that fit into its time
  as an argument, and the theorems hold for any number. Concurrent schedules are step
  relations without a bound; their length is bounded by a theorem.

  \<^bold>\<open>Not modelled.\<close> The specs themselves, which drive processes of other repositories, with requests
  of the helpers, some of them changed, and some of their own; the interface type \<open>ComponentMaker\<close>, whose methods are the
  definitions above; the loggers that are handed to the clients; the scripts in \<open>bin/\<close> and the
  certificates and archives in \<open>fixtures/\<close>; the contents of the libraries the code calls. Of the operating system: permissions are
  recorded but not enforced, and a path is compared as a string.
\<close>

end
